(* ===== verification/Planner_Prelude.thy ===== *)
theory Planner_Prelude
  imports Main "HOL-Library.AList" "HOL-Library.Word"
    "HOL-Library.List_Lexorder" "HOL-Library.Product_Lexorder"
begin

section \<open>Prelude: text, exceptions, dictionaries and loops shared by all components\<close>

text \<open>
  What every component uses: Python text as lists of code points, the exceptions the program
  raises as values of one datatype, results \<open>'a res\<close> with their bind, Python dictionaries as
  association lists in insertion order, and the loops over lists that stop at the first
  exception. The collections \<open>dict_simps\<close> and \<open>res_simps\<close> are the hints component
  proofs hand to the simplifier.
\<close>

named_theorems dict_simps "lookups in Python dictionaries"
named_theorems res_simps "results that may be exceptions"

subsection \<open>Values of the Python runtime\<close>

text \<open>
  A \<open>str\<close> is the list of its code points, so lengths, prefixes and comparisons are those of
  Python; \<open>ascii\<close> turns a HOL literal into such a list. A \<open>UUID\<close> is its 128-bit value.
  A \<open>date\<close> is its proleptic Gregorian ordinal (\<open>date.toordinal()\<close>).
\<close>

type_synonym ustr = "nat list"
type_synonym uuid = "128 word"
type_synonym date = int

definition ascii :: "string \<Rightarrow> ustr" where
  "ascii s = map of_char s"

lemma inj_ascii: "inj ascii"
  by (auto simp: ascii_def [abs_def] intro!: injI)

lemma ascii_eq_iff [simp]: "ascii s = ascii t \<longleftrightarrow> s = t"
  using inj_ascii by (auto dest: injD)

lemma ascii_eq_Nil [simp]: "ascii s = [] \<longleftrightarrow> s = []" "[] = ascii s \<longleftrightarrow> s = []"
  by (simp_all add: ascii_def)

subsection \<open>Exceptions as values\<close>

datatype exn =
    ValueError
  | KeyError
  | IndexError
  | IntegrityError
  | PermissionError ustr
  | NoPeopleError
  | NetworkXUnfeasible
  | InvalidProjectError ustr
  | InvalidVacationError ustr
  | PersonNotFoundError ustr
  | PlanNotFoundError uuid
  | PlanNotProposedError ustr
  | InvalidStatusError ustr
  | HTTPException int
  | OtherError ustr

type_synonym 'a res = "exn + 'a"

fun bind_res :: "'a res \<Rightarrow> ('a \<Rightarrow> 'b res) \<Rightarrow> 'b res" where
  "bind_res (Inl e) f = Inl e"
| "bind_res (Inr x) f = f x"

lemma bind_res_Inr_conv [res_simps]:
  "bind_res r f = Inr y \<longleftrightarrow> (\<exists>x. r = Inr x \<and> f x = Inr y)"
  by (cases r) auto

lemma bind_res_Inl_conv [res_simps]:
  "bind_res r f = Inl e \<longleftrightarrow> r = Inl e \<or> (\<exists>x. r = Inr x \<and> f x = Inl e)"
  by (cases r) auto

text \<open>A \<open>for\<close> loop that builds a list, and one that threads a state; both stop at a raise.\<close>

fun map_res :: "('a \<Rightarrow> 'b res) \<Rightarrow> 'a list \<Rightarrow> 'b list res" where
  "map_res f [] = Inr []"
| "map_res f (x # xs) = bind_res (f x) (\<lambda>y. bind_res (map_res f xs) (\<lambda>ys. Inr (y # ys)))"

fun fold_res :: "('a \<Rightarrow> 's \<Rightarrow> 's res) \<Rightarrow> 'a list \<Rightarrow> 's \<Rightarrow> 's res" where
  "fold_res f [] s = Inr s"
| "fold_res f (x # xs) s = bind_res (f x s) (fold_res f xs)"

lemma map_res_all_Inr: "(\<And>x. x \<in> set xs \<Longrightarrow> f x = Inr (g x)) \<Longrightarrow> map_res f xs = Inr (map g xs)"
  by (induction xs) auto

lemma fold_res_append: "fold_res f (xs @ ys) s = bind_res (fold_res f xs s) (fold_res f ys)"
proof (induction xs arbitrary: s)
  case (Cons x xs)
  then show ?case by (cases "f x s") auto
qed simp

lemma fold_res_split:
  assumes "fold_res f (xs @ x # ys) s = Inr t"
  obtains u v where "fold_res f xs s = Inr u" "f x u = Inr v" "fold_res f ys v = Inr t"
  using assms by (auto simp: fold_res_append res_simps)

lemma fold_res_error:
  assumes "fold_res f xs s = Inl e" and "P s"
    and "\<And>x u v. x \<in> set xs \<Longrightarrow> P u \<Longrightarrow> f x u = Inr v \<Longrightarrow> P v"
  shows "\<exists>x \<in> set xs. \<exists>u. P u \<and> f x u = Inl e"
  using assms
proof (induction xs arbitrary: s)
  case (Cons x xs)
  show ?case
  proof (cases "f x s")
    case (Inl e')
    with Cons.prems(1,2) show ?thesis by auto
  next
    case (Inr u)
    with Cons.prems(2) have "P u" by (rule Cons.prems(3) [rotated]) simp
    with Inr Cons.prems(1) Cons.IH [of u] Cons.prems(3) show ?thesis by auto
  qed
qed simp

lemma fold_res_invariant:
  assumes "fold_res f xs s = Inr t" and "P s"
    and "\<And>x u v. x \<in> set xs \<Longrightarrow> P u \<Longrightarrow> f x u = Inr v \<Longrightarrow> P v"
  shows "P t"
  using assms
proof (induction xs arbitrary: s)
  case (Cons x xs)
  from Cons.prems(1) obtain u where u: "f x s = Inr u" "fold_res f xs u = Inr t"
    by (auto simp: res_simps)
  have "P u" using Cons.prems(2,3) u(1) by force
  with u(2) show ?case using Cons.IH Cons.prems(3) by (metis list.set_intros(2))
qed simp

lemma fold_res_total:
  assumes "P s" and "\<And>x u. x \<in> set xs \<Longrightarrow> P u \<Longrightarrow> \<exists>v. f x u = Inr v \<and> P v"
  shows "\<exists>t. fold_res f xs s = Inr t \<and> P t"
  using assms
proof (induction xs arbitrary: s)
  case (Cons x xs)
  then obtain v where "f x s = Inr v" "P v" by force
  with Cons show ?case by auto
qed auto

subsection \<open>Dictionaries\<close>

text \<open>
  A Python \<open>dict\<close> keeps insertion order and a store at a present key keeps its place:
  \<open>AList.update\<close>. A dict comprehension stores its pairs one after the other, so the last
  value of a repeated key wins.
\<close>

type_synonym ('k, 'v) dict = "('k \<times> 'v) list"

definition dict_get :: "('k, 'v) dict \<Rightarrow> 'k \<Rightarrow> 'v option" where
  "dict_get d k = map_of d k"

definition dict_set :: "'k \<Rightarrow> 'v \<Rightarrow> ('k, 'v) dict \<Rightarrow> ('k, 'v) dict" where
  "dict_set k v d = AList.update k v d"

definition dict_has :: "('k, 'v) dict \<Rightarrow> 'k \<Rightarrow> bool" where
  "dict_has d k = (dict_get d k \<noteq> None)"

definition dict_of :: "('k \<times> 'v) list \<Rightarrow> ('k, 'v) dict" where
  "dict_of ps = fold (\<lambda>(k, v) d. dict_set k v d) ps []"

text \<open>\<open>d.get(k, x)\<close>, \<open>d.values()\<close>.\<close>

definition dict_get_default :: "('k, 'v) dict \<Rightarrow> 'k \<Rightarrow> 'v \<Rightarrow> 'v" where
  "dict_get_default d k x = (case dict_get d k of None \<Rightarrow> x | Some v \<Rightarrow> v)"

text \<open>\<open>d[k]\<close> of a plain dictionary raises \<open>KeyError\<close>.\<close>

definition dict_item :: "('k, 'v) dict \<Rightarrow> 'k \<Rightarrow> 'v res" where
  "dict_item d k = (case dict_get d k of None \<Rightarrow> Inl KeyError | Some v \<Rightarrow> Inr v)"

definition dict_values :: "('k, 'v) dict \<Rightarrow> 'v list" where
  "dict_values d = map snd d"

lemma dict_item_Inr [res_simps]: "dict_item d k = Inr v \<longleftrightarrow> dict_get d k = Some v"
  by (simp add: dict_item_def split: option.splits)

lemma dict_get_Nil [simp]: "dict_get [] k = None"
  by (simp add: dict_get_def)

lemma dict_get_set [dict_simps]: "dict_get (dict_set k v d) j = (if j = k then Some v else dict_get d j)"
  by (simp add: dict_get_def dict_set_def update_conv')

lemma dict_get_set_fun: "dict_get (dict_set k v d) = (dict_get d)(k \<mapsto> v)"
  by (rule ext) (simp add: dict_simps)

lemma dict_has_set [dict_simps]: "dict_has (dict_set k v d) j \<longleftrightarrow> j = k \<or> dict_has d j"
  by (simp add: dict_has_def dict_simps)

lemma dict_keys_set: "set (map fst (dict_set k v d)) = insert k (set (map fst d))"
  by (simp add: dict_set_def dom_update)

lemma distinct_dict_set: "distinct (map fst d) \<Longrightarrow> distinct (map fst (dict_set k v d))"
  by (simp add: dict_set_def distinct_update)

lemma distinct_dict_fold:
  "distinct (map fst d) \<Longrightarrow> distinct (map fst (fold (\<lambda>(k, v) d. dict_set k v d) ps d))"
  by (induction ps arbitrary: d) (auto simp: distinct_dict_set)

lemma distinct_dict_of: "distinct (map fst (dict_of ps))"
  by (simp add: dict_of_def distinct_dict_fold)

lemma dict_get_fold:
  "dict_get (fold (\<lambda>(k, v) d. dict_set k v d) ps d) = dict_get d ++ map_of (rev ps)"
proof (induction ps arbitrary: d)
  case (Cons p ps)
  then show ?case by (cases p) (simp add: dict_get_set_fun del: fun_upd_apply)
qed simp

lemma dict_get_of [dict_simps]: "dict_get (dict_of ps) k = map_of (rev ps) k"
  by (simp add: dict_of_def dict_get_fold map_add_def split: option.split)

lemma dict_of_get_None: "dict_get (dict_of ps) k = None \<longleftrightarrow> k \<notin> fst ` set ps"
  by (simp add: dict_simps map_of_eq_None_iff)

lemma dict_get_Some_mem: "dict_get d k = Some v \<Longrightarrow> (k, v) \<in> set d"
  by (simp add: dict_get_def map_of_SomeD)

lemma dict_get_iff_mem: "distinct (map fst d) \<Longrightarrow> dict_get d k = Some v \<longleftrightarrow> (k, v) \<in> set d"
  by (simp add: dict_get_def)

lemma dict_get_None_iff: "dict_get d k = None \<longleftrightarrow> k \<notin> set (map fst d)"
  by (simp add: dict_get_def map_of_eq_None_iff)

text \<open>The order of a dictionary only grows at its end.\<close>

lemma dict_set_new: "dict_get d k = None \<Longrightarrow> dict_set k v d = d @ [(k, v)]"
proof (induction d)
  case (Cons p d)
  then show ?case by (cases p) (auto simp: dict_set_def dict_get_def split: if_splits)
qed (simp add: dict_set_def)

text \<open>Keyed comprehension \<open>{key(x): x for x in xs}\<close> over distinct keys finds each element.\<close>

lemma dict_of_key_get:
  assumes "distinct (map key xs)" and "x \<in> set xs"
  shows "dict_get (dict_of (map (\<lambda>y. (key y, val y)) xs)) (key x) = Some (val x)"
proof -
  have "distinct (map fst (rev (map (\<lambda>y. (key y, val y)) xs)))"
    using assms(1) by (simp add: comp_def rev_map [symmetric])
  moreover have "(key x, val x) \<in> set (rev (map (\<lambda>y. (key y, val y)) xs))"
    using assms(2) by auto
  ultimately show ?thesis by (simp add: dict_simps)
qed

lemma dict_of_key_get_SomeD:
  "dict_get (dict_of (map (\<lambda>y. (key y, val y)) xs)) k = Some v \<Longrightarrow> \<exists>y \<in> set xs. key y = k \<and> val y = v"
  by (auto simp: dict_simps dest!: map_of_SomeD)

lemma dict_of_key_get_None:
  "dict_get (dict_of (map (\<lambda>y. (key y, val y)) xs)) k = None \<longleftrightarrow> k \<notin> key ` set xs"
  by (auto simp: dict_simps map_of_eq_None_iff image_image)

subsection \<open>Lists\<close>

lemma list_all2_left: "list_all2 P xs ys \<Longrightarrow> x \<in> set xs \<Longrightarrow> \<exists>y \<in> set ys. P x y"
  by (induction rule: list_all2_induct) auto

lemma list_all2_right: "list_all2 P xs ys \<Longrightarrow> y \<in> set ys \<Longrightarrow> \<exists>x \<in> set xs. P x y"
  by (induction rule: list_all2_induct) auto

lemma map_res_Inr: "map_res f xs = Inr ys \<longleftrightarrow> list_all2 (\<lambda>x y. f x = Inr y) xs ys"
  by (induction xs arbitrary: ys) (auto simp: res_simps list_all2_Cons1)

lemma mem_map_filter: "x \<in> set (List.map_filter f xs) \<longleftrightarrow> (\<exists>k \<in> set xs. f k = Some x)"
  by (induction xs) (auto simp: map_filter_simps split: option.splits)

lemma sum_list_nonneg_int: "(\<And>x. x \<in> set xs \<Longrightarrow> 0 \<le> (x :: int)) \<Longrightarrow> 0 \<le> sum_list xs"
  by (induction xs) auto

end
