(* ===== verification/Work_Calendar.thy ===== *)
theory Work_Calendar
  imports Planner_Prelude
begin

section \<open>The working-day calendar\<close>

text \<open>
  \<open>domain/calendar/ports.py\<close> and \<open>domain/calendar/rules.py\<close>, with the snapshot and the
  isdayoff.ru adapters of \<open>infra/calendar\<close>. The port \<open>WorkingCalendar\<close> is a record of its
  three methods; the locale \<open>calendar_port\<close> states the contract the solver relies on and
  proves the facts about the first and the \<open>n\<close>-th working day once; \<open>WeekendCalendar\<close>
  over any finite holiday set provides it.
\<close>

named_theorems cal_simps "facts of the working calendar"

record working_calendar =
  is_working_day :: "date \<Rightarrow> bool"
  next_working_day :: "date \<Rightarrow> date"
  business_days_between :: "date \<Rightarrow> date \<Rightarrow> int"

text \<open>\<open>date.weekday()\<close>: Monday is 0; ordinal 1 (0001-01-01) is a Monday.\<close>

definition weekday :: "date \<Rightarrow> int" where
  "weekday d = (d + 6) mod 7"

definition first_working_day :: "working_calendar \<Rightarrow> date \<Rightarrow> date" where
  "first_working_day cal start =
     (if is_working_day cal start then start else next_working_day cal start)"

definition nth_working_day :: "working_calendar \<Rightarrow> date \<Rightarrow> int \<Rightarrow> date res" where
  "nth_working_day cal start n =
     (if n < 1 then Inl ValueError
      else Inr ((next_working_day cal ^^ nat (n - 1)) (first_working_day cal start)))"

subsection \<open>WeekendCalendar\<close>

definition weekend_is_working_day :: "date list \<Rightarrow> date \<Rightarrow> bool" where
  "weekend_is_working_day holidays day = (weekday day \<notin> {5, 6} \<and> day \<notin> set holidays)"

text \<open>
  The \<open>while\<close> loop of \<open>next_working_day\<close>. It ends because the holiday set is finite: past the
  last holiday only a weekend of two days can be in the way.
\<close>

definition last_holiday :: "date list \<Rightarrow> date" where
  "last_holiday holidays = Max (insert 0 (set holidays))"

lemma weekday_range: "0 \<le> weekday d" "weekday d < 7"
  by (simp_all add: weekday_def)

lemma weekday_succ_mod: "weekday (d + 1) = (weekday d + 1) mod 7"
  by (simp add: weekday_def mod_simps algebra_simps)

lemma weekday_succ: "weekday (d + 1) = (if weekday d = 6 then 0 else weekday d + 1)"
  using weekday_range [of d] by (auto simp: weekday_succ_mod)

lemma le_last_holiday: "d \<in> set holidays \<Longrightarrow> d \<le> last_holiday holidays"
  by (simp add: last_holiday_def)

definition days_to_go :: "date list \<Rightarrow> date \<Rightarrow> nat" where
  "days_to_go holidays d =
     3 * nat (last_holiday holidays + 1 - d) +
     (if weekday d = 5 then 2 else if weekday d = 6 then 1 else 0)"

lemma days_to_go_step:
  assumes "\<not> weekend_is_working_day holidays d"
  shows "days_to_go holidays (d + 1) < days_to_go holidays d"
proof (cases "d \<le> last_holiday holidays")
  case True
  then have "nat (last_holiday holidays + 1 - d) = Suc (nat (last_holiday holidays + 1 - (d + 1)))"
    by (simp add: nat_diff_distrib' Suc_nat_eq_nat_zadd1)
  then show ?thesis by (simp add: days_to_go_def weekday_succ)
next
  case False
  then have "d \<notin> set holidays" using le_last_holiday by fastforce
  with assms have "weekday d = 5 \<or> weekday d = 6" by (auto simp: weekend_is_working_day_def)
  with False show ?thesis by (auto simp: days_to_go_def weekday_succ)
qed

function weekend_scan :: "date list \<Rightarrow> date \<Rightarrow> date" where
  "weekend_scan holidays d =
     (if weekend_is_working_day holidays d then d else weekend_scan holidays (d + 1))"
  by pat_completeness auto
termination
  by (relation "measure (\<lambda>(holidays, d). days_to_go holidays d)") (auto simp: days_to_go_step)

declare weekend_scan.simps [simp del]

definition weekend_next_working_day :: "date list \<Rightarrow> date \<Rightarrow> date" where
  "weekend_next_working_day holidays day = weekend_scan holidays (day + 1)"

function weekend_count :: "date list \<Rightarrow> date \<Rightarrow> date \<Rightarrow> int \<Rightarrow> int" where
  "weekend_count holidays d b n =
     (if d < b
      then weekend_count holidays (d + 1) b (if weekend_is_working_day holidays d then n + 1 else n)
      else n)"
  by pat_completeness auto
termination
  by (relation "measure (\<lambda>(holidays, d, b, n). nat (b - d))") auto

declare weekend_count.simps [simp del]

definition weekend_business_days_between :: "date list \<Rightarrow> date \<Rightarrow> date \<Rightarrow> int" where
  "weekend_business_days_between holidays a b =
     (if b \<le> a then 0 else weekend_count holidays a b 0)"

definition weekend_calendar :: "date list \<Rightarrow> working_calendar" where
  "weekend_calendar holidays =
     \<lparr>is_working_day = weekend_is_working_day holidays,
      next_working_day = weekend_next_working_day holidays,
      business_days_between = weekend_business_days_between holidays\<rparr>"


text \<open>\<open>infra/calendar/snapshot.py\<close>: the offline calendar with the Russian holidays of 2026.\<close>

definition ru_holidays_2026 :: "date list" where
  "ru_holidays_2026 =
     [739617, 739618, 739621, 739622, 739623, 739624, 739670, 739684,
      739737, 739747, 739779, 739924]"

definition snapshot_calendar :: working_calendar where
  "snapshot_calendar = weekend_calendar ru_holidays_2026"

subsection \<open>The contract of the port\<close>

text \<open>
  The solver reads two methods of the port. The contract: the next working day is the least
  working day after the given one, and \<open>business_days_between a b\<close> counts the working days of
  \<open>[a, b)\<close>.
\<close>

locale calendar_port =
  fixes cal :: working_calendar
  assumes next_later: "day < next_working_day cal day"
    and next_working: "is_working_day cal (next_working_day cal day)"
    and next_least: "day < d \<Longrightarrow> d < next_working_day cal day \<Longrightarrow> \<not> is_working_day cal d"
    and count_working: "business_days_between cal a b = int (card {d. a \<le> d \<and> d < b \<and> is_working_day cal d})"
begin

lemma first_ge: "start \<le> first_working_day cal start"
  using next_later [of start] by (simp add: first_working_day_def)

lemma first_working: "is_working_day cal (first_working_day cal start)"
  using next_working by (simp add: first_working_day_def)

lemma first_least:
  assumes "start \<le> d" and "d < first_working_day cal start"
  shows "\<not> is_working_day cal d"
proof (cases "is_working_day cal start")
  case False
  with assms show ?thesis
    using next_least [of start d] by (cases "d = start") (auto simp: first_working_day_def)
qed (use assms in \<open>simp add: first_working_day_def\<close>)

lemma first_le_working: "start \<le> d \<Longrightarrow> is_working_day cal d \<Longrightarrow> first_working_day cal start \<le> d"
  using first_least by (meson not_le)

lemma first_fixed: "is_working_day cal d \<Longrightarrow> first_working_day cal d = d"
  by (simp add: first_working_day_def)

abbreviation nth_from :: "date \<Rightarrow> nat \<Rightarrow> date" where
  "nth_from start k \<equiv> (next_working_day cal ^^ k) (first_working_day cal start)"

lemma nth_from_working: "is_working_day cal (nth_from start k)"
  by (induction k) (simp_all add: first_working next_working)

lemma nth_from_ge: "start + int k \<le> nth_from start k"
proof (induction k)
  case (Suc k)
  then show ?case using next_later [of "nth_from start k"] by simp
qed (simp add: first_ge)

lemma nth_from_mono: "j \<le> k \<Longrightarrow> nth_from start j \<le> nth_from start k"
proof (induction k)
  case (Suc k)
  then show ?case using next_later [of "nth_from start k"] by (cases "j = Suc k") auto
qed simp

text \<open>The \<open>k\<close>-th iterate is the \<open>k + 1\<close>-st working day on or after \<open>start\<close>.\<close>

lemma nth_from_days:
  "{d. start \<le> d \<and> d \<le> nth_from start k \<and> is_working_day cal d} = nth_from start ` {..k}"
proof (induction k)
  case 0
  show ?case using first_le_working first_ge first_working by force
next
  case (Suc k)
  let ?n = "nth_from start k"
  have step: "x \<le> next_working_day cal ?n \<longleftrightarrow> x \<le> ?n \<or> x = next_working_day cal ?n"
    if "is_working_day cal x" for x
  proof (cases "x \<le> ?n")
    case False
    then have "\<not> x < next_working_day cal ?n" using next_least [of ?n x] that by auto
    with False show ?thesis by auto
  qed (use next_later [of ?n] in auto)
  have "{d. start \<le> d \<and> d \<le> nth_from start (Suc k) \<and> is_working_day cal d} =
        insert (next_working_day cal ?n) {d. start \<le> d \<and> d \<le> ?n \<and> is_working_day cal d}"
    using next_later [of ?n] next_working [of ?n] nth_from_ge [of start k] by (auto simp: step)
  also have "\<dots> = nth_from start ` {..Suc k}"
    by (simp add: Suc.IH atMost_Suc)
  finally show ?case .
qed

lemma nth_from_strict: "j < k \<Longrightarrow> nth_from start j < nth_from start k"
  using nth_from_mono [of "Suc j" k start] next_later [of "nth_from start j"] by simp

lemma nth_from_card:
  "card {d. start \<le> d \<and> d \<le> nth_from start k \<and> is_working_day cal d} = Suc k"
proof -
  have "inj_on (nth_from start) {..k}"
  proof (rule inj_onI)
    fix i j assume "nth_from start i = nth_from start j"
    then show "i = j" using nth_from_strict [of i j start] nth_from_strict [of j i start]
      by (cases i j rule: linorder_cases) auto
  qed
  then have "card (nth_from start ` {..k}) = card {..k}" by (rule card_image)
  then show ?thesis by (simp only: nth_from_days card_atMost)
qed

lemma nth_working_day_Inr:
  "nth_working_day cal start n = Inr d \<longleftrightarrow> 1 \<le> n \<and> d = nth_from start (nat (n - 1))"
  by (auto simp: nth_working_day_def)

lemma nth_working_day_ge: "nth_working_day cal start n = Inr d \<Longrightarrow> first_working_day cal start \<le> d"
  using nth_from_mono [of 0 "nat (n - 1)" start] by (auto simp: nth_working_day_Inr)

end

subsection \<open>WeekendCalendar provides it\<close>

lemma weekend_scan_ge: "d \<le> weekend_scan holidays d"
proof (induction holidays d rule: weekend_scan.induct)
  case (1 holidays d)
  then show ?case by (subst weekend_scan.simps) auto
qed

lemma weekend_scan_working: "weekend_is_working_day holidays (weekend_scan holidays d)"
proof (induction holidays d rule: weekend_scan.induct)
  case (1 holidays d)
  then show ?case by (subst weekend_scan.simps) auto
qed

lemma weekend_scan_least:
  "d \<le> e \<Longrightarrow> e < weekend_scan holidays d \<Longrightarrow> \<not> weekend_is_working_day holidays e"
proof (induction holidays d rule: weekend_scan.induct)
  case (1 holidays d)
  then show ?case
    by (cases "weekend_is_working_day holidays d"; cases "e = d")
      (auto simp: weekend_scan.simps [of holidays d])
qed

lemma no_days: "b \<le> a \<Longrightarrow> {d. a \<le> d \<and> d < b \<and> P d} = {}" for a b :: date
  by auto

lemma weekend_count_card:
  "weekend_count holidays d b n =
     n + int (card {e. d \<le> e \<and> e < b \<and> weekend_is_working_day holidays e})"
proof (induction holidays d b n rule: weekend_count.induct)
  case (1 holidays d b n)
  let ?D = "\<lambda>d. {e. d \<le> e \<and> e < b \<and> weekend_is_working_day holidays e}"
  show ?case
  proof (cases "d < b")
    case True
    have fin: "finite (?D (d + 1))" by (rule finite_subset [of _ "{d + 1..b}"]) auto
    have "?D d = (if weekend_is_working_day holidays d then insert d (?D (d + 1)) else ?D (d + 1))"
      using True by (auto simp: order.order_iff_strict)
    moreover have "d \<notin> ?D (d + 1)" by simp
    ultimately show ?thesis
      using True 1 fin by (auto simp: weekend_count.simps [of holidays d b n])
  next
    case False
    then have "?D d = {}" by (simp only: no_days not_less)
    with False show ?thesis
      by (simp only: weekend_count.simps [of holidays d b n] if_False card.empty of_nat_0 add_0_right)
  qed
qed

interpretation weekend: calendar_port "weekend_calendar holidays" for holidays
proof unfold_locales
  fix day d a b
  show "day < next_working_day (weekend_calendar holidays) day"
    using weekend_scan_ge [of "day + 1" holidays]
    by (simp add: weekend_calendar_def weekend_next_working_day_def)
  show "is_working_day (weekend_calendar holidays) (next_working_day (weekend_calendar holidays) day)"
    by (simp add: weekend_calendar_def weekend_next_working_day_def weekend_scan_working)
  show "day < d \<Longrightarrow> d < next_working_day (weekend_calendar holidays) day \<Longrightarrow>
      \<not> is_working_day (weekend_calendar holidays) d"
    using weekend_scan_least [of "day + 1" d holidays]
    by (simp add: weekend_calendar_def weekend_next_working_day_def)
  show "business_days_between (weekend_calendar holidays) a b =
      int (card {d. a \<le> d \<and> d < b \<and> is_working_day (weekend_calendar holidays) d})"
  proof (cases "b \<le> a")
    case True
    with no_days [OF True] show ?thesis
      by (simp only: weekend_calendar_def weekend_business_days_between_def working_calendar.simps
          if_True card.empty of_nat_0)
  qed (simp add: weekend_calendar_def weekend_business_days_between_def weekend_count_card)
qed

end
