(* ===== verification/Domain_Models.thy ===== *)
theory Domain_Models
  imports Planner_Prelude
begin

section \<open>Domain dataclasses\<close>

text \<open>
  The frozen dataclasses of \<open>domain/models.py\<close> as records, fields in the source's order and
  prefixed by the class. \<open>Strictness\<close>, \<open>LinkType\<close> and \<open>PairMode\<close> are plain \<open>str\<close> in the
  source and text here: any link type other than \<open>FS\<close> takes the start-to-start branch.
\<close>

record person =
  p_id :: uuid
  p_name :: ustr
  p_capacity_h :: int

record task =
  t_id :: uuid
  t_name :: ustr
  t_duration_hours :: int
  t_allowed_person_ids :: "uuid list"
  t_project_id :: "uuid option"
  t_required_skills :: "ustr list"
  t_is_splittable :: bool
  t_pair_mode :: ustr
  t_duration_is_window :: bool
  t_status :: ustr
  t_source :: ustr
  t_fixed_start :: "date option"
  t_fixed_end :: "date option"
  t_fixed_assignee_id :: "uuid option"

text \<open>\<open>Task(id, name, duration_hours, allowed_person_ids)\<close> with every default of the dataclass.\<close>

definition task_default :: "uuid \<Rightarrow> ustr \<Rightarrow> int \<Rightarrow> uuid list \<Rightarrow> task" where
  "task_default i n h allowed =
     \<lparr>t_id = i, t_name = n, t_duration_hours = h, t_allowed_person_ids = allowed,
      t_project_id = None, t_required_skills = [], t_is_splittable = False,
      t_pair_mode = ascii ''none'', t_duration_is_window = False,
      t_status = ascii ''not_done'', t_source = ascii ''bot_formed'',
      t_fixed_start = None, t_fixed_end = None, t_fixed_assignee_id = None\<rparr>"

record dependency =
  d_task_id :: uuid
  d_depends_on_id :: uuid
  d_link_type :: ustr
  d_lag_working_days :: int

record day_override =
  o_person_id :: uuid
  o_day :: date
  o_capacity_h :: int

record day_allocation =
  al_person_id :: uuid
  al_day :: date
  al_hours :: int

record assignment =
  a_task_id :: uuid
  a_person_id :: uuid
  a_start_date :: date
  a_end_date :: date
  a_allocations :: "day_allocation list"

record risk_flag =
  r_kind :: ustr
  r_message :: ustr
  r_task_id :: "uuid option"
  r_person_id :: "uuid option"
  r_day :: "date option"

record plan_request =
  rq_people :: "person list"
  rq_tasks :: "task list"
  rq_dependencies :: "dependency list"
  rq_horizon_start :: date
  rq_day_overrides :: "day_override list"
  rq_existing_allocations :: "day_allocation list"
  rq_deadline :: "date option"

record plan_result =
  pl_assignments :: "assignment list"
  pl_risks :: "risk_flag list"
  pl_end_date :: "date option"

record plan_diff =
  pd_moved_tasks :: "uuid list"
  pd_new_overloads :: "risk_flag list"
  pd_removed_overloads :: "risk_flag list"

text \<open>\<open>PlanResult.by_task\<close> and \<open>PlanResult.overloads\<close>.\<close>

definition by_task :: "plan_result \<Rightarrow> (uuid, assignment) dict" where
  "by_task plan = dict_of (map (\<lambda>a. (a_task_id a, a)) (pl_assignments plan))"

definition plan_overloads :: "plan_result \<Rightarrow> risk_flag list" where
  "plan_overloads plan = filter (\<lambda>r. r_kind r = ascii ''overload'') (pl_risks plan)"

subsection \<open>Hours booked on a person's day\<close>

text \<open>The hours a list of allocations books on one (person, day).\<close>

definition booked :: "day_allocation list \<Rightarrow> uuid \<times> date \<Rightarrow> int" where
  "booked als pd = sum_list (map al_hours (filter (\<lambda>al. (al_person_id al, al_day al) = pd) als))"

definition plan_allocations :: "assignment list \<Rightarrow> day_allocation list" where
  "plan_allocations as = concat (map a_allocations as)"

lemma booked_Nil [simp]: "booked [] pd = 0"
  by (simp add: booked_def)

lemma booked_append [simp]: "booked (xs @ ys) pd = booked xs pd + booked ys pd"
  by (simp add: booked_def)

lemma booked_Cons:
  "booked (al # als) pd = (if (al_person_id al, al_day al) = pd then al_hours al else 0) + booked als pd"
  by (simp add: booked_def)

lemma booked_notin: "pd \<notin> (\<lambda>al. (al_person_id al, al_day al)) ` set als \<Longrightarrow> booked als pd = 0"
  by (induction als) (auto simp: booked_Cons)

lemma plan_allocations_simps [simp]:
  "plan_allocations [] = []"
  "plan_allocations (as @ bs) = plan_allocations as @ plan_allocations bs"
  "plan_allocations (a # as) = a_allocations a @ plan_allocations as"
  by (simp_all add: plan_allocations_def)

end
