(* ===== verification/Capacity_Index.thy ===== *)
theory Capacity_Index
  imports Work_Calendar Domain_Models
begin

section \<open>CapacityIndex: hours used and left per person and day\<close>

text \<open>
  The class \<open>CapacityIndex\<close> of \<open>domain/solver/greedy.py\<close>. Its \<open>_used\<close> is a
  \<open>defaultdict(int)\<close>: reading a missing key stores 0 there, so \<open>remaining\<close> changes the object
  (the order in which \<open>overloads\<close> later lists the days depends on it) and returns the new index
  with its answer. \<open>used_hours\<close> is the reader's view, which \<open>remaining\<close> leaves alone.
\<close>

named_theorems idx_simps "views of the capacity index"

record capacity_index =
  ci_cap :: "(uuid, int) dict"
  ci_cal :: working_calendar
  ci_override :: "(uuid \<times> date, int) dict"
  ci_used :: "(uuid \<times> date, int) dict"

text \<open>\<open>defaultdict(int)\<close>: a read of \<open>d[k]\<close>, and \<open>d[k] += h\<close>.\<close>

definition ddict_touch :: "'k \<Rightarrow> ('k, int) dict \<Rightarrow> ('k, int) dict" where
  "ddict_touch k d = (if dict_has d k then d else dict_set k 0 d)"

definition ddict_add :: "'k \<Rightarrow> int \<Rightarrow> ('k, int) dict \<Rightarrow> ('k, int) dict" where
  "ddict_add k h d = dict_set k (dict_get_default d k 0 + h) d"

definition occupy :: "day_allocation list \<Rightarrow> capacity_index \<Rightarrow> capacity_index" where
  "occupy allocations idx =
     idx\<lparr>ci_used := fold (\<lambda>a. ddict_add (al_person_id a, al_day a) (al_hours a)) allocations (ci_used idx)\<rparr>"

definition capacity_index_init ::
  "person list \<Rightarrow> working_calendar \<Rightarrow> day_override list \<Rightarrow> day_allocation list \<Rightarrow> capacity_index" where
  "capacity_index_init people calendar day_overrides existing =
     occupy existing
       \<lparr>ci_cap = dict_of (map (\<lambda>p. (p_id p, p_capacity_h p)) people),
        ci_cal = calendar,
        ci_override = dict_of (map (\<lambda>ov. ((o_person_id ov, o_day ov), o_capacity_h ov)) day_overrides),
        ci_used = []\<rparr>"

definition base_capacity :: "capacity_index \<Rightarrow> uuid \<Rightarrow> date \<Rightarrow> int" where
  "base_capacity idx pid day =
     (case dict_get (ci_override idx) (pid, day) of
        Some override \<Rightarrow> override
      | None \<Rightarrow> if \<not> is_working_day (ci_cal idx) day then 0
                else dict_get_default (ci_cap idx) pid 0)"

definition remaining :: "capacity_index \<Rightarrow> uuid \<Rightarrow> date \<Rightarrow> int \<times> capacity_index" where
  "remaining idx pid day =
     (base_capacity idx pid day - dict_get_default (ci_used idx) (pid, day) 0,
      idx\<lparr>ci_used := ddict_touch (pid, day) (ci_used idx)\<rparr>)"

definition overloads :: "capacity_index \<Rightarrow> (uuid \<times> date \<times> int \<times> int) list" where
  "overloads idx =
     concat (map (\<lambda>((pid, day), used).
       let base = base_capacity idx pid day in if used > base then [(pid, day, used, base)] else [])
       (ci_used idx))"

subsection \<open>The reader's view\<close>

definition used_hours :: "capacity_index \<Rightarrow> uuid \<times> date \<Rightarrow> int" where
  "used_hours idx pd = dict_get_default (ci_used idx) pd 0"

definition free_hours :: "capacity_index \<Rightarrow> uuid \<Rightarrow> date \<Rightarrow> int" where
  "free_hours idx pid day = base_capacity idx pid day - used_hours idx (pid, day)"

text \<open>Two indexes that answer every read alike; what a scan leaves behind differs only in zero entries.\<close>

definition same_view :: "capacity_index \<Rightarrow> capacity_index \<Rightarrow> bool" where
  "same_view i j \<longleftrightarrow> ci_cap i = ci_cap j \<and> ci_cal i = ci_cal j \<and> ci_override i = ci_override j \<and>
     used_hours i = used_hours j"

lemma same_view_refl [simp]: "same_view i i"
  by (simp add: same_view_def)

lemma same_view_trans [trans]: "same_view i j \<Longrightarrow> same_view j k \<Longrightarrow> same_view i k"
  by (simp add: same_view_def)

lemma base_capacity_cong: "same_view i j \<Longrightarrow> base_capacity i = base_capacity j"
  by (auto simp: same_view_def base_capacity_def fun_eq_iff split: option.split)

lemma free_hours_cong: "same_view i j \<Longrightarrow> free_hours i = free_hours j"
  using base_capacity_cong by (auto simp: same_view_def free_hours_def fun_eq_iff)

lemma ddict_touch_view [simp]: "dict_get_default (ddict_touch k d) j 0 = dict_get_default d j 0"
  by (auto simp: ddict_touch_def dict_get_default_def dict_has_def dict_simps split: option.split)

lemma ddict_add_view:
  "dict_get_default (ddict_add k h d) j 0 = dict_get_default d j 0 + (if j = k then h else 0)"
  by (simp add: ddict_add_def dict_get_default_def dict_simps)

lemma remaining_value [idx_simps]: "fst (remaining idx pid day) = free_hours idx pid day"
  by (simp add: remaining_def free_hours_def used_hours_def)

lemma remaining_view: "same_view idx (snd (remaining idx pid day))"
  by (simp add: remaining_def same_view_def used_hours_def fun_eq_iff)

lemma remaining_eq:
  "remaining idx pid day = (r, idx') \<Longrightarrow> r = free_hours idx pid day \<and> same_view idx idx'"
  using remaining_value [of idx pid day] remaining_view [of idx pid day] by simp

lemma occupy_fields [idx_simps]:
  "ci_cap (occupy als idx) = ci_cap idx" "ci_cal (occupy als idx) = ci_cal idx"
  "ci_override (occupy als idx) = ci_override idx" "base_capacity (occupy als idx) = base_capacity idx"
  by (simp_all add: occupy_def base_capacity_def fun_eq_iff split: option.split)

lemma used_hours_occupy [idx_simps]: "used_hours (occupy als idx) pd = used_hours idx pd + booked als pd"
proof -
  have "dict_get_default (fold (\<lambda>a. ddict_add (al_person_id a, al_day a) (al_hours a)) als d) pd 0 =
      dict_get_default d pd 0 + booked als pd" for d
    by (induction als arbitrary: d) (simp_all add: ddict_add_view booked_Cons)
  then show ?thesis by (simp add: used_hours_def occupy_def)
qed

subsection \<open>Well-formed indexes and overloads\<close>

definition index_ok :: "capacity_index \<Rightarrow> bool" where
  "index_ok idx \<longleftrightarrow> distinct (map fst (ci_used idx))"

lemma index_ok_remaining: "index_ok idx \<Longrightarrow> index_ok (snd (remaining idx pid day))"
  by (simp add: index_ok_def remaining_def ddict_touch_def distinct_dict_set)

lemma index_ok_occupy: "index_ok idx \<Longrightarrow> index_ok (occupy als idx)"
proof -
  have "distinct (map fst d) \<Longrightarrow>
      distinct (map fst (fold (\<lambda>a. ddict_add (al_person_id a, al_day a) (al_hours a)) als d))" for d
    by (induction als arbitrary: d) (simp_all add: ddict_add_def distinct_dict_set)
  then show "index_ok idx \<Longrightarrow> ?thesis" by (simp add: index_ok_def occupy_def)
qed

lemma init_fields [idx_simps]:
  "ci_cal (capacity_index_init people cal ovs ex) = cal"
  "ci_cap (capacity_index_init people cal ovs ex) = dict_of (map (\<lambda>p. (p_id p, p_capacity_h p)) people)"
  "ci_override (capacity_index_init people cal ovs ex) =
     dict_of (map (\<lambda>ov. ((o_person_id ov, o_day ov), o_capacity_h ov)) ovs)"
  by (simp_all add: capacity_index_init_def idx_simps)

lemma index_ok_init [simp]: "index_ok (capacity_index_init people cal ovs ex)"
  unfolding capacity_index_init_def by (rule index_ok_occupy) (simp add: index_ok_def)

lemma used_hours_init [idx_simps]: "used_hours (capacity_index_init people cal ovs ex) pd = booked ex pd"
  by (simp add: capacity_index_init_def idx_simps) (simp add: used_hours_def dict_get_default_def)

text \<open>
  An entry of \<open>overloads\<close> is exactly a used day whose hours exceed the day's ceiling; an
  untouched day shows only under a negative ceiling, which reads as no entry.
\<close>

lemma overloads_iff:
  assumes "index_ok idx"
  shows "(pid, day, used, base) \<in> set (overloads idx) \<longleftrightarrow>
    dict_get (ci_used idx) (pid, day) = Some used \<and> base = base_capacity idx pid day \<and> base < used"
  using assms by (fastforce simp: overloads_def index_ok_def dict_get_iff_mem Let_def split: if_splits)

lemma overloads_keys_distinct:
  assumes "index_ok idx"
  shows "distinct (map (\<lambda>(pid, day, used, base). (pid, day)) (overloads idx))"
proof -
  have "map (\<lambda>(pid, day, used, base). (pid, day)) (overloads idx) =
      map fst (filter (\<lambda>((pid, day), used). base_capacity idx pid day < used) (ci_used idx))"
    unfolding overloads_def by (rule list.induct [of _ "ci_used idx"]) (auto simp: Let_def)
  then show ?thesis using assms by (simp add: index_ok_def distinct_map_filter)
qed

lemma overloaded_day_listed:
  assumes "index_ok idx" and "0 \<le> base_capacity idx pid day"
    and "base_capacity idx pid day < used_hours idx (pid, day)"
  shows "(pid, day, used_hours idx (pid, day), base_capacity idx pid day) \<in> set (overloads idx)"
  using assms by (auto simp: overloads_iff used_hours_def dict_get_default_def split: option.splits)

end
