(* ===== verification/Networkx_Port.thy ===== *)
theory Networkx_Port
  imports Domain_Models
begin

section \<open>The graph library as a parameter\<close>

text \<open>
  The scheduler builds a \<open>networkx.DiGraph\<close> and asks it for predecessors, edge attributes and a
  topological order. NetworkX is third-party code: a graph here is the log of the mutating calls
  the program made on it, and the queries are the fields of a \<open>networkx\<close> record every definition
  that uses them takes as an argument. \<open>networkx_documented\<close> states what the documentation says of
  the queries. \<open>reference_networkx\<close> is a small implementation that satisfies it; it serves the
  concrete instances of the properties and shows that the assumption can be met.
\<close>

record edge_attr =
  e_link_type :: ustr
  e_lag :: int

datatype graph_call =
    AddNode uuid
  | AddEdge uuid uuid edge_attr

type_synonym digraph = "graph_call list"

record networkx =
  nx_predecessors :: "digraph \<Rightarrow> uuid \<Rightarrow> uuid list"
  nx_edge :: "digraph \<Rightarrow> uuid \<Rightarrow> uuid \<Rightarrow> edge_attr"
  nx_topological_sort :: "digraph \<Rightarrow> uuid list option"

text \<open>Nodes, edges and current attributes of a call log: \<open>add_edge\<close> adds its end points, and on an
  existing edge it overwrites the attributes.\<close>

fun call_nodes :: "graph_call \<Rightarrow> uuid list" where
  "call_nodes (AddNode v) = [v]"
| "call_nodes (AddEdge u v a) = [u, v]"

definition graph_nodes :: "digraph \<Rightarrow> uuid list" where
  "graph_nodes g = concat (map call_nodes g)"

fun edge_calls :: "digraph \<Rightarrow> ((uuid \<times> uuid) \<times> edge_attr) list" where
  "edge_calls [] = []"
| "edge_calls (AddNode v # g) = edge_calls g"
| "edge_calls (AddEdge u v a # g) = ((u, v), a) # edge_calls g"

definition graph_edges :: "digraph \<Rightarrow> (uuid \<times> uuid) set" where
  "graph_edges g = fst ` set (edge_calls g)"

definition edge_attrs :: "digraph \<Rightarrow> (uuid \<times> uuid, edge_attr) dict" where
  "edge_attrs g = dict_of (edge_calls g)"

text \<open>\<open>u\<close> comes before \<open>v\<close> in a list.\<close>

definition before :: "'a list \<Rightarrow> 'a \<Rightarrow> 'a \<Rightarrow> bool" where
  "before xs u v \<longleftrightarrow> (\<exists>ys zs. xs = ys @ v # zs \<and> u \<in> set ys)"

definition topological_order :: "digraph \<Rightarrow> uuid list \<Rightarrow> bool" where
  "topological_order g order \<longleftrightarrow>
     distinct order \<and> set order = set (graph_nodes g) \<and> (\<forall>(u, v) \<in> graph_edges g. before order u v)"

definition networkx_documented :: "networkx \<Rightarrow> bool" where
  "networkx_documented nx \<longleftrightarrow>
     (\<forall>g v. set (nx_predecessors nx g v) = {u. (u, v) \<in> graph_edges g}) \<and>
     (\<forall>g u v a. dict_get (edge_attrs g) (u, v) = Some a \<longrightarrow> nx_edge nx g u v = a) \<and>
     (\<forall>g order. nx_topological_sort nx g = Some order \<longrightarrow> topological_order g order) \<and>
     (\<forall>g. nx_topological_sort nx g = None \<longleftrightarrow> \<not> acyclic (graph_edges g))"

lemma documented_sort:
  assumes "networkx_documented nx"
  shows "nx_topological_sort nx g = Some order \<Longrightarrow> topological_order g order"
    and "nx_topological_sort nx g = None \<longleftrightarrow> \<not> acyclic (graph_edges g)"
  using assms by (simp_all add: networkx_documented_def)

lemma edges_in_nodes: "(u, v) \<in> graph_edges g \<Longrightarrow> u \<in> set (graph_nodes g) \<and> v \<in> set (graph_nodes g)"
  by (induction g rule: edge_calls.induct) (auto simp: graph_edges_def graph_nodes_def)

lemma finite_graph_edges [simp]: "finite (graph_edges g)"
  by (simp add: graph_edges_def)

lemma edge_attrs_exists: "(u, v) \<in> graph_edges g \<Longrightarrow> \<exists>a. dict_get (edge_attrs g) (u, v) = Some a"
  using dict_of_get_None [of "edge_calls g" "(u, v)"]
  by (auto simp: edge_attrs_def graph_edges_def simp flip: not_None_eq)

lemma append_Cons_eq_iff_first:
  "ys @ v # zs = as @ v # bs \<Longrightarrow> v \<notin> set ys \<Longrightarrow> v \<notin> set as \<Longrightarrow> ys = as"
proof (induction ys arbitrary: as)
  case Nil
  then show ?case by (cases as) auto
next
  case (Cons y ys)
  then show ?case by (cases as) auto
qed

lemma before_distinct_split:
  assumes "distinct (ys @ v # zs)" and "before (ys @ v # zs) u v"
  shows "u \<in> set ys"
proof -
  from assms(2) obtain as bs where eq: "ys @ v # zs = as @ v # bs" and u: "u \<in> set as"
    by (auto simp: before_def)
  have d1: "v \<notin> set ys" using assms(1) by simp
  have "distinct (as @ v # bs)" using assms(1) unfolding eq .
  then have d2: "v \<notin> set as" by simp
  from d1 d2 eq have "ys = as" by (metis append_Cons_eq_iff_first)
  with u show ?thesis by simp
qed

subsection \<open>A reference implementation\<close>

lemma find_SomeD: "find P xs = Some v \<Longrightarrow> v \<in> set xs \<and> P v"
  by (induction xs) (auto split: if_splits)

text \<open>
  Repeatedly take the first remaining node with no remaining predecessor; stuck means a cycle.
\<close>

definition ready :: "(uuid \<times> uuid) list \<Rightarrow> uuid list \<Rightarrow> uuid \<Rightarrow> bool" where
  "ready es rem v = list_all (\<lambda>(a, b). b \<noteq> v \<or> a \<notin> set rem) es"

function kahn :: "(uuid \<times> uuid) list \<Rightarrow> uuid list \<Rightarrow> uuid list option" where
  "kahn es [] = Some []"
| "kahn es (w # ws) =
     (case find (ready es (w # ws)) (w # ws) of
        None \<Rightarrow> None
      | Some v \<Rightarrow> map_option (Cons v) (kahn es (removeAll v (w # ws))))"
  by pat_completeness auto
termination
proof (relation "measure (\<lambda>(es, ws). length ws)", goal_cases)
  case (2 es w ws v)
  then have "v \<in> set (w # ws)" using find_SomeD by fast
  then show ?case using length_removeAll_less [of v "w # ws"] by (simp del: removeAll.simps)
qed simp

declare kahn.simps [simp del]

definition reference_networkx :: networkx where
  "reference_networkx =
     \<lparr>nx_predecessors = (\<lambda>g v. map fst (filter (\<lambda>e. snd e = v) (map fst (edge_calls g)))),
      nx_edge = (\<lambda>g u v. the (dict_get (edge_attrs g) (u, v))),
      nx_topological_sort = (\<lambda>g. kahn (map fst (edge_calls g)) (remdups (graph_nodes g)))\<rparr>"


lemma before_Cons: "before xs u v \<Longrightarrow> before (w # xs) u v"
  unfolding before_def by (metis append_Cons list.set_intros(2))

lemma before_hd: "v \<in> set xs \<Longrightarrow> before (w # xs) w v"
  unfolding before_def by (metis append_Cons list.set_intros(1) split_list)

lemma kahn_Some:
  assumes "kahn es ws = Some order" and "distinct ws"
  shows "distinct order \<and> set order = set ws \<and>
    (\<forall>(u, v) \<in> set es. u \<in> set ws \<longrightarrow> v \<in> set ws \<longrightarrow> before order u v)"
  using assms
proof (induction es ws arbitrary: order rule: kahn.induct)
  case (2 es w ws)
  then obtain x rest where x: "find (ready es (w # ws)) (w # ws) = Some x"
    and rest: "kahn es (removeAll x (w # ws)) = Some rest" "order = x # rest"
    by (auto simp: kahn.simps(2) [of es w ws] split: option.splits simp del: find.simps removeAll.simps)
  have IH: "distinct rest" "set rest = set (w # ws) - {x}"
    "(u, v) \<in> set es \<Longrightarrow> u \<in> set rest \<Longrightarrow> v \<in> set rest \<Longrightarrow> before rest u v" for u v
    using "2.IH" [OF x rest(1)] "2.prems"(2) by (auto simp: distinct_removeAll simp del: removeAll.simps)
  have mem: "x \<in> set (w # ws)" and rdy: "ready es (w # ws) x" using find_SomeD [OF x] by auto
  have "before order u v" if "(u, v) \<in> set es" "u \<in> set (w # ws)" "v \<in> set (w # ws)" for u v
  proof (cases "v = x")
    case True
    with rdy that show ?thesis by (auto simp: ready_def list_all_iff)
  next
    case False
    with that IH(2) have v: "v \<in> set rest" by blast
    show ?thesis
    proof (cases "u = x")
      case True
      with v rest(2) show ?thesis by (simp add: before_hd)
    next
      case False
      with that IH(2) have "u \<in> set rest" by blast
      with IH(3) [OF that(1)] v rest(2) show ?thesis by (simp add: before_Cons)
    qed
  qed
  moreover have "set order = set (w # ws)" using IH(2) mem rest(2) by (simp add: insert_absorb)
  moreover have "distinct order" using IH rest(2) by simp
  ultimately show ?case by blast
qed (simp add: kahn.simps)

lemma kahn_acyclic: "acyclic (set es) \<Longrightarrow> kahn es ws \<noteq> None"
proof (induction es ws rule: kahn.induct)
  case (2 es w ws)
  have "wf (set es)" using 2 by (simp add: finite_acyclic_wf)
  then obtain z where "z \<in> set (w # ws)" "\<And>y. (y, z) \<in> set es \<Longrightarrow> y \<notin> set (w # ws)"
    by (rule wfE_min [of _ w "set (w # ws)"]) auto
  then have "\<exists>z \<in> set (w # ws). ready es (w # ws) z" by (auto simp: ready_def list_all_iff)
  then obtain x where x: "find (ready es (w # ws)) (w # ws) = Some x"
    by (metis find_None_iff not_None_eq)
  from "2.IH" [OF x "2.prems"] show ?case
    by (simp add: kahn.simps(2) [of es w ws] x del: find.simps removeAll.simps)
qed (simp add: kahn.simps)

lemma before_takeWhile_less:
  assumes "distinct xs" and "before xs u v"
  shows "length (takeWhile (\<lambda>x. x \<noteq> u) xs) < length (takeWhile (\<lambda>x. x \<noteq> v) xs)"
proof -
  from assms(2) obtain ys zs where xs: "xs = ys @ v # zs" and u: "u \<in> set ys"
    by (auto simp: before_def)
  have "takeWhile (\<lambda>x. x \<noteq> v) xs = ys" using assms(1) xs by (simp add: takeWhile_append)
  moreover have "takeWhile (\<lambda>x. x \<noteq> u) xs = takeWhile (\<lambda>x. x \<noteq> u) ys"
    using u xs by (auto simp: takeWhile_append1)
  moreover have "length (takeWhile (\<lambda>x. x \<noteq> u) ys) < length ys"
    using u by (induction ys) auto
  ultimately show ?thesis by simp
qed

lemma topological_order_acyclic:
  assumes "topological_order g order"
  shows "acyclic (graph_edges g)"
proof -
  have "graph_edges g \<subseteq> measure (\<lambda>v. length (takeWhile (\<lambda>x. x \<noteq> v) order))"
    using assms before_takeWhile_less unfolding topological_order_def by fastforce
  then show ?thesis using wf_acyclic [OF wf_measure] acyclic_subset by blast
qed

theorem reference_networkx_documented: "networkx_documented reference_networkx"
  unfolding networkx_documented_def
proof (intro conjI allI impI)
  fix g u v a order
  let ?es = "map fst (edge_calls g)" and ?ws = "remdups (graph_nodes g)"
  have es: "set ?es = graph_edges g" by (simp add: graph_edges_def)
  show "set (nx_predecessors reference_networkx g v) = {u. (u, v) \<in> graph_edges g}"
    by (force simp: reference_networkx_def graph_edges_def)
  show "dict_get (edge_attrs g) (u, v) = Some a \<Longrightarrow> nx_edge reference_networkx g u v = a"
    by (simp add: reference_networkx_def)
  show order: "topological_order g order"
    if "nx_topological_sort reference_networkx g = Some order" for order
  proof -
    have k: "kahn ?es ?ws = Some order" using that by (simp add: reference_networkx_def)
    show ?thesis
      using kahn_Some [OF k] edges_in_nodes [of _ _ g] unfolding topological_order_def es by auto
  qed
  show "(nx_topological_sort reference_networkx g = None) = (\<not> acyclic (graph_edges g))"
    using kahn_acyclic [of ?es ?ws] order topological_order_acyclic unfolding es
    by (cases "nx_topological_sort reference_networkx g") (auto simp: reference_networkx_def)
qed

end
