(* ===== verification/Domain_Units.thy ===== *)
theory Domain_Units
  imports Planner_Prelude Complex_Main
begin

section \<open>Hours, working days and slots\<close>

text \<open>
  \<open>domain/units.py\<close> and \<open>domain/slots.py\<close>. \<open>math.ceil(a / b)\<close> of integers is the exact ceiling:
  the float quotient is correctly rounded, so it agrees below \<open>2 ^ 53\<close> hours, far above any
  duration. Slots are computed from fractional hours, here rationals.
\<close>

definition ceil_div :: "int \<Rightarrow> int \<Rightarrow> int" where
  "ceil_div a b = - ((- a) div b)"

definition hours_to_working_days :: "int \<Rightarrow> int \<Rightarrow> int" where
  "hours_to_working_days hours capacity_h =
     (if hours \<le> 0 then 0 else if capacity_h \<le> 0 then hours else ceil_div hours capacity_h)"

definition hours_to_slots :: "rat \<Rightarrow> int" where
  "hours_to_slots hours = (if hours \<le> 0 then 0 else \<lceil>hours / 4\<rceil>)"

lemma ceil_div_bounds:
  assumes "0 < b"
  shows "a \<le> ceil_div a b * b" and "(ceil_div a b - 1) * b < a"
proof -
  define q where "q = (- a) div b"
  have "q * b + (- a) mod b = - a" by (simp add: q_def)
  moreover have "0 \<le> (- a) mod b" "(- a) mod b < b" using assms by simp_all
  ultimately show "a \<le> ceil_div a b * b" "(ceil_div a b - 1) * b < a"
    unfolding ceil_div_def q_def [symmetric] by (simp_all add: algebra_simps)
qed

lemma ceil_div_pos: "0 < a \<Longrightarrow> 0 < b \<Longrightarrow> 0 < ceil_div a b"
  using ceil_div_bounds(1) [of b a] by (meson leD le_less_trans not_le zero_less_mult_pos2 less_le_trans)

lemma hours_to_working_days_nonneg: "0 \<le> hours_to_working_days h c"
  using ceil_div_pos [of h c] by (auto simp: hours_to_working_days_def)

end
