(* ===== verification/Py_Text.thy ===== *)
theory Py_Text
  imports Planner_Prelude
begin

section \<open>Python text: strip, case, decimal and hexadecimal numbers, UUIDs\<close>

text \<open>
  The \<open>str\<close> methods and conversions the program calls. White space is Python's
  \<open>str.isspace\<close>. Case mapping is Unicode's on the Latin-1 and Cyrillic letters (the alphabets
  of the program's texts and data) and leaves every other code point alone.
\<close>

subsection \<open>White space, prefixes, substrings\<close>

definition is_space :: "nat \<Rightarrow> bool" where
  "is_space c \<longleftrightarrow> c \<in> {9..13} \<or> c \<in> {28..32} \<or> c = 133 \<or> c = 160 \<or> c = 5760 \<or>
     c \<in> {8192..8202} \<or> c = 8232 \<or> c = 8233 \<or> c = 8239 \<or> c = 8287 \<or> c = 12288"

definition strip_by :: "('a \<Rightarrow> bool) \<Rightarrow> 'a list \<Rightarrow> 'a list" where
  "strip_by P s = rev (dropWhile P (rev (dropWhile P s)))"

abbreviation strip :: "ustr \<Rightarrow> ustr" where
  "strip \<equiv> strip_by is_space"

definition rstrip_by :: "('a \<Rightarrow> bool) \<Rightarrow> 'a list \<Rightarrow> 'a list" where
  "rstrip_by P s = rev (dropWhile P (rev s))"

definition startswith :: "ustr \<Rightarrow> ustr \<Rightarrow> bool" where
  "startswith s p \<longleftrightarrow> take (length p) s = p"

fun contains :: "ustr \<Rightarrow> ustr \<Rightarrow> bool" where
  "contains [] p = (p = [])"
| "contains (c # s) p = (startswith (c # s) p \<or> contains s p)"

text \<open>\<open>s.split()\<close>: the maximal runs of non-space characters.\<close>

fun split_ws_aux :: "ustr \<Rightarrow> ustr \<Rightarrow> ustr list" where
  "split_ws_aux w [] = (if w = [] then [] else [w])"
| "split_ws_aux w (c # s) =
     (if is_space c then (if w = [] then split_ws_aux [] s else w # split_ws_aux [] s)
      else split_ws_aux (w @ [c]) s)"

definition split_ws :: "ustr \<Rightarrow> ustr list" where
  "split_ws s = split_ws_aux [] s"

text \<open>\<open>sep.join(parts)\<close> and \<open>s.split(c)\<close> for a one-character separator.\<close>

fun join :: "ustr \<Rightarrow> ustr list \<Rightarrow> ustr" where
  "join sep [] = []"
| "join sep [s] = s"
| "join sep (s # t # ss) = s @ sep @ join sep (t # ss)"

fun split_char :: "nat \<Rightarrow> ustr \<Rightarrow> ustr list" where
  "split_char c [] = [[]]"
| "split_char c (x # s) =
     (if x = c then [] # split_char c s
      else (case split_char c s of [] \<Rightarrow> [[x]] | w # ws \<Rightarrow> (x # w) # ws))"

text \<open>\<open>s.replace(p, '')\<close>.\<close>

function remove_all :: "ustr \<Rightarrow> ustr \<Rightarrow> ustr" where
  "remove_all p s =
     (case s of [] \<Rightarrow> []
      | c # t \<Rightarrow> if p \<noteq> [] \<and> startswith s p then remove_all p (drop (length p) s)
                 else c # remove_all p t)"
  by pat_completeness auto
termination
  by (relation "measure (\<lambda>(p, s). length s)") auto

declare remove_all.simps [simp del]

lemma strip_by_none: "(\<And>c. c \<in> set s \<Longrightarrow> \<not> P c) \<Longrightarrow> strip_by P s = s"
proof -
  assume none: "\<And>c. c \<in> set s \<Longrightarrow> \<not> P c"
  have keep: "dropWhile P t = t" if "set t \<subseteq> set s" for t
    using none that by (cases t) auto
  show ?thesis by (simp add: strip_by_def keep)
qed

lemma dropWhile_idem: "dropWhile P (dropWhile P s) = dropWhile P s"
  by (induction s) auto

lemma hd_dropWhile_rev_dropWhile:
  "dropWhile P s = s \<Longrightarrow> dropWhile P (rev (dropWhile P (rev s))) = rev (dropWhile P (rev s))"
proof (cases "dropWhile P (rev s) = []")
  case True
  then show ?thesis by (simp only: rev.simps dropWhile.simps)
next
  case False
  assume s: "dropWhile P s = s"
  obtain t where t: "rev s = t @ dropWhile P (rev s)"
    using takeWhile_dropWhile_id [of P "rev s"] by metis
  then have "s = rev (dropWhile P (rev s)) @ rev t" by (metis rev_append rev_rev_ident)
  with s False show ?thesis by (metis dropWhile_eq_self_iff hd_append2 rev_is_Nil_conv)
qed

lemma strip_by_idem [simp]: "strip_by P (strip_by P s) = strip_by P s"
  using hd_dropWhile_rev_dropWhile [of P "dropWhile P s"]
  by (simp add: strip_by_def dropWhile_idem)

lemma remove_all_absent: "p \<noteq> [] \<Longrightarrow> hd p \<notin> set s \<Longrightarrow> remove_all p s = s"
proof (induction p s rule: remove_all.induct)
  case (1 p s)
  show ?case
  proof (cases s)
    case (Cons c t)
    with 1(3,4) have "\<not> startswith s p" by (cases p) (auto simp: startswith_def)
    moreover have "remove_all p t = t" using Cons 1(2) [of c t] 1(3,4) calculation by auto
    ultimately show ?thesis using Cons by (simp add: remove_all.simps [of p "c # t"])
  qed (simp add: remove_all.simps)
qed

subsection \<open>Case\<close>

definition lower_cp :: "nat \<Rightarrow> nat" where
  "lower_cp c =
     (if 65 \<le> c \<and> c \<le> 90 then c + 32
      else if 192 \<le> c \<and> c \<le> 222 \<and> c \<noteq> 215 then c + 32
      else if 1040 \<le> c \<and> c \<le> 1071 then c + 32
      else if 1024 \<le> c \<and> c \<le> 1039 then c + 80
      else c)"

definition lower :: "ustr \<Rightarrow> ustr" where
  "lower s = map lower_cp s"

text \<open>\<open>casefold\<close> differs from \<open>lower\<close> on these alphabets at sharp s and the micro sign only.\<close>

definition casefold :: "ustr \<Rightarrow> ustr" where
  "casefold s =
     concat (map (\<lambda>c. if c = 223 then [115, 115] else if c = 181 then [956] else [lower_cp c]) s)"

lemma lower_cp_idem [simp]: "lower_cp (lower_cp c) = lower_cp c"
  by (auto simp: lower_cp_def)

lemma lower_idem [simp]: "lower (lower s) = lower s"
  by (simp add: lower_def comp_def)

lemma is_space_lower_cp [simp]: "is_space (lower_cp c) = is_space c"
  by (auto simp: lower_cp_def is_space_def)

lemma dropWhile_lower: "dropWhile is_space (lower s) = lower (dropWhile is_space s)"
  by (simp add: lower_def dropWhile_map comp_def)

lemma lower_strip: "lower (strip s) = strip (lower s)"
proof -
  have rv: "rev (lower t) = lower (rev t)" for t by (simp add: lower_def rev_map)
  show ?thesis by (simp add: strip_by_def dropWhile_lower rv)
qed

lemma casefold_Nil_iff [simp]: "casefold s = [] \<longleftrightarrow> s = []"
  by (cases s) (auto simp: casefold_def)

subsection \<open>Numbers\<close>

fun nat_dec :: "nat \<Rightarrow> ustr" where
  "nat_dec n = (if n < 10 then [48 + n] else nat_dec (n div 10) @ [48 + n mod 10])"

declare nat_dec.simps [simp del]

definition int_dec :: "int \<Rightarrow> ustr" where
  "int_dec i = (if i < 0 then 45 # nat_dec (nat (- i)) else nat_dec (nat i))"

definition zfill :: "nat \<Rightarrow> ustr \<Rightarrow> ustr" where
  "zfill w s = replicate (w - length s) 48 @ s"

definition is_digit :: "nat \<Rightarrow> bool" where
  "is_digit c \<longleftrightarrow> 48 \<le> c \<and> c \<le> 57"

definition digits_value :: "nat \<Rightarrow> ustr \<Rightarrow> nat" where
  "digits_value b s = foldl (\<lambda>v c. b * v + (c - 48)) 0 s"

definition parse_nat :: "ustr \<Rightarrow> nat option" where
  "parse_nat s = (if s \<noteq> [] \<and> list_all is_digit s then Some (digits_value 10 s) else None)"

lemma nat_dec_digits: "list_all is_digit (nat_dec n)"
proof (induction n rule: nat_dec.induct)
  case (1 n)
  have "is_digit (48 + m)" if "m < 10" for m using that by (simp add: is_digit_def)
  with 1 show ?case by (subst nat_dec.simps) auto
qed

lemma nat_dec_nonempty [simp]: "nat_dec n \<noteq> []"
  by (subst nat_dec.simps) simp

lemma digits_value_snoc: "digits_value b (s @ [c]) = b * digits_value b s + (c - 48)"
  by (simp add: digits_value_def)

lemma digits_value_nat_dec: "digits_value 10 (nat_dec n) = n"
proof (induction n rule: nat_dec.induct)
  case (1 n)
  show ?case
  proof (cases "n < 10")
    case True
    then show ?thesis by (subst nat_dec.simps) (simp add: digits_value_def)
  next
    case False
    with 1 show ?thesis by (subst nat_dec.simps) (simp add: digits_value_snoc)
  qed
qed

lemma digits_value_zeros: "digits_value b (replicate k 48 @ s) = digits_value b s"
  by (induction k) (simp_all add: digits_value_def)

lemma parse_nat_zfill [simp]: "parse_nat (zfill w (nat_dec n)) = Some n"
  using nat_dec_digits [of n]
  by (auto simp: parse_nat_def zfill_def digits_value_zeros digits_value_nat_dec list_all_iff is_digit_def)

lemma nat_dec_length: "n < 10 ^ k \<Longrightarrow> 0 < k \<Longrightarrow> length (nat_dec n) \<le> k"
proof (induction k arbitrary: n)
  case (Suc k)
  show ?case
  proof (cases "n < 10")
    case True
    then show ?thesis by (subst nat_dec.simps) simp
  next
    case False
    with Suc.prems have "n div 10 < 10 ^ k" "0 < k" by (auto simp: less_mult_imp_div_less intro: gr0I)
    from Suc.IH [OF this] False show ?thesis by (subst nat_dec.simps) simp
  qed
qed simp

lemma length_zfill: "length (zfill w s) = max w (length s)"
  by (simp add: zfill_def)

text \<open>\<open>int(s)\<close>: white space around, a sign, digits with single underscores between them.\<close>

fun int_digits :: "ustr \<Rightarrow> bool \<Rightarrow> int \<Rightarrow> int option" where
  "int_digits [] after_digit v = (if after_digit then Some v else None)"
| "int_digits (c # s) after_digit v =
     (if is_digit c then int_digits s True (10 * v + (int c - 48))
      else if c = 95 \<and> after_digit then int_digits s False v
      else None)"

definition py_int :: "ustr \<Rightarrow> int option" where
  "py_int s =
     (case strip s of
        [] \<Rightarrow> None
      | c # t \<Rightarrow> if c = 43 then int_digits t False 0
                 else if c = 45 then map_option uminus (int_digits t False 0)
                 else int_digits (c # t) False 0)"

subsection \<open>UUIDs as text\<close>

text \<open>
  \<open>str(u)\<close> is the 32 hexadecimal digits with dashes after 8, 12, 16 and 20 of them;
  \<open>UUID(s)\<close> drops \<open>urn:\<close>, \<open>uuid:\<close>, braces and dashes and wants 32 hexadecimal digits.
\<close>

definition hex_char :: "nat \<Rightarrow> nat" where
  "hex_char v = (if v < 10 then 48 + v else 87 + v)"

definition hex_val :: "nat \<Rightarrow> nat option" where
  "hex_val c =
     (if 48 \<le> c \<and> c \<le> 57 then Some (c - 48)
      else if 97 \<le> c \<and> c \<le> 102 then Some (c - 87)
      else if 65 \<le> c \<and> c \<le> 70 then Some (c - 55) else None)"

fun hex_digits :: "nat \<Rightarrow> nat \<Rightarrow> ustr" where
  "hex_digits 0 v = []"
| "hex_digits (Suc w) v = hex_digits w (v div 16) @ [hex_char (v mod 16)]"

fun hex_value :: "ustr \<Rightarrow> nat option" where
  "hex_value s = fold (\<lambda>c acc. case (acc, hex_val c) of (Some a, Some d) \<Rightarrow> Some (16 * a + d) | _ \<Rightarrow> None) s (Some 0)"

declare hex_value.simps [simp del]

definition uuid_str :: "uuid \<Rightarrow> ustr" where
  "uuid_str u =
     (let h = hex_digits 32 (unat u) in
      take 8 h @ [45] @ take 4 (drop 8 h) @ [45] @ take 4 (drop 12 h) @ [45] @
      take 4 (drop 16 h) @ [45] @ drop 20 h)"

definition uuid_parse :: "ustr \<Rightarrow> uuid res" where
  "uuid_parse s =
     (let h = filter (\<lambda>c. c \<noteq> 45)
                (strip_by (\<lambda>c. c = 123 \<or> c = 125) (remove_all (ascii ''uuid:'') (remove_all (ascii ''urn:'') s)))
      in if length h = 32
         then (case hex_value h of Some v \<Rightarrow> Inr (of_nat v) | None \<Rightarrow> Inl ValueError)
         else Inl ValueError)"

lemma hex_val_char [simp]: "v < 16 \<Longrightarrow> hex_val (hex_char v) = Some v"
  by (auto simp: hex_val_def hex_char_def)

lemma length_hex_digits [simp]: "length (hex_digits w v) = w"
  by (induction w arbitrary: v) auto

lemma hex_value_digits: "hex_value (hex_digits w v) = Some (v mod 16 ^ w)"
proof (induction w arbitrary: v)
  case (Suc w)
  have "v mod 16 ^ Suc w = 16 * (v div 16 mod 16 ^ w) + v mod 16"
    by (simp add: mod_mult2_eq)
  with Suc [of "v div 16"] show ?case by (simp add: hex_value.simps)
qed (simp add: hex_value.simps)

lemma hex_digits_chars: "c \<in> set (hex_digits w v) \<Longrightarrow> \<exists>d<16. c = hex_char d"
  by (induction w arbitrary: v) (auto intro: exI [of _ "_ mod 16"])

lemma hex_char_plain: "d < 16 \<Longrightarrow> hex_char d \<notin> {45, 117, 123, 125}"
  by (auto simp: hex_char_def)

lemma hex_digits_plain: "c \<in> set (hex_digits w v) \<Longrightarrow> c \<notin> {45, 117, 123, 125}"
  using hex_digits_chars [of c w v] hex_char_plain by auto

lemma uuid_str_chars: "c \<in> set (uuid_str u) \<Longrightarrow> c \<notin> {117, 123, 125}"
  using hex_digits_plain [of c 32 "unat u"]
  by (auto simp: uuid_str_def Let_def dest!: in_set_takeD in_set_dropD)

lemma uuid_str_no_dash: "filter (\<lambda>c. c \<noteq> 45) (uuid_str u) = hex_digits 32 (unat u)"
proof -
  let ?h = "hex_digits 32 (unat u)"
  have nd: "filter (\<lambda>c. c \<noteq> 45) (take i (drop j ?h)) = take i (drop j ?h)" for i j
    by (rule filter_True) (use hex_digits_plain in \<open>auto dest!: in_set_takeD in_set_dropD\<close>)
  have cut: "take 4 (drop i ?h) @ drop (4 + i) ?h = drop i ?h" for i
    using append_take_drop_id [of 4 "drop i ?h"] by (simp add: drop_drop)
  have "take 8 ?h @ take 4 (drop 8 ?h) @ take 4 (drop 12 ?h) @ take 4 (drop 16 ?h) @ drop 20 ?h = ?h"
    using cut [of 8] cut [of 12] cut [of 16] by simp
  with nd [of 8 0] nd [of 4 8] nd [of 4 12] nd [of 4 16] nd [of 32 20] show ?thesis
    by (simp add: uuid_str_def Let_def del: hex_digits.simps)
qed

theorem uuid_parse_str [simp]: "uuid_parse (uuid_str u) = Inr u"
proof -
  have "remove_all (ascii ''urn:'') (uuid_str u) = uuid_str u"
    "remove_all (ascii ''uuid:'') (uuid_str u) = uuid_str u"
    by (rule remove_all_absent; use uuid_str_chars in \<open>fastforce simp: ascii_def\<close>)+
  moreover have "strip_by (\<lambda>c. c = 123 \<or> c = 125) (uuid_str u) = uuid_str u"
    by (rule strip_by_none) (use uuid_str_chars in blast)
  moreover have "unat u mod 16 ^ 32 = unat u"
    using unsigned_less [of u, where 'a = nat] by simp
  ultimately show ?thesis
    by (simp add: uuid_parse_def uuid_str_no_dash hex_value_digits)
qed

end
