(* ===== verification/Py_Date.thy ===== *)
theory Py_Date
  imports Py_Text
begin

section \<open>Dates: ordinals, year-month-day, ISO text\<close>

text \<open>
  \<open>datetime.date\<close> over ordinals: \<open>date(y, m, d)\<close> with its range checks, the year, month and
  day of an ordinal by the 400/100/4/1-year cycles, \<open>isoformat\<close> and \<open>fromisoformat\<close> with the
  forms Python 3.12 accepts (extended, basic and week dates). Arithmetic on ordinals is
  unbounded: the \<open>OverflowError\<close> past 9999-12-31 is not modelled, so ISO text is exact for
  \<open>valid_date\<close> ordinals only.
\<close>

definition max_ordinal :: date where
  "max_ordinal = 3652059"

definition valid_date :: "date \<Rightarrow> bool" where
  "valid_date d \<longleftrightarrow> 1 \<le> d \<and> d \<le> max_ordinal"

definition is_leap :: "int \<Rightarrow> bool" where
  "is_leap y \<longleftrightarrow> y mod 4 = 0 \<and> (y mod 100 \<noteq> 0 \<or> y mod 400 = 0)"

definition month_lengths :: "bool \<Rightarrow> int list" where
  "month_lengths leap = [31, if leap then 29 else 28, 31, 30, 31, 30, 31, 31, 30, 31, 30, 31]"

definition days_before_year :: "int \<Rightarrow> int" where
  "days_before_year y = (y - 1) * 365 + (y - 1) div 4 - (y - 1) div 100 + (y - 1) div 400"

definition days_before_month :: "bool \<Rightarrow> int \<Rightarrow> int" where
  "days_before_month leap m = sum_list (take (nat (m - 1)) (month_lengths leap))"

definition days_in_month :: "bool \<Rightarrow> int \<Rightarrow> int" where
  "days_in_month leap m = month_lengths leap ! nat (m - 1)"

text \<open>\<open>date(y, m, d)\<close>.\<close>

definition make_date :: "int \<Rightarrow> int \<Rightarrow> int \<Rightarrow> date res" where
  "make_date y m d =
     (if 1 \<le> y \<and> y \<le> 9999 \<and> 1 \<le> m \<and> m \<le> 12 \<and> 1 \<le> d \<and> d \<le> days_in_month (is_leap y) m
      then Inr (days_before_year y + days_before_month (is_leap y) m + d)
      else Inl ValueError)"

fun split_month :: "int list \<Rightarrow> int \<Rightarrow> int \<Rightarrow> int \<times> int" where
  "split_month [] m n = (m, n + 1)"
| "split_month (l # ls) m n = (if n < l then (m, n + 1) else split_month ls (m + 1) (n - l))"

definition ymd :: "date \<Rightarrow> int \<times> int \<times> int" where
  "ymd d =
     (let n = d - 1; n400 = n div 146097; r = n mod 146097;
          n100 = r div 36524; r100 = r mod 36524;
          n4 = r100 div 1461; r4 = r100 mod 1461;
          n1 = r4 div 365; r1 = r4 mod 365;
          year = n400 * 400 + n100 * 100 + n4 * 4 + n1 + 1
      in if n1 = 4 \<or> n100 = 4 then (year - 1, 12, 31)
         else (year, split_month (month_lengths (n1 = 3 \<and> (n4 \<noteq> 24 \<or> n100 = 3))) 1 r1))"

definition isoformat :: "date \<Rightarrow> ustr" where
  "isoformat d =
     (case ymd d of (y, m, k) \<Rightarrow>
        zfill 4 (nat_dec (nat y)) @ [45] @ zfill 2 (nat_dec (nat m)) @ [45] @ zfill 2 (nat_dec (nat k)))"

text \<open>ISO week dates: the Monday of week 1 is the one of the week with the year's first Thursday.\<close>

definition week1_monday :: "int \<Rightarrow> date" where
  "week1_monday y =
     (let first = days_before_year y + 1; wd = (first + 6) mod 7; monday = first - wd
      in if wd > 3 then monday + 7 else monday)"

definition iso_week_date :: "int \<Rightarrow> int \<Rightarrow> int \<Rightarrow> date res" where
  "iso_week_date y w k =
     (if 1 \<le> y \<and> y \<le> 9999 \<and> 1 \<le> k \<and> k \<le> 7 \<and>
         (1 \<le> w \<and> w \<le> 52 \<or>
          w = 53 \<and> (let wd = (days_before_year y + 1) mod 7
                     in wd = 4 \<or> wd = 3 \<and> is_leap y))
      then (let d = week1_monday y + (w - 1) * 7 + (k - 1)
            in if valid_date d then Inr d else Inl ValueError)
      else Inl ValueError)"

definition three_nats ::
  "ustr \<Rightarrow> ustr \<Rightarrow> ustr \<Rightarrow> (int \<Rightarrow> int \<Rightarrow> int \<Rightarrow> date res) \<Rightarrow> date res" where
  "three_nats a b c f =
     (case (parse_nat a, parse_nat b, parse_nat c) of
        (Some x, Some y, Some z) \<Rightarrow> f (int x) (int y) (int z)
      | _ \<Rightarrow> Inl ValueError)"

definition fromisoformat :: "ustr \<Rightarrow> date res" where
  "fromisoformat s =
     (let y = take 4 s; sep = (4 < length s \<and> s ! 4 = 45); t = (if sep then drop 5 s else drop 4 s)
      in if length s \<notin> {7, 8, 10} then Inl ValueError
         else if take 1 t = [87]
         then (let w = take 2 (drop 1 t); u = drop 3 t
               in if u = [] then three_nats y w [49] iso_week_date
                  else if sep
                  then (if length u = 2 \<and> hd u = 45 then three_nats y w (drop 1 u) iso_week_date else Inl ValueError)
                  else (if length u = 1 then three_nats y w u iso_week_date else Inl ValueError))
         else (let m = take 2 t; u = drop 2 t
               in if sep
                  then (if length u = 3 \<and> hd u = 45 then three_nats y m (drop 1 u) make_date else Inl ValueError)
                  else (if length u = 2 then three_nats y m u make_date else Inl ValueError)))"

subsection \<open>Ordinal to year-month-day and back\<close>

lemma split_month_spec:
  assumes "0 \<le> n" and "n < sum_list ls" and "split_month ls m n = (m', k)"
  shows "m \<le> m' \<and> nat (m' - m) < length ls \<and> 1 \<le> k \<and> k \<le> ls ! nat (m' - m) \<and>
    sum_list (take (nat (m' - m)) ls) + k = n + 1"
  using assms
proof (induction ls m n rule: split_month.induct)
  case (2 l ls m n)
  show ?case
  proof (cases "n < l")
    case False
    with 2 have IH: "m + 1 \<le> m' \<and> nat (m' - (m + 1)) < length ls \<and> 1 \<le> k \<and>
      k \<le> ls ! nat (m' - (m + 1)) \<and> sum_list (take (nat (m' - (m + 1))) ls) + k = n - l + 1"
      by auto
    then have "nat (m' - m) = Suc (nat (m' - (m + 1)))" by linarith
    with IH show ?thesis by auto
  qed (use 2 in auto)
qed auto

lemma month_lengths_sum: "sum_list (month_lengths leap) = (if leap then 366 else 365)"
  by (simp add: month_lengths_def)

lemma year_of_cycles:
  assumes "0 \<le> a" "0 \<le> b" "b \<le> 3" "0 \<le> c" "c \<le> 24" "0 \<le> e" "e \<le> (3 :: int)"
  shows "(a * 400 + b * 100 + c * 4 + e) div 4 = a * 100 + b * 25 + c"
    and "(a * 400 + b * 100 + c * 4 + e) div 100 = a * 4 + b"
    and "(a * 400 + b * 100 + c * 4 + e) div 400 = a"
  using assms by (auto intro!: int_div_pos_eq [of _ _ _ e] int_div_pos_eq [of _ _ _ "c * 4 + e"]
      int_div_pos_eq [of _ _ _ "b * 100 + c * 4 + e"])

lemma leap_of_cycles:
  assumes "0 \<le> a" "0 \<le> b" "b \<le> 3" "0 \<le> c" "c \<le> 24" "0 \<le> e" "e \<le> (3 :: int)"
  shows "is_leap (a * 400 + b * 100 + c * 4 + e + 1) \<longleftrightarrow> e = 3 \<and> (c \<noteq> 24 \<or> b = 3)"
proof -
  let ?y = "a * 400 + b * 100 + c * 4 + e + 1"
  have split4: "?y = e + 1 + 4 * (100 * a + 25 * b + c)" by simp
  have m4: "?y mod 4 = (e + 1) mod 4" unfolding split4 by (rule mod_mult_self2)
  have e4: "(e + 1) mod 4 = 0 \<longleftrightarrow> e = 3" using assms(6,7) by presburger
  have m25: "(100 * a + 25 * b + c + 1) mod 25 = (c + 1) mod 25"
    using mod_mult_self2 [of "c + 1" 25 "4 * a + b"] by (simp add: algebra_simps)
  have c25: "(c + 1) mod 25 = 0 \<longleftrightarrow> c = 24" using assms(4,5) by presburger
  have b4: "(4 * a + b + 1) mod 4 = 0 \<longleftrightarrow> b = 3" using assms(2,3) by presburger
  have m100: "?y mod 100 = 4 * ((c + 1) mod 25)" if "e = 3"
    using mod_mult_mult1 [of 4 "100 * a + 25 * b + c + 1" 25] that m25 by (simp add: algebra_simps)
  have m400: "?y mod 400 = 100 * ((4 * a + b + 1) mod 4)" if "e = 3" "c = 24"
    using mod_mult_mult1 [of 100 "4 * a + b + 1" 4] that by (simp add: algebra_simps)
  show ?thesis
  proof (cases "e = 3")
    case True
    show ?thesis
    proof (cases "c = 24")
      case True
      then show ?thesis using \<open>e = 3\<close> m4 e4 m100 c25 m400 b4 by (simp add: is_leap_def)
    next
      case False
      then show ?thesis using True m4 e4 m100 c25 by (simp add: is_leap_def)
    qed
  qed (use m4 e4 in \<open>simp add: is_leap_def\<close>)
qed

lemma days_before_cycles:
  assumes "0 \<le> a" "0 \<le> b" "b \<le> 3" "0 \<le> c" "c \<le> 24" "0 \<le> e" "e \<le> (3 :: int)"
  shows "days_before_year (a * 400 + b * 100 + c * 4 + e + 1) =
    a * 146097 + b * 36524 + c * 1461 + e * 365"
  using year_of_cycles [OF assms] by (simp add: days_before_year_def)

text \<open>The cycle counters of an ordinal, and what they add up to.\<close>

lemma cycles_of_ordinal:
  fixes n :: int
  defines "a \<equiv> n div 146097" and "r \<equiv> n mod 146097"
  defines "b \<equiv> r div 36524" and "s \<equiv> r mod 36524"
  defines "c \<equiv> s div 1461" and "t \<equiv> s mod 1461"
  defines "e \<equiv> t div 365" and "u \<equiv> t mod 365"
  assumes "0 \<le> n"
  shows "0 \<le> a" "0 \<le> b" "b \<le> 4" "0 \<le> c" "c \<le> 24" "0 \<le> e" "e \<le> 4" "0 \<le> u" "u \<le> 364"
    and "n = a * 146097 + b * 36524 + c * 1461 + e * 365 + u"
    and "b = 4 \<Longrightarrow> c = 0 \<and> e = 0 \<and> u = 0" and "e = 4 \<Longrightarrow> u = 0"
    and "c * 1461 + e * 365 + u < 36524"
proof -
  have n: "n = a * 146097 + r" "0 \<le> r" "r < 146097" by (simp_all add: a_def r_def)
  have r: "r = b * 36524 + s" "0 \<le> s" "s < 36524" by (simp_all add: b_def s_def)
  have s: "s = c * 1461 + t" "0 \<le> t" "t < 1461" by (simp_all add: c_def t_def)
  have t: "t = e * 365 + u" "0 \<le> u" "u < 365" by (simp_all add: e_def u_def)
  show "0 \<le> a" using \<open>0 \<le> n\<close> by (simp add: a_def pos_imp_zdiv_nonneg_iff)
  show b: "0 \<le> b" "b \<le> 4" using n r by linarith+
  show c: "0 \<le> c" "c \<le> 24" using r s by linarith+
  show e: "0 \<le> e" "e \<le> 4" using s t by linarith+
  show "0 \<le> u" "u \<le> 364" using t by linarith+
  show "n = a * 146097 + b * 36524 + c * 1461 + e * 365 + u" using n r s t by linarith
  show "e = 4 \<Longrightarrow> u = 0" using s t by linarith
  show "c * 1461 + e * 365 + u < 36524" using r s t by linarith
  show "b = 4 \<Longrightarrow> c = 0 \<and> e = 0 \<and> u = 0"
  proof -
    assume "b = 4"
    then have "s = 0" using n r by linarith
    then have "c = 0 \<and> t = 0" using s c by linarith
    then show "c = 0 \<and> e = 0 \<and> u = 0" using t e by linarith
  qed
qed

theorem make_date_ymd:
  assumes "valid_date d" and "ymd d = (y, m, k)"
  shows "make_date y m k = Inr d"
proof -
  define n where "n = d - 1"
  define a r where "a = n div 146097" and "r = n mod 146097"
  define b s where "b = r div 36524" and "s = r mod 36524"
  define c t where "c = s div 1461" and "t = s mod 1461"
  define e u where "e = t div 365" and "u = t mod 365"
  note defs = n_def a_def r_def b_def s_def c_def t_def e_def u_def
  have n0: "0 \<le> n" and n1: "n \<le> 3652058"
    using assms(1) by (auto simp: valid_date_def max_ordinal_def n_def)
  note cyc = cycles_of_ordinal [OF n0, folded a_def r_def, folded b_def s_def, folded c_def t_def,
      folded e_def u_def]
  have a24: "a \<le> 24" using n1 by (simp add: a_def) 
  have ymd_eq: "ymd d = (if e = 4 \<or> b = 4 then (a * 400 + b * 100 + c * 4 + e, 12, 31)
      else (a * 400 + b * 100 + c * 4 + e + 1, split_month (month_lengths (e = 3 \<and> (c \<noteq> 24 \<or> b = 3))) 1 u))"
    unfolding ymd_def Let_def defs by simp
  show ?thesis
  proof (cases "e = 4 \<or> b = 4")
    case True
    then obtain a' b' c' where
      y: "a * 400 + b * 100 + c * 4 + e = a' * 400 + b' * 100 + c' * 4 + 3 + 1"
      and ok: "0 \<le> a'" "a' \<le> 24" "0 \<le> b'" "b' \<le> 3" "0 \<le> c'" "c' \<le> 24"
      and leap: "c' \<noteq> 24 \<or> b' = 3"
      and n: "n = a' * 146097 + b' * 36524 + c' * 1461 + 3 * 365 + 365"
    proof (cases "b = 4")
      case True
      with cyc(11) have "c = 0" "e = 0" "u = 0" by auto
      then show ?thesis using that [of a 3 24] cyc a24 True by simp
    next
      case False
      with True have "e = 4" by simp
      with cyc(12) have "u = 0" by simp
      have "c \<noteq> 24 \<or> b = 3"
      proof (rule ccontr)
        assume "\<not> (c \<noteq> 24 \<or> b = 3)"
        then show False using cyc(13) \<open>e = 4\<close> \<open>u = 0\<close> by simp
      qed
      then show ?thesis using that [of a b c] cyc a24 False \<open>e = 4\<close> \<open>u = 0\<close> by simp
    qed
    have e3: "0 \<le> (3 :: int)" "3 \<le> (3 :: int)" by simp_all
    have "is_leap (a' * 400 + b' * 100 + c' * 4 + 3 + 1)"
      using leap_of_cycles [OF ok(1,3,4,5,6) e3] leap by simp
    moreover have "days_before_year (a' * 400 + b' * 100 + c' * 4 + 3 + 1) = n - 365"
      using days_before_cycles [OF ok(1,3,4,5,6) e3] n by simp
    moreover have "a' * 400 + b' * 100 + c' * 4 + 3 + 1 \<le> 9999"
      using n n1 ok by linarith
    moreover have "y = a' * 400 + b' * 100 + c' * 4 + 3 + 1" "m = 12" "k = 31"
      using assms(2) ymd_eq True y by auto
    ultimately show ?thesis
      using ok by (simp add: make_date_def days_before_month_def days_in_month_def month_lengths_def n_def)
  next
    case False
    then have b3: "b \<le> 3" and e3: "e \<le> 3" using cyc by auto
    note rng = cyc(1,2) b3 cyc(4,5,6) e3
    let ?leap = "e = 3 \<and> (c \<noteq> 24 \<or> b = 3)"
    have y: "y = a * 400 + b * 100 + c * 4 + e + 1" and sm: "split_month (month_lengths ?leap) 1 u = (m, k)"
      using assms(2) ymd_eq False by auto
    have "u < sum_list (month_lengths ?leap)" using cyc by (simp add: month_lengths_sum)
    from split_month_spec [OF cyc(8) this sm]
    have month: "1 \<le> m" "nat (m - 1) < 12" "1 \<le> k" "k \<le> days_in_month ?leap m"
      "days_before_month ?leap m + k = u + 1"
      by (simp_all add: days_in_month_def days_before_month_def month_lengths_def)
    have "y \<le> 9999" using n1 cyc y b3 e3 by linarith
    moreover have "is_leap y = ?leap" using leap_of_cycles [OF rng] y by simp
    moreover have "days_before_year y = n - u"
      using days_before_cycles [OF rng] y cyc(10) by simp
    ultimately show ?thesis
      using month rng y by (auto simp: make_date_def n_def)
  qed
qed


lemma days_in_month_le: "1 \<le> m \<Longrightarrow> m \<le> 12 \<Longrightarrow> days_in_month leap m \<le> 31"
proof -
  assume "1 \<le> m" "m \<le> 12"
  then have "nat (m - 1) < length (month_lengths leap)" by (simp add: month_lengths_def)
  then have "days_in_month leap m \<in> set (month_lengths leap)" unfolding days_in_month_def by (rule nth_mem)
  then show ?thesis by (auto simp: month_lengths_def split: if_splits)
qed

lemma ymd_bounds:
  assumes "valid_date d" and "ymd d = (y, m, k)"
  shows "1 \<le> y" "y \<le> 9999" "1 \<le> m" "m \<le> 12" "1 \<le> k" "k \<le> 31"
  using make_date_ymd [OF assms] days_in_month_le [of m "is_leap y"]
  by (auto simp: make_date_def split: if_splits)

lemma length_zfill_nat: "0 \<le> i \<Longrightarrow> i < 10 ^ w \<Longrightarrow> 0 < w \<Longrightarrow> length (zfill w (nat_dec (nat i))) = w"
  using nat_dec_length [of "nat i" w] by (simp add: length_zfill nat_less_iff)

lemma isoformat_parts:
  assumes "valid_date d"
  obtains y m k where "ymd d = (y, m, k)"
    and "isoformat d = zfill 4 (nat_dec (nat y)) @ [45] @ zfill 2 (nat_dec (nat m)) @ [45] @ zfill 2 (nat_dec (nat k))"
    and "length (zfill 4 (nat_dec (nat y))) = 4" "length (zfill 2 (nat_dec (nat m))) = 2"
    and "length (zfill 2 (nat_dec (nat k))) = 2" "0 \<le> y" "0 \<le> m" "0 \<le> k"
proof -
  obtain y m k where ymd: "ymd d = (y, m, k)" by (cases "ymd d") auto
  from ymd_bounds [OF assms ymd] show ?thesis
    by (intro that [OF ymd]) (simp_all add: isoformat_def ymd length_zfill_nat)
qed

lemma zfill_digits: "c \<in> set (zfill w (nat_dec n)) \<Longrightarrow> is_digit c"
  using nat_dec_digits [of n] by (auto simp: zfill_def list_all_iff is_digit_def)

theorem fromisoformat_isoformat [simp]:
  assumes "valid_date d"
  shows "fromisoformat (isoformat d) = Inr d"
proof -
  from isoformat_parts [OF assms] obtain y m k where *: "ymd d = (y, m, k)"
    "isoformat d = zfill 4 (nat_dec (nat y)) @ [45] @ zfill 2 (nat_dec (nat m)) @ [45] @ zfill 2 (nat_dec (nat k))"
    "length (zfill 4 (nat_dec (nat y))) = 4" "length (zfill 2 (nat_dec (nat m))) = 2"
    "length (zfill 2 (nat_dec (nat k))) = 2" "0 \<le> y" "0 \<le> m" "0 \<le> k" .
  obtain c1 c2 where m: "zfill 2 (nat_dec (nat m)) = [c1, c2]"
    using *(4) by (auto simp: length_Suc_conv numeral_2_eq_2)
  then have "is_digit c1" using zfill_digits [of c1 2 "nat m"] by simp
  then have w: "c1 \<noteq> 87" by (auto simp: is_digit_def)
  have pm: "parse_nat [c1, c2] = Some (nat m)" using parse_nat_zfill [of 2 "nat m"] m by simp
  show ?thesis
    unfolding *(2) fromisoformat_def m
    using *(3,5,6,7,8) w pm make_date_ymd [OF assms *(1)]
    by (simp add: Let_def nth_append three_nats_def)
qed

lemma isoformat_nonempty [simp]: "isoformat d \<noteq> []"
  by (simp add: isoformat_def split: prod.split)

text \<open>Checked against the runtime: 2026-07-08 and 2024-02-29, ISO text and week dates.\<close>

lemma isoformat_example: "isoformat 739805 = ascii ''2026-07-08''"
  by (simp add: isoformat_def ymd_def Let_def month_lengths_def zfill_def nat_dec.simps ascii_def)

lemma make_date_example: "make_date 2024 2 29 = Inr 738945" "make_date 2023 2 29 = Inl ValueError"
  by (simp_all add: make_date_def days_before_year_def is_leap_def days_before_month_def
      days_in_month_def month_lengths_def)

end
