(* ===== verification/Greedy_Solver.thy ===== *)
theory Greedy_Solver
  imports Capacity_Index Networkx_Port Domain_Units Py_Date
begin

section \<open>The greedy scheduler\<close>

text \<open>
  \<open>domain/solver/greedy.py\<close> from \<open>build_dag\<close> to \<open>GreedySolver.plan\<close>, one definition per function.
  The capacity index is threaded through every scan, since \<open>remaining\<close> stores into it. The calls
  that may raise return a \<open>res\<close>: \<open>NoPeopleError\<close>, \<open>NetworkXUnfeasible\<close> on a cycle, and the
  \<open>ValueError\<close> of \<open>min()\<close> over an empty list when a splittable task has no positive duration.
  \<open>timedelta\<close> arithmetic past year 9999 (an \<open>OverflowError\<close>) is not modelled.
\<close>

definition HORIZON_DAYS :: int where
  "HORIZON_DAYS = 365"

definition DAY_HOURS :: int where
  "DAY_HOURS = 8"

definition build_dag :: "task list \<Rightarrow> dependency list \<Rightarrow> digraph" where
  "build_dag tasks deps =
     map (\<lambda>t. AddNode (t_id t)) tasks @
     map (\<lambda>d. AddEdge (d_depends_on_id d) (d_task_id d)
                \<lparr>e_link_type = d_link_type d, e_lag = d_lag_working_days d\<rparr>) deps"

text \<open>The body of the loop of \<open>_earliest_start\<close>, and the loop.\<close>

definition dependency_candidate :: "working_calendar \<Rightarrow> edge_attr \<Rightarrow> assignment \<Rightarrow> date res" where
  "dependency_candidate calendar edge a =
     (let base = (if e_link_type edge = ascii ''FS'' then next_working_day calendar (a_end_date a)
                  else a_start_date a)
      in if e_lag edge > 0 then nth_working_day calendar base (e_lag edge)
         else Inr (first_working_day calendar base))"

definition earliest_start ::
  "networkx \<Rightarrow> task \<Rightarrow> digraph \<Rightarrow> (uuid, assignment) dict \<Rightarrow> date \<Rightarrow> working_calendar \<Rightarrow> date res" where
  "earliest_start nx task graph assignments horizon_start calendar =
     fold_res (\<lambda>dep_id est.
         case dict_get assignments dep_id of
           None \<Rightarrow> Inr est
         | Some a \<Rightarrow>
             bind_res (dependency_candidate calendar (nx_edge nx graph dep_id (t_id task)) a)
               (\<lambda>cand. Inr (if cand > est then cand else est)))
       (nx_predecessors nx graph (t_id task)) horizon_start"

subsection \<open>Placing one task\<close>

text \<open>
  The loops of \<open>_allocate_single\<close> and \<open>_allocate_pair\<close> differ only in their condition: the first
  day up to the limit that fits, with the index the reads left behind. The conditions are
  short-circuit: capacity is read on working days only, the second person's only if the first fits.
\<close>

definition single_fits :: "working_calendar \<Rightarrow> uuid \<Rightarrow> int \<Rightarrow> capacity_index \<Rightarrow> date \<Rightarrow> bool \<times> capacity_index" where
  "single_fits calendar pid hours idx day =
     (if is_working_day calendar day
      then (let (left, idx1) = remaining idx pid day in (left \<ge> hours, idx1))
      else (False, idx))"

definition pair_fits ::
  "working_calendar \<Rightarrow> uuid \<Rightarrow> uuid \<Rightarrow> int \<Rightarrow> capacity_index \<Rightarrow> date \<Rightarrow> bool \<times> capacity_index" where
  "pair_fits calendar pid1 pid2 hours idx day =
     (if is_working_day calendar day
      then (let (left1, idx1) = remaining idx pid1 day
            in if left1 \<ge> hours
               then (let (left2, idx2) = remaining idx1 pid2 day in (left2 \<ge> hours, idx2))
               else (False, idx1))
      else (False, idx))"

function first_fit ::
  "(capacity_index \<Rightarrow> date \<Rightarrow> bool \<times> capacity_index) \<Rightarrow> capacity_index \<Rightarrow> date \<Rightarrow> date \<Rightarrow> date option \<times> capacity_index" where
  "first_fit fits idx day horizon_limit =
     (if day \<le> horizon_limit
      then (case fits idx day of
              (True, idx1) \<Rightarrow> (Some day, idx1)
            | (False, idx1) \<Rightarrow> first_fit fits idx1 (day + 1) horizon_limit)
      else (None, idx))"
  by pat_completeness auto
termination
  by (relation "measure (\<lambda>(fits, idx, day, limit). nat (limit + 1 - day))") auto

declare first_fit.simps [simp del]

text \<open>A placement: the allocations with the start and end day.\<close>

type_synonym placement = "day_allocation list \<times> date \<times> date"

definition allocation :: "uuid \<Rightarrow> date \<Rightarrow> int \<Rightarrow> day_allocation" where
  "allocation pid day hours = \<lparr>al_person_id = pid, al_day = day, al_hours = hours\<rparr>"

definition allocate_single ::
  "task \<Rightarrow> person \<Rightarrow> date \<Rightarrow> working_calendar \<Rightarrow> capacity_index \<Rightarrow> date \<Rightarrow> placement \<times> capacity_index" where
  "allocate_single task person earliest calendar idx horizon_limit =
     (let (found, idx1) =
            first_fit (single_fits calendar (p_id person) (t_duration_hours task)) idx
              (first_working_day calendar earliest) horizon_limit;
          placed = (case found of None \<Rightarrow> first_working_day calendar earliest | Some day \<Rightarrow> day)
      in (([allocation (p_id person) placed (t_duration_hours task)], placed, placed), idx1))"

text \<open>The loop of \<open>_allocate_split\<close>: hours left to place, allocations made so far.\<close>

function split_scan ::
  "working_calendar \<Rightarrow> uuid \<Rightarrow> int \<Rightarrow> date \<Rightarrow> day_allocation list \<Rightarrow> capacity_index \<Rightarrow> date
    \<Rightarrow> int \<times> day_allocation list \<times> capacity_index" where
  "split_scan calendar pid left day allocs idx horizon_limit =
     (if left > 0 \<and> day \<le> horizon_limit
      then (if is_working_day calendar day
            then (let (cap, idx1) = remaining idx pid day
                  in if cap > 0
                     then split_scan calendar pid (left - min cap left) (day + 1)
                            (allocs @ [allocation pid day (min cap left)]) idx1 horizon_limit
                     else split_scan calendar pid left (day + 1) allocs idx1 horizon_limit)
            else split_scan calendar pid left (day + 1) allocs idx horizon_limit)
      else (left, allocs, idx))"
  by pat_completeness auto
termination
  by (relation "measure (\<lambda>(cal, pid, left, day, allocs, idx, limit). nat (limit + 1 - day))") auto

declare split_scan.simps [simp del]

definition allocate_split ::
  "task \<Rightarrow> person \<Rightarrow> date \<Rightarrow> working_calendar \<Rightarrow> capacity_index \<Rightarrow> date
    \<Rightarrow> (placement \<times> capacity_index) res" where
  "allocate_split task person earliest calendar idx horizon_limit =
     (let start = first_working_day calendar earliest;
          (left, allocs, idx1) =
            split_scan calendar (p_id person) (t_duration_hours task) start [] idx horizon_limit;
          all_allocs = (if left > 0 then allocs @ [allocation (p_id person) start left] else allocs)
      in if all_allocs = [] then Inl ValueError
         else Inr ((all_allocs, Min (set (map al_day all_allocs)), Max (set (map al_day all_allocs))), idx1))"

definition allocate ::
  "task \<Rightarrow> person \<Rightarrow> date \<Rightarrow> working_calendar \<Rightarrow> capacity_index \<Rightarrow> date
    \<Rightarrow> (placement \<times> capacity_index) res" where
  "allocate task person earliest calendar idx horizon_limit =
     (if t_is_splittable task then allocate_split task person earliest calendar idx horizon_limit
      else Inr (allocate_single task person earliest calendar idx horizon_limit))"

definition allocate_window :: "task \<Rightarrow> date \<Rightarrow> working_calendar \<Rightarrow> placement res" where
  "allocate_window task earliest calendar =
     (let span = max 1 (- ((- t_duration_hours task) div DAY_HOURS));
          start = first_working_day calendar earliest
      in bind_res (nth_working_day calendar start span) (\<lambda>end. Inr ([], start, end)))"

definition allocate_pair ::
  "task \<Rightarrow> person \<Rightarrow> person \<Rightarrow> date \<Rightarrow> working_calendar \<Rightarrow> capacity_index \<Rightarrow> date
    \<Rightarrow> placement \<times> capacity_index" where
  "allocate_pair task p1 p2 earliest calendar idx horizon_limit =
     (let (found, idx1) =
            first_fit (pair_fits calendar (p_id p1) (p_id p2) (t_duration_hours task)) idx
              (first_working_day calendar earliest) horizon_limit;
          placed = (case found of None \<Rightarrow> first_working_day calendar earliest | Some day \<Rightarrow> day)
      in (([allocation (p_id p1) placed (t_duration_hours task),
            allocation (p_id p2) placed (t_duration_hours task)], placed, placed), idx1))"

text \<open>The loop over the candidates: the first placement whose (start, end) none beats.\<close>

type_synonym choice = "placement \<times> person"

definition better :: "placement \<Rightarrow> choice option \<Rightarrow> bool" where
  "better pl best =
     (case best of None \<Rightarrow> True | Some (pl0, p0) \<Rightarrow> snd pl < snd pl0)"

definition try_candidate ::
  "task \<Rightarrow> date \<Rightarrow> working_calendar \<Rightarrow> date \<Rightarrow> person \<Rightarrow> choice option \<times> capacity_index
    \<Rightarrow> (choice option \<times> capacity_index) res" where
  "try_candidate task earliest calendar horizon_limit cand = (\<lambda>(best, idx).
     bind_res (allocate task cand earliest calendar idx horizon_limit)
       (\<lambda>(pl, idx1). Inr (if better pl best then Some (pl, cand) else best, idx1)))"

definition best_candidate ::
  "task \<Rightarrow> date \<Rightarrow> working_calendar \<Rightarrow> capacity_index \<Rightarrow> date \<Rightarrow> person list
    \<Rightarrow> (choice option \<times> capacity_index) res" where
  "best_candidate task earliest calendar idx horizon_limit allowed =
     fold_res (try_candidate task earliest calendar horizon_limit) allowed (None, idx)"

text \<open>The three ways to place a task; \<open>allowed[0]\<close> of an empty list raises, as does the \<open>assert\<close>.\<close>

definition choose_placement ::
  "task \<Rightarrow> date \<Rightarrow> working_calendar \<Rightarrow> capacity_index \<Rightarrow> date \<Rightarrow> person list
    \<Rightarrow> (choice \<times> capacity_index) res" where
  "choose_placement task earliest calendar idx horizon_limit allowed =
     (if t_duration_is_window task
      then bind_res (allocate_window task earliest calendar)
             (\<lambda>pl. case allowed of [] \<Rightarrow> Inl IndexError | p # ps \<Rightarrow> Inr ((pl, p), idx))
      else if t_pair_mode task = ascii ''required'' \<and> length allowed \<ge> 2
      then (let (pl, idx1) =
                  allocate_pair task (allowed ! 0) (allowed ! 1) earliest calendar idx horizon_limit
            in Inr ((pl, allowed ! 0), idx1))
      else bind_res (best_candidate task earliest calendar idx horizon_limit allowed)
             (\<lambda>(best, idx1). case best of
                None \<Rightarrow> Inl (OtherError (ascii ''AssertionError''))
              | Some choice \<Rightarrow> Inr (choice, idx1)))"

subsection \<open>GreedySolver.plan\<close>

text \<open>What the loop of \<open>plan\<close> mutates: the \<open>assignments\<close> dictionary and the capacity index.\<close>

record solver_state =
  ss_assignments :: "(uuid, assignment) dict"
  ss_idx :: capacity_index

definition assignment_of :: "uuid \<Rightarrow> choice \<Rightarrow> assignment" where
  "assignment_of tid choice =
     (case choice of ((allocs, start, end), person) \<Rightarrow>
       \<lparr>a_task_id = tid, a_person_id = p_id person, a_start_date = start, a_end_date = end,
        a_allocations = allocs\<rparr>)"

definition record_assignment :: "assignment \<Rightarrow> solver_state \<Rightarrow> solver_state" where
  "record_assignment a st =
     \<lparr>ss_assignments = dict_set (a_task_id a) a (ss_assignments st),
      ss_idx = occupy (a_allocations a) (ss_idx st)\<rparr>"

definition is_pinned :: "task \<Rightarrow> bool" where
  "is_pinned t \<longleftrightarrow>
     t_status t = ascii ''done'' \<and> t_fixed_start t \<noteq> None \<and> t_fixed_assignee_id t \<noteq> None"

definition pinned_assignment :: "task \<Rightarrow> assignment" where
  "pinned_assignment t =
     (let who = the (t_fixed_assignee_id t); start = the (t_fixed_start t) in
      \<lparr>a_task_id = t_id t, a_person_id = who, a_start_date = start,
       a_end_date = (case t_fixed_end t of None \<Rightarrow> start | Some d \<Rightarrow> d),
       a_allocations = [allocation who start (t_duration_hours t)]\<rparr>)"

definition place_fixed :: "task list \<Rightarrow> solver_state \<Rightarrow> solver_state" where
  "place_fixed tasks st =
     fold (\<lambda>t st. if is_pinned t then record_assignment (pinned_assignment t) st else st) tasks st"

definition tasks_by_id :: "plan_request \<Rightarrow> (uuid, task) dict" where
  "tasks_by_id req = dict_of (map (\<lambda>t. (t_id t, t)) (rq_tasks req))"

definition people_by_id :: "plan_request \<Rightarrow> (uuid, person) dict" where
  "people_by_id req = dict_of (map (\<lambda>p. (p_id p, p)) (rq_people req))"

text \<open>\<open>[...] or list(req.people)\<close>\<close>

definition bound_people :: "plan_request \<Rightarrow> task \<Rightarrow> person list" where
  "bound_people req task = List.map_filter (dict_get (people_by_id req)) (t_allowed_person_ids task)"

definition allowed_people :: "plan_request \<Rightarrow> task \<Rightarrow> person list" where
  "allowed_people req task =
     (if bound_people req task = [] then rq_people req else bound_people req task)"

definition plan_graph :: "plan_request \<Rightarrow> digraph" where
  "plan_graph req = build_dag (rq_tasks req) (rq_dependencies req)"

definition horizon_limit_of :: "plan_request \<Rightarrow> date" where
  "horizon_limit_of req = rq_horizon_start req + HORIZON_DAYS"

definition place_task ::
  "networkx \<Rightarrow> working_calendar \<Rightarrow> plan_request \<Rightarrow> uuid \<Rightarrow> task \<Rightarrow> solver_state \<Rightarrow> solver_state res" where
  "place_task nx calendar req tid task st =
     bind_res (earliest_start nx task (plan_graph req) (ss_assignments st) (rq_horizon_start req) calendar)
       (\<lambda>earliest.
     bind_res (choose_placement task earliest calendar (ss_idx st) (horizon_limit_of req)
                (allowed_people req task))
       (\<lambda>(choice, idx1). Inr (record_assignment (assignment_of tid choice) (st\<lparr>ss_idx := idx1\<rparr>))))"

definition place_node ::
  "networkx \<Rightarrow> working_calendar \<Rightarrow> plan_request \<Rightarrow> uuid \<Rightarrow> solver_state \<Rightarrow> solver_state res" where
  "place_node nx calendar req tid st =
     (if dict_has (ss_assignments st) tid then Inr st
      else case dict_get (tasks_by_id req) tid of
             None \<Rightarrow> Inr st
           | Some task \<Rightarrow> place_task nx calendar req tid task st)"

definition initial_state :: "working_calendar \<Rightarrow> plan_request \<Rightarrow> solver_state" where
  "initial_state calendar req =
     place_fixed (rq_tasks req)
       \<lparr>ss_assignments = [],
        ss_idx = capacity_index_init (rq_people req) calendar (rq_day_overrides req)
                   (rq_existing_allocations req)\<rparr>"

text \<open>The messages are those of the source: the Cyrillic text of an overload flag by code points.\<close>

definition overload_message :: "int \<Rightarrow> date \<Rightarrow> ustr" where
  "overload_message used_days day =
     [8776] @ int_dec used_days @
     [32, 1088, 1072, 1073, 46, 32, 1076, 1085, 46, 32, 1085, 1072, 1075, 1088, 1091, 1079, 1082,
      1080, 32, 1085, 1072, 32, 49, 32, 1076, 1077, 1085, 1100, 44, 32] @ isoformat day @ [46]"

definition overload_flag :: "uuid \<times> date \<times> int \<times> int \<Rightarrow> risk_flag" where
  "overload_flag = (\<lambda>(pid, day, used, base).
     \<lparr>r_kind = ascii ''overload'',
      r_message = overload_message (hours_to_working_days used base) day,
      r_task_id = None, r_person_id = Some pid, r_day = Some day\<rparr>)"

definition overload_flags :: "capacity_index \<Rightarrow> risk_flag list" where
  "overload_flags idx = map overload_flag (overloads idx)"

definition deadline_flag :: "date \<Rightarrow> date \<Rightarrow> risk_flag" where
  "deadline_flag end_date deadline =
     \<lparr>r_kind = ascii ''deadline_missed'',
      r_message = ascii ''Plan ends '' @ isoformat end_date @ ascii '', deadline '' @
                  isoformat deadline @ ascii ''.'',
      r_task_id = None, r_person_id = None, r_day = None\<rparr>"

definition end_date_of :: "assignment list \<Rightarrow> date option" where
  "end_date_of as = (if as = [] then None else Some (Max (set (map a_end_date as))))"

definition deadline_risks :: "date option \<Rightarrow> date option \<Rightarrow> risk_flag list" where
  "deadline_risks deadline end_date =
     (case (deadline, end_date) of
        (Some dl, Some e) \<Rightarrow> if e > dl then [deadline_flag e dl] else []
      | _ \<Rightarrow> [])"

definition finish_plan :: "plan_request \<Rightarrow> uuid list \<Rightarrow> solver_state \<Rightarrow> plan_result" where
  "finish_plan req order st =
     (let end_date = end_date_of (dict_values (ss_assignments st)) in
      \<lparr>pl_assignments = List.map_filter (dict_get (ss_assignments st)) order,
       pl_risks = overload_flags (ss_idx st) @ deadline_risks (rq_deadline req) end_date,
       pl_end_date = end_date\<rparr>)"

definition plan :: "networkx \<Rightarrow> working_calendar \<Rightarrow> plan_request \<Rightarrow> plan_result res" where
  "plan nx calendar req =
     (if rq_tasks req \<noteq> [] \<and> rq_people req = [] then Inl NoPeopleError
      else case nx_topological_sort nx (plan_graph req) of
             None \<Rightarrow> Inl NetworkXUnfeasible
           | Some order \<Rightarrow>
               bind_res (fold_res (place_node nx calendar req) order (initial_state calendar req))
                 (\<lambda>st. Inr (finish_plan req order st)))"

end
