(* ===== verification/Greedy_Placement.thy ===== *)
theory Greedy_Placement
  imports Greedy_Solver
begin

section \<open>Correctness of placing one task\<close>

text \<open>
  What the placement functions of \<open>greedy.py\<close> promise for one task and one index. The two search
  loops share the locale \<open>fit_condition\<close>: a condition read through the index, which leaves the
  view of the index alone. The lemmas that need the calendar's contract are proved in
  \<open>context calendar_port\<close>.
\<close>

subsection \<open>Searching the first day that fits\<close>

locale fit_condition =
  fixes fits :: "capacity_index \<Rightarrow> date \<Rightarrow> bool \<times> capacity_index"
    and holds :: "capacity_index \<Rightarrow> date \<Rightarrow> bool"
  assumes fits_value: "fst (fits idx day) = holds idx day"
    and fits_view: "same_view idx (snd (fits idx day))"
    and fits_ok: "index_ok idx \<Longrightarrow> index_ok (snd (fits idx day))"
    and holds_cong: "same_view i j \<Longrightarrow> holds i = holds j"
begin

text \<open>One unfolding of the search with the condition in place of the read.\<close>

lemma first_fit_step:
  obtains idx1 where "same_view idx idx1" and "index_ok idx \<Longrightarrow> index_ok idx1"
    and "first_fit fits idx day limit =
      (if day \<le> limit then if holds idx day then (Some day, idx1) else first_fit fits idx1 (day + 1) limit
       else (None, idx))"
proof (rule that)
  show "same_view idx (snd (fits idx day))" by (rule fits_view)
  show "index_ok idx \<Longrightarrow> index_ok (snd (fits idx day))" by (rule fits_ok)
  show "first_fit fits idx day limit =
      (if day \<le> limit then if holds idx day then (Some day, snd (fits idx day))
         else first_fit fits (snd (fits idx day)) (day + 1) limit
       else (None, idx))"
    using fits_value [of idx day]
    by (subst first_fit.simps) (auto split: prod.split bool.split)
qed

lemma first_fit_spec:
  assumes "first_fit fits idx day limit = (found, idx')"
  shows "same_view idx idx' \<and> (index_ok idx \<longrightarrow> index_ok idx') \<and>
    (case found of
       Some d \<Rightarrow> day \<le> d \<and> d \<le> limit \<and> holds idx d \<and> (\<forall>e. day \<le> e \<longrightarrow> e < d \<longrightarrow> \<not> holds idx e)
     | None \<Rightarrow> \<forall>e. day \<le> e \<longrightarrow> e \<le> limit \<longrightarrow> \<not> holds idx e)"
  using assms
proof (induction "nat (limit + 1 - day)" arbitrary: idx day rule: less_induct)
  case less
  obtain idx1 where view: "same_view idx idx1" and ok: "index_ok idx \<Longrightarrow> index_ok idx1"
    and step: "first_fit fits idx day limit =
      (if day \<le> limit then if holds idx day then (Some day, idx1) else first_fit fits idx1 (day + 1) limit
       else (None, idx))"
    using first_fit_step [of idx day limit] by blast
  show ?case
  proof (cases "day \<le> limit \<and> \<not> holds idx day")
    case True
    then have rec: "first_fit fits idx1 (day + 1) limit = (found, idx')" using step less.prems by simp
    have split: "day \<le> e \<longleftrightarrow> e = day \<or> day + 1 \<le> e" for e by auto
    have "holds idx1 = holds idx" using holds_cong [OF view] by simp
    with True view ok less.hyps [OF _ rec] show ?thesis
      by (cases found) (auto intro: same_view_trans simp: split)
  qed (use step less.prems view ok in \<open>auto split: if_splits\<close>)
qed

lemma first_fit_end: "limit < day \<Longrightarrow> first_fit fits idx day limit = (None, idx)"
  by (subst first_fit.simps) simp

end

definition single_holds :: "working_calendar \<Rightarrow> uuid \<Rightarrow> int \<Rightarrow> capacity_index \<Rightarrow> date \<Rightarrow> bool" where
  "single_holds cal pid hours idx day \<longleftrightarrow> is_working_day cal day \<and> hours \<le> free_hours idx pid day"

definition pair_holds ::
  "working_calendar \<Rightarrow> uuid \<Rightarrow> uuid \<Rightarrow> int \<Rightarrow> capacity_index \<Rightarrow> date \<Rightarrow> bool" where
  "pair_holds cal pid1 pid2 hours idx day \<longleftrightarrow>
     is_working_day cal day \<and> hours \<le> free_hours idx pid1 day \<and> hours \<le> free_hours idx pid2 day"

interpretation single: fit_condition "single_fits cal pid hours" "single_holds cal pid hours"
  for cal pid hours
proof unfold_locales
  fix idx day i j
  show "fst (single_fits cal pid hours idx day) = single_holds cal pid hours idx day"
    by (simp add: single_fits_def single_holds_def idx_simps split_beta)
  show "same_view idx (snd (single_fits cal pid hours idx day))"
    by (simp add: single_fits_def remaining_view split_beta)
  show "index_ok idx \<Longrightarrow> index_ok (snd (single_fits cal pid hours idx day))"
    by (simp add: single_fits_def index_ok_remaining split_beta)
  show "same_view i j \<Longrightarrow> single_holds cal pid hours i = single_holds cal pid hours j"
    by (auto simp: single_holds_def fun_eq_iff free_hours_cong)
qed

interpretation pair: fit_condition "pair_fits cal pid1 pid2 hours" "pair_holds cal pid1 pid2 hours"
  for cal pid1 pid2 hours
proof unfold_locales
  fix idx day i j
  have step: "free_hours (snd (remaining idx pid1 day)) = free_hours idx"
    using free_hours_cong [OF remaining_view] by simp
  show "fst (pair_fits cal pid1 pid2 hours idx day) = pair_holds cal pid1 pid2 hours idx day"
    by (simp add: pair_fits_def pair_holds_def idx_simps split_beta step)
  show "same_view idx (snd (pair_fits cal pid1 pid2 hours idx day))"
    using same_view_trans [OF remaining_view remaining_view] remaining_view
    by (simp add: pair_fits_def split_beta)
  show "index_ok idx \<Longrightarrow> index_ok (snd (pair_fits cal pid1 pid2 hours idx day))"
    by (simp add: pair_fits_def index_ok_remaining split_beta)
  show "same_view i j \<Longrightarrow> pair_holds cal pid1 pid2 hours i = pair_holds cal pid1 pid2 hours j"
    by (auto simp: pair_holds_def fun_eq_iff free_hours_cong)
qed

subsection \<open>The split loop\<close>

text \<open>Hours a list of allocations gives one person.\<close>

definition person_hours :: "day_allocation list \<Rightarrow> uuid \<Rightarrow> int" where
  "person_hours als pid = sum_list (map al_hours (filter (\<lambda>al. al_person_id al = pid) als))"

lemma person_hours_simps [simp]:
  "person_hours [] pid = 0"
  "person_hours (al # als) pid = (if al_person_id al = pid then al_hours al else 0) + person_hours als pid"
  "person_hours (als @ bls) pid = person_hours als pid + person_hours bls pid"
  by (simp_all add: person_hours_def)

lemma allocation_simps [simp]:
  "al_person_id (allocation pid day h) = pid" "al_day (allocation pid day h) = day"
  "al_hours (allocation pid day h) = h"
  by (simp_all add: allocation_def)

text \<open>
  Of the allocations the loop adds: they belong to the person, lie on working days of the range
  with a positive number of hours the day has free, in strictly increasing order of days, and add
  up to the hours that left the counter. A working day with free hours that the loop did not use up
  lies on or after the last allocation of a loop that placed everything.
\<close>

definition split_added ::
  "working_calendar \<Rightarrow> uuid \<Rightarrow> capacity_index \<Rightarrow> date \<Rightarrow> date \<Rightarrow> int \<Rightarrow> day_allocation list \<Rightarrow> bool" where
  "split_added cal pid idx day limit left' als \<longleftrightarrow>
     (\<forall>al \<in> set als. al_person_id al = pid \<and> day \<le> al_day al \<and> al_day al \<le> limit \<and>
        is_working_day cal (al_day al) \<and> 0 < al_hours al \<and> al_hours al \<le> free_hours idx pid (al_day al)) \<and>
     sorted_wrt (<) (map al_day als) \<and>
     (\<forall>e. day \<le> e \<longrightarrow> e \<le> limit \<longrightarrow> is_working_day cal e \<longrightarrow> 0 < free_hours idx pid e \<longrightarrow>
        allocation pid e (free_hours idx pid e) \<in> set als \<or> left' \<le> 0 \<and> (\<forall>al \<in> set als. al_day al \<le> e))"

lemma split_added_cong: "same_view i j \<Longrightarrow> split_added cal pid i = split_added cal pid j"
  by (intro ext) (simp add: split_added_def free_hours_cong)

lemma split_added_skip:
  assumes "split_added cal pid idx (day + 1) limit left' als"
    and "\<not> (is_working_day cal day \<and> 0 < free_hours idx pid day)"
  shows "split_added cal pid idx day limit left' als"
proof -
  have split: "day \<le> e \<longleftrightarrow> e = day \<or> day + 1 \<le> e" for e by auto
  show ?thesis using assms by (auto simp: split_added_def split)
qed

lemma split_added_take:
  assumes "split_added cal pid idx (day + 1) limit left' als"
    and "is_working_day cal day" "0 < free_hours idx pid day" "day \<le> limit" "0 < left"
    and "free_hours idx pid day < left \<or> als = [] \<and> left' \<le> 0"
  shows "split_added cal pid idx day limit left' (allocation pid day (min (free_hours idx pid day) left) # als)"
proof -
  have split: "day \<le> e \<longleftrightarrow> e = day \<or> day + 1 \<le> e" for e by auto
  show ?thesis using assms by (auto simp: split_added_def split min_def)
qed

lemma split_scan_done: "left \<le> 0 \<or> limit < day \<Longrightarrow> split_scan cal pid left day als idx limit = (left, als, idx)"
  by (subst split_scan.simps) auto

lemma split_scan_step:
  assumes "0 < left" and "day \<le> limit"
  obtains idx1 where "same_view idx idx1" and "index_ok idx \<Longrightarrow> index_ok idx1"
    and "split_scan cal pid left day als idx limit =
      (if is_working_day cal day \<and> 0 < free_hours idx pid day
       then split_scan cal pid (left - min (free_hours idx pid day) left) (day + 1)
              (als @ [allocation pid day (min (free_hours idx pid day) left)]) idx1 limit
       else split_scan cal pid left (day + 1) als idx1 limit)"
proof (cases "is_working_day cal day")
  case True
  show thesis
  proof (rule that)
    show "same_view idx (snd (remaining idx pid day))" by (rule remaining_view)
    show "index_ok idx \<Longrightarrow> index_ok (snd (remaining idx pid day))" by (rule index_ok_remaining)
  qed (use True assms in \<open>subst split_scan.simps, simp add: split_beta idx_simps\<close>)
qed (rule that [of idx], use assms in \<open>simp_all add: split_scan.simps [of cal pid left day als idx limit]\<close>)

lemma split_scan_spec:
  assumes "split_scan cal pid left day als idx limit = (left', als', idx')" and "0 \<le> left"
  shows "\<exists>new. als' = als @ new \<and> 0 \<le> left' \<and> person_hours new pid = left - left' \<and>
    (left = 0 \<longrightarrow> new = []) \<and>
    same_view idx idx' \<and> (index_ok idx \<longrightarrow> index_ok idx') \<and> split_added cal pid idx day limit left' new"
  using assms
proof (induction "nat (limit + 1 - day)" arbitrary: left day als idx rule: less_induct)
  case less
  show ?case
  proof (cases "0 < left \<and> day \<le> limit")
    case False
    then show ?thesis using less.prems by (auto simp: split_scan_done split_added_def)
  next
    case True
    obtain idx1 where view: "same_view idx idx1" and ok: "index_ok idx \<Longrightarrow> index_ok idx1"
      and step: "split_scan cal pid left day als idx limit =
        (if is_working_day cal day \<and> 0 < free_hours idx pid day
         then split_scan cal pid (left - min (free_hours idx pid day) left) (day + 1)
                (als @ [allocation pid day (min (free_hours idx pid day) left)]) idx1 limit
         else split_scan cal pid left (day + 1) als idx1 limit)"
      using split_scan_step [of left day limit idx cal pid als] True by blast
    note IH = less.hyps [of "day + 1" _ _ idx1, unfolded split_added_cong [OF view, symmetric]]
    show ?thesis
    proof (cases "is_working_day cal day \<and> 0 < free_hours idx pid day")
      case False
      with step less.prems(1) have "split_scan cal pid left (day + 1) als idx1 limit = (left', als', idx')"
        by simp
      from IH [OF _ this less.prems(2)] True view ok split_added_skip [OF _ False]
      show ?thesis by (auto intro: same_view_trans)
    next
      case take: True
      let ?h = "min (free_hours idx pid day) left"
      from take step less.prems(1)
      have "split_scan cal pid (left - ?h) (day + 1) (als @ [allocation pid day ?h]) idx1 limit = (left', als', idx')"
        by simp
      from IH [OF _ this] True obtain new where new: "als' = als @ allocation pid day ?h # new"
        "0 \<le> left'" "person_hours new pid = left - ?h - left'" "left - ?h = 0 \<longrightarrow> new = []"
        "same_view idx1 idx'" "index_ok idx1 \<longrightarrow> index_ok idx'"
        "split_added cal pid idx (day + 1) limit left' new" by auto
      have "free_hours idx pid day < left \<or> new = [] \<and> left' \<le> 0"
        using new(3,4) by (cases "free_hours idx pid day < left") auto
      then have "split_added cal pid idx day limit left' (allocation pid day ?h # new)"
        using split_added_take [OF new(7)] take True by blast
      then show ?thesis
        using new True view ok by (intro exI [of _ "allocation pid day ?h # new"]) (auto intro: same_view_trans)
    qed
  qed
qed

subsection \<open>Single, pair, split and window placements\<close>

text \<open>
  \<open>earliest_fit\<close> specifies the search: the least day of \<open>[first, limit]\<close> that fits, or \<open>first\<close> when
  none does (the overload is then dumped there).
\<close>

definition earliest_fit :: "(date \<Rightarrow> bool) \<Rightarrow> date \<Rightarrow> date \<Rightarrow> date \<Rightarrow> bool" where
  "earliest_fit fit first limit s \<longleftrightarrow>
     (if \<exists>d. first \<le> d \<and> d \<le> limit \<and> fit d
      then first \<le> s \<and> s \<le> limit \<and> fit s \<and> (\<forall>d. first \<le> d \<longrightarrow> d < s \<longrightarrow> \<not> fit d)
      else s = first)"

text \<open>What every placement promises, whatever the kind of task.\<close>

definition placed_well ::
  "working_calendar \<Rightarrow> date \<Rightarrow> placement \<Rightarrow> bool" where
  "placed_well cal earliest = (\<lambda>(als, s, e).
     earliest \<le> s \<and> s \<le> e \<and> is_working_day cal s \<and> is_working_day cal e \<and>
     (\<forall>al \<in> set als. is_working_day cal (al_day al) \<and> s \<le> al_day al \<and> al_day al \<le> e))"

definition index_read :: "capacity_index \<Rightarrow> capacity_index \<Rightarrow> bool" where
  "index_read idx idx' \<longleftrightarrow> same_view idx idx' \<and> (index_ok idx \<longrightarrow> index_ok idx')"

lemma index_read_refl [simp]: "index_read idx idx"
  by (simp add: index_read_def)

lemma index_read_trans [trans]: "index_read i j \<Longrightarrow> index_read j k \<Longrightarrow> index_read i k"
  by (auto simp: index_read_def intro: same_view_trans)

lemma single_search:
  assumes "first_fit (single_fits cal pid h) idx first limit = (found, idx')"
  shows "index_read idx idx' \<and>
    earliest_fit (single_holds cal pid h idx) first limit (case found of None \<Rightarrow> first | Some d \<Rightarrow> d)"
  using single.first_fit_spec [OF assms]
  by (cases found) (auto simp: index_read_def earliest_fit_def)

lemma pair_search:
  assumes "first_fit (pair_fits cal p1 p2 h) idx first limit = (found, idx')"
  shows "index_read idx idx' \<and>
    earliest_fit (pair_holds cal p1 p2 h idx) first limit (case found of None \<Rightarrow> first | Some d \<Rightarrow> d)"
  using pair.first_fit_spec [OF assms]
  by (cases found) (auto simp: index_read_def earliest_fit_def)

lemma allocate_single_spec:
  assumes "allocate_single task person earliest cal idx limit = ((als, s, e), idx')"
  shows "als = [allocation (p_id person) s (t_duration_hours task)] \<and> e = s \<and> index_read idx idx' \<and>
    earliest_fit (single_holds cal (p_id person) (t_duration_hours task) idx)
      (first_working_day cal earliest) limit s"
  using assms single_search by (auto simp: allocate_single_def Let_def split: prod.splits)

lemma allocate_pair_spec:
  assumes "allocate_pair task p1 p2 earliest cal idx limit = ((als, s, e), idx')"
  shows "als = [allocation (p_id p1) s (t_duration_hours task), allocation (p_id p2) s (t_duration_hours task)] \<and>
    e = s \<and> index_read idx idx' \<and>
    earliest_fit (pair_holds cal (p_id p1) (p_id p2) (t_duration_hours task) idx)
      (first_working_day cal earliest) limit s"
  using assms pair_search by (auto simp: allocate_pair_def Let_def split: prod.splits)

text \<open>
  The split placement: \<open>split_added\<close> allocations, then what the horizon did not take on the start day.
\<close>

lemma allocate_split_spec:
  assumes "allocate_split task person earliest cal idx limit = Inr ((als, s, e), idx')"
    and "0 \<le> t_duration_hours task"
  shows "\<exists>new left. index_read idx idx' \<and> 0 \<le> left \<and>
    als = new @ (if 0 < left then [allocation (p_id person) (first_working_day cal earliest) left] else []) \<and>
    split_added cal (p_id person) idx (first_working_day cal earliest) limit left new \<and>
    person_hours als (p_id person) = t_duration_hours task \<and> als \<noteq> [] \<and>
    s = Min (set (map al_day als)) \<and> e = Max (set (map al_day als))"
proof -
  obtain left new idx1 where scan: "split_scan cal (p_id person) (t_duration_hours task)
      (first_working_day cal earliest) [] idx limit = (left, new, idx1)"
    by (metis prod_cases3)
  from split_scan_spec [OF scan assms(2)] have spec: "0 \<le> left"
    "person_hours new (p_id person) = t_duration_hours task - left" "index_read idx idx1"
    "split_added cal (p_id person) idx (first_working_day cal earliest) limit left new"
    by (auto simp: index_read_def)
  from assms(1) scan spec show ?thesis
    by (intro exI [of _ new] exI [of _ left]) (auto simp: allocate_split_def Let_def split: if_splits)
qed

lemma allocate_split_Inr:
  assumes "0 < t_duration_hours task"
  shows "\<exists>pl idx'. allocate_split task person earliest cal idx limit = Inr (pl, idx')"
proof -
  obtain left new idx1 where scan: "split_scan cal (p_id person) (t_duration_hours task)
      (first_working_day cal earliest) [] idx limit = (left, new, idx1)"
    by (metis prod_cases3)
  with split_scan_spec [OF scan] assms have "person_hours new (p_id person) = t_duration_hours task - left"
    by auto
  then have "new = [] \<Longrightarrow> 0 < left" using assms by auto
  with scan show ?thesis by (auto simp: allocate_split_def Let_def)
qed

lemma allocate_split_ValueError:
  assumes "t_duration_hours task \<le> 0"
  shows "allocate_split task person earliest cal idx limit = Inl ValueError"
  using assms by (simp add: allocate_split_def split_scan_done Let_def)

context calendar_port
begin

lemma earliest_fit_working:
  assumes "earliest_fit fit (first_working_day cal earliest) limit s"
    and "\<And>d. fit d \<Longrightarrow> is_working_day cal d"
  shows "is_working_day cal s \<and> earliest \<le> s"
  using assms first_working first_ge [of earliest]
  by (auto simp: earliest_fit_def split: if_splits)

lemma single_placed_well:
  assumes "allocate_single task person earliest cal idx limit = (pl, idx')"
  shows "placed_well cal earliest pl"
proof -
  obtain als s e where pl: "pl = (als, s, e)" by (metis prod_cases3)
  from allocate_single_spec [OF assms [unfolded pl]] have spec: "e = s" "set (map al_day als) = {s}"
    and fit: "is_working_day cal s \<and> earliest \<le> s"
    by (auto simp: single_holds_def elim!: earliest_fit_working)
  then show ?thesis by (auto simp: placed_well_def pl)
qed

lemma pair_placed_well:
  assumes "allocate_pair task p1 p2 earliest cal idx limit = (pl, idx')"
  shows "placed_well cal earliest pl"
proof -
  obtain als s e where pl: "pl = (als, s, e)" by (metis prod_cases3)
  from allocate_pair_spec [OF assms [unfolded pl]] have spec: "e = s" "set (map al_day als) = {s}"
    and fit: "is_working_day cal s \<and> earliest \<le> s"
    by (auto simp: pair_holds_def elim!: earliest_fit_working)
  then show ?thesis by (auto simp: placed_well_def pl)
qed

lemma split_placed_well:
  assumes "allocate_split task person earliest cal idx limit = Inr (pl, idx')"
  shows "placed_well cal earliest pl"
proof -
  obtain als s e where pl: "pl = (als, s, e)" by (metis prod_cases3)
  have pos: "0 < t_duration_hours task"
    using assms allocate_split_ValueError [of task person earliest cal idx limit] by force
  from allocate_split_spec [OF assms [unfolded pl] less_imp_le [OF pos]] obtain new left where
    als: "als = new @ (if 0 < left then [allocation (p_id person) (first_working_day cal earliest) left] else [])"
    and added: "split_added cal (p_id person) idx (first_working_day cal earliest) limit left new"
    and ends: "als \<noteq> []" "s = Min (set (map al_day als))" "e = Max (set (map al_day als))"
    by blast
  have start: "is_working_day cal (first_working_day cal earliest)" "earliest \<le> first_working_day cal earliest"
    by (rule first_working, rule first_ge)
  have "is_working_day cal (al_day al) \<and> earliest \<le> al_day al" if "al \<in> set als" for al
  proof (cases "al \<in> set new")
    case True
    with added start(2) show ?thesis by (auto simp: split_added_def)
  next
    case False
    with that start show ?thesis by (auto simp: als split: if_splits)
  qed
  then have day: "is_working_day cal d \<and> earliest \<le> d" if "d \<in> set (map al_day als)" for d
    using that by auto
  have "s \<in> set (map al_day als)" "e \<in> set (map al_day als)"
    using ends by (simp_all del: set_map)
  moreover have "\<forall>d \<in> set (map al_day als). s \<le> d \<and> d \<le> e" using ends by simp
  ultimately show ?thesis using day unfolding pl placed_well_def by auto
qed

lemma window_spec:
  "\<exists>e. allocate_window task earliest cal = Inr ([], first_working_day cal earliest, e) \<and>
    first_working_day cal earliest \<le> e \<and> is_working_day cal e \<and>
    card {d. first_working_day cal earliest \<le> d \<and> d \<le> e \<and> is_working_day cal d} =
      nat (max 1 (ceil_div (t_duration_hours task) DAY_HOURS))"
proof -
  let ?s = "first_working_day cal earliest" and ?n = "max 1 (ceil_div (t_duration_hours task) DAY_HOURS)"
  let ?e = "nth_from ?s (nat (?n - 1))"
  have "nth_working_day cal ?s ?n = Inr ?e" by (simp add: nth_working_day_def)
  then have "allocate_window task earliest cal = Inr ([], ?s, ?e)"
    by (simp add: allocate_window_def ceil_div_def Let_def)
  moreover have "?s \<le> ?e" using nth_from_ge [of ?s "nat (?n - 1)"] by linarith
  moreover have "card {d. ?s \<le> d \<and> d \<le> ?e \<and> is_working_day cal d} = nat ?n"
    by (subst nth_from_card) simp
  ultimately show ?thesis using nth_from_working [of "nat (?n - 1)" ?s] by blast
qed

lemma window_placed_well:
  assumes "allocate_window task earliest cal = Inr pl"
  shows "placed_well cal earliest pl"
  using window_spec [of task earliest] assms first_working first_ge [of earliest]
  by (auto simp: placed_well_def)

end

end
