(* ===== verification/Greedy_Choice.thy ===== *)
theory Greedy_Choice
  imports Greedy_Placement
begin

section \<open>Correctness of choosing the executor\<close>

text \<open>
  The candidate loop of \<open>GreedySolver.plan\<close> and the choice between window, pair and single
  executor. The scans store zero entries into the index between two candidates; since a placement
  depends on the view of the index only, every candidate is judged against the index the loop
  started with.
\<close>

subsection \<open>A placement depends on the view only\<close>

lemma earliest_fit_unique:
  assumes "earliest_fit fit first limit s" "earliest_fit fit first limit t"
  shows "s = t"
proof (cases "\<exists>d. first \<le> d \<and> d \<le> limit \<and> fit d")
  case True
  with assms have "fit s" "fit t" "first \<le> s" "first \<le> t"
    "\<forall>d. first \<le> d \<longrightarrow> d < s \<longrightarrow> \<not> fit d" "\<forall>d. first \<le> d \<longrightarrow> d < t \<longrightarrow> \<not> fit d"
    unfolding earliest_fit_def by meson+
  then show ?thesis by (meson linorder_less_linear)
next
  case False
  then show ?thesis using assms unfolding earliest_fit_def if_not_P [OF False] by simp
qed

lemma split_scan_cong:
  assumes "same_view i j"
  shows "fst (split_scan cal pid left day als i limit) = fst (split_scan cal pid left day als j limit) \<and>
    fst (snd (split_scan cal pid left day als i limit)) = fst (snd (split_scan cal pid left day als j limit))"
  using assms
proof (induction "nat (limit + 1 - day)" arbitrary: left day als i j rule: less_induct)
  case less
  show ?case
  proof (cases "0 < left \<and> day \<le> limit")
    case True
    have eq: "free_hours i = free_hours j" by (rule free_hours_cong) (rule less.prems)
    obtain i1 where i1: "same_view i i1" "split_scan cal pid left day als i limit =
      (if is_working_day cal day \<and> 0 < free_hours i pid day
       then split_scan cal pid (left - min (free_hours i pid day) left) (day + 1)
              (als @ [allocation pid day (min (free_hours i pid day) left)]) i1 limit
       else split_scan cal pid left (day + 1) als i1 limit)"
      using split_scan_step [of left day limit i cal pid als] True by blast
    obtain j1 where j1: "same_view j j1" "split_scan cal pid left day als j limit =
      (if is_working_day cal day \<and> 0 < free_hours j pid day
       then split_scan cal pid (left - min (free_hours j pid day) left) (day + 1)
              (als @ [allocation pid day (min (free_hours j pid day) left)]) j1 limit
       else split_scan cal pid left (day + 1) als j1 limit)"
      using split_scan_step [of left day limit j cal pid als] True by blast
    have "same_view i1 j1" using less.prems i1(1) j1(1) by (simp add: same_view_def)
    from less.hyps [OF _ this, of "day + 1"] True show ?thesis
      unfolding i1(2) j1(2) eq by auto
  qed (auto simp: split_scan_done)
qed

lemma single_cong:
  assumes "same_view i j"
  shows "fst (allocate_single task p earliest cal i limit) = fst (allocate_single task p earliest cal j limit)"
proof -
  obtain als s e i' where i: "allocate_single task p earliest cal i limit = ((als, s, e), i')"
    by (metis prod.exhaust)
  obtain als' s' e' j' where j: "allocate_single task p earliest cal j limit = ((als', s', e'), j')"
    by (metis prod.exhaust)
  have "single_holds cal (p_id p) (t_duration_hours task) i = single_holds cal (p_id p) (t_duration_hours task) j"
    by (rule single.holds_cong) (rule assms)
  with allocate_single_spec [OF i] allocate_single_spec [OF j] show ?thesis
    by (auto simp: i j dest: earliest_fit_unique)
qed

definition placement_for ::
  "task \<Rightarrow> date \<Rightarrow> working_calendar \<Rightarrow> date \<Rightarrow> capacity_index \<Rightarrow> person \<Rightarrow> placement res" where
  "placement_for task earliest cal limit idx p = map_sum id fst (allocate task p earliest cal idx limit)"

lemma placement_for_cong:
  assumes "same_view i j"
  shows "placement_for task earliest cal limit i = placement_for task earliest cal limit j"
proof (rule ext)
  fix p
  show "placement_for task earliest cal limit i p = placement_for task earliest cal limit j p"
    using split_scan_cong [OF assms, of cal "p_id p" "t_duration_hours task"
        "first_working_day cal earliest" "[]" limit] single_cong [OF assms, of task p earliest cal limit]
    by (simp add: placement_for_def allocate_def allocate_split_def Let_def split_beta)
qed

subsection \<open>The candidate loop takes the first best\<close>

lemma allocate_read:
  assumes "allocate task p earliest cal idx limit = Inr (pl, idx')"
  shows "index_read idx idx'"
proof (cases "t_is_splittable task")
  case True
  then have split: "allocate_split task p earliest cal idx limit = Inr (pl, idx')"
    using assms by (simp add: allocate_def)
  then have "0 < t_duration_hours task"
    using allocate_split_ValueError [of task p earliest cal idx limit] by force
  with split show ?thesis using allocate_split_spec by (metis less_imp_le prod_cases3)
next
  case False
  with assms show ?thesis using allocate_single_spec by (metis allocate_def prod_cases3 sum.inject(2))
qed

lemma allocate_total:
  "0 < t_duration_hours task \<or> \<not> t_is_splittable task \<Longrightarrow>
    \<exists>pl idx'. allocate task p earliest cal idx limit = Inr (pl, idx')"
  using allocate_split_Inr by (metis allocate_def surj_pair)

text \<open>The first candidate whose (start, end) no earlier one reaches and no later one beats.\<close>

definition starts_after :: "placement \<Rightarrow> placement res \<Rightarrow> bool" where
  "starts_after pl r = (case r of Inl e \<Rightarrow> False | Inr ql \<Rightarrow> snd pl < snd ql)"

definition not_before :: "placement \<Rightarrow> placement res \<Rightarrow> bool" where
  "not_before pl r = (case r of Inl e \<Rightarrow> False | Inr ql \<Rightarrow> snd pl \<le> snd ql)"

definition first_best :: "(person \<Rightarrow> placement res) \<Rightarrow> person list \<Rightarrow> placement \<Rightarrow> person \<Rightarrow> bool" where
  "first_best f allowed pl p \<longleftrightarrow>
     (\<exists>xs ys. allowed = xs @ p # ys \<and> f p = Inr pl \<and>
        (\<forall>q \<in> set xs. starts_after pl (f q)) \<and> (\<forall>q \<in> set ys. not_before pl (f q)))"

lemma starts_after_not_before: "starts_after pl r \<Longrightarrow> not_before pl r"
  by (auto simp: starts_after_def not_before_def split: sum.splits)

lemma starts_after_trans: "snd ql < snd pl \<Longrightarrow> not_before pl r \<Longrightarrow> starts_after ql r"
  by (auto simp: starts_after_def not_before_def split: sum.splits)

lemma first_best_all: "first_best f allowed pl p \<Longrightarrow> q \<in> set allowed \<Longrightarrow> not_before pl (f q)"
  by (auto simp: first_best_def starts_after_not_before) (simp add: not_before_def)

lemma first_best_start: "f q = Inr ql \<Longrightarrow> first_best f [q] ql q"
  unfolding first_best_def by (intro exI [of _ "[]"]) simp

lemma first_best_snoc_keep:
  assumes "first_best f allowed pl p" "f q = Inr ql" "\<not> snd ql < snd pl"
  shows "first_best f (allowed @ [q]) pl p"
proof -
  from assms(1) obtain xs ys where split: "allowed = xs @ p # ys" "f p = Inr pl"
    "\<forall>q \<in> set xs. starts_after pl (f q)" "\<forall>q \<in> set ys. not_before pl (f q)"
    by (auto simp: first_best_def)
  have "not_before pl (f q)" using assms(2,3) by (simp add: not_before_def)
  with split show ?thesis unfolding first_best_def
    by (intro exI [of _ xs] exI [of _ "ys @ [q]"]) simp
qed

lemma first_best_snoc_take:
  assumes "first_best f allowed pl p" "f q = Inr ql" "snd ql < snd pl"
  shows "first_best f (allowed @ [q]) ql q"
  using first_best_all [OF assms(1)] assms(2) starts_after_trans [OF assms(3)] unfolding first_best_def
  by (intro exI [of _ allowed] exI [of _ "[]"]) simp

lemma best_candidate_spec:
  assumes "best_candidate task earliest cal idx limit allowed = Inr (best, idx')"
  shows "index_read idx idx' \<and>
    (case best of None \<Rightarrow> allowed = []
     | Some (pl, p) \<Rightarrow> first_best (placement_for task earliest cal limit idx) allowed pl p)"
  using assms
proof (induction allowed arbitrary: best idx' rule: rev_induct)
  case Nil
  then show ?case by (simp add: best_candidate_def)
next
  case (snoc q allowed)
  let ?f = "placement_for task earliest cal limit idx"
  from snoc.prems obtain best0 idx0 ql where
    prev: "best_candidate task earliest cal idx limit allowed = Inr (best0, idx0)"
    and q: "allocate task q earliest cal idx0 limit = Inr (ql, idx')"
    and best: "best = (if better ql best0 then Some (ql, q) else best0)"
    by (auto simp: best_candidate_def fold_res_append res_simps try_candidate_def)
  from snoc.IH [OF prev] have read: "index_read idx idx0"
    and IH: "case best0 of None \<Rightarrow> allowed = [] | Some (pl, p) \<Rightarrow> first_best ?f allowed pl p" by auto
  have "placement_for task earliest cal limit idx0 = ?f"
    using read placement_for_cong [of idx idx0] by (simp add: index_read_def)
  then have fq: "?f q = Inr ql" using q by (metis placement_for_def map_sum.simps(2) fst_conv)
  show ?case
  proof (cases best0)
    case None
    then have "first_best ?f (allowed @ [q]) ql q" using IH fq by (simp add: first_best_start)
    with None read allocate_read [OF q] show ?thesis by (auto simp: best better_def intro: index_read_trans)
  next
    case (Some b)
    then obtain pl p where b: "best0 = Some (pl, p)" by (cases b) auto
    with IH have "first_best ?f allowed pl p" by simp
    from first_best_snoc_keep [OF this fq] first_best_snoc_take [OF this fq] b read allocate_read [OF q]
    show ?thesis by (auto simp: best better_def intro: index_read_trans)
  qed
qed

lemma best_candidate_total:
  assumes "0 < t_duration_hours task \<or> \<not> t_is_splittable task" and "allowed \<noteq> []"
  shows "\<exists>pl p idx'. best_candidate task earliest cal idx limit allowed = Inr (Some (pl, p), idx')"
proof -
  have "\<exists>t. best_candidate task earliest cal idx limit allowed = Inr t \<and> True"
    unfolding best_candidate_def
  proof (rule fold_res_total)
    fix p u
    show "\<exists>v. try_candidate task earliest cal limit p u = Inr v \<and> True"
      using allocate_total [OF assms(1), of p earliest cal "snd u" limit]
      by (cases u) (auto simp: try_candidate_def simp del: split_paired_Ex)
  qed simp
  then obtain best idx' where r: "best_candidate task earliest cal idx limit allowed = Inr (best, idx')"
    by auto
  with best_candidate_spec [OF r] assms(2) show ?thesis by (cases best) auto
qed

lemma best_candidate_ValueError:
  assumes "t_duration_hours task \<le> 0" "t_is_splittable task" "allowed \<noteq> []"
  shows "best_candidate task earliest cal idx limit allowed = Inl ValueError"
  using assms
  by (cases allowed) (simp_all add: best_candidate_def try_candidate_def allocate_def allocate_split_ValueError)

subsection \<open>Window, pair or single executor\<close>

definition pairs_up :: "task \<Rightarrow> person list \<Rightarrow> bool" where
  "pairs_up task allowed \<longleftrightarrow> t_pair_mode task = ascii ''required'' \<and> 2 \<le> length allowed"

text \<open>Who works how many hours under a choice.\<close>

definition serves :: "task \<Rightarrow> person list \<Rightarrow> choice \<Rightarrow> bool" where
  "serves task allowed = (\<lambda>((als, s, e), p).
     p \<in> set allowed \<and>
     (if t_duration_is_window task then als = []
      else if pairs_up task allowed
      then e = s \<and> p = allowed ! 0 \<and>
        als = [allocation (p_id (allowed ! 0)) s (t_duration_hours task),
               allocation (p_id (allowed ! 1)) s (t_duration_hours task)]
      else (\<forall>al \<in> set als. al_person_id al = p_id p) \<and>
        person_hours als (p_id p) = t_duration_hours task))"

lemma allocate_hours:
  assumes "allocate task p earliest cal idx limit = Inr ((als, s, e), idx')"
  shows "(\<forall>al \<in> set als. al_person_id al = p_id p) \<and> person_hours als (p_id p) = t_duration_hours task"
proof (cases "t_is_splittable task")
  case True
  then have split: "allocate_split task p earliest cal idx limit = Inr ((als, s, e), idx')"
    using assms by (simp add: allocate_def)
  then have "0 < t_duration_hours task"
    using allocate_split_ValueError [of task p earliest cal idx limit] by force
  from allocate_split_spec [OF split less_imp_le [OF this]] show ?thesis
    by (auto simp: split_added_def split: if_splits)
next
  case False
  with assms have "allocate_single task p earliest cal idx limit = ((als, s, e), idx')"
    by (simp add: allocate_def)
  from allocate_single_spec [OF this] show ?thesis by simp
qed

lemma first_best_mem: "first_best f allowed pl p \<Longrightarrow> p \<in> set allowed \<and> f p = Inr pl"
  by (auto simp: first_best_def)

lemma choose_window:
  assumes "choose_placement task earliest cal idx limit allowed = Inr ((pl, p), idx')"
    and "t_duration_is_window task"
  shows "allocate_window task earliest cal = Inr pl \<and> p \<in> set allowed \<and> idx' = idx"
proof (cases allowed)
  case (Cons q qs)
  with assms show ?thesis
    by (cases "allocate_window task earliest cal") (auto simp: choose_placement_def)
qed (use assms in \<open>auto simp: choose_placement_def res_simps\<close>)

lemma choose_pair:
  assumes "choose_placement task earliest cal idx limit allowed = Inr ((pl, p), idx')"
    and "\<not> t_duration_is_window task" "pairs_up task allowed"
  shows "allocate_pair task (allowed ! 0) (allowed ! 1) earliest cal idx limit = (pl, idx') \<and>
    p = allowed ! 0 \<and> p \<in> set allowed"
proof -
  have "allowed ! 0 \<in> set allowed" using assms(3) by (intro nth_mem) (auto simp: pairs_up_def)
  with assms show ?thesis by (simp add: choose_placement_def pairs_up_def split: prod.splits)
qed

lemma choose_single:
  assumes "choose_placement task earliest cal idx limit allowed = Inr ((pl, p), idx')"
    and "\<not> t_duration_is_window task" "\<not> pairs_up task allowed"
  shows "index_read idx idx' \<and> first_best (placement_for task earliest cal limit idx) allowed pl p"
proof -
  from assms obtain best where "best_candidate task earliest cal idx limit allowed = Inr (best, idx')"
    "best = Some (pl, p)"
    by (auto simp: choose_placement_def pairs_up_def res_simps split: option.splits)
  from best_candidate_spec [OF this(1)] this(2) show ?thesis by simp
qed

lemma placement_for_Inr:
  "placement_for task earliest cal limit idx p = Inr pl \<Longrightarrow>
    \<exists>idx'. allocate task p earliest cal idx limit = Inr (pl, idx')"
  unfolding placement_for_def by (cases "allocate task p earliest cal idx limit") auto

lemma choose_read:
  assumes "choose_placement task earliest cal idx limit allowed = Inr ((pl, p), idx')"
  shows "index_read idx idx'"
proof -
  consider "t_duration_is_window task" | "\<not> t_duration_is_window task" "pairs_up task allowed"
    | "\<not> t_duration_is_window task" "\<not> pairs_up task allowed" by blast
  then show ?thesis
  proof cases
    case 2
    from choose_pair [OF assms this] show ?thesis using allocate_pair_spec by (metis prod_cases3)
  qed (use choose_window [OF assms] choose_single [OF assms] in auto)
qed

lemma choose_serves:
  assumes "choose_placement task earliest cal idx limit allowed = Inr (((als, s, e), p), idx')"
  shows "serves task allowed ((als, s, e), p)"
proof -
  consider "t_duration_is_window task" | "\<not> t_duration_is_window task" "pairs_up task allowed"
    | "\<not> t_duration_is_window task" "\<not> pairs_up task allowed" by blast
  then show ?thesis
  proof cases
    case 1
    with choose_window [OF assms 1] show ?thesis
      by (auto simp: serves_def allocate_window_def Let_def res_simps)
  next
    case 2
    with choose_pair [OF assms 2] allocate_pair_spec show ?thesis unfolding serves_def by fastforce
  next
    case 3
    from choose_single [OF assms 3] first_best_mem placement_for_Inr
    have "p \<in> set allowed" "\<exists>idx'. allocate task p earliest cal idx limit = Inr ((als, s, e), idx')"
      by blast+
    with allocate_hours 3 show ?thesis by (auto simp: serves_def)
  qed
qed

context calendar_port
begin

lemma choose_placed_well:
  assumes "choose_placement task earliest cal idx limit allowed = Inr ((pl, p), idx')"
  shows "placed_well cal earliest pl"
proof -
  consider "t_duration_is_window task" | "\<not> t_duration_is_window task" "pairs_up task allowed"
    | "\<not> t_duration_is_window task" "\<not> pairs_up task allowed" by blast
  then show ?thesis
  proof cases
    case 1
    with choose_window [OF assms 1] window_placed_well show ?thesis by blast
  next
    case 2
    with choose_pair [OF assms 2] pair_placed_well show ?thesis by blast
  next
    case 3
    from choose_single [OF assms 3] first_best_mem placement_for_Inr
    obtain i where "allocate task p earliest cal idx limit = Inr (pl, i)" by blast
    then show ?thesis using split_placed_well single_placed_well
      by (auto simp: allocate_def simp del: split_paired_All split: if_splits)
  qed
qed

end

lemma choose_total:
  assumes "0 < t_duration_hours task \<or> \<not> t_is_splittable task \<or> t_duration_is_window task \<or> pairs_up task allowed"
    and "allowed \<noteq> []"
  shows "\<exists>choice idx'. choose_placement task earliest cal idx limit allowed = Inr (choice, idx')"
proof (cases "t_duration_is_window task \<or> pairs_up task allowed")
  case True
  obtain e where "allocate_window task earliest cal = Inr ([], first_working_day cal earliest, e)"
    by (simp add: allocate_window_def nth_working_day_def Let_def)
  with True assms(2) show ?thesis
    by (cases allowed; cases "t_duration_is_window task")
      (simp_all add: choose_placement_def pairs_up_def split_beta Let_def del: split_paired_Ex)
next
  case False
  with assms obtain pl p idx' where
    "best_candidate task earliest cal idx limit allowed = Inr (Some (pl, p), idx')"
    using best_candidate_total by blast
  with False show ?thesis
    by (auto simp: choose_placement_def pairs_up_def simp del: split_paired_Ex)
qed

lemma choose_ValueError:
  assumes "t_duration_hours task \<le> 0" "t_is_splittable task" "\<not> t_duration_is_window task"
    "\<not> pairs_up task allowed" "allowed \<noteq> []"
  shows "choose_placement task earliest cal idx limit allowed = Inl ValueError"
  using assms best_candidate_ValueError [OF assms(1,2,5)]
  by (auto simp: choose_placement_def pairs_up_def)

end
