(* ===== verification/Greedy_Run.thy ===== *)
theory Greedy_Run
  imports Greedy_Choice
begin

section \<open>The loop of GreedySolver.plan\<close>

text \<open>
  The invariant of the placing loop, and the trace of one task: the state in which it was placed and
  what the later steps keep of it. The theorems about \<open>plan\<close> are in \<open>Greedy_Correct\<close>.
\<close>

subsection \<open>The graph of a request\<close>

lemma edge_calls_append: "edge_calls (g @ h) = edge_calls g @ edge_calls h"
  by (induction g rule: edge_calls.induct) auto

lemma edge_calls_plan_graph:
  "edge_calls (plan_graph req) =
     map (\<lambda>d. ((d_depends_on_id d, d_task_id d),
       \<lparr>e_link_type = d_link_type d, e_lag = d_lag_working_days d\<rparr>)) (rq_dependencies req)"
proof -
  have "edge_calls (map (\<lambda>t. AddNode (t_id t)) ts) = []" for ts :: "task list" by (induction ts) auto
  moreover have "edge_calls (map (\<lambda>d. AddEdge (d_depends_on_id d) (d_task_id d)
      \<lparr>e_link_type = d_link_type d, e_lag = d_lag_working_days d\<rparr>) ds) =
      map (\<lambda>d. ((d_depends_on_id d, d_task_id d),
        \<lparr>e_link_type = d_link_type d, e_lag = d_lag_working_days d\<rparr>)) ds" for ds :: "dependency list"
    by (induction ds) auto
  ultimately show ?thesis by (simp add: plan_graph_def build_dag_def edge_calls_append)
qed

lemma task_in_graph: "t \<in> set (rq_tasks req) \<Longrightarrow> t_id t \<in> set (graph_nodes (plan_graph req))"
  by (auto simp: graph_nodes_def plan_graph_def build_dag_def)

lemma dependency_edge:
  "d \<in> set (rq_dependencies req) \<Longrightarrow> (d_depends_on_id d, d_task_id d) \<in> graph_edges (plan_graph req)"
  by (simp add: graph_edges_def edge_calls_plan_graph image_image)

lemma dependency_attrs:
  assumes "distinct (map (\<lambda>d. (d_depends_on_id d, d_task_id d)) (rq_dependencies req))"
    and "d \<in> set (rq_dependencies req)"
  shows "dict_get (edge_attrs (plan_graph req)) (d_depends_on_id d, d_task_id d) =
    Some \<lparr>e_link_type = d_link_type d, e_lag = d_lag_working_days d\<rparr>"
  using dict_of_key_get [OF assms] by (simp add: edge_attrs_def edge_calls_plan_graph)

lemma tasks_by_id_get:
  "distinct (map t_id (rq_tasks req)) \<Longrightarrow> t \<in> set (rq_tasks req) \<Longrightarrow> dict_get (tasks_by_id req) (t_id t) = Some t"
  unfolding tasks_by_id_def using dict_of_key_get [of t_id "rq_tasks req" t "\<lambda>t. t"] by simp

lemma tasks_by_id_SomeD:
  "dict_get (tasks_by_id req) tid = Some t \<Longrightarrow> t \<in> set (rq_tasks req) \<and> t_id t = tid"
  unfolding tasks_by_id_def using dict_of_key_get_SomeD [of t_id "\<lambda>t. t"] by fastforce

lemma allowed_people_nonempty: "rq_people req \<noteq> [] \<Longrightarrow> allowed_people req t \<noteq> []"
  by (simp add: allowed_people_def)

lemma people_by_id_SomeD:
  "dict_get (people_by_id req) i = Some p \<Longrightarrow> p \<in> set (rq_people req) \<and> p_id p = i"
  unfolding people_by_id_def using dict_of_key_get_SomeD [of p_id "\<lambda>p. p"] by fastforce

lemma bound_people_mem:
  "p \<in> set (bound_people req t) \<Longrightarrow> p \<in> set (rq_people req) \<and> p_id p \<in> set (t_allowed_person_ids t)"
  by (auto simp: bound_people_def map_filter_def dest: people_by_id_SomeD)

lemma allowed_people_mem: "p \<in> set (allowed_people req t) \<Longrightarrow> p \<in> set (rq_people req)"
  using bound_people_mem by (auto simp: allowed_people_def split: if_splits)

subsection \<open>Invariant of the loop\<close>

definition state_inv :: "working_calendar \<Rightarrow> plan_request \<Rightarrow> solver_state \<Rightarrow> bool" where
  "state_inv cal req st \<longleftrightarrow>
     distinct (map fst (ss_assignments st)) \<and>
     (\<forall>k a. (k, a) \<in> set (ss_assignments st) \<longrightarrow> a_task_id a = k \<and> k \<in> t_id ` set (rq_tasks req)) \<and>
     index_ok (ss_idx st) \<and>
     base_capacity (ss_idx st) =
       base_capacity (capacity_index_init (rq_people req) cal (rq_day_overrides req) (rq_existing_allocations req)) \<and>
     (\<forall>pd. used_hours (ss_idx st) pd = booked (rq_existing_allocations req) pd +
        booked (plan_allocations (dict_values (ss_assignments st))) pd)"

lemma record_assignment_simps [simp]:
  "ss_assignments (record_assignment a st) = dict_set (a_task_id a) a (ss_assignments st)"
  "ss_idx (record_assignment a st) = occupy (a_allocations a) (ss_idx st)"
  by (simp_all add: record_assignment_def)

lemma state_inv_record:
  assumes "state_inv cal req st" and "dict_get (ss_assignments st) (a_task_id a) = None"
    and "a_task_id a \<in> t_id ` set (rq_tasks req)" and "index_read (ss_idx st) idx1"
  shows "state_inv cal req (record_assignment a (st\<lparr>ss_idx := idx1\<rparr>))"
proof -
  have new: "a_task_id a \<notin> set (map fst (ss_assignments st))"
    using assms(2) dict_get_None_iff by metis
  have read: "base_capacity idx1 = base_capacity (ss_idx st)" "used_hours idx1 = used_hours (ss_idx st)"
    "index_ok (ss_idx st) \<Longrightarrow> index_ok idx1"
  proof -
    have view: "same_view (ss_idx st) idx1" using assms(4) by (simp add: index_read_def)
    show "base_capacity idx1 = base_capacity (ss_idx st)" using base_capacity_cong [OF view] by (rule sym)
    show "used_hours idx1 = used_hours (ss_idx st)" using view by (simp add: same_view_def)
    show "index_ok (ss_idx st) \<Longrightarrow> index_ok idx1" using assms(4) by (simp add: index_read_def)
  qed
  show ?thesis
    unfolding state_inv_def
  proof (intro conjI allI impI)
    fix k b
    assume "(k, b) \<in> set (ss_assignments (record_assignment a (st\<lparr>ss_idx := idx1\<rparr>)))"
    then have "(k, b) = (a_task_id a, a) \<or> (k, b) \<in> set (ss_assignments st)"
      by (auto simp: dict_set_new [OF assms(2)])
    then show "a_task_id b = k" "k \<in> t_id ` set (rq_tasks req)"
      using assms(1,3) by (auto simp: state_inv_def)
  qed (use assms(1) new read index_ok_occupy in
      \<open>auto simp: state_inv_def idx_simps dict_set_new [OF assms(2)] dict_values_def\<close>)
qed

lemma state_inv_fixed:
  assumes "state_inv cal req st" "set tasks \<subseteq> set (rq_tasks req)" "distinct (map t_id tasks)"
    and "\<And>t. t \<in> set tasks \<Longrightarrow> dict_get (ss_assignments st) (t_id t) = None"
  shows "state_inv cal req (place_fixed tasks st)"
  using assms
proof (induction tasks arbitrary: st)
  case (Cons t tasks)
  let ?st = "if is_pinned t then record_assignment (pinned_assignment t) st else st"
  have id: "a_task_id (pinned_assignment t) = t_id t" by (simp add: pinned_assignment_def Let_def)
  have "state_inv cal req (record_assignment (pinned_assignment t) (st\<lparr>ss_idx := ss_idx st\<rparr>))"
    by (rule state_inv_record) (use Cons.prems id in auto)
  then have "state_inv cal req ?st" using Cons.prems(1) by simp
  moreover have "dict_get (ss_assignments ?st) (t_id u) = None" if "u \<in> set tasks" for u
  proof -
    have "t_id u \<noteq> t_id t" using Cons.prems(3) that by (metis distinct.simps(2) image_eqI list.simps(9) set_map)
    then show ?thesis using Cons.prems(4) [of u] that id by (auto simp: dict_simps)
  qed
  ultimately have "state_inv cal req (place_fixed tasks ?st)"
    using Cons.IH [of ?st] Cons.prems(2,3) by auto
  then show ?case by (simp add: place_fixed_def)
qed (simp add: place_fixed_def)

lemma state_inv_initial:
  assumes "distinct (map t_id (rq_tasks req))"
  shows "state_inv cal req (initial_state cal req)"
  unfolding initial_state_def
  by (rule state_inv_fixed) (use assms in \<open>auto simp: state_inv_def idx_simps dict_values_def\<close>)

text \<open>The initial state holds exactly the pinned tasks.\<close>

lemma place_fixed_get:
  assumes "distinct (map t_id tasks)"
  shows "dict_get (ss_assignments (place_fixed tasks st)) k =
    (case find (\<lambda>t. t_id t = k \<and> is_pinned t) tasks of
       Some t \<Rightarrow> Some (pinned_assignment t) | None \<Rightarrow> dict_get (ss_assignments st) k)"
  using assms
proof (induction tasks arbitrary: st)
  case (Cons t tasks)
  let ?st = "if is_pinned t then record_assignment (pinned_assignment t) st else st"
  have id: "a_task_id (pinned_assignment t) = t_id t" by (simp add: pinned_assignment_def Let_def)
  have step: "place_fixed (t # tasks) st = place_fixed tasks ?st" by (simp add: place_fixed_def)
  have none: "t_id t = k \<Longrightarrow> find (\<lambda>t. t_id t = k \<and> is_pinned t) tasks = None"
    using Cons.prems by (auto simp: find_None_iff) (metis image_eqI)
  show ?case using Cons.IH [of ?st] Cons.prems none
    by (auto simp: step id dict_simps split: option.split)
qed (simp add: place_fixed_def)

lemma initial_get:
  assumes "distinct (map t_id (rq_tasks req))" and "t \<in> set (rq_tasks req)"
  shows "dict_get (ss_assignments (initial_state cal req)) (t_id t) =
    (if is_pinned t then Some (pinned_assignment t) else None)"
proof -
  have uniq: "u \<in> set (rq_tasks req) \<Longrightarrow> t_id u = t_id t \<Longrightarrow> u = t" for u
    using assms by (meson distinct_map inj_onD)
  have "find (\<lambda>u. t_id u = t_id t \<and> is_pinned u) (rq_tasks req) = (if is_pinned t then Some t else None)"
  proof (cases "is_pinned t")
    case True
    then obtain u where u: "find (\<lambda>u. t_id u = t_id t \<and> is_pinned u) (rq_tasks req) = Some u"
      using assms(2) by (metis (mono_tags, lifting) find_None_iff not_None_eq)
    then show ?thesis using find_SomeD [OF u] uniq True by auto
  next
    case False
    then show ?thesis using uniq by (auto simp: find_None_iff)
  qed
  then show ?thesis using place_fixed_get [OF assms(1)] by (simp add: initial_state_def)
qed

subsection \<open>One step\<close>

lemma place_node_cases:
  assumes "place_node nx cal req tid st = Inr st'"
  obtains (skip) "st' = st" "dict_has (ss_assignments st) tid \<or> dict_get (tasks_by_id req) tid = None"
    | (place) task earliest choice idx1 where
      "dict_get (ss_assignments st) tid = None" "dict_get (tasks_by_id req) tid = Some task"
      "earliest_start nx task (plan_graph req) (ss_assignments st) (rq_horizon_start req) cal = Inr earliest"
      "choose_placement task earliest cal (ss_idx st) (horizon_limit_of req) (allowed_people req task) =
         Inr (choice, idx1)"
      "st' = record_assignment (assignment_of tid choice) (st\<lparr>ss_idx := idx1\<rparr>)"
proof (cases "dict_has (ss_assignments st) tid \<or> dict_get (tasks_by_id req) tid = None")
  case True
  then have "st' = st" using assms by (auto simp: place_node_def split: if_splits)
  with True show thesis by (rule skip [rotated])
next
  case False
  then obtain task where task: "dict_get (tasks_by_id req) tid = Some task"
    "dict_get (ss_assignments st) tid = None" by (auto simp: dict_has_def)
  with assms have "place_task nx cal req tid task st = Inr st'"
    by (simp add: place_node_def dict_has_def)
  then obtain earliest choice idx1 where
    "earliest_start nx task (plan_graph req) (ss_assignments st) (rq_horizon_start req) cal = Inr earliest"
    "choose_placement task earliest cal (ss_idx st) (horizon_limit_of req) (allowed_people req task) =
       Inr (choice, idx1)"
    "st' = record_assignment (assignment_of tid choice) (st\<lparr>ss_idx := idx1\<rparr>)"
    by (auto simp: place_task_def res_simps simp del: split_paired_Ex)
  with task show thesis using place by blast
qed

lemma assignment_of_id [simp]: "a_task_id (assignment_of tid choice) = tid"
  by (simp add: assignment_of_def split: prod.split)

lemma state_inv_step:
  assumes "state_inv cal req st" and "place_node nx cal req tid st = Inr st'"
  shows "state_inv cal req st'"
  using assms(2)
proof (cases rule: place_node_cases)
  case (place task earliest choice idx1)
  have "index_read (ss_idx st) idx1" using place(4) choose_read by (metis surj_pair)
  with assms(1) place(1,2,5) tasks_by_id_SomeD [OF place(2)] show ?thesis
    using state_inv_record [of cal req st "assignment_of tid choice" idx1] by auto
qed (use assms(1) in simp)

lemma state_inv_run:
  "fold_res (place_node nx cal req) order st = Inr st' \<Longrightarrow> state_inv cal req st \<Longrightarrow> state_inv cal req st'"
  by (rule fold_res_invariant) (auto intro: state_inv_step)

text \<open>An assignment, once made, stays.\<close>

lemma keep_step:
  assumes "place_node nx cal req tid st = Inr st'" "dict_get (ss_assignments st) k = Some a"
  shows "dict_get (ss_assignments st') k = Some a"
  using assms(1) by (cases rule: place_node_cases) (use assms(2) in \<open>auto simp: dict_simps\<close>)

lemma keep_run:
  assumes "fold_res (place_node nx cal req) order st = Inr st'" "dict_get (ss_assignments st) k = Some a"
  shows "dict_get (ss_assignments st') k = Some a"
  using assms by (rule fold_res_invariant) (auto intro: keep_step)

lemma new_step:
  assumes "place_node nx cal req tid st = Inr st'" "dict_get (ss_assignments st) k = None" "k \<noteq> tid"
  shows "dict_get (ss_assignments st') k = None"
  using assms(1) by (cases rule: place_node_cases) (use assms(2,3) in \<open>auto simp: dict_simps\<close>)

lemma new_run:
  assumes "fold_res (place_node nx cal req) order st = Inr st'" "dict_get (ss_assignments st) k = None"
    and "k \<notin> set order"
  shows "dict_get (ss_assignments st') k = None"
  using assms(1,2) by (rule fold_res_invariant) (use assms(3) in \<open>auto intro: new_step\<close>)

lemma placed_step:
  assumes "place_node nx cal req tid st = Inr st'" "dict_get (tasks_by_id req) tid = Some t"
  shows "dict_get (ss_assignments st') tid \<noteq> None"
  using assms(1) by (cases rule: place_node_cases) (use assms(2) in \<open>auto simp: dict_simps dict_has_def\<close>)

end
