(* ===== verification/Greedy_Correct.thy ===== *)
theory Greedy_Correct
  imports Greedy_Run "HOL-Library.Multiset"
begin

section \<open>Correctness of GreedySolver.plan\<close>

text \<open>
  Facts about the plan a request gets, for a calendar that keeps its contract and a graph library
  that keeps its documentation.
\<close>

subsection \<open>The earliest start\<close>

lemma fold_latest:
  fixes e0 :: "'a :: linorder"
  assumes "fold_res (\<lambda>p est. case get p of None \<Rightarrow> Inr est
      | Some a \<Rightarrow> bind_res (cand p a) (\<lambda>c. Inr (if c > est then c else est))) ps e0 = Inr e"
  shows "e0 \<le> e \<and> (\<forall>p \<in> set ps. \<forall>a. get p = Some a \<longrightarrow> (\<exists>c. cand p a = Inr c \<and> c \<le> e)) \<and>
    (e = e0 \<or> (\<exists>p \<in> set ps. \<exists>a. get p = Some a \<and> cand p a = Inr e))"
  using assms
proof (induction ps arbitrary: e0)
  case (Cons p ps)
  show ?case
  proof (cases "get p")
    case None
    with Cons show ?thesis by auto
  next
    case (Some a)
    with Cons.prems obtain c where c: "cand p a = Inr c" by (cases "cand p a") auto
    with Some Cons.prems Cons.IH [of "if c > e0 then c else e0"] show ?thesis
      by (auto split: if_splits)
  qed
qed simp

lemma earliest_start_spec:
  assumes "earliest_start nx task g as hs cal = Inr e"
  shows "hs \<le> e \<and>
    (\<forall>p \<in> set (nx_predecessors nx g (t_id task)). \<forall>a. dict_get as p = Some a \<longrightarrow>
      (\<exists>c. dependency_candidate cal (nx_edge nx g p (t_id task)) a = Inr c \<and> c \<le> e)) \<and>
    (e = hs \<or> (\<exists>p \<in> set (nx_predecessors nx g (t_id task)). \<exists>a. dict_get as p = Some a \<and>
      dependency_candidate cal (nx_edge nx g p (t_id task)) a = Inr e))"
  using fold_latest [OF assms [unfolded earliest_start_def]] .

lemma dependency_candidate_total: "\<exists>c. dependency_candidate cal edge a = Inr c"
  by (auto simp: dependency_candidate_def nth_working_day_def Let_def)

lemma earliest_start_total: "\<exists>e. earliest_start nx task g as hs cal = Inr e"
proof -
  have "\<exists>e. earliest_start nx task g as hs cal = Inr e \<and> True"
    unfolding earliest_start_def
  proof (rule fold_res_total)
    fix p est
    show "\<exists>v. (case dict_get as p of None \<Rightarrow> Inr est
        | Some a \<Rightarrow> bind_res (dependency_candidate cal (nx_edge nx g p (t_id task)) a)
            (\<lambda>cand. Inr (if cand > est then cand else est))) = Inr v \<and> True"
      using dependency_candidate_total
      by (cases "dict_get as p") (auto, metis bind_res.simps(2))
  qed simp
  then show ?thesis by simp
qed

subsection \<open>The run behind a plan\<close>

lemma plan_run:
  assumes "plan nx cal req = Inr r" and "networkx_documented nx" and "distinct (map t_id (rq_tasks req))"
  obtains order st where "topological_order (plan_graph req) order"
    and "fold_res (place_node nx cal req) order (initial_state cal req) = Inr st"
    and "r = finish_plan req order st" and "state_inv cal req st"
    and "\<And>a. a \<in> set (pl_assignments r) \<longleftrightarrow> dict_get (ss_assignments st) (a_task_id a) = Some a"
    and "\<And>t. t \<in> set (rq_tasks req) \<Longrightarrow> t_id t \<in> set order"
proof -
  from assms(1) obtain order st where order: "nx_topological_sort nx (plan_graph req) = Some order"
    and run: "fold_res (place_node nx cal req) order (initial_state cal req) = Inr st"
    and r: "r = finish_plan req order st"
    by (auto simp: plan_def res_simps split: if_splits option.splits)
  have top: "topological_order (plan_graph req) order"
    using order assms(2) by (auto simp: networkx_documented_def)
  have inv: "state_inv cal req st" using state_inv_run [OF run] state_inv_initial [OF assms(3)] by simp
  have cover: "t_id t \<in> set order" if "t \<in> set (rq_tasks req)" for t
    using top task_in_graph [OF that] by (simp add: topological_order_def)
  have listed: "a \<in> set (pl_assignments r) \<longleftrightarrow> (\<exists>k \<in> set order. dict_get (ss_assignments st) k = Some a)" for a
    by (auto simp: r finish_plan_def Let_def mem_map_filter)
  have key: "a_task_id a = k" "k \<in> set order" if "dict_get (ss_assignments st) k = Some a" for k a
  proof -
    have "a_task_id a = k \<and> k \<in> t_id ` set (rq_tasks req)"
      using inv dict_get_Some_mem [OF that] unfolding state_inv_def by blast
    then show "a_task_id a = k" "k \<in> set order" using cover by auto
  qed
  have mem: "a \<in> set (pl_assignments r) \<longleftrightarrow> dict_get (ss_assignments st) (a_task_id a) = Some a" for a
    using key [of "a_task_id a" a] key(1) [of _ a] unfolding listed by metis
  show thesis by (rule that [OF top run r inv mem cover])
qed

text \<open>
  The trace of an unpinned task: the state \<open>st0\<close> it was placed in had, for every predecessor in the
  graph, the very assignment the plan returns.
\<close>

lemma plan_trace:
  assumes "plan nx cal req = Inr r" and "networkx_documented nx" and "distinct (map t_id (rq_tasks req))"
    and "t \<in> set (rq_tasks req)" and "\<not> is_pinned t"
  obtains st0 earliest choice idx1 where "state_inv cal req st0"
    and "earliest_start nx t (plan_graph req) (ss_assignments st0) (rq_horizon_start req) cal = Inr earliest"
    and "choose_placement t earliest cal (ss_idx st0) (horizon_limit_of req) (allowed_people req t) =
      Inr (choice, idx1)"
    and "assignment_of (t_id t) choice \<in> set (pl_assignments r)"
    and "\<And>a. a \<in> set (pl_assignments r) \<Longrightarrow> a_task_id a = t_id t \<Longrightarrow> a = assignment_of (t_id t) choice"
    and "\<And>a. a \<in> set (pl_assignments r) \<Longrightarrow> (a_task_id a, t_id t) \<in> graph_edges (plan_graph req) \<Longrightarrow>
      dict_get (ss_assignments st0) (a_task_id a) = Some a"
proof -
  obtain order st where top: "topological_order (plan_graph req) order"
    and run: "fold_res (place_node nx cal req) order (initial_state cal req) = Inr st"
    and mem: "\<And>a. a \<in> set (pl_assignments r) \<longleftrightarrow> dict_get (ss_assignments st) (a_task_id a) = Some a"
    and cover: "t_id t \<in> set order"
    using plan_run [OF assms(1-3)] assms(4) by metis
  from cover obtain xs ys where order: "order = xs @ t_id t # ys" by (meson split_list)
  have dist: "distinct order" using top by (simp add: topological_order_def)
  from run obtain st0 st1 where
    pre: "fold_res (place_node nx cal req) xs (initial_state cal req) = Inr st0"
    and here: "place_node nx cal req (t_id t) st0 = Inr st1"
    and post: "fold_res (place_node nx cal req) ys st1 = Inr st"
    unfolding order by (rule fold_res_split)
  have inv: "state_inv cal req st0" using state_inv_run [OF pre] state_inv_initial [OF assms(3)] by simp
  have new: "dict_get (ss_assignments st0) (t_id t) = None"
    by (rule new_run [OF pre]) (use assms(4,5) initial_get [OF assms(3)] dist order in auto)
  have known: "dict_get (tasks_by_id req) (t_id t) = Some t" by (rule tasks_by_id_get [OF assms(3,4)])
  from here obtain earliest choice idx1 where
    e: "earliest_start nx t (plan_graph req) (ss_assignments st0) (rq_horizon_start req) cal = Inr earliest"
    and c: "choose_placement t earliest cal (ss_idx st0) (horizon_limit_of req) (allowed_people req t) =
      Inr (choice, idx1)"
    and st1: "st1 = record_assignment (assignment_of (t_id t) choice) (st0\<lparr>ss_idx := idx1\<rparr>)"
    by (cases rule: place_node_cases) (use new known in \<open>auto simp: dict_has_def simp del: split_paired_Ex\<close>)
  have fin: "dict_get (ss_assignments st) (t_id t) = Some (assignment_of (t_id t) choice)"
    by (rule keep_run [OF post]) (simp add: st1 dict_simps)
  have pred: "dict_get (ss_assignments st0) (a_task_id a) = Some a"
    if "a \<in> set (pl_assignments r)" "(a_task_id a, t_id t) \<in> graph_edges (plan_graph req)" for a
  proof -
    have "before order (a_task_id a) (t_id t)" using top that(2) by (auto simp: topological_order_def)
    then have "a_task_id a \<in> set xs" using before_distinct_split dist unfolding order by metis
    then have notin: "a_task_id a \<notin> set (t_id t # ys)" using dist unfolding order by auto
    have "fold_res (place_node nx cal req) (t_id t # ys) st0 = Inr st" using here post by simp
    then have "dict_get (ss_assignments st0) (a_task_id a) \<noteq> None"
      using new_run [OF _ _ notin] mem that(1) by fastforce
    then show ?thesis using keep_run [OF \<open>fold_res _ (t_id t # ys) st0 = Inr st\<close>] mem that(1) by fastforce
  qed
  show thesis by (rule that [OF inv e c _ _ pred]) (use mem fin in auto)
qed

subsection \<open>Which tasks are assigned\<close>

lemma mset_values:
  assumes "distinct (map fst d)" and "distinct order" and "fst ` set d \<subseteq> set order"
  shows "mset (List.map_filter (dict_get d) order) = mset (dict_values d)"
proof -
  have "mset (List.map_filter (dict_get d) order) =
      image_mset (\<lambda>k. the (dict_get d k)) (filter_mset (\<lambda>k. dict_get d k \<noteq> None) (mset order))"
    by (induction order) (auto simp: map_filter_simps split: option.splits)
  also have "filter_mset (\<lambda>k. dict_get d k \<noteq> None) (mset order) = mset (map fst d)"
  proof (rule multiset_eqI)
    fix k
    show "count (filter_mset (\<lambda>k. dict_get d k \<noteq> None) (mset order)) k = count (mset (map fst d)) k"
      using assms dict_get_None_iff [of d k]
      by (auto simp: distinct_count_atmost_1 count_mset_0_iff simp del: mset_map)
  qed
  also have "image_mset (\<lambda>k. the (dict_get d k)) (mset (map fst d)) = mset (dict_values d)"
  proof -
    have "map (\<lambda>k. the (dict_get d k)) (map fst d) = map snd d"
      using assms(1) by auto (metis dict_get_iff_mem option.sel)
    then have "mset (map (\<lambda>k. the (dict_get d k)) (map fst d)) = mset (map snd d)" by (rule arg_cong)
    then show ?thesis by (simp add: dict_values_def multiset.map_comp)
  qed
  finally show ?thesis .
qed

lemma plan_mset:
  assumes "topological_order (plan_graph req) order" "state_inv cal req st"
  shows "mset (pl_assignments (finish_plan req order st)) = mset (dict_values (ss_assignments st))"
proof -
  have "fst ` set (ss_assignments st) \<subseteq> t_id ` set (rq_tasks req)"
    using assms(2) unfolding state_inv_def by force
  then have "fst ` set (ss_assignments st) \<subseteq> set order"
    using assms(1) task_in_graph [of _ req] by (auto simp: topological_order_def)
  moreover have "distinct order" using assms(1) by (simp add: topological_order_def)
  moreover have "distinct (map fst (ss_assignments st))" using assms(2) by (simp add: state_inv_def)
  ultimately show ?thesis
    using mset_values [of "ss_assignments st" order] by (simp add: finish_plan_def Let_def)
qed

lemma plan_pinned:
  assumes "plan nx cal req = Inr r" "networkx_documented nx" "distinct (map t_id (rq_tasks req))"
    and "t \<in> set (rq_tasks req)" "is_pinned t"
  shows "pinned_assignment t \<in> set (pl_assignments r)"
proof -
  obtain order st where
    run: "fold_res (place_node nx cal req) order (initial_state cal req) = Inr st"
    and mem: "\<And>a. a \<in> set (pl_assignments r) \<longleftrightarrow> dict_get (ss_assignments st) (a_task_id a) = Some a"
    using plan_run [OF assms(1-3)] by metis
  have "dict_get (ss_assignments (initial_state cal req)) (t_id t) = Some (pinned_assignment t)"
    using initial_get [OF assms(3,4)] assms(5) by simp
  then have "dict_get (ss_assignments st) (t_id t) = Some (pinned_assignment t)"
    by (rule keep_run [OF run])
  then show ?thesis unfolding mem by (simp add: pinned_assignment_def Let_def)
qed

lemma plan_covers:
  assumes "plan nx cal req = Inr r" "networkx_documented nx" "distinct (map t_id (rq_tasks req))"
  shows "distinct (map a_task_id (pl_assignments r))"
    and "set (map a_task_id (pl_assignments r)) = t_id ` set (rq_tasks req)"
proof -
  obtain order st where top: "topological_order (plan_graph req) order"
    and r: "r = finish_plan req order st" and inv: "state_inv cal req st"
    and mem: "\<And>a. a \<in> set (pl_assignments r) \<longleftrightarrow> dict_get (ss_assignments st) (a_task_id a) = Some a"
    using plan_run [OF assms] by metis
  have ids: "map a_task_id (dict_values (ss_assignments st)) = map fst (ss_assignments st)"
    using inv by (auto simp: state_inv_def dict_values_def)
  have "mset (map a_task_id (pl_assignments r)) = mset (map fst (ss_assignments st))"
    unfolding ids [symmetric] using plan_mset [OF top inv] by (simp add: r)
  then show "distinct (map a_task_id (pl_assignments r))"
    using inv mset_eq_imp_distinct_iff unfolding state_inv_def by blast
  show "set (map a_task_id (pl_assignments r)) = t_id ` set (rq_tasks req)"
  proof
    show "set (map a_task_id (pl_assignments r)) \<subseteq> t_id ` set (rq_tasks req)"
    proof
      fix k assume "k \<in> set (map a_task_id (pl_assignments r))"
      then obtain a where "dict_get (ss_assignments st) k = Some a" using mem by auto
      from dict_get_Some_mem [OF this] inv show "k \<in> t_id ` set (rq_tasks req)"
        unfolding state_inv_def by blast
    qed
    show "t_id ` set (rq_tasks req) \<subseteq> set (map a_task_id (pl_assignments r))"
    proof
      fix k assume "k \<in> t_id ` set (rq_tasks req)"
      then obtain t where t: "t \<in> set (rq_tasks req)" "k = t_id t" by auto
      show "k \<in> set (map a_task_id (pl_assignments r))"
      proof (cases "is_pinned t")
        case False
        then show ?thesis using plan_trace [OF assms t(1)] t(2)
          by (metis assignment_of_id image_eqI set_map)
      next
        case True
        have "a_task_id (pinned_assignment t) = k" using t(2) by (simp add: pinned_assignment_def Let_def)
        then show ?thesis using plan_pinned [OF assms t(1) True] by force
      qed
    qed
  qed
qed

subsection \<open>Where a task is placed\<close>

text \<open>The placement of an unpinned task, with the state and the earliest start behind it.\<close>

definition choice_of :: "person \<Rightarrow> assignment \<Rightarrow> choice" where
  "choice_of p a = ((a_allocations a, a_start_date a, a_end_date a), p)"

lemma plan_placed:
  assumes "plan nx cal req = Inr r" "networkx_documented nx" "distinct (map t_id (rq_tasks req))"
    and "t \<in> set (rq_tasks req)" "\<not> is_pinned t"
    and "a \<in> set (pl_assignments r)" "a_task_id a = t_id t"
  obtains p earliest and st0 :: solver_state and idx1 where "p_id p = a_person_id a" "p \<in> set (allowed_people req t)"
    and "earliest_start nx t (plan_graph req) (ss_assignments st0) (rq_horizon_start req) cal = Inr earliest"
    and "choose_placement t earliest cal (ss_idx st0) (horizon_limit_of req) (allowed_people req t) =
      Inr (choice_of p a, idx1)"
    and "\<And>b. b \<in> set (pl_assignments r) \<Longrightarrow> (a_task_id b, t_id t) \<in> graph_edges (plan_graph req) \<Longrightarrow>
      dict_get (ss_assignments st0) (a_task_id b) = Some b"
proof (rule plan_trace [OF assms(1-5)])
  fix earliest choice idx1 and st0 :: solver_state
  assume e: "earliest_start nx t (plan_graph req) (ss_assignments st0) (rq_horizon_start req) cal = Inr earliest"
    and c: "choose_placement t earliest cal (ss_idx st0) (horizon_limit_of req) (allowed_people req t) =
      Inr (choice, idx1)"
    and uniq: "\<And>a. a \<in> set (pl_assignments r) \<Longrightarrow> a_task_id a = t_id t \<Longrightarrow> a = assignment_of (t_id t) choice"
    and pred: "\<And>b. b \<in> set (pl_assignments r) \<Longrightarrow> (a_task_id b, t_id t) \<in> graph_edges (plan_graph req) \<Longrightarrow>
      dict_get (ss_assignments st0) (a_task_id b) = Some b"
  have a: "a = assignment_of (t_id t) choice" by (rule uniq [OF assms(6,7)])
  obtain als s e' p where choice: "choice = ((als, s, e'), p)" by (metis prod_cases3 surj_pair)
  have p: "p_id p = a_person_id a" by (simp add: choice a assignment_of_def)
  have mem: "p \<in> set (allowed_people req t)"
    using choose_serves [OF c [unfolded choice]] by (simp add: serves_def)
  have "choice = choice_of p a" by (simp add: choice a assignment_of_def choice_of_def)
  with c have c': "choose_placement t earliest cal (ss_idx st0) (horizon_limit_of req)
      (allowed_people req t) = Inr (choice_of p a, idx1)" by simp
  show thesis by (rule that [OF p mem e c' pred])
qed

text \<open>
  \<open>d\<close> is respected by \<open>a\<close> (predecessor) and \<open>b\<close>: \<open>b\<close> starts after the end of \<open>a\<close> (FS) or not before its start,
  and at least \<open>lag\<close> working days lie from there up to the start of \<open>b\<close>.
\<close>

definition link_from :: "dependency \<Rightarrow> assignment \<Rightarrow> date" where
  "link_from d a = (if d_link_type d = ascii ''FS'' then a_end_date a + 1 else a_start_date a)"

definition link_respected :: "working_calendar \<Rightarrow> dependency \<Rightarrow> assignment \<Rightarrow> assignment \<Rightarrow> bool" where
  "link_respected cal d a b \<longleftrightarrow>
     link_from d a \<le> a_start_date b \<and>
     d_lag_working_days d \<le>
       int (card {day. link_from d a \<le> day \<and> day \<le> a_start_date b \<and> is_working_day cal day})"

lemma finite_days [simp]: "finite {day :: int. a \<le> day \<and> day \<le> b \<and> P day}"
  by (rule finite_subset [of _ "{a..b}"]) auto

context calendar_port
begin

lemma candidate_respects:
  assumes "dependency_candidate cal \<lparr>e_link_type = d_link_type d, e_lag = d_lag_working_days d\<rparr> a = Inr c"
    and "c \<le> a_start_date b"
  shows "link_respected cal d a b"
proof -
  define base where "base = (if d_link_type d = ascii ''FS'' then next_working_day cal (a_end_date a)
    else a_start_date a)"
  have from_base: "link_from d a \<le> base"
    using next_later [of "a_end_date a"] by (auto simp: link_from_def base_def)
  show ?thesis
  proof (cases "0 < d_lag_working_days d")
    case True
    with assms(1) have c: "nth_working_day cal base (d_lag_working_days d) = Inr c"
      by (simp add: dependency_candidate_def base_def Let_def)
    then have nth: "c = nth_from base (nat (d_lag_working_days d - 1))" by (simp add: nth_working_day_Inr)
    have "base \<le> c" using nth_working_day_ge [OF c] first_ge [of base] by simp
    moreover have "card {day. base \<le> day \<and> day \<le> c \<and> is_working_day cal day} = nat (d_lag_working_days d)"
      unfolding nth nth_from_card using True by simp
    moreover have "card {day. base \<le> day \<and> day \<le> c \<and> is_working_day cal day} \<le>
        card {day. link_from d a \<le> day \<and> day \<le> a_start_date b \<and> is_working_day cal day}"
      by (rule card_mono) (use from_base assms(2) in auto)
    ultimately have "d_lag_working_days d \<le>
        int (card {day. link_from d a \<le> day \<and> day \<le> a_start_date b \<and> is_working_day cal day})"
      using True by linarith
    moreover have "link_from d a \<le> a_start_date b" using from_base \<open>base \<le> c\<close> assms(2) by linarith
    ultimately show ?thesis unfolding link_respected_def by blast
  next
    case False
    with assms(1) have "c = first_working_day cal base"
      by (simp add: dependency_candidate_def base_def Let_def)
    then have "link_from d a \<le> a_start_date b"
      using from_base first_ge [of base] assms(2) by linarith
    moreover have "d_lag_working_days d \<le> int n" for n using False by linarith
    ultimately show ?thesis unfolding link_respected_def by blast
  qed
qed

lemma plan_links:
  assumes "plan nx cal req = Inr r" "networkx_documented nx" "distinct (map t_id (rq_tasks req))"
    and "distinct (map (\<lambda>d. (d_depends_on_id d, d_task_id d)) (rq_dependencies req))"
    and "d \<in> set (rq_dependencies req)"
    and "t \<in> set (rq_tasks req)" "t_id t = d_task_id d" "\<not> is_pinned t"
    and "a \<in> set (pl_assignments r)" "a_task_id a = d_depends_on_id d"
    and "b \<in> set (pl_assignments r)" "a_task_id b = d_task_id d"
  shows "link_respected cal d a b"
proof -
  have b: "a_task_id b = t_id t" using assms(7,12) by simp
  obtain p earliest and st0 :: solver_state and idx1 where
    e: "earliest_start nx t (plan_graph req) (ss_assignments st0) (rq_horizon_start req) cal = Inr earliest"
    and c: "choose_placement t earliest cal (ss_idx st0) (horizon_limit_of req) (allowed_people req t) =
      Inr (choice_of p b, idx1)"
    and pred: "\<And>a. a \<in> set (pl_assignments r) \<Longrightarrow> (a_task_id a, t_id t) \<in> graph_edges (plan_graph req) \<Longrightarrow>
      dict_get (ss_assignments st0) (a_task_id a) = Some a"
    using plan_placed [OF assms(1-3,6,8,11) b] by metis
  have edge: "(d_depends_on_id d, t_id t) \<in> graph_edges (plan_graph req)"
    using dependency_edge [OF assms(5)] assms(7) by simp
  then have "dict_get (ss_assignments st0) (d_depends_on_id d) = Some a" using pred assms(9,10) by metis
  moreover have "d_depends_on_id d \<in> set (nx_predecessors nx (plan_graph req) (t_id t))"
    using assms(2) edge by (simp add: networkx_documented_def)
  moreover have "nx_edge nx (plan_graph req) (d_depends_on_id d) (t_id t) =
      \<lparr>e_link_type = d_link_type d, e_lag = d_lag_working_days d\<rparr>"
    using assms(2) dependency_attrs [OF assms(4,5)] by (simp add: networkx_documented_def assms(7))
  ultimately obtain cand where
    "dependency_candidate cal \<lparr>e_link_type = d_link_type d, e_lag = d_lag_working_days d\<rparr> a = Inr cand"
    "cand \<le> earliest"
    using earliest_start_spec [OF e] by metis
  moreover have "earliest \<le> a_start_date b"
    using choose_placed_well [OF c [unfolded choice_of_def]] by (simp add: placed_well_def)
  ultimately show ?thesis using candidate_respects by (meson order_trans)
qed

lemma plan_days:
  assumes "plan nx cal req = Inr r" "networkx_documented nx" "distinct (map t_id (rq_tasks req))"
    and "t \<in> set (rq_tasks req)" "\<not> is_pinned t" "a \<in> set (pl_assignments r)" "a_task_id a = t_id t"
  shows "placed_well cal (rq_horizon_start req) (a_allocations a, a_start_date a, a_end_date a)"
proof -
  obtain p earliest and st0 :: solver_state and idx1 where
    e: "earliest_start nx t (plan_graph req) (ss_assignments st0) (rq_horizon_start req) cal = Inr earliest"
    and c: "choose_placement t earliest cal (ss_idx st0) (horizon_limit_of req) (allowed_people req t) =
      Inr (choice_of p a, idx1)"
    using plan_placed [OF assms] by metis
  from earliest_start_spec [OF e] choose_placed_well [OF c [unfolded choice_of_def]] show ?thesis
    by (auto simp: placed_well_def)
qed

end

lemma plan_serves:
  assumes "plan nx cal req = Inr r" "networkx_documented nx" "distinct (map t_id (rq_tasks req))"
    and "t \<in> set (rq_tasks req)" "\<not> is_pinned t" "a \<in> set (pl_assignments r)" "a_task_id a = t_id t"
  shows "\<exists>p. p_id p = a_person_id a \<and> serves t (allowed_people req t) (choice_of p a)"
  using plan_placed [OF assms] choose_serves unfolding choice_of_def by metis

subsection \<open>Overloads, end date and deadline\<close>

definition request_index :: "working_calendar \<Rightarrow> plan_request \<Rightarrow> capacity_index" where
  "request_index cal req =
     capacity_index_init (rq_people req) cal (rq_day_overrides req) (rq_existing_allocations req)"

lemma booked_mset:
  assumes "mset xs = mset ys"
  shows "booked xs pd = booked ys pd"
proof -
  have "booked zs pd = sum_mset (image_mset al_hours
      (filter_mset (\<lambda>al. (al_person_id al, al_day al) = pd) (mset zs)))" for zs :: "day_allocation list"
    by (simp add: booked_def sum_mset_sum_list [symmetric])
  then show ?thesis using assms by simp
qed

lemma plan_allocations_mset:
  "mset as = mset bs \<Longrightarrow> booked (plan_allocations as) pd = booked (plan_allocations bs) pd"
proof (rule booked_mset)
  assume eq: "mset as = mset bs"
  have flat: "mset (plan_allocations as) = \<Sum>\<^sub># (image_mset (\<lambda>a. mset (a_allocations a)) (mset as))"
    for as :: "assignment list" by (induction as) simp_all
  show "mset (plan_allocations as) = mset (plan_allocations bs)" unfolding flat eq ..
qed

lemma overload_flag_simps [simp]:
  "r_kind (overload_flag (pid, day, used, base)) = ascii ''overload''"
  "r_person_id (overload_flag (pid, day, used, base)) = Some pid"
  "r_day (overload_flag (pid, day, used, base)) = Some day"
  by (simp_all add: overload_flag_def)

lemma deadline_flag_kind [simp]: "r_kind (deadline_flag e d) = ascii ''deadline_missed''"
  by (simp add: deadline_flag_def)

lemma deadline_risks_kind: "f \<in> set (deadline_risks dl e) \<Longrightarrow> r_kind f = ascii ''deadline_missed''"
  by (auto simp: deadline_risks_def split: option.splits if_splits)

lemma plan_overload_flags:
  assumes "plan nx cal req = Inr r" "networkx_documented nx" "distinct (map t_id (rq_tasks req))"
    and "0 \<le> base_capacity (request_index cal req) pid day"
  shows "(\<exists>f \<in> set (plan_overloads r). r_person_id f = Some pid \<and> r_day f = Some day) \<longleftrightarrow>
    base_capacity (request_index cal req) pid day <
      booked (rq_existing_allocations req) (pid, day) + booked (plan_allocations (pl_assignments r)) (pid, day)"
proof -
  obtain order st where top: "topological_order (plan_graph req) order"
    and r: "r = finish_plan req order st" and inv: "state_inv cal req st"
    using plan_run [OF assms(1-3)] by metis
  have flags: "f \<in> set (plan_overloads r) \<longleftrightarrow> f \<in> overload_flag ` set (overloads (ss_idx st))" for f
    using deadline_risks_kind by (auto simp: r plan_overloads_def finish_plan_def overload_flags_def Let_def)
  have used: "used_hours (ss_idx st) (pid, day) =
      booked (rq_existing_allocations req) (pid, day) + booked (plan_allocations (pl_assignments r)) (pid, day)"
    using inv plan_allocations_mset [OF plan_mset [OF top inv]] by (simp add: r state_inv_def)
  have base: "base_capacity (ss_idx st) = base_capacity (request_index cal req)" and ok: "index_ok (ss_idx st)"
    using inv by (simp_all add: state_inv_def request_index_def)
  have "(\<exists>f \<in> set (plan_overloads r). r_person_id f = Some pid \<and> r_day f = Some day) \<longleftrightarrow>
      (\<exists>used base. (pid, day, used, base) \<in> set (overloads (ss_idx st)))"
  proof
    assume "\<exists>f \<in> set (plan_overloads r). r_person_id f = Some pid \<and> r_day f = Some day"
    then obtain f where f: "f \<in> set (plan_overloads r)" "r_person_id f = Some pid" "r_day f = Some day"
      by blast
    then obtain o' where "o' \<in> set (overloads (ss_idx st))"
      "r_person_id (overload_flag o') = Some pid" "r_day (overload_flag o') = Some day"
      using flags [of f] by auto
    then show "\<exists>used base. (pid, day, used, base) \<in> set (overloads (ss_idx st))"
      by (cases o' rule: prod_cases4) auto
  next
    assume "\<exists>used base. (pid, day, used, base) \<in> set (overloads (ss_idx st))"
    then obtain used base where "overload_flag (pid, day, used, base) \<in> set (plan_overloads r)"
      using flags by blast
    then show "\<exists>f \<in> set (plan_overloads r). r_person_id f = Some pid \<and> r_day f = Some day" by force
  qed
  also have "\<dots> \<longleftrightarrow> base_capacity (ss_idx st) pid day < used_hours (ss_idx st) (pid, day)"
  proof
    assume "\<exists>used base. (pid, day, used, base) \<in> set (overloads (ss_idx st))"
    then show "base_capacity (ss_idx st) pid day < used_hours (ss_idx st) (pid, day)"
      using ok by (auto simp: overloads_iff used_hours_def dict_get_default_def)
  next
    assume "base_capacity (ss_idx st) pid day < used_hours (ss_idx st) (pid, day)"
    then show "\<exists>used base. (pid, day, used, base) \<in> set (overloads (ss_idx st))"
      using overloaded_day_listed [OF ok] assms(4) base by metis
  qed
  finally show ?thesis by (simp add: base used)
qed

lemma end_date_of_spec:
  "end_date_of as = None \<longleftrightarrow> as = []"
  "end_date_of as = Some e \<longleftrightarrow> (\<exists>a \<in> set as. a_end_date a = e) \<and> (\<forall>a \<in> set as. a_end_date a \<le> e)"
proof -
  show "end_date_of as = None \<longleftrightarrow> as = []" by (simp add: end_date_of_def)
  show "end_date_of as = Some e \<longleftrightarrow> (\<exists>a \<in> set as. a_end_date a = e) \<and> (\<forall>a \<in> set as. a_end_date a \<le> e)"
  proof (cases "as = []")
    case False
    then have "Max (a_end_date ` set as) = e \<longleftrightarrow>
        e \<in> a_end_date ` set as \<and> (\<forall>x \<in> a_end_date ` set as. x \<le> e)"
      by (intro Max_eq_iff) auto
    with False show ?thesis by (auto simp: end_date_of_def)
  qed (simp add: end_date_of_def)
qed

lemma end_date_of_mset: "mset as = mset bs \<Longrightarrow> end_date_of as = end_date_of bs"
  unfolding end_date_of_def by (metis mset_eq_setD mset_zero_iff set_map)

lemma plan_end_date:
  assumes "plan nx cal req = Inr r" "networkx_documented nx" "distinct (map t_id (rq_tasks req))"
  shows "pl_end_date r = end_date_of (pl_assignments r)"
    and "(\<exists>f \<in> set (pl_risks r). r_kind f = ascii ''deadline_missed'') \<longleftrightarrow>
      (\<exists>dl a. rq_deadline req = Some dl \<and> a \<in> set (pl_assignments r) \<and> dl < a_end_date a)"
proof -
  obtain order st where top: "topological_order (plan_graph req) order"
    and r: "r = finish_plan req order st" and inv: "state_inv cal req st"
    using plan_run [OF assms] by metis
  show "pl_end_date r = end_date_of (pl_assignments r)"
    using end_date_of_mset [OF plan_mset [OF top inv]] by (simp add: r) (simp add: finish_plan_def Let_def)
  then have risks: "pl_risks r = overload_flags (ss_idx st) @
      deadline_risks (rq_deadline req) (end_date_of (pl_assignments r))"
    by (simp add: r finish_plan_def Let_def)
  have "(\<exists>f \<in> set (pl_risks r). r_kind f = ascii ''deadline_missed'') \<longleftrightarrow>
      deadline_risks (rq_deadline req) (end_date_of (pl_assignments r)) \<noteq> []"
  proof
    assume "deadline_risks (rq_deadline req) (end_date_of (pl_assignments r)) \<noteq> []"
    then obtain f where "f \<in> set (deadline_risks (rq_deadline req) (end_date_of (pl_assignments r)))"
      by (meson last_in_set)
    then show "\<exists>f \<in> set (pl_risks r). r_kind f = ascii ''deadline_missed''"
      using deadline_risks_kind by (auto simp: risks)
  qed (auto simp: risks overload_flags_def)
  also have "\<dots> \<longleftrightarrow> (\<exists>dl e. rq_deadline req = Some dl \<and> end_date_of (pl_assignments r) = Some e \<and> dl < e)"
    by (auto simp: deadline_risks_def split: option.splits)
  also have "\<dots> \<longleftrightarrow> (\<exists>dl a. rq_deadline req = Some dl \<and> a \<in> set (pl_assignments r) \<and> dl < a_end_date a)"
  proof
    assume "\<exists>dl e. rq_deadline req = Some dl \<and> end_date_of (pl_assignments r) = Some e \<and> dl < e"
    then show "\<exists>dl a. rq_deadline req = Some dl \<and> a \<in> set (pl_assignments r) \<and> dl < a_end_date a"
      using end_date_of_spec(2) [of "pl_assignments r"] by auto
  next
    assume "\<exists>dl a. rq_deadline req = Some dl \<and> a \<in> set (pl_assignments r) \<and> dl < a_end_date a"
    then obtain dl a where a: "rq_deadline req = Some dl" "a \<in> set (pl_assignments r)" "dl < a_end_date a"
      by blast
    then obtain e where e: "end_date_of (pl_assignments r) = Some e"
      using end_date_of_spec(1) [of "pl_assignments r"] by (cases "end_date_of (pl_assignments r)") auto
    then have "a_end_date a \<le> e" using end_date_of_spec(2) a(2) by blast
    with a e show "\<exists>dl e. rq_deadline req = Some dl \<and> end_date_of (pl_assignments r) = Some e \<and> dl < e"
      by (meson order.strict_trans2)
  qed
  finally show "(\<exists>f \<in> set (pl_risks r). r_kind f = ascii ''deadline_missed'') \<longleftrightarrow>
      (\<exists>dl a. rq_deadline req = Some dl \<and> a \<in> set (pl_assignments r) \<and> dl < a_end_date a)" .
qed

subsection \<open>When planning raises\<close>

text \<open>A task no candidate can be scheduled for: splittable, without hours, neither window nor pair.\<close>

definition unplaceable :: "plan_request \<Rightarrow> task \<Rightarrow> bool" where
  "unplaceable req t \<longleftrightarrow> \<not> is_pinned t \<and> t_is_splittable t \<and> t_duration_hours t \<le> 0 \<and>
     \<not> t_duration_is_window t \<and> \<not> pairs_up t (allowed_people req t)"

lemma choose_error:
  assumes "choose_placement t earliest cal idx limit (allowed_people req t) = Inl e"
    and "rq_people req \<noteq> []" "\<not> is_pinned t"
  shows "e = ValueError \<and> unplaceable req t"
proof -
  have ne: "allowed_people req t \<noteq> []" using assms(2) by (rule allowed_people_nonempty)
  have "unplaceable req t"
  proof (rule ccontr)
    assume "\<not> unplaceable req t"
    then have "0 < t_duration_hours t \<or> \<not> t_is_splittable t \<or> t_duration_is_window t \<or>
        pairs_up t (allowed_people req t)"
      using assms(3) by (auto simp: unplaceable_def)
    from choose_total [OF this ne, of earliest cal idx limit] assms(1) show False by auto
  qed
  moreover from this have "choose_placement t earliest cal idx limit (allowed_people req t) = Inl ValueError"
    unfolding unplaceable_def by (intro choose_ValueError ne) auto
  ultimately show ?thesis using assms(1) by simp
qed

definition pinned_present :: "plan_request \<Rightarrow> solver_state \<Rightarrow> bool" where
  "pinned_present req st \<longleftrightarrow>
     (\<forall>t \<in> set (rq_tasks req). is_pinned t \<longrightarrow> dict_get (ss_assignments st) (t_id t) \<noteq> None)"

lemma pinned_present_step:
  "pinned_present req u \<Longrightarrow> place_node nx cal req tid u = Inr v \<Longrightarrow> pinned_present req v"
  unfolding pinned_present_def using keep_step by fastforce

lemma place_node_error:
  assumes "place_node nx cal req tid st = Inl e" "rq_people req \<noteq> []" "pinned_present req st"
  shows "e = ValueError \<and> (\<exists>t \<in> set (rq_tasks req). unplaceable req t)"
proof -
  from assms(1) obtain t where t: "dict_get (tasks_by_id req) tid = Some t"
    "place_task nx cal req tid t st = Inl e" "dict_get (ss_assignments st) tid = None"
    by (auto simp: place_node_def dict_has_def split: if_splits option.splits)
  have mem: "t \<in> set (rq_tasks req)" "t_id t = tid" using tasks_by_id_SomeD [OF t(1)] by auto
  then have "\<not> is_pinned t" using assms(3) t(3) by (auto simp: pinned_present_def)
  moreover obtain earliest where
    "choose_placement t earliest cal (ss_idx st) (horizon_limit_of req) (allowed_people req t) = Inl e"
    using t(2) earliest_start_total [of nx t "plan_graph req" "ss_assignments st" "rq_horizon_start req" cal]
    by (auto simp: place_task_def res_simps)
  ultimately show ?thesis using choose_error assms(2) mem by blast
qed

lemma plan_unplaceable:
  assumes "networkx_documented nx" "distinct (map t_id (rq_tasks req))"
    and "plan nx cal req = Inr r" "t \<in> set (rq_tasks req)"
  shows "\<not> unplaceable req t"
proof
  assume bad: "unplaceable req t"
  then have "\<not> is_pinned t" by (simp add: unplaceable_def)
  have "rq_people req \<noteq> []" using assms(3,4) by (auto simp: plan_def split: if_splits)
  then have ne: "allowed_people req t \<noteq> []" by (rule allowed_people_nonempty)
  show False
  proof (rule plan_trace [OF assms(3,1,2,4) \<open>\<not> is_pinned t\<close>])
    fix earliest choice idx1 and st0 :: solver_state
    assume "choose_placement t earliest cal (ss_idx st0) (horizon_limit_of req) (allowed_people req t) =
      Inr (choice, idx1)"
    moreover have "choose_placement t earliest cal (ss_idx st0) (horizon_limit_of req)
        (allowed_people req t) = Inl ValueError"
      using bad unfolding unplaceable_def by (intro choose_ValueError ne) auto
    ultimately show False by simp
  qed
qed

lemma plan_outcome:
  assumes "networkx_documented nx" "distinct (map t_id (rq_tasks req))"
  shows "plan nx cal req =
    (if rq_tasks req \<noteq> [] \<and> rq_people req = [] then Inl NoPeopleError
     else if \<not> acyclic (graph_edges (plan_graph req)) then Inl NetworkXUnfeasible
     else if \<exists>t \<in> set (rq_tasks req). unplaceable req t then Inl ValueError
     else Inr (projr (plan nx cal req)))"
proof (cases "(rq_tasks req \<noteq> [] \<and> rq_people req = []) \<or> \<not> acyclic (graph_edges (plan_graph req))")
  case True
  then show ?thesis
    using documented_sort(2) [OF assms(1), of "plan_graph req"] by (auto simp: plan_def)
next
  case False
  then obtain order where order: "nx_topological_sort nx (plan_graph req) = Some order"
    using documented_sort(2) [OF assms(1), of "plan_graph req"] by auto
  have unfold: "plan nx cal req =
      bind_res (fold_res (place_node nx cal req) order (initial_state cal req)) (\<lambda>st. Inr (finish_plan req order st))"
    using False order by (auto simp: plan_def)
  have start: "pinned_present req (initial_state cal req)"
    using initial_get [OF assms(2)] by (simp add: pinned_present_def)
  have stuck: "e = ValueError \<and> (\<exists>t \<in> set (rq_tasks req). unplaceable req t)" if e: "plan nx cal req = Inl e" for e
  proof -
    from e have "fold_res (place_node nx cal req) order (initial_state cal req) = Inl e"
      by (simp add: unfold res_simps)
    from fold_res_error [where P = "pinned_present req", OF this start] obtain tid st where
      step: "place_node nx cal req tid st = Inl e" "pinned_present req st"
      using pinned_present_step by blast
    have "rq_people req \<noteq> []"
    proof
      assume "rq_people req = []"
      with False have "tasks_by_id req = []" by (simp add: tasks_by_id_def dict_of_def)
      with step(1) show False by (simp add: place_node_def split: if_splits)
    qed
    with step place_node_error show ?thesis by blast
  qed
  show ?thesis
  proof (cases "plan nx cal req")
    case (Inl e)
    with stuck False show ?thesis by auto
  next
    case (Inr r)
    then have "\<not> (\<exists>t \<in> set (rq_tasks req). unplaceable req t)" using plan_unplaceable [OF assms] by blast
    with Inr False show ?thesis by auto
  qed
qed

end
