(* ===== verification/Critical_Path.thy ===== *)
theory Critical_Path
  imports Greedy_Solver
begin

section \<open>Backward mode: the critical path\<close>

text \<open>
  \<open>domain/solver/critical_path.py\<close>. Unlike \<open>plan\<close>, which skips a dependency on an unknown task,
  \<open>critical_path_end\<close> looks every node of the graph up and raises \<open>KeyError\<close>. The edges carry no
  attributes here (\<open>no_attrs\<close>, never read). The specification is the inductive relation
  \<open>chain_to\<close>: the total lengths of the dependency chains that end in a task.
\<close>

definition BACKWARD_BUFFER_WORKING_DAYS :: nat where
  "BACKWARD_BUFFER_WORKING_DAYS = 2"

definition request_people :: "plan_request \<Rightarrow> (uuid, person) dict" where
  "request_people req = dict_of (map (\<lambda>p. (p_id p, p)) (rq_people req))"

definition request_tasks :: "plan_request \<Rightarrow> (uuid, task) dict" where
  "request_tasks req = dict_of (map (\<lambda>t. (t_id t, t)) (rq_tasks req))"

definition duration_days :: "task \<Rightarrow> (uuid, person) dict \<Rightarrow> int" where
  "duration_days task people =
     (let caps = map p_capacity_h (List.map_filter (dict_get people) (t_allowed_person_ids task));
          cap = max (if caps \<noteq> [] then Min (set caps) else 8) 1
      in max 1 (ceil_div (t_duration_hours task) cap))"

definition no_attrs :: edge_attr where
  "no_attrs = \<lparr>e_link_type = [], e_lag = 0\<rparr>"

definition critical_graph :: "plan_request \<Rightarrow> digraph" where
  "critical_graph req =
     map (\<lambda>t. AddNode (t_id t)) (rq_tasks req) @
     map (\<lambda>d. AddEdge (d_depends_on_id d) (d_task_id d) no_attrs) (rq_dependencies req)"

definition max_default0 :: "int list \<Rightarrow> int" where
  "max_default0 xs = (if xs = [] then 0 else Max (set xs))"

definition finish_node ::
  "networkx \<Rightarrow> plan_request \<Rightarrow> uuid \<Rightarrow> (uuid, int) dict \<times> int \<Rightarrow> ((uuid, int) dict \<times> int) res" where
  "finish_node nx req tid = (\<lambda>(ef_days, max_ef).
     bind_res (dict_item (request_tasks req) tid) (\<lambda>task.
     bind_res (map_res (dict_item ef_days) (nx_predecessors nx (critical_graph req) tid)) (\<lambda>efs.
       (let ef = max_default0 efs + duration_days task (request_people req)
        in Inr (dict_set tid ef ef_days, max max_ef ef)))))"

definition critical_path_end :: "networkx \<Rightarrow> plan_request \<Rightarrow> date \<Rightarrow> working_calendar \<Rightarrow> date res" where
  "critical_path_end nx req start calendar =
     (case nx_topological_sort nx (critical_graph req) of
        None \<Rightarrow> Inl NetworkXUnfeasible
      | Some order \<Rightarrow>
          bind_res (fold_res (finish_node nx req) order ([], 0)) (\<lambda>(ef_days, max_ef).
            if max_ef = 0 then Inr (first_working_day calendar start)
            else nth_working_day calendar start max_ef))"

definition presented_earliest_end :: "networkx \<Rightarrow> plan_request \<Rightarrow> date \<Rightarrow> working_calendar \<Rightarrow> date res" where
  "presented_earliest_end nx req start calendar =
     bind_res (critical_path_end nx req start calendar)
       (\<lambda>end. Inr ((next_working_day calendar ^^ BACKWARD_BUFFER_WORKING_DAYS) end))"

subsection \<open>Chains of dependencies\<close>

definition task_days :: "plan_request \<Rightarrow> uuid \<Rightarrow> int" where
  "task_days req tid =
     (case dict_get (request_tasks req) tid of None \<Rightarrow> 0 | Some t \<Rightarrow> duration_days t (request_people req))"

inductive chain_to :: "plan_request \<Rightarrow> uuid \<Rightarrow> int \<Rightarrow> bool" for req where
  chain_single: "t \<in> set (rq_tasks req) \<Longrightarrow> chain_to req (t_id t) (task_days req (t_id t))"
| chain_extend: "d \<in> set (rq_dependencies req) \<Longrightarrow> chain_to req (d_depends_on_id d) n \<Longrightarrow>
    chain_to req (d_task_id d) (n + task_days req (d_task_id d))"

lemma duration_days_pos: "1 \<le> duration_days task people"
  by (simp add: duration_days_def Let_def)

lemma critical_edges:
  "graph_edges (critical_graph req) = (\<lambda>d. (d_depends_on_id d, d_task_id d)) ` set (rq_dependencies req)"
proof -
  have app: "edge_calls (g @ h) = edge_calls g @ edge_calls h" for g h
    by (induction g rule: edge_calls.induct) auto
  have "edge_calls (map (\<lambda>t. AddNode (t_id t)) ts) = []" for ts :: "task list" by (induction ts) auto
  moreover have "edge_calls (map (\<lambda>d. AddEdge (d_depends_on_id d) (d_task_id d) no_attrs) ds) =
      map (\<lambda>d. ((d_depends_on_id d, d_task_id d), no_attrs)) ds" for ds :: "dependency list"
    by (induction ds) auto
  ultimately show ?thesis by (simp add: graph_edges_def critical_graph_def app image_image)
qed

lemma critical_nodes:
  "set (graph_nodes (critical_graph req)) = t_id ` set (rq_tasks req) \<union>
    d_depends_on_id ` set (rq_dependencies req) \<union> d_task_id ` set (rq_dependencies req)"
  by (auto simp: graph_nodes_def critical_graph_def)

lemma max_default0_ge: "x \<in> set xs \<Longrightarrow> x \<le> max_default0 xs"
  by (auto simp: max_default0_def)

lemma max_default0_cases: "max_default0 xs = 0 \<and> xs = [] \<or> max_default0 xs \<in> set xs"
  by (auto simp: max_default0_def)

text \<open>
  The loop invariant: the finished tasks carry the length of a longest chain that ends in them, and
  \<open>max_ef\<close> is the largest.
\<close>

definition ef_inv :: "plan_request \<Rightarrow> (uuid, int) dict \<times> int \<Rightarrow> bool" where
  "ef_inv req = (\<lambda>(ef, m).
     (\<forall>v n. dict_get ef v = Some n \<longrightarrow>
        chain_to req v n \<and> (\<forall>n'. chain_to req v n' \<longrightarrow> n' \<le> n) \<and> n \<le> m \<and> 0 < n) \<and>
     (m = 0 \<and> (\<forall>v. dict_get ef v = None) \<or> (\<exists>v. dict_get ef v = Some m)))"

lemma ef_inv_step:
  assumes "networkx_documented nx" "ef_inv req (ef, m)"
    and "finish_node nx req tid (ef, m) = Inr (ef', m')" "dict_get ef tid = None"
  shows "ef_inv req (ef', m')"
proof -
  from assms(3) obtain task efs where t: "dict_get (request_tasks req) tid = Some task"
    and efs: "list_all2 (\<lambda>p n. dict_get ef p = Some n) (nx_predecessors nx (critical_graph req) tid) efs"
    and new: "ef' = dict_set tid (max_default0 efs + task_days req tid) ef"
      "m' = max m (max_default0 efs + task_days req tid)"
    by (auto simp: finish_node_def res_simps map_res_Inr Let_def task_days_def)
  let ?n = "max_default0 efs + task_days req tid"
  have mem: "task \<in> set (rq_tasks req)" "t_id task = tid"
    using t dict_of_key_get_SomeD [of t_id "\<lambda>t. t" "rq_tasks req"] by (auto simp: request_tasks_def)
  have pos: "0 < task_days req tid" using duration_days_pos [of task "request_people req"]
    by (simp add: task_days_def t)
  have preds: "set (nx_predecessors nx (critical_graph req) tid) =
      {u. \<exists>d \<in> set (rq_dependencies req). d_depends_on_id d = u \<and> d_task_id d = tid}"
    using assms(1) by (auto simp: networkx_documented_def critical_edges)
  have chain: "chain_to req tid ?n \<and> 0 < ?n"
  proof (cases "efs = []")
    case True
    then show ?thesis using chain_single [OF mem(1)] mem(2) pos by (simp add: max_default0_def)
  next
    case False
    then have "max_default0 efs \<in> set efs" using max_default0_cases by blast
    then obtain p where p: "p \<in> set (nx_predecessors nx (critical_graph req) tid)"
      "dict_get ef p = Some (max_default0 efs)"
      using list_all2_right [OF efs] by blast
    then obtain d where d: "d \<in> set (rq_dependencies req)" "d_depends_on_id d = p" "d_task_id d = tid"
      using preds by auto
    have "chain_to req p (max_default0 efs) \<and> 0 < max_default0 efs" using assms(2) p(2) by (simp add: ef_inv_def)
    with chain_extend [OF d(1)] d(2,3) pos show ?thesis by force
  qed
  have longest: "n' \<le> ?n" if "chain_to req tid n'" for n'
    using that
  proof (cases rule: chain_to.cases)
    case (chain_single t')
    have "0 \<le> max_default0 efs"
    proof (rule ccontr)
      assume neg: "\<not> 0 \<le> max_default0 efs"
      then have "max_default0 efs \<in> set efs" using max_default0_cases [of efs] by auto
      then obtain p where "dict_get ef p = Some (max_default0 efs)"
        using list_all2_right [OF efs] by blast
      with assms(2) have "0 < max_default0 efs" unfolding ef_inv_def by blast
      with neg show False by simp
    qed
    with chain_single show ?thesis by simp
  next
    case (chain_extend d n)
    then have "d_depends_on_id d \<in> set (nx_predecessors nx (critical_graph req) tid)" using preds by auto
    then obtain e where e: "e \<in> set efs" "dict_get ef (d_depends_on_id d) = Some e"
      using list_all2_left [OF efs] by blast
    then have "n \<le> e" using assms(2) chain_extend(4) by (auto simp: ef_inv_def)
    then show ?thesis using max_default0_ge [OF e(1)] chain_extend by simp
  qed
  have old: "chain_to req v n \<and> (\<forall>n'. chain_to req v n' \<longrightarrow> n' \<le> n) \<and> n \<le> m \<and> 0 < n"
    if "dict_get ef v = Some n" for v n
    using assms(2) that by (simp add: ef_inv_def)
  have "m' = ?n \<or> m' = m \<and> 0 < m" using chain new(2) by (auto simp: max_def)
  then have "\<exists>v. dict_get ef' v = Some m'"
  proof
    assume "m' = m \<and> 0 < m"
    then obtain v where "dict_get ef v = Some m" using assms(2) by (auto simp: ef_inv_def)
    then have "dict_get ef' v = Some m'" using assms(4) \<open>m' = m \<and> 0 < m\<close>
      by (auto simp: new(1) dict_simps)
    then show ?thesis ..
  qed (auto simp: new(1) dict_simps)
  moreover have "chain_to req v n \<and> (\<forall>n'. chain_to req v n' \<longrightarrow> n' \<le> n) \<and> n \<le> m' \<and> 0 < n"
    if get: "dict_get ef' v = Some n" for v n
  proof (cases "v = tid")
    case True
    with get have "n = ?n" by (simp add: new(1) dict_simps)
    with True chain longest show ?thesis by (simp add: new(2))
  next
    case False
    with get have "dict_get ef v = Some n" by (simp add: new(1) dict_simps)
    from old [OF this] show ?thesis by (auto simp: new(2))
  qed
  ultimately show ?thesis unfolding ef_inv_def by blast
qed

lemma ef_keys_step:
  "finish_node nx req tid st = Inr st' \<Longrightarrow>
    dict_get (fst st') v \<noteq> None \<longleftrightarrow> v = tid \<or> dict_get (fst st) v \<noteq> None"
  by (cases st) (auto simp: finish_node_def res_simps Let_def dict_simps)

lemma ef_run:
  assumes "networkx_documented nx" "fold_res (finish_node nx req) order st = Inr st'"
    and "distinct order" "ef_inv req st" "\<forall>v \<in> set order. dict_get (fst st) v = None"
  shows "ef_inv req st' \<and> (\<forall>v. dict_get (fst st') v \<noteq> None \<longleftrightarrow> v \<in> set order \<or> dict_get (fst st) v \<noteq> None)"
  using assms(2-)
proof (induction order arbitrary: st)
  case (Cons tid order)
  from Cons.prems(1) obtain st1 where st1: "finish_node nx req tid st = Inr st1"
    "fold_res (finish_node nx req) order st1 = Inr st'" by (auto simp: res_simps)
  have "ef_inv req st1"
    using ef_inv_step [OF assms(1), of req "fst st" "snd st" tid "fst st1" "snd st1"] Cons.prems st1(1) by simp
  moreover have "\<forall>v \<in> set order. dict_get (fst st1) v = None"
    using ef_keys_step [OF st1(1)] Cons.prems(2,4) by fastforce
  ultimately show ?case using Cons.IH [OF st1(2)] Cons.prems(2) ef_keys_step [OF st1(1)] by auto
qed simp

lemma chain_node: "chain_to req v n \<Longrightarrow> v \<in> set (graph_nodes (critical_graph req))"
  by (induction rule: chain_to.induct) (auto simp: critical_nodes)

text \<open>The finish is the working day at the length of a longest chain.\<close>

lemma critical_path_longest:
  assumes "networkx_documented nx" "critical_path_end nx req start cal = Inr d" "rq_tasks req \<noteq> []"
  shows "\<exists>n. (\<exists>v. chain_to req v n) \<and> (\<forall>v n'. chain_to req v n' \<longrightarrow> n' \<le> n) \<and> 1 \<le> n \<and>
    nth_working_day cal start n = Inr d"
proof -
  from assms(2) obtain order ef m where top: "nx_topological_sort nx (critical_graph req) = Some order"
    and run: "fold_res (finish_node nx req) order ([], 0) = Inr (ef, m)"
    and d: "(if m = 0 then Inr (first_working_day cal start) else nth_working_day cal start m) = Inr d"
    by (auto simp: critical_path_end_def res_simps split: option.splits)
  have order: "distinct order" "set order = set (graph_nodes (critical_graph req))"
    using documented_sort(1) [OF assms(1) top] by (auto simp: topological_order_def)
  have "ef_inv req ([], 0)" by (simp add: ef_inv_def)
  from ef_run [OF assms(1) run order(1) this] have inv: "ef_inv req (ef, m)"
    and keys: "\<And>v. dict_get ef v \<noteq> None \<longleftrightarrow> v \<in> set order" by auto
  obtain t where t: "t \<in> set (rq_tasks req)" using assms(3) by (cases "rq_tasks req") auto
  then have "dict_get ef (t_id t) \<noteq> None" using keys order(2) critical_nodes by blast
  then obtain v where v: "dict_get ef v = Some m" using inv by (auto simp: ef_inv_def)
  then have "chain_to req v m" "0 < m" using inv unfolding ef_inv_def by blast+
  then have "1 \<le> m" by linarith
  moreover have "n' \<le> m" if "chain_to req u n'" for u n'
  proof -
    have "dict_get ef u \<noteq> None" using chain_node [OF that] keys order(2) by simp
    then obtain n where "dict_get ef u = Some n" by auto
    then show ?thesis using inv that by (auto simp: ef_inv_def dest: order_trans)
  qed
  moreover have "nth_working_day cal start m = Inr d" using d \<open>1 \<le> m\<close> by simp
  ultimately show ?thesis using \<open>chain_to req v m\<close> \<open>1 \<le> m\<close> by blast
qed

text \<open>It raises only \<open>KeyError\<close>, on a dependency on an unknown task, or \<open>NetworkXUnfeasible\<close>.\<close>

lemma finish_node_total:
  assumes "networkx_documented nx" "v \<in> t_id ` set (rq_tasks req)"
    and "\<forall>u. (u, v) \<in> graph_edges (critical_graph req) \<longrightarrow> dict_get ef u \<noteq> None"
  shows "\<exists>st. finish_node nx req v (ef, m) = Inr st"
proof -
  have "dict_get (request_tasks req) v \<noteq> None"
    using assms(2) dict_of_key_get_None [of t_id "\<lambda>t. t" "rq_tasks req" v] by (simp add: request_tasks_def)
  moreover have "map_res (dict_item ef) (nx_predecessors nx (critical_graph req) v) =
      Inr (map (\<lambda>u. the (dict_get ef u)) (nx_predecessors nx (critical_graph req) v))"
    by (rule map_res_all_Inr) (use assms(1,3) in \<open>auto simp: networkx_documented_def dict_item_def\<close>)
  ultimately show ?thesis by (auto simp: finish_node_def dict_item_def Let_def)
qed

lemma finish_run_total:
  assumes "networkx_documented nx" "topological_order (critical_graph req) (done @ order)"
    and "set order \<subseteq> t_id ` set (rq_tasks req)" "\<forall>v \<in> set done. dict_get ef v \<noteq> None"
  shows "\<exists>st. fold_res (finish_node nx req) order (ef, m) = Inr st"
  using assms(2-)
proof (induction order arbitrary: "done" ef m)
  case (Cons v order)
  have dist: "distinct (done @ v # order)" using Cons.prems(1) by (simp add: topological_order_def)
  have "\<forall>u. (u, v) \<in> graph_edges (critical_graph req) \<longrightarrow> dict_get ef u \<noteq> None"
  proof (intro allI impI)
    fix u assume "(u, v) \<in> graph_edges (critical_graph req)"
    then have "before (done @ v # order) u v" using Cons.prems(1) by (auto simp: topological_order_def)
    from before_distinct_split [OF dist this] Cons.prems(3) show "dict_get ef u \<noteq> None" by blast
  qed
  then have "\<exists>st. finish_node nx req v (ef, m) = Inr st"
    by (intro finish_node_total [OF assms(1)]) (use Cons.prems(2) in auto)
  then obtain ef1 m1 where step: "finish_node nx req v (ef, m) = Inr (ef1, m1)" by auto
  have "\<forall>u \<in> set (done @ [v]). dict_get ef1 u \<noteq> None"
    using ef_keys_step [OF step] Cons.prems(3) by auto
  then show ?case using Cons.IH [of "done @ [v]" ef1 m1] Cons.prems step by simp
qed simp

lemma critical_path_outcome:
  assumes "networkx_documented nx"
    and "\<forall>d \<in> set (rq_dependencies req). d_task_id d \<in> t_id ` set (rq_tasks req) \<and>
      d_depends_on_id d \<in> t_id ` set (rq_tasks req)"
  shows "(critical_path_end nx req start cal = Inl NetworkXUnfeasible \<longleftrightarrow>
      \<not> acyclic (graph_edges (critical_graph req))) \<and>
    (acyclic (graph_edges (critical_graph req)) \<longrightarrow> (\<exists>d. critical_path_end nx req start cal = Inr d))"
proof (cases "nx_topological_sort nx (critical_graph req)")
  case None
  then have "critical_path_end nx req start cal = Inl NetworkXUnfeasible" by (simp add: critical_path_end_def)
  moreover have "\<not> acyclic (graph_edges (critical_graph req))"
    using None documented_sort(2) [OF assms(1)] by blast
  ultimately show ?thesis by simp
next
  case (Some order)
  have top: "topological_order (critical_graph req) order" by (rule documented_sort(1) [OF assms(1) Some])
  then have "set order \<subseteq> t_id ` set (rq_tasks req)"
    using assms(2) by (auto simp: topological_order_def critical_nodes)
  with finish_run_total [OF assms(1), of req "[]" order "[]" 0] top obtain ef m where
    run: "fold_res (finish_node nx req) order ([], 0) = Inr (ef, m)" by auto
  have "ef_inv req ([], 0)" by (simp add: ef_inv_def)
  then have "ef_inv req (ef, m)"
    using ef_run [OF assms(1) run] top by (simp add: topological_order_def)
  then have "m = 0 \<or> (\<exists>v n. dict_get ef v = Some n \<and> n \<le> m \<and> 0 < n)" unfolding ef_inv_def by blast
  then have "0 \<le> m" by auto
  then have "\<exists>d. critical_path_end nx req start cal = Inr d"
    using Some run by (auto simp: critical_path_end_def nth_working_day_def)
  moreover have "acyclic (graph_edges (critical_graph req))"
    using documented_sort(2) [OF assms(1), of "critical_graph req"] Some by simp
  ultimately show ?thesis by auto
qed

end
