(* ===== verification/Plan_Diff.thy ===== *)
theory Plan_Diff
  imports Domain_Models
begin

section \<open>The what-if diff of two plans\<close>

text \<open>\<open>domain/solver/diff.py\<close>: the moved tasks and the overloads only one of the plans has.\<close>

definition overload_keys :: "plan_result \<Rightarrow> (uuid option \<times> date option) list" where
  "overload_keys plan = map (\<lambda>r. (r_person_id r, r_day r)) (plan_overloads plan)"

definition moved :: "(uuid, assignment) dict \<Rightarrow> assignment \<Rightarrow> bool" where
  "moved b a =
     (case dict_get b (a_task_id a) of
        None \<Rightarrow> True
      | Some old \<Rightarrow> a_start_date old \<noteq> a_start_date a \<or> a_end_date old \<noteq> a_end_date a)"

definition overloads_not_in :: "(uuid option \<times> date option) list \<Rightarrow> plan_result \<Rightarrow> risk_flag list" where
  "overloads_not_in keys plan = filter (\<lambda>r. (r_person_id r, r_day r) \<notin> set keys) (plan_overloads plan)"

definition diff :: "plan_result \<Rightarrow> plan_result \<Rightarrow> plan_diff" where
  "diff base modified =
     \<lparr>pd_moved_tasks = map a_task_id (filter (moved (by_task base)) (pl_assignments modified)),
      pd_new_overloads = overloads_not_in (overload_keys base) modified,
      pd_removed_overloads = overloads_not_in (overload_keys modified) base\<rparr>"

lemma by_task_get:
  "distinct (map a_task_id (pl_assignments plan)) \<Longrightarrow> a \<in> set (pl_assignments plan) \<Longrightarrow>
    dict_get (by_task plan) (a_task_id a) = Some a"
  unfolding by_task_def using dict_of_key_get [of a_task_id "pl_assignments plan" a "\<lambda>a. a"] by simp

lemma by_task_SomeD:
  "dict_get (by_task plan) k = Some a \<Longrightarrow> a \<in> set (pl_assignments plan) \<and> a_task_id a = k"
  unfolding by_task_def using dict_of_key_get_SomeD [of a_task_id "\<lambda>a. a"] by fastforce

lemma by_task_None: "dict_get (by_task plan) k = None \<longleftrightarrow> k \<notin> a_task_id ` set (pl_assignments plan)"
  unfolding by_task_def using dict_of_key_get_None [of a_task_id "\<lambda>a. a"] by simp

lemma overloads_not_in_own: "overloads_not_in (overload_keys plan) plan = []"
  by (auto simp: overloads_not_in_def overload_keys_def)

lemma diff_swap: "pd_new_overloads (diff p q) = pd_removed_overloads (diff q p)"
  by (simp add: diff_def)

text \<open>A task is unmoved exactly when both plans give it the same days.\<close>

lemma unmoved_iff:
  assumes "distinct (map a_task_id (pl_assignments base))" and "distinct (map a_task_id (pl_assignments modified))"
    and "b \<in> set (pl_assignments modified)"
  shows "a_task_id b \<notin> set (pd_moved_tasks (diff base modified)) \<longleftrightarrow>
    (\<exists>a \<in> set (pl_assignments base). a_task_id a = a_task_id b \<and>
       a_start_date a = a_start_date b \<and> a_end_date a = a_end_date b)"
proof -
  have uniq: "c \<in> set (pl_assignments modified) \<Longrightarrow> a_task_id c = a_task_id b \<Longrightarrow> c = b" for c
    using assms(2,3) by (meson distinct_map inj_onD)
  have "a_task_id b \<notin> set (pd_moved_tasks (diff base modified)) \<longleftrightarrow> \<not> moved (by_task base) b"
  proof -
    have "a_task_id b \<in> set (pd_moved_tasks (diff base modified)) \<longleftrightarrow>
        (\<exists>c \<in> set (pl_assignments modified). moved (by_task base) c \<and> a_task_id c = a_task_id b)"
      by (auto simp: diff_def image_iff)
    then show ?thesis using assms(3) uniq by blast
  qed
  also have "\<dots> \<longleftrightarrow> (\<exists>a \<in> set (pl_assignments base). a_task_id a = a_task_id b \<and>
       a_start_date a = a_start_date b \<and> a_end_date a = a_end_date b)"
  proof
    assume "\<not> moved (by_task base) b"
    then obtain a where "dict_get (by_task base) (a_task_id b) = Some a"
      "a_start_date a = a_start_date b" "a_end_date a = a_end_date b"
      by (auto simp: moved_def split: option.splits)
    with by_task_SomeD [OF this(1)] show "\<exists>a \<in> set (pl_assignments base). a_task_id a = a_task_id b \<and>
        a_start_date a = a_start_date b \<and> a_end_date a = a_end_date b" by blast
  next
    assume "\<exists>a \<in> set (pl_assignments base). a_task_id a = a_task_id b \<and>
        a_start_date a = a_start_date b \<and> a_end_date a = a_end_date b"
    then obtain a where "a \<in> set (pl_assignments base)" "a_task_id a = a_task_id b"
      "a_start_date a = a_start_date b" "a_end_date a = a_end_date b" by blast
    with by_task_get [OF assms(1) this(1)] show "\<not> moved (by_task base) b" by (simp add: moved_def)
  qed
  finally show ?thesis .
qed

end
