(* ===== verification/Solver_Properties.thy ===== *)
theory Solver_Properties
  imports Greedy_Correct Critical_Path Plan_Diff
begin

section \<open>Properties of the scheduler\<close>

text \<open>
  What \<open>GreedySolver.plan\<close>, \<open>critical_path_end\<close> and \<open>diff\<close> guarantee, for every calendar that keeps
  \<open>calendar_port\<close> and every \<open>networkx\<close> that does what its documentation says. The witnesses run the
  solver on \<open>demo_request\<close>: a finished task pinned to a Monday, a splittable task that does not fit
  one day and a task that follows it after two working days.
\<close>

definition anna :: person where
  "anna = \<lparr>p_id = 1, p_name = ascii ''Anna'', p_capacity_h = 6\<rparr>"

definition boris :: person where
  "boris = \<lparr>p_id = 2, p_name = ascii ''Boris'', p_capacity_h = 8\<rparr>"

definition demo_done :: task where
  "demo_done = (task_default 11 (ascii ''brief'') 2 [1])
     \<lparr>t_status := ascii ''done'', t_fixed_start := Some 739775, t_fixed_assignee_id := Some 1\<rparr>"

definition demo_split :: task where
  "demo_split = (task_default 12 (ascii ''draft'') 8 [1])\<lparr>t_is_splittable := True\<rparr>"

definition demo_next :: task where
  "demo_next = task_default 13 (ascii ''review'') 8 [2]"

definition demo_link :: dependency where
  "demo_link = \<lparr>d_task_id = 13, d_depends_on_id = 12, d_link_type = ascii ''FS'', d_lag_working_days = 2\<rparr>"

definition demo_request :: plan_request where
  "demo_request =
     \<lparr>rq_people = [anna, boris], rq_tasks = [demo_done, demo_split, demo_next],
      rq_dependencies = [demo_link], rq_horizon_start = 739775, rq_day_overrides = [],
      rq_existing_allocations = [], rq_deadline = None\<rparr>"

lemmas demo_defs = demo_request_def demo_done_def demo_split_def demo_next_def demo_link_def anna_def boris_def

abbreviation demo_plan :: "plan_result res" where
  "demo_plan \<equiv> plan reference_networkx (weekend_calendar []) demo_request"

definition demo_result :: plan_result where
  "demo_result =
     \<lparr>pl_assignments =
        [\<lparr>a_task_id = 11, a_person_id = 1, a_start_date = 739775, a_end_date = 739775,
          a_allocations = [allocation 1 739775 2]\<rparr>,
         \<lparr>a_task_id = 12, a_person_id = 1, a_start_date = 739775, a_end_date = 739776,
          a_allocations = [allocation 1 739775 4, allocation 1 739776 4]\<rparr>,
         \<lparr>a_task_id = 13, a_person_id = 2, a_start_date = 739778, a_end_date = 739778,
          a_allocations = [allocation 2 739778 8]\<rparr>],
      pl_risks = [], pl_end_date = Some 739778\<rparr>"

lemma demo_run: "demo_plan = Inr demo_result"
  by code_simp

lemma demo_distinct: "distinct (map t_id (rq_tasks demo_request))"
  by (simp add: demo_defs task_default_def)

text \<open>A finished task of nine hours for somebody who works six, past its deadline: the request that must be flagged.\<close>

definition hot_request :: plan_request where
  "hot_request = demo_request\<lparr>rq_tasks := [demo_done\<lparr>t_id := 14, t_duration_hours := 9\<rparr>], rq_dependencies := [],
     rq_deadline := Some 739774\<rparr>"

definition hot_assignment :: assignment where
  "hot_assignment =
     \<lparr>a_task_id = 14, a_person_id = 1, a_start_date = 739775, a_end_date = 739775,
      a_allocations = [allocation 1 739775 9]\<rparr>"

definition hot_result :: plan_result where
  "hot_result =
     \<lparr>pl_assignments = [hot_assignment],
      pl_risks = [overload_flag (1, 739775, 9, 6), deadline_flag 739775 739774], pl_end_date = Some 739775\<rparr>"

text \<open>The messages of the flags are not evaluated: only the assignments and the overloads behind them.\<close>

lemma hot_steps:
  "nx_topological_sort reference_networkx (plan_graph hot_request) = Some [14]"
  "map_sum id (\<lambda>st. (ss_assignments st, overloads (ss_idx st)))
     (fold_res (place_node reference_networkx (weekend_calendar []) hot_request) [14]
       (initial_state (weekend_calendar []) hot_request)) =
   Inr ([(14, hot_assignment)], [(1, 739775, 9, 6)])"
  by code_simp+

lemma hot_run: "plan reference_networkx (weekend_calendar []) hot_request = Inr hot_result"
proof -
  obtain st where st: "fold_res (place_node reference_networkx (weekend_calendar []) hot_request) [14]
      (initial_state (weekend_calendar []) hot_request) = Inr st"
    and parts: "ss_assignments st = [(14, hot_assignment)]" "overloads (ss_idx st) = [(1, 739775, 9, 6)]"
    using hot_steps(2) by (auto simp: map_sum_def split: sum.splits)
  have "plan reference_networkx (weekend_calendar []) hot_request = Inr (finish_plan hot_request [14] st)"
    using hot_steps(1) st by (simp add: plan_def hot_request_def demo_request_def)
  also have "finish_plan hot_request [14] st = hot_result"
    by (simp add: finish_plan_def parts overload_flags_def dict_values_def dict_get_def map_filter_simps
        hot_result_def hot_assignment_def hot_request_def demo_request_def end_date_of_def deadline_risks_def)
  finally show ?thesis .
qed

subsection \<open>What is scheduled\<close>

text \<open>
  C1. When \<open>plan\<close> returns, its assignments are the requested tasks: each task of the request has
  exactly one assignment and nothing else is assigned, whatever dependencies, pins, windows and
  pairs the request mixes.
\<close>

theorem every_task_scheduled_once:
  assumes "networkx_documented nx" and "distinct (map t_id (rq_tasks req))" and "plan nx cal req = Inr r"
  shows "distinct (map a_task_id (pl_assignments r)) \<and>
    set (map a_task_id (pl_assignments r)) = t_id ` set (rq_tasks req)"
  using plan_covers [OF assms(3,1,2)] by blast

theorem every_task_scheduled_once_witness:
  "distinct (map a_task_id (pl_assignments demo_result)) \<and>
   set (map a_task_id (pl_assignments demo_result)) = t_id ` set (rq_tasks demo_request)"
  by (rule every_task_scheduled_once [OF reference_networkx_documented demo_distinct demo_run])



text \<open>
  C3. When \<open>plan\<close> raises, and which exception: no executors for a non-empty request, a cycle in the
  dependencies, or a splittable task without hours that is neither pinned nor a window nor a pair;
  in this order of precedence, and nothing else.
\<close>

theorem plan_errors_exact:
  assumes "networkx_documented nx" and "distinct (map t_id (rq_tasks req))"
  shows "plan nx cal req =
    (if rq_tasks req \<noteq> [] \<and> rq_people req = [] then Inl NoPeopleError
     else if \<not> acyclic (graph_edges (plan_graph req)) then Inl NetworkXUnfeasible
     else if \<exists>t \<in> set (rq_tasks req). unplaceable req t then Inl ValueError
     else Inr (projr (plan nx cal req)))"
  by (rule plan_outcome [OF assms])

theorem plan_errors_exact_witness:
  "plan reference_networkx (weekend_calendar []) (demo_request\<lparr>rq_people := []\<rparr>) = Inl NoPeopleError"
  using plan_errors_exact [OF reference_networkx_documented, of "demo_request\<lparr>rq_people := []\<rparr>" "weekend_calendar []"]
  by (simp add: demo_defs task_default_def)

text \<open>
  C4. What a plan reports is exact. Its end date is the end of its last assignment. A person has an
  overload flag on a day precisely when the hours already committed to that day plus the hours this plan
  books exceed the person's capacity there (an override, nothing on a day off, or the daily norm). The
  missed-deadline flag is raised exactly when some task ends after the requested deadline.
\<close>

theorem risks_and_end_exact:
  assumes "networkx_documented nx" and "distinct (map t_id (rq_tasks req))" and "plan nx cal req = Inr r"
    and "0 \<le> base_capacity (request_index cal req) pid day"
  shows "pl_end_date r = (if pl_assignments r = [] then None else Some (Max (a_end_date ` set (pl_assignments r)))) \<and>
    ((\<exists>f \<in> set (plan_overloads r). r_person_id f = Some pid \<and> r_day f = Some day) \<longleftrightarrow>
      base_capacity (request_index cal req) pid day <
        booked (rq_existing_allocations req) (pid, day) + booked (plan_allocations (pl_assignments r)) (pid, day)) \<and>
    ((\<exists>f \<in> set (pl_risks r). r_kind f = ascii ''deadline_missed'') \<longleftrightarrow>
      (\<exists>dl a. rq_deadline req = Some dl \<and> a \<in> set (pl_assignments r) \<and> dl < a_end_date a))"
  using plan_end_date [OF assms(3,1,2)] plan_overload_flags [OF assms(3,1,2,4)] by (simp add: end_date_of_def)

theorem risks_and_end_exact_witness:
  "(\<exists>f \<in> set (plan_overloads hot_result). r_person_id f = Some 1 \<and> r_day f = Some 739775) \<longleftrightarrow>
    base_capacity (request_index (weekend_calendar []) hot_request) 1 739775 <
      booked (rq_existing_allocations hot_request) (1, 739775) +
      booked (plan_allocations (pl_assignments hot_result)) (1, 739775)"
proof -
  have "distinct (map t_id (rq_tasks hot_request))" "0 \<le> base_capacity (request_index (weekend_calendar []) hot_request) 1 739775"
    by code_simp+
  from risks_and_end_exact [OF reference_networkx_documented this(1) hot_run this(2)] show ?thesis by blast
qed

lemma pinned_kept:
  assumes "networkx_documented nx" and "distinct (map t_id (rq_tasks req))" and "plan nx cal req = Inr r"
    and "t \<in> set (rq_tasks req)" "is_pinned t" "a \<in> set (pl_assignments r)" "a_task_id a = t_id t"
  shows "t_fixed_assignee_id t = Some (a_person_id a) \<and> t_fixed_start t = Some (a_start_date a) \<and>
    a_end_date a = (case t_fixed_end t of None \<Rightarrow> a_start_date a | Some d \<Rightarrow> d) \<and>
    a_allocations a = [allocation (a_person_id a) (a_start_date a) (t_duration_hours t)]"
proof -
  have "distinct (map a_task_id (pl_assignments r))" by (rule plan_covers [OF assms(3,1,2)])
  moreover have "pinned_assignment t \<in> set (pl_assignments r)" by (rule plan_pinned [OF assms(3,1,2,4,5)])
  moreover have "a_task_id (pinned_assignment t) = t_id t" by (simp add: pinned_assignment_def Let_def)
  ultimately have "a = pinned_assignment t" using assms(6,7) by (simp add: distinct_map inj_on_def)
  with assms(5) show ?thesis by (auto simp: pinned_assignment_def is_pinned_def Let_def split: option.split)
qed

text \<open>
  C5. How every task is placed. A finished task with a fixed start and assignee is pinned: its assignment
  is for the fixed person, from the fixed start to the fixed end (the start when none is fixed), with
  the task's full hours booked on the start. Any other task starts and ends on working days, not before
  the planning horizon, and all its hours are booked on working days between its start and its end. Its
  executor is one of the people the task is bound to (everyone when it is bound to nobody known); a
  window books no hours, a required pair books the whole task for the first two people on the same day,
  any other task books exactly its hours, all for its executor.
\<close>

theorem placed_tasks_sound:
  assumes "networkx_documented nx" and "distinct (map t_id (rq_tasks req))"
    and "plan nx (weekend_calendar holidays) req = Inr r"
    and "t \<in> set (rq_tasks req)" "a \<in> set (pl_assignments r)" "a_task_id a = t_id t"
  shows "if is_pinned t
    then t_fixed_assignee_id t = Some (a_person_id a) \<and> t_fixed_start t = Some (a_start_date a) \<and>
      a_end_date a = (case t_fixed_end t of None \<Rightarrow> a_start_date a | Some d \<Rightarrow> d) \<and>
      a_allocations a = [allocation (a_person_id a) (a_start_date a) (t_duration_hours t)]
    else placed_well (weekend_calendar holidays) (rq_horizon_start req)
        (a_allocations a, a_start_date a, a_end_date a) \<and>
      (\<exists>p. p_id p = a_person_id a \<and> serves t (allowed_people req t) (choice_of p a))"
proof (cases "is_pinned t")
  case True
  then show ?thesis using pinned_kept [OF assms(1-4) _ assms(5,6)] by simp
next
  case False
  then show ?thesis
    using weekend.plan_days [OF assms(3,1,2,4) _ assms(5,6)] plan_serves [OF assms(3,1,2,4) _ assms(5,6)] by simp
qed

theorem placed_tasks_sound_witness:
  "placed_well (weekend_calendar []) 739775 ([allocation 2 739778 8], 739778, 739778) \<and>
   (\<exists>p. p_id p = 2 \<and> serves demo_next (allowed_people demo_request demo_next)
     (([allocation 2 739778 8], 739778, 739778), p)) \<and>
   t_fixed_assignee_id demo_done = Some (1 :: uuid) \<and> t_fixed_start demo_done = Some 739775"
proof (intro conjI)
  show "placed_well (weekend_calendar []) 739775 ([allocation 2 739778 8], 739778, 739778)"
    "\<exists>p. p_id p = 2 \<and> serves demo_next (allowed_people demo_request demo_next)
       (([allocation 2 739778 8], 739778, 739778), p)"
    using placed_tasks_sound [OF reference_networkx_documented demo_distinct demo_run, of demo_next
        "pl_assignments demo_result ! 2"]
    by (simp_all add: demo_request_def demo_next_def task_default_def is_pinned_def demo_result_def choice_of_def)
  show "t_fixed_assignee_id demo_done = Some (1 :: uuid)" "t_fixed_start demo_done = Some 739775"
    using placed_tasks_sound [OF reference_networkx_documented demo_distinct demo_run, of demo_done
        "\<lparr>a_task_id = 11, a_person_id = 1, a_start_date = 739775, a_end_date = 739775,
          a_allocations = [allocation 1 739775 2]\<rparr>"]
    by (simp_all add: demo_defs task_default_def is_pinned_def demo_result_def)
qed

subsection \<open>How one task is placed\<close>

lemma split_fills_in_order:
  assumes "0 < t_duration_hours task"
  shows "\<exists>als s e idx' new left. allocate_split task person earliest cal idx limit = Inr ((als, s, e), idx') \<and>
    0 \<le> left \<and>
    als = new @ (if 0 < left then [allocation (p_id person) (first_working_day cal earliest) left] else []) \<and>
    split_added cal (p_id person) idx (first_working_day cal earliest) limit left new \<and>
    person_hours als (p_id person) = t_duration_hours task \<and>
    s = Min (set (map al_day als)) \<and> e = Max (set (map al_day als))"
proof -
  obtain pl idx' where run: "allocate_split task person earliest cal idx limit = Inr (pl, idx')"
    using allocate_split_Inr [OF assms] by blast
  obtain als s e where pl: "pl = (als, s, e)" by (metis prod_cases3)
  from allocate_split_spec [OF run [unfolded pl]] assms obtain new left where
    "0 \<le> left \<and>
     als = new @ (if 0 < left then [allocation (p_id person) (first_working_day cal earliest) left] else []) \<and>
     split_added cal (p_id person) idx (first_working_day cal earliest) limit left new \<and>
     person_hours als (p_id person) = t_duration_hours task \<and>
     s = Min (set (map al_day als)) \<and> e = Max (set (map al_day als))"
    by (metis less_imp_le)
  with run pl show ?thesis by (intro exI) (erule conjI [rotated], simp)
qed

text \<open>
  C6. How the solver chooses for one task. A task that is neither a window nor a pair goes to the first of
  the best candidates: no allowed person could finish it earlier (by start, then end), and everyone
  listed before the chosen one could only do it strictly later. \<open>_allocate_single\<close> books the whole task on
  the first working day on which the person has that many hours left, within the horizon, and
  \<open>_allocate_pair\<close> books both people for the full hours on the first working day on which both have them
  left; when no day of the horizon fits, the task is booked on the first working day all the same.
  \<open>_allocate_split\<close> on positive hours always places them all: it fills the free hours of each working day
  in turn, never above what is free there, and only what the horizon cannot hold goes on top of the
  first day; start and end are the first and last day used. Reading capacities changes none.
\<close>

theorem best_candidate_earliest_fit:
  "(choose_placement task earliest cal idx limit allowed = Inr ((pl, p), idx') \<and>
      \<not> t_duration_is_window task \<and> \<not> pairs_up task allowed \<longrightarrow>
     first_best (placement_for task earliest cal limit idx) allowed pl p) \<and>
   (case allocate_single task person earliest cal idx limit of ((als, s, e), idx') \<Rightarrow>
     als = [allocation (p_id person) s (t_duration_hours task)] \<and> e = s \<and> same_view idx idx' \<and>
     earliest_fit (single_holds cal (p_id person) (t_duration_hours task) idx)
       (first_working_day cal earliest) limit s) \<and>
   (case allocate_pair task p1 p2 earliest cal idx limit of ((als, s, e), idx') \<Rightarrow>
     als = [allocation (p_id p1) s (t_duration_hours task), allocation (p_id p2) s (t_duration_hours task)] \<and>
     e = s \<and> same_view idx idx' \<and>
     earliest_fit (pair_holds cal (p_id p1) (p_id p2) (t_duration_hours task) idx)
       (first_working_day cal earliest) limit s) \<and>
   (0 < t_duration_hours task \<longrightarrow> (\<exists>als s e idx' new left.
     allocate_split task person earliest cal idx limit = Inr ((als, s, e), idx') \<and>
     0 \<le> left \<and>
     als = new @ (if 0 < left then [allocation (p_id person) (first_working_day cal earliest) left] else []) \<and>
     split_added cal (p_id person) idx (first_working_day cal earliest) limit left new \<and>
     person_hours als (p_id person) = t_duration_hours task \<and>
     s = Min (set (map al_day als)) \<and> e = Max (set (map al_day als))))"
proof (intro conjI)
  show "choose_placement task earliest cal idx limit allowed = Inr ((pl, p), idx') \<and>
      \<not> t_duration_is_window task \<and> \<not> pairs_up task allowed \<longrightarrow>
      first_best (placement_for task earliest cal limit idx) allowed pl p" using choose_single by blast
  show "case allocate_single task person earliest cal idx limit of ((als, s, e), idx') \<Rightarrow>
     als = [allocation (p_id person) s (t_duration_hours task)] \<and> e = s \<and> same_view idx idx' \<and>
     earliest_fit (single_holds cal (p_id person) (t_duration_hours task) idx) (first_working_day cal earliest) limit s"
    using allocate_single_spec [of task person earliest cal idx limit] by (auto simp: index_read_def split: prod.split)
  show "case allocate_pair task p1 p2 earliest cal idx limit of ((als, s, e), idx') \<Rightarrow>
     als = [allocation (p_id p1) s (t_duration_hours task), allocation (p_id p2) s (t_duration_hours task)] \<and>
     e = s \<and> same_view idx idx' \<and>
     earliest_fit (pair_holds cal (p_id p1) (p_id p2) (t_duration_hours task) idx) (first_working_day cal earliest) limit s"
    using allocate_pair_spec [of task p1 p2 earliest cal idx limit] by (auto simp: index_read_def split: prod.split)
qed (rule impI, rule split_fills_in_order)

theorem best_candidate_earliest_fit_witness:
  "\<exists>pl p. first_best (placement_for demo_next 739775 (weekend_calendar []) 740140
      (request_index (weekend_calendar []) demo_request)) [anna, boris] pl p"
proof -
  let ?cal = "weekend_calendar []" and ?idx = "request_index (weekend_calendar []) demo_request"
  have flags: "\<not> t_duration_is_window demo_next" "\<not> t_is_splittable demo_next" "\<not> pairs_up demo_next [anna, boris]"
    by (simp_all add: demo_next_def task_default_def pairs_up_def)
  obtain pl p idx' where "best_candidate demo_next 739775 ?cal ?idx 740140 [anna, boris] = Inr (Some (pl, p), idx')"
    using best_candidate_total [of demo_next "[anna, boris]" 739775 ?cal ?idx 740140] flags(2) by auto
  then have "choose_placement demo_next 739775 ?cal ?idx 740140 [anna, boris] = Inr ((pl, p), idx')"
    using flags by (simp add: choose_placement_def pairs_up_def)
  with best_candidate_earliest_fit [of demo_next 739775 ?cal ?idx 740140 "[anna, boris]" pl p idx'] flags(1,3)
  show ?thesis by blast
qed

text \<open>
  A window task books nobody and spans, from its first working day, as many working days as its
  hours make at eight a day, rounded up and at least one.
\<close>

lemma window_span:
  "\<exists>e. allocate_window task earliest (weekend_calendar holidays) =
      Inr ([], first_working_day (weekend_calendar holidays) earliest, e) \<and>
    is_working_day (weekend_calendar holidays) e \<and>
    card {d. first_working_day (weekend_calendar holidays) earliest \<le> d \<and> d \<le> e \<and>
      is_working_day (weekend_calendar holidays) d} = nat (max 1 (ceil_div (t_duration_hours task) DAY_HOURS))"
  using weekend.window_spec [of task earliest holidays] by blast

subsection \<open>Calendars\<close>

lemma nth_working_day_counts:
  "case nth_working_day (weekend_calendar holidays) start n of
     Inl e \<Rightarrow> n < 1 \<and> e = ValueError
   | Inr d \<Rightarrow> 1 \<le> n \<and> is_working_day (weekend_calendar holidays) d \<and>
       int (card {x. start \<le> x \<and> x \<le> d \<and> is_working_day (weekend_calendar holidays) x}) = n"
proof (cases "n < 1")
  case True
  then show ?thesis by (simp add: nth_working_day_def)
next
  case False
  then have "nth_working_day (weekend_calendar holidays) start n =
      Inr ((next_working_day (weekend_calendar holidays) ^^ nat (n - 1)) (first_working_day (weekend_calendar holidays) start))"
    by (simp add: nth_working_day_def)
  with False weekend.nth_from_card [where holidays = holidays and start = start and k = "nat (n - 1)"]
    weekend.nth_from_working [where holidays = holidays and start = start and k = "nat (n - 1)"]
  show ?thesis by simp
qed

text \<open>
  C7. \<open>WeekendCalendar\<close> keeps the contract of \<open>WorkingCalendar\<close>: the next working day is later, is a
  working day and none lies in between, so the scan terminates whatever the holidays;
  \<open>business_days_between\<close> counts the working days of the half-open interval; and \<open>nth_working_day\<close> is the
  working day that makes \<open>n\<close> of them counted from the start inclusively, raising \<open>ValueError\<close> exactly
  for \<open>n < 1\<close>.
\<close>

theorem weekend_calendar_contract:
  "day < next_working_day (weekend_calendar holidays) day \<and>
   is_working_day (weekend_calendar holidays) (next_working_day (weekend_calendar holidays) day) \<and>
   {d. day < d \<and> d < next_working_day (weekend_calendar holidays) day \<and>
      is_working_day (weekend_calendar holidays) d} = {} \<and>
   business_days_between (weekend_calendar holidays) a b =
     int (card {d. a \<le> d \<and> d < b \<and> is_working_day (weekend_calendar holidays) d}) \<and>
   (case nth_working_day (weekend_calendar holidays) day n of
     Inl e \<Rightarrow> n < 1 \<and> e = ValueError
   | Inr d \<Rightarrow> 1 \<le> n \<and> is_working_day (weekend_calendar holidays) d \<and>
       int (card {x. day \<le> x \<and> x \<le> d \<and> is_working_day (weekend_calendar holidays) x}) = n)"
  using weekend.next_later [of day] weekend.next_working [of holidays day] weekend.next_least [of day _ holidays]
    weekend.count_working [of holidays a b] nth_working_day_counts [where start = day and n = n and holidays = holidays] by blast

subsection \<open>The critical path\<close>



text \<open>
  The presented date adds the buffer: it is a working day with exactly two working days after the
  end of the critical path up to it.
\<close>

lemma presented_end_has_buffer:
  assumes "critical_path_end nx req start (weekend_calendar holidays) = Inr d"
  shows "\<exists>e. presented_earliest_end nx req start (weekend_calendar holidays) = Inr e \<and>
    is_working_day (weekend_calendar holidays) e \<and>
    card {x. d < x \<and> x \<le> e \<and> is_working_day (weekend_calendar holidays) x} = BACKWARD_BUFFER_WORKING_DAYS"
proof -
  let ?next = "next_working_day (weekend_calendar holidays)" and ?work = "is_working_day (weekend_calendar holidays)"
  note next_facts = weekend.next_later weekend.next_working weekend.next_least
  have "{x. d < x \<and> x \<le> ?next (?next d) \<and> ?work x} = {?next d, ?next (?next d)}"
    using next_facts(1) [of d holidays] next_facts(1) [of "?next d" holidays] next_facts(2) [of holidays]
      next_facts(3) [of d _ holidays] next_facts(3) [of "?next d" _ holidays]
    by (auto intro: order_less_trans) (metis linorder_neqE order_less_le)
  moreover have "?next d \<noteq> ?next (?next d)" using next_facts(1) [of "?next d" holidays] by simp
  ultimately show ?thesis using assms next_facts(2) [of holidays "?next d"]
    by (simp add: presented_earliest_end_def BACKWARD_BUFFER_WORKING_DAYS_def numeral_2_eq_2)
qed

subsection \<open>Differences of plans\<close>

text \<open>
  C9. \<open>diff\<close> reports what changes: a task of the modified plan is moved exactly when the base plan has
  no assignment of it with the same dates, and an overload is new (removed) exactly when the other plan
  has none for the same person and day.
\<close>

theorem diff_reports_changes:
  assumes "distinct (map a_task_id (pl_assignments base))" "distinct (map a_task_id (pl_assignments modified))"
    and "b \<in> set (pl_assignments modified)"
  shows "(a_task_id b \<notin> set (pd_moved_tasks (diff base modified)) \<longleftrightarrow>
      (\<exists>a \<in> set (pl_assignments base). a_task_id a = a_task_id b \<and>
         a_start_date a = a_start_date b \<and> a_end_date a = a_end_date b)) \<and>
    set (pd_new_overloads (diff base modified)) =
      {f \<in> set (plan_overloads modified). \<not> (\<exists>g \<in> set (plan_overloads base).
        (r_person_id g, r_day g) = (r_person_id f, r_day f))} \<and>
    set (pd_removed_overloads (diff base modified)) =
      {f \<in> set (plan_overloads base). \<not> (\<exists>g \<in> set (plan_overloads modified).
        (r_person_id g, r_day g) = (r_person_id f, r_day f))}"
  using unmoved_iff [OF assms]
  by (intro conjI) (simp, auto simp: diff_def overloads_not_in_def overload_keys_def image_iff)

theorem diff_reports_changes_witness:
  "set (pd_new_overloads (diff demo_result hot_result)) = {overload_flag (1, 739775, 9, 6)}"
proof -
  have "distinct (map a_task_id (pl_assignments demo_result))" "distinct (map a_task_id (pl_assignments hot_result))"
    "hot_assignment \<in> set (pl_assignments hot_result)"
    by (simp_all add: demo_result_def hot_result_def)
  from diff_reports_changes [OF this] show ?thesis
    by (auto simp: plan_overloads_def demo_result_def hot_result_def overload_flag_def deadline_flag_def)
qed

end
