(* ===== verification/Live_Calendar.thy ===== *)
theory Live_Calendar
  imports Work_Calendar Py_Date Py_Text
begin

section \<open>The production calendar\<close>

text \<open>
  \<open>infra/calendar/isdayoff.py\<close> and the loading of the calendar in \<open>main.py\<close>: one digit per day of a year,
  of which only \<open>1\<close> on a weekday makes a holiday, and the stored snapshot when any request fails. The
  service is a parameter: the text it answers for a year, or the exception of the request. An answer so long
  that its days pass the year 9999 raises in Python and is not distinguished here.
\<close>

type_synonym day_service = "int \<Rightarrow> ustr res"

definition OFF_CODE :: nat where
  "OFF_CODE = 49"

definition parse_year_offdays :: "int \<Rightarrow> ustr \<Rightarrow> date list res" where
  "parse_year_offdays year data =
     bind_res (make_date year 1 1) (\<lambda>start.
     Inr (map (\<lambda>(i, ch). start + int i) (filter (\<lambda>(i, ch). ch = OFF_CODE) (List.enumerate 0 (strip data)))))"

definition holidays_from_offdays :: "date list \<Rightarrow> date list" where
  "holidays_from_offdays offdays = filter (\<lambda>d. weekday d < 5) offdays"

definition fetch_year_offdays :: "day_service \<Rightarrow> int \<Rightarrow> date list res" where
  "fetch_year_offdays service year = bind_res (service year) (parse_year_offdays year)"

definition build_snapshot :: "day_service \<Rightarrow> int \<Rightarrow> working_calendar res" where
  "build_snapshot service year =
     bind_res (fetch_year_offdays service year) (\<lambda>offdays. Inr (weekend_calendar (holidays_from_offdays offdays)))"

definition fetch_holidays :: "day_service \<Rightarrow> int list \<Rightarrow> date list res" where
  "fetch_holidays service years =
     fold_res (\<lambda>year holidays. bind_res (fetch_year_offdays service year) (\<lambda>offdays.
       Inr (holidays @ holidays_from_offdays offdays))) years []"

definition fetch_snapshot_for_years :: "day_service \<Rightarrow> int list \<Rightarrow> working_calendar res" where
  "fetch_snapshot_for_years service years =
     bind_res (fetch_holidays service years) (\<lambda>holidays. Inr (weekend_calendar holidays))"

text \<open>\<open>_load_calendar\<close>\<close>

definition load_calendar :: "day_service \<Rightarrow> date \<Rightarrow> working_calendar" where
  "load_calendar service today =
     (let year = fst (ymd today) in
      case fetch_snapshot_for_years service [year, year + 1] of Inl e \<Rightarrow> snapshot_calendar | Inr cal \<Rightarrow> cal)"

subsection \<open>What the service marks\<close>

definition year_start :: "int \<Rightarrow> date" where
  "year_start year = days_before_year year + 1"

lemma make_year_start: "1 \<le> year \<Longrightarrow> year \<le> 9999 \<Longrightarrow> make_date year 1 1 = Inr (year_start year)"
  by (simp add: make_date_def year_start_def days_before_month_def days_in_month_def month_lengths_def)

definition marked_off :: "int \<Rightarrow> ustr \<Rightarrow> date \<Rightarrow> bool" where
  "marked_off year data d \<longleftrightarrow> (\<exists>i < length (strip data). d = year_start year + int i \<and> strip data ! i = OFF_CODE)"

lemma parsed_offdays:
  assumes "1 \<le> year" "year \<le> 9999"
  shows "\<exists>offdays. parse_year_offdays year data = Inr offdays \<and> (\<forall>d. d \<in> set offdays \<longleftrightarrow> marked_off year data d)"
  using assms
  by (auto simp: parse_year_offdays_def make_year_start marked_off_def in_set_enumerate_eq image_iff)

lemma fetched_holidays:
  assumes "fetch_holidays service [y, z] = Inr holidays" and "service y = Inr s" "service z = Inr t"
    and "1 \<le> y" "y \<le> 9999" "1 \<le> z" "z \<le> 9999"
  shows "d \<in> set holidays \<longleftrightarrow> weekday d < 5 \<and> (marked_off y s d \<or> marked_off z t d)"
  using assms parsed_offdays [of y s] parsed_offdays [of z t]
  by (auto simp: fetch_holidays_def fetch_year_offdays_def holidays_from_offdays_def)

subsection \<open>Searches end\<close>

lemma weekday_next_week: "weekday (d + 7 * int k) = weekday d"
  by (simp add: weekday_def algebra_simps) presburger

text \<open>Of the same weekday in \<open>n + 1\<close> consecutive weeks, one is none of \<open>n\<close> holidays.\<close>

lemma free_week:
  assumes "weekday d < 5"
  shows "\<exists>k \<le> length holidays. weekend_is_working_day holidays (d + 7 * int k)"
proof (rule ccontr)
  assume none: "\<not> ?thesis"
  let ?days = "(\<lambda>k. d + 7 * int k) ` {..length holidays}"
  have "weekday (d + 7 * int k) \<notin> {5, 6}" for k using assms by (simp add: weekday_next_week)
  with none have "?days \<subseteq> set holidays" by (auto simp: weekend_is_working_day_def)
  then have "card ?days \<le> length holidays" by (meson List.finite_set card_length card_mono order_trans)
  moreover have "card ?days = Suc (length holidays)" by (subst card_image) (auto simp: inj_on_def)
  ultimately show False by simp
qed

lemma weekday_soon: "\<exists>j \<le> 2. weekday (d + int j) < 5"
proof -
  have "weekday d < 5 \<or> weekday (d + 1) < 5 \<or> weekday (d + 2) < 5" unfolding weekday_def by presburger
  then consider "weekday (d + int 0) < 5" | "weekday (d + int 1) < 5" | "weekday (d + int 2) < 5" by auto
  then show ?thesis
  proof cases
    case 1 then show ?thesis by (intro exI [of _ 0]) simp
  next
    case 2 then show ?thesis by (intro exI [of _ 1]) simp
  next
    case 3 then show ?thesis by (intro exI [of _ 2]) simp
  qed
qed

lemma working_day_soon: "\<exists>n \<le> 2 + 7 * length holidays. weekend_is_working_day holidays (d + int n)"
proof -
  obtain j where j: "j \<le> 2" "weekday (d + int j) < 5" using weekday_soon by blast
  obtain k where k: "k \<le> length holidays" "weekend_is_working_day holidays (d + int j + 7 * int k)"
    using free_week [OF j(2)] by blast
  have "d + int j + 7 * int k = d + int (j + 7 * k)" by simp
  with j k show ?thesis by (intro exI [of _ "j + 7 * k"]) auto
qed

text \<open>The scan of \<open>next_working_day\<close> skips the days off and stops at the first working day.\<close>

lemma scan_skips:
  "\<lbrakk>\<And>k. k < n \<Longrightarrow> \<not> weekend_is_working_day holidays (d + int k); weekend_is_working_day holidays (d + int n)\<rbrakk>
    \<Longrightarrow> weekend_scan holidays d = d + int n"
proof (induction n arbitrary: d)
  case 0
  then show ?case by (simp add: weekend_scan.simps)
next
  case (Suc n)
  have "weekend_scan holidays (d + 1) = d + 1 + int n"
    using Suc.prems(1) [of "Suc k" for k] Suc.prems(2) by (intro Suc.IH) (simp_all add: algebra_simps)
  then show ?case using Suc.prems(1) [of 0] by (simp add: weekend_scan.simps [of holidays d])
qed

lemma scan_ends:
  "\<exists>n \<le> 2 + 7 * length holidays. weekend_scan holidays d = d + int n \<and>
    weekend_is_working_day holidays (d + int n) \<and> (\<forall>k < n. \<not> weekend_is_working_day holidays (d + int k))"
proof -
  let ?n = "LEAST n. weekend_is_working_day holidays (d + int n)"
  obtain n where n: "n \<le> 2 + 7 * length holidays" "weekend_is_working_day holidays (d + int n)"
    using working_day_soon by blast
  have first: "weekend_is_working_day holidays (d + int ?n)" by (rule LeastI [of _ n]) (rule n(2))
  have before: "\<not> weekend_is_working_day holidays (d + int k)" if "k < ?n" for k using that by (rule not_less_Least)
  have "?n \<le> 2 + 7 * length holidays" using Least_le [of "\<lambda>n. weekend_is_working_day holidays (d + int n)" n] n by simp
  with first before scan_skips [OF before first] show ?thesis by blast
qed

end
