(* ===== verification/Plan_Payload.thy ===== *)
theory Plan_Payload
  imports Domain_Models Py_Date
begin

section \<open>Plans as JSON payloads\<close>

text \<open>
  The JSONB payload of a plan version and the functions of \<open>app/add_project.py\<close> that write and read
  it. A JSON object keeps the order of its keys, like the dictionary it becomes. A payload of an
  unexpected shape raises in Python (\<open>TypeError\<close>, \<open>AttributeError\<close>); the model has one exception
  \<open>malformed\<close> for all of these. Hours are integers, as the program writes them.
\<close>

datatype json =
    JNull
  | JBool bool
  | JInt int
  | JStr ustr
  | JList "json list"
  | JObj "(ustr \<times> json) list"

definition malformed :: exn where
  "malformed = OtherError (ascii ''TypeError'')"

fun json_dict :: "json \<Rightarrow> (ustr, json) dict res" where
  "json_dict (JObj d) = Inr d"
| "json_dict _ = Inl malformed"

fun json_list :: "json \<Rightarrow> json list res" where
  "json_list (JList xs) = Inr xs"
| "json_list _ = Inl malformed"

fun json_str :: "json \<Rightarrow> ustr res" where
  "json_str (JStr s) = Inr s"
| "json_str _ = Inl malformed"

fun json_int :: "json \<Rightarrow> int res" where
  "json_int (JInt n) = Inr n"
| "json_int _ = Inl malformed"

text \<open>\<open>j["k"]\<close> and \<open>j.get("k", default)\<close>.\<close>

definition json_item :: "string \<Rightarrow> json \<Rightarrow> json res" where
  "json_item k j = bind_res (json_dict j) (\<lambda>d. dict_item d (ascii k))"

definition json_get :: "string \<Rightarrow> json \<Rightarrow> json \<Rightarrow> json res" where
  "json_get k dflt j = bind_res (json_dict j) (\<lambda>d. Inr (dict_get_default d (ascii k) dflt))"

text \<open>\<open>v if v else None\<close> with a parser: \<open>None\<close> and the empty string are falsy.\<close>

fun json_opt :: "(ustr \<Rightarrow> 'a res) \<Rightarrow> json \<Rightarrow> 'a option res" where
  "json_opt f JNull = Inr None"
| "json_opt f (JStr s) = (if s = [] then Inr None else bind_res (f s) (\<lambda>x. Inr (Some x)))"
| "json_opt f _ = Inl malformed"

definition json_uuid :: "json \<Rightarrow> uuid res" where
  "json_uuid j = bind_res (json_str j) uuid_parse"

definition json_date :: "json \<Rightarrow> date res" where
  "json_date j = bind_res (json_str j) fromisoformat"

subsection \<open>serialize_plan\<close>

definition jobj :: "(string \<times> json) list \<Rightarrow> json" where
  "jobj ps = JObj (map (\<lambda>(k, v). (ascii k, v)) ps)"

definition jopt :: "('a \<Rightarrow> ustr) \<Rightarrow> 'a option \<Rightarrow> json" where
  "jopt f x = (case x of None \<Rightarrow> JNull | Some y \<Rightarrow> JStr (f y))"

definition serialize_allocation :: "day_allocation \<Rightarrow> json" where
  "serialize_allocation al =
     jobj [(''person_id'', JStr (uuid_str (al_person_id al))),
           (''day'', JStr (isoformat (al_day al))),
           (''hours'', JInt (al_hours al))]"

definition serialize_assignment :: "assignment \<Rightarrow> json" where
  "serialize_assignment a =
     jobj [(''task_id'', JStr (uuid_str (a_task_id a))),
           (''person_id'', JStr (uuid_str (a_person_id a))),
           (''start_date'', JStr (isoformat (a_start_date a))),
           (''end_date'', JStr (isoformat (a_end_date a))),
           (''allocations'', JList (map serialize_allocation (a_allocations a)))]"

definition serialize_risk :: "risk_flag \<Rightarrow> json" where
  "serialize_risk r =
     jobj [(''kind'', JStr (r_kind r)),
           (''message'', JStr (r_message r)),
           (''task_id'', jopt uuid_str (r_task_id r)),
           (''person_id'', jopt uuid_str (r_person_id r)),
           (''day'', jopt isoformat (r_day r))]"

definition serialize_plan :: "plan_result \<Rightarrow> json" where
  "serialize_plan plan =
     jobj [(''assignments'', JList (map serialize_assignment (pl_assignments plan))),
           (''risks'', JList (map serialize_risk (pl_risks plan))),
           (''end_date'', jopt isoformat (pl_end_date plan))]"

subsection \<open>deserialize_allocations and deserialize_plan\<close>

definition read_allocation :: "json \<Rightarrow> day_allocation res" where
  "read_allocation al =
     bind_res (bind_res (json_item ''person_id'' al) json_uuid) (\<lambda>pid.
     bind_res (bind_res (json_item ''day'' al) json_date) (\<lambda>day.
     bind_res (bind_res (json_item ''hours'' al) json_int) (\<lambda>hours.
       Inr \<lparr>al_person_id = pid, al_day = day, al_hours = hours\<rparr>)))"

definition deserialize_allocations :: "json \<Rightarrow> day_allocation list res" where
  "deserialize_allocations payload =
     bind_res (bind_res (json_get ''assignments'' (JList []) payload) json_list) (\<lambda>assigns.
     bind_res (map_res (\<lambda>a.
         bind_res (bind_res (json_get ''allocations'' (JList []) a) json_list) (map_res read_allocation))
       assigns) (\<lambda>outs. Inr (concat outs)))"

definition read_assignment :: "json \<Rightarrow> assignment res" where
  "read_assignment a =
     bind_res (bind_res (json_item ''task_id'' a) json_uuid) (\<lambda>tid.
     bind_res (bind_res (json_item ''person_id'' a) json_uuid) (\<lambda>pid.
     bind_res (bind_res (json_item ''start_date'' a) json_date) (\<lambda>start.
     bind_res (bind_res (json_item ''end_date'' a) json_date) (\<lambda>end.
     bind_res (bind_res (bind_res (json_item ''allocations'' a) json_list) (map_res read_allocation)) (\<lambda>als.
       Inr \<lparr>a_task_id = tid, a_person_id = pid, a_start_date = start, a_end_date = end,
            a_allocations = als\<rparr>)))))"

definition read_risk :: "json \<Rightarrow> risk_flag res" where
  "read_risk r =
     bind_res (bind_res (json_item ''kind'' r) json_str) (\<lambda>kind.
     bind_res (bind_res (json_item ''message'' r) json_str) (\<lambda>message.
     bind_res (bind_res (json_get ''task_id'' JNull r) (json_opt uuid_parse)) (\<lambda>tid.
     bind_res (bind_res (json_get ''person_id'' JNull r) (json_opt uuid_parse)) (\<lambda>pid.
     bind_res (bind_res (json_get ''day'' JNull r) (json_opt fromisoformat)) (\<lambda>day.
       Inr \<lparr>r_kind = kind, r_message = message, r_task_id = tid, r_person_id = pid, r_day = day\<rparr>)))))"

definition deserialize_plan :: "json \<Rightarrow> plan_result res" where
  "deserialize_plan payload =
     bind_res (bind_res (bind_res (json_get ''assignments'' (JList []) payload) json_list)
                (map_res read_assignment)) (\<lambda>assigns.
     bind_res (bind_res (bind_res (json_get ''risks'' (JList []) payload) json_list)
                (map_res read_risk)) (\<lambda>risks.
     bind_res (bind_res (json_get ''end_date'' JNull payload) (json_opt fromisoformat)) (\<lambda>end_date.
       Inr \<lparr>pl_assignments = assigns, pl_risks = risks, pl_end_date = end_date\<rparr>)))"

subsection \<open>Round trips\<close>

text \<open>Dates Python can represent: ordinals of years 1 to 9999.\<close>

definition assignment_dates_ok :: "assignment \<Rightarrow> bool" where
  "assignment_dates_ok a \<longleftrightarrow>
     valid_date (a_start_date a) \<and> valid_date (a_end_date a) \<and> list_all (valid_date \<circ> al_day) (a_allocations a)"

definition plan_dates_ok :: "plan_result \<Rightarrow> bool" where
  "plan_dates_ok plan \<longleftrightarrow>
     list_all assignment_dates_ok (pl_assignments plan) \<and>
     list_all (\<lambda>r. case r_day r of None \<Rightarrow> True | Some d \<Rightarrow> valid_date d) (pl_risks plan) \<and>
     (case pl_end_date plan of None \<Rightarrow> True | Some d \<Rightarrow> valid_date d)"

lemma jobj_item: "json_item k (jobj ps) = dict_item (map (\<lambda>(k, v). (ascii k, v)) ps) (ascii k)"
  by (simp add: json_item_def jobj_def)

lemma jobj_get: "json_get k dflt (jobj ps) = Inr (dict_get_default (map (\<lambda>(k, v). (ascii k, v)) ps) (ascii k) dflt)"
  by (simp add: json_get_def jobj_def)

lemma dict_get_step [simp]: "dict_get ((k, v) # d) j = (if j = k then Some v else dict_get d j)"
  by (simp add: dict_get_def)

lemma uuid_str_nonempty [simp]: "uuid_str u \<noteq> []"
proof
  assume "uuid_str u = []"
  then have "length (filter (\<lambda>c. c \<noteq> 45) (uuid_str u)) = 0" by simp
  then show False unfolding uuid_str_no_dash by simp
qed

lemma json_opt_uuid [simp]: "json_opt uuid_parse (jopt uuid_str x) = Inr x"
  by (cases x) (simp_all add: jopt_def)

lemma json_opt_date [simp]:
  "(case x of None \<Rightarrow> True | Some d \<Rightarrow> valid_date d) \<Longrightarrow> json_opt fromisoformat (jopt isoformat x) = Inr x"
  by (cases x) (simp_all add: jopt_def)

lemmas read_simps = jobj_item jobj_get json_uuid_def json_date_def dict_item_def dict_get_default_def

lemma map_res_inverse: "(\<And>x. x \<in> set xs \<Longrightarrow> f (g x) = Inr x) \<Longrightarrow> map_res f (map g xs) = Inr xs"
  by (induction xs) auto

lemma read_serialize_allocation:
  "valid_date (al_day al) \<Longrightarrow> read_allocation (serialize_allocation al) = Inr al"
  by (simp add: read_allocation_def serialize_allocation_def read_simps)

lemma read_serialize_assignment:
  assumes "assignment_dates_ok a"
  shows "read_assignment (serialize_assignment a) = Inr a"
proof -
  have "map_res read_allocation (map serialize_allocation (a_allocations a)) = Inr (a_allocations a)"
    using assms
    by (intro map_res_inverse read_serialize_allocation) (simp add: assignment_dates_ok_def list_all_iff)
  then show ?thesis using assms
    by (simp add: read_assignment_def serialize_assignment_def read_simps assignment_dates_ok_def)
qed

lemma read_serialize_risk:
  "(case r_day r of None \<Rightarrow> True | Some d \<Rightarrow> valid_date d) \<Longrightarrow> read_risk (serialize_risk r) = Inr r"
  by (simp add: read_risk_def serialize_risk_def read_simps)

lemma deserialize_serialize:
  assumes "plan_dates_ok p"
  shows "deserialize_plan (serialize_plan p) = Inr p"
  using assms
  by (simp add: deserialize_plan_def serialize_plan_def read_simps plan_dates_ok_def list_all_iff
      map_res_inverse read_serialize_assignment read_serialize_risk)

lemma allocations_of_serialized:
  assumes "list_all assignment_dates_ok (pl_assignments p)"
  shows "deserialize_allocations (serialize_plan p) = Inr (plan_allocations (pl_assignments p))"
proof -
  have one: "bind_res (bind_res (json_get ''allocations'' (JList []) (serialize_assignment a)) json_list)
      (map_res read_allocation) = Inr (a_allocations a)" if "assignment_dates_ok a" for a
    using that
    by (simp add: serialize_assignment_def read_simps assignment_dates_ok_def list_all_iff
        map_res_inverse read_serialize_allocation)
  have "map_res (\<lambda>a. bind_res (bind_res (json_get ''allocations'' (JList []) a) json_list)
      (map_res read_allocation)) (map serialize_assignment as) = Inr (map a_allocations as)"
    if "list_all assignment_dates_ok as" for as
    using that by (induction as) (simp_all add: one)
  with assms show ?thesis
    by (simp add: deserialize_allocations_def serialize_plan_def read_simps plan_allocations_def)
qed

end
