(* ===== verification/Domain_Intent.thy ===== *)
theory Domain_Intent
  imports Planner_Prelude
begin

section \<open>Intents and permissions\<close>

text \<open>
  \<open>domain/intent.py\<close> and \<open>domain/permissions.py\<close>: the discriminated union of the intents the language
  model may emit, the set of kinds that write, and the role rule. A time of day is its number of
  seconds since midnight. \<open>template_code\<close> and \<open>operation\<close> are \<open>Literal\<close> types: two enumerations.
\<close>

type_synonym time_of_day = int

datatype template_code = Standard | Lite

datatype what_if_operation = ShiftDeadline | AddPerson | SwitchToLite | DropProject

record add_project_intent =
  ap_title :: ustr
  ap_template_code :: template_code
  ap_deadline :: "date option"
  ap_brief_return_date :: "date option"
  ap_notes :: "ustr option"

record load_intent =
  ld_person_name :: "ustr option"
  ld_date_range :: "(date \<times> date) option"

record what_if_intent =
  wi_operation :: what_if_operation
  wi_project_title :: "ustr option"
  wi_new_deadline :: "date option"
  wi_person_name :: "ustr option"

record vacation_intent =
  va_person_name :: ustr
  va_day_from :: date
  va_day_to :: date
  va_capacity_h :: int

record confirm_intent =
  co_plan_version_id :: "uuid option"

record assign_intent =
  as_task_ref :: ustr
  as_person_name :: ustr

record capture_task_intent =
  ct_task_title :: ustr
  ct_assignee_names :: "ustr list"
  ct_project_name :: "ustr option"
  ct_deadline :: "date option"
  ct_time_start :: "time_of_day option"
  ct_est_hours :: "int option"
  ct_required_skills :: "ustr list"

record clarify_intent =
  cl_question :: "ustr option"

datatype intent =
    AddProjectIntent add_project_intent
  | LoadIntent load_intent
  | WhatIfIntent what_if_intent
  | VacationIntent vacation_intent
  | ConfirmIntent confirm_intent
  | AssignIntent assign_intent
  | CaptureTaskIntent capture_task_intent
  | ClarifyIntent clarify_intent

text \<open>The discriminator field \<open>kind\<close>.\<close>

fun intent_kind :: "intent \<Rightarrow> ustr" where
  "intent_kind (AddProjectIntent i) = ascii ''add_project''"
| "intent_kind (LoadIntent i) = ascii ''load''"
| "intent_kind (WhatIfIntent i) = ascii ''what_if''"
| "intent_kind (VacationIntent i) = ascii ''vacation''"
| "intent_kind (ConfirmIntent i) = ascii ''confirm''"
| "intent_kind (AssignIntent i) = ascii ''assign''"
| "intent_kind (CaptureTaskIntent i) = ascii ''capture_task''"
| "intent_kind (ClarifyIntent i) = ascii ''clarify''"

definition WRITE_KINDS :: "ustr list" where
  "WRITE_KINDS = map ascii [''add_project'', ''vacation'', ''confirm'', ''assign'', ''capture_task'']"

definition can_execute :: "ustr \<Rightarrow> bool \<Rightarrow> bool" where
  "can_execute kind is_admin = (if kind \<in> set WRITE_KINDS then is_admin else True)"

text \<open>The length bounds \<open>CaptureTaskIntent\<close> declares on its fields.\<close>

definition capture_fields_ok :: "capture_task_intent \<Rightarrow> bool" where
  "capture_fields_ok i \<longleftrightarrow>
     1 \<le> length (ct_task_title i) \<and> length (ct_task_title i) \<le> 200 \<and>
     length (ct_assignee_names i) \<le> 10 \<and>
     (case ct_project_name i of None \<Rightarrow> True | Some n \<Rightarrow> length n \<le> 200) \<and>
     length (ct_required_skills i) \<le> 20"

lemma write_kind_iff:
  "intent_kind i \<in> set WRITE_KINDS \<longleftrightarrow>
     (case i of AddProjectIntent _ \<Rightarrow> True | VacationIntent _ \<Rightarrow> True | ConfirmIntent _ \<Rightarrow> True
      | AssignIntent _ \<Rightarrow> True | CaptureTaskIntent _ \<Rightarrow> True | _ \<Rightarrow> False)"
  by (cases i) (simp_all add: WRITE_KINDS_def)

lemma can_execute_admin [simp]: "can_execute kind True"
  by (simp add: can_execute_def)

end
