(* ===== verification/Db_Store.thy ===== *)
theory Db_Store
  imports Plan_Payload Domain_Intent
begin

section \<open>The database and effectful procedures\<close>

text \<open>
  The ORM tables of \<open>infra/db/models.py\<close> as lists of rows in insertion order, with the constraints
  the migrations declare: primary keys, foreign keys and the \<open>CHECK\<close> on enumerated columns. A use
  case is a procedure over the world: the database, the \<open>uuid4\<close> supply, the clock and the log of
  calls to external sinks. A repository method is one transaction: when it raises, its own changes
  are rolled back and those of earlier transactions stay.
\<close>

subsection \<open>Rows\<close>

record person_row =
  pr_id :: uuid
  pr_tg_user_id :: "int option"
  pr_name :: ustr
  pr_role_label :: "ustr option"
  pr_capacity_h :: int
  pr_is_admin :: bool
  pr_is_active :: bool
  pr_is_external :: bool

record role_row =
  ro_id :: uuid
  ro_name :: ustr
  ro_description :: "ustr option"

record skill_row =
  sk_id :: uuid
  sk_name :: ustr
  sk_description :: "ustr option"

record role_skill_row =
  rs_role_id :: uuid
  rs_skill_id :: uuid

record person_role_row =
  pe_person_id :: uuid
  pe_role_id :: uuid

record template_row =
  te_id :: uuid
  te_code :: ustr
  te_name :: ustr

record template_task_row =
  tt_id :: uuid
  tt_template_id :: uuid
  tt_ord :: int
  tt_name :: ustr
  tt_duration_hours :: int
  tt_duration_is_window :: bool
  tt_is_splittable :: bool
  tt_pair_mode :: ustr
  tt_optional_in_lite :: bool

record template_assignee_row =
  ta_template_task_id :: uuid
  ta_person_id :: uuid
  ta_strictness :: ustr
  ta_priority :: int

record template_dependency_row =
  td_template_task_id :: uuid
  td_depends_on_id :: uuid
  td_link_type :: ustr
  td_lag_working_days :: int

record project_row =
  pj_id :: uuid
  pj_title :: ustr
  pj_template_id :: "uuid option"
  pj_brief_return_date :: "date option"
  pj_deadline :: "date option"
  pj_priority :: ustr
  pj_status :: ustr
  pj_notion_page_id :: "ustr option"
  pj_created_at :: int
  pj_created_by :: "uuid option"

record task_row =
  tk_id :: uuid
  tk_project_id :: uuid
  tk_name :: ustr
  tk_duration_hours :: int
  tk_start_date :: "date option"
  tk_end_date :: "date option"
  tk_time_start :: "time_of_day option"
  tk_status :: ustr
  tk_source :: ustr
  tk_required_skills :: "ustr list"
  tk_is_splittable :: bool
  tk_duration_is_window :: bool
  tk_pair_mode :: ustr

record assignment_row =
  an_task_id :: uuid
  an_person_id :: uuid
  an_hours :: int

record dependency_row =
  dp_task_id :: uuid
  dp_depends_on_id :: uuid
  dp_link_type :: ustr
  dp_lag_working_days :: int

record day_override_row =
  do_person_id :: uuid
  do_day :: date
  do_capacity_h :: int
  do_reason :: "ustr option"

record plan_version_row =
  pv_id :: uuid
  pv_project_id :: uuid
  pv_status :: ustr
  pv_created_at :: int
  pv_created_by :: "uuid option"
  pv_payload :: json

record audit_row =
  au_created_at :: int
  au_actor_id :: "uuid option"
  au_action :: ustr
  au_entity_type :: ustr
  au_entity_id :: "uuid option"
  au_payload :: "json option"

record db =
  db_people :: "person_row list"
  db_roles :: "role_row list"
  db_skills :: "skill_row list"
  db_role_skills :: "role_skill_row list"
  db_person_roles :: "person_role_row list"
  db_templates :: "template_row list"
  db_template_tasks :: "template_task_row list"
  db_template_assignees :: "template_assignee_row list"
  db_template_deps :: "template_dependency_row list"
  db_projects :: "project_row list"
  db_tasks :: "task_row list"
  db_assignments :: "assignment_row list"
  db_dependencies :: "dependency_row list"
  db_overrides :: "day_override_row list"
  db_plans :: "plan_version_row list"
  db_audit :: "audit_row list"

definition empty_db :: db where
  "empty_db =
     \<lparr>db_people = [], db_roles = [], db_skills = [], db_role_skills = [], db_person_roles = [],
      db_templates = [], db_template_tasks = [], db_template_assignees = [], db_template_deps = [],
      db_projects = [], db_tasks = [], db_assignments = [], db_dependencies = [], db_overrides = [],
      db_plans = [], db_audit = []\<rparr>"

subsection \<open>The world of a procedure\<close>

text \<open>\<open>SinkTask\<close>, \<open>SinkProject\<close> and the calls the sinks receive.\<close>

record sink_task =
  st_title :: ustr
  st_assignees :: "ustr list"
  st_project :: "ustr option"
  st_deadline :: "date option"
  st_time_start :: "time_of_day option"

record sink_project =
  sp_title :: ustr
  sp_template_code :: "ustr option"
  sp_task_names :: "ustr list"
  sp_deadline :: "date option"

datatype sink_call =
    PushTask sink_task
  | CreateCard sink_project
  | TickTask ustr ustr
  | ArchiveCard ustr

record world =
  w_db :: db
  w_uuid :: "nat \<Rightarrow> uuid"
  w_next :: nat
  w_now :: int
  w_calls :: "sink_call list"

type_synonym 'a proc = "world \<Rightarrow> 'a res \<times> world"

definition ret :: "'a \<Rightarrow> 'a proc" where
  "ret x w = (Inr x, w)"

definition raise :: "exn \<Rightarrow> 'a proc" where
  "raise e w = (Inl e, w)"

definition bind_proc :: "'a proc \<Rightarrow> ('a \<Rightarrow> 'b proc) \<Rightarrow> 'b proc" where
  "bind_proc m f w = (case m w of (Inl e, w') \<Rightarrow> (Inl e, w') | (Inr x, w') \<Rightarrow> f x w')"

text \<open>\<open>try: ... except Exception: ...\<close>\<close>

definition catch :: "'a proc \<Rightarrow> (exn \<Rightarrow> 'a proc) \<Rightarrow> 'a proc" where
  "catch m h w = (case m w of (Inl e, w') \<Rightarrow> h e w' | (Inr x, w') \<Rightarrow> (Inr x, w'))"

definition lift_res :: "'a res \<Rightarrow> 'a proc" where
  "lift_res r w = (r, w)"

definition query :: "(db \<Rightarrow> 'a) \<Rightarrow> 'a proc" where
  "query f w = (Inr (f (w_db w)), w)"

definition transaction :: "(int \<Rightarrow> db \<Rightarrow> ('a \<times> db) res) \<Rightarrow> 'a proc" where
  "transaction f w =
     (case f (w_now w) (w_db w) of
        Inl e \<Rightarrow> (Inl e, w)
      | Inr (x, d) \<Rightarrow> (Inr x, w\<lparr>w_db := d\<rparr>))"

definition uuid4 :: "uuid proc" where
  "uuid4 w = (Inr (w_uuid w (w_next w)), w\<lparr>w_next := Suc (w_next w)\<rparr>)"

text \<open>An external sink: its answer may depend on everything it was asked before.\<close>

definition call_sink :: "(sink_call list \<Rightarrow> sink_call \<Rightarrow> 'a res) \<Rightarrow> sink_call \<Rightarrow> 'a proc" where
  "call_sink sink c w = (sink (w_calls w) c, w\<lparr>w_calls := w_calls w @ [c]\<rparr>)"

fun for_each :: "('a \<Rightarrow> 's \<Rightarrow> 's proc) \<Rightarrow> 'a list \<Rightarrow> 's \<Rightarrow> 's proc" where
  "for_each f [] s = ret s"
| "for_each f (x # xs) s = bind_proc (f x s) (for_each f xs)"

named_theorems proc_simps "running procedures"

lemma ret_run [proc_simps]: "ret x w = (Inr x, w)"
  by (simp add: ret_def)

lemma raise_run [proc_simps]: "raise e w = (Inl e, w)"
  by (simp add: raise_def)

lemma query_run [proc_simps]: "query f w = (Inr (f (w_db w)), w)"
  by (simp add: query_def)

lemma lift_res_run [proc_simps]: "lift_res r w = (r, w)"
  by (simp add: lift_res_def)

lemma bind_proc_Inr [proc_simps]:
  "bind_proc m f w = (Inr y, w') \<longleftrightarrow> (\<exists>x w1. m w = (Inr x, w1) \<and> f x w1 = (Inr y, w'))"
  by (auto simp: bind_proc_def split: prod.splits sum.splits)

lemma bind_proc_Inl [proc_simps]:
  "bind_proc m f w = (Inl e, w') \<longleftrightarrow> m w = (Inl e, w') \<or> (\<exists>x w1. m w = (Inr x, w1) \<and> f x w1 = (Inl e, w'))"
  by (auto simp: bind_proc_def split: prod.splits sum.splits)

lemma transaction_Inr [proc_simps]:
  "transaction f w = (Inr x, w') \<longleftrightarrow> (\<exists>d. f (w_now w) (w_db w) = Inr (x, d) \<and> w' = w\<lparr>w_db := d\<rparr>)"
  by (auto simp: transaction_def split: sum.splits)

lemma transaction_Inl [proc_simps]:
  "transaction f w = (Inl e, w') \<longleftrightarrow> f (w_now w) (w_db w) = Inl e \<and> w' = w"
  by (auto simp: transaction_def split: sum.splits)

lemma uuid4_run [proc_simps]: "uuid4 w = (Inr (w_uuid w (w_next w)), w\<lparr>w_next := Suc (w_next w)\<rparr>)"
  by (simp add: uuid4_def)

lemma bind_ret [simp]: "bind_proc (ret x) f = f x"
  by (rule ext) (simp add: bind_proc_def ret_def)

subsection \<open>Constraints\<close>

definition ensure :: "bool \<Rightarrow> 'a \<Rightarrow> 'a res" where
  "ensure ok x = (if ok then Inr x else Inl IntegrityError)"

lemma ensure_Inr [res_simps]: "ensure ok x = Inr y \<longleftrightarrow> ok \<and> x = y"
  by (simp add: ensure_def)

lemma ensure_Inl [res_simps]: "ensure ok x = Inl e \<longleftrightarrow> \<not> ok \<and> e = IntegrityError"
  by (auto simp: ensure_def)

definition has_person :: "db \<Rightarrow> uuid \<Rightarrow> bool" where
  "has_person d i \<longleftrightarrow> i \<in> set (map pr_id (db_people d))"

definition has_project :: "db \<Rightarrow> uuid \<Rightarrow> bool" where
  "has_project d i \<longleftrightarrow> i \<in> set (map pj_id (db_projects d))"

definition has_task :: "db \<Rightarrow> uuid \<Rightarrow> bool" where
  "has_task d i \<longleftrightarrow> i \<in> set (map tk_id (db_tasks d))"

definition opt_ok :: "('a \<Rightarrow> bool) \<Rightarrow> 'a option \<Rightarrow> bool" where
  "opt_ok P x \<longleftrightarrow> (case x of None \<Rightarrow> True | Some y \<Rightarrow> P y)"

definition plan_statuses :: "ustr list" where
  "plan_statuses = map ascii [''proposed'', ''committed'', ''superseded'']"

definition task_sources :: "ustr list" where
  "task_sources = map ascii [''bot_formed'', ''template'']"

definition pair_modes :: "ustr list" where
  "pair_modes = map ascii [''none'', ''optional'', ''required'']"

definition link_types :: "ustr list" where
  "link_types = map ascii [''FS'', ''SS'']"

text \<open>What the constraints guarantee of the tables the operations write.\<close>

definition projects_ok :: "db \<Rightarrow> bool" where
  "projects_ok d \<longleftrightarrow> distinct (map pj_id (db_projects d)) \<and>
     (\<forall>p \<in> set (db_projects d). opt_ok (has_person d) (pj_created_by p) \<and>
        opt_ok (\<lambda>i. i \<in> set (map te_id (db_templates d))) (pj_template_id p))"

definition tasks_ok :: "db \<Rightarrow> bool" where
  "tasks_ok d \<longleftrightarrow> distinct (map tk_id (db_tasks d)) \<and>
     (\<forall>t \<in> set (db_tasks d). has_project d (tk_project_id t) \<and>
        tk_source t \<in> set task_sources \<and> tk_pair_mode t \<in> set pair_modes)"

definition assignments_ok :: "db \<Rightarrow> bool" where
  "assignments_ok d \<longleftrightarrow> distinct (map (\<lambda>a. (an_task_id a, an_person_id a)) (db_assignments d)) \<and>
     (\<forall>a \<in> set (db_assignments d). has_task d (an_task_id a) \<and> has_person d (an_person_id a))"

definition overrides_ok :: "db \<Rightarrow> bool" where
  "overrides_ok d \<longleftrightarrow> distinct (map (\<lambda>r. (do_person_id r, do_day r)) (db_overrides d)) \<and>
     (\<forall>r \<in> set (db_overrides d). has_person d (do_person_id r))"

definition plans_ok :: "db \<Rightarrow> bool" where
  "plans_ok d \<longleftrightarrow> distinct (map pv_id (db_plans d)) \<and>
     (\<forall>v \<in> set (db_plans d). has_project d (pv_project_id v) \<and> pv_status v \<in> set plan_statuses \<and>
        opt_ok (has_person d) (pv_created_by v))"

definition audit_ok :: "db \<Rightarrow> bool" where
  "audit_ok d \<longleftrightarrow> (\<forall>a \<in> set (db_audit d). opt_ok (has_person d) (au_actor_id a))"

definition db_ok :: "db \<Rightarrow> bool" where
  "db_ok d \<longleftrightarrow> distinct (map pr_id (db_people d)) \<and> projects_ok d \<and> tasks_ok d \<and> assignments_ok d \<and>
     overrides_ok d \<and> plans_ok d \<and> audit_ok d"

lemmas db_ok_defs = db_ok_def projects_ok_def tasks_ok_def assignments_ok_def overrides_ok_def
  plans_ok_def audit_ok_def has_person_def has_project_def has_task_def

end
