(* ===== verification/Capability.thy ===== *)
theory Capability
  imports Py_Text Complex_Main "HOL-Library.Multiset"
begin

section \<open>Capability matching\<close>

text \<open>
  \<open>domain/capability.py\<close>. Skills are compared by \<open>norm\<close> (trimmed, casefolded). A coverage is the exact
  fraction: all candidates share the denominator, so the float quotients of the source order alike.
  \<open>restrict_to\<close> is a list, empty for the source's \<open>None\<close> and for an empty set, which it treats alike.
\<close>

record candidate =
  cd_person_id :: uuid
  cd_name :: ustr
  cd_skills :: "ustr list"
  cd_is_external :: bool
  cd_load_hours :: int

record assignee_suggestion =
  sg_person_id :: uuid
  sg_name :: ustr
  sg_coverage :: rat
  sg_covered_skills :: "ustr list"
  sg_missing_skills :: "ustr list"
  sg_load_hours :: int

definition norm_skill :: "ustr \<Rightarrow> ustr" where
  "norm_skill skill = casefold (strip skill)"

text \<open>\<open>list(dict.fromkeys(xs))\<close>: the first occurrences in order.\<close>

definition fromkeys :: "'a list \<Rightarrow> 'a list" where
  "fromkeys xs = rev (remdups (rev xs))"

definition required_labels :: "ustr list \<Rightarrow> ustr list" where
  "required_labels required_skills =
     fromkeys (map strip (filter (\<lambda>s. strip s \<noteq> []) required_skills))"

text \<open>\<open>setdefault\<close> keeps the first label of a key.\<close>

definition dict_setdefault :: "'k \<Rightarrow> 'v \<Rightarrow> ('k, 'v) dict \<Rightarrow> ('k, 'v) dict" where
  "dict_setdefault k v d = (if dict_has d k then d else dict_set k v d)"

definition label_by_key :: "ustr list \<Rightarrow> (ustr, ustr) dict" where
  "label_by_key required = fold (\<lambda>s. dict_setdefault (norm_skill s) s) required []"

definition considered :: "bool \<Rightarrow> uuid list \<Rightarrow> candidate \<Rightarrow> bool" where
  "considered include_external restrict_to c \<longleftrightarrow>
     \<not> (restrict_to \<noteq> [] \<and> cd_person_id c \<notin> set restrict_to) \<and>
     \<not> (cd_is_external c \<and> \<not> include_external \<and> restrict_to = [])"

definition suggestion_for :: "(ustr, ustr) dict \<Rightarrow> candidate \<Rightarrow> assignee_suggestion" where
  "suggestion_for labels c =
     (let keys = map fst labels;
          have_keys = map norm_skill (cd_skills c);
          covered = filter (\<lambda>k. k \<in> set have_keys) keys;
          missing = filter (\<lambda>k. k \<notin> set have_keys) keys
      in \<lparr>sg_person_id = cd_person_id c, sg_name = cd_name c,
          sg_coverage = (if keys = [] then 1 else of_nat (length covered) / of_nat (length keys)),
          sg_covered_skills = map (\<lambda>k. dict_get_default labels k []) covered,
          sg_missing_skills = map (\<lambda>k. dict_get_default labels k []) missing,
          sg_load_hours = cd_load_hours c\<rparr>)"

definition rank_key :: "assignee_suggestion \<Rightarrow> rat \<times> int \<times> ustr" where
  "rank_key s = (- sg_coverage s, sg_load_hours s, sg_name s)"

text \<open>\<open>xs[:limit]\<close>, with Python's reading of a negative bound.\<close>

definition slice_to :: "int \<Rightarrow> 'a list \<Rightarrow> 'a list" where
  "slice_to n xs = take (nat (if n < 0 then int (length xs) + n else n)) xs"

definition suggest_assignees ::
  "ustr list \<Rightarrow> candidate list \<Rightarrow> bool \<Rightarrow> int option \<Rightarrow> uuid list \<Rightarrow> assignee_suggestion list" where
  "suggest_assignees required_skills candidates include_external limit restrict_to =
     (let labels = label_by_key (required_labels required_skills);
          suggestions = sort_key rank_key
            (map (suggestion_for labels) (filter (considered include_external restrict_to) candidates))
      in case limit of None \<Rightarrow> suggestions | Some n \<Rightarrow> slice_to n suggestions)"

subsection \<open>Required skills are counted once per key\<close>

lemma distinct_setdefault: "distinct (map fst d) \<Longrightarrow> distinct (map fst (dict_setdefault k v d))"
  by (simp add: dict_setdefault_def distinct_dict_set)

lemma label_by_key_inv:
  "distinct (map fst (label_by_key ss)) \<and> fst ` set (label_by_key ss) = norm_skill ` set ss \<and>
    (\<forall>(k, s) \<in> set (label_by_key ss). norm_skill s = k)"
proof (induction ss rule: rev_induct)
  case (snoc s ss)
  let ?d = "label_by_key ss"
  have step: "label_by_key (ss @ [s]) = dict_setdefault (norm_skill s) s ?d" by (simp add: label_by_key_def)
  show ?case
  proof (cases "dict_has ?d (norm_skill s)")
    case True
    then have "norm_skill s \<in> fst ` set ?d"
      using dict_get_None_iff [of ?d "norm_skill s"] by (auto simp: dict_has_def)
    with True snoc show ?thesis by (auto simp: step dict_setdefault_def)
  next
    case False
    then have none: "dict_get ?d (norm_skill s) = None" by (simp add: dict_has_def)
    then have "norm_skill s \<notin> fst ` set ?d" using dict_get_None_iff [of ?d "norm_skill s"] by simp
    with snoc False show ?thesis
      by (auto simp: step dict_setdefault_def dict_set_new [OF none])
  qed
qed (simp add: label_by_key_def)

subsection \<open>What a suggestion says\<close>

lemma suggestion_fields [simp]:
  "sg_person_id (suggestion_for labels c) = cd_person_id c"
  "sg_name (suggestion_for labels c) = cd_name c"
  "sg_load_hours (suggestion_for labels c) = cd_load_hours c"
  by (simp_all add: suggestion_for_def Let_def)

lemma suggestion_split:
  assumes "distinct (map fst labels)"
  shows "mset (sg_covered_skills (suggestion_for labels c)) + mset (sg_missing_skills (suggestion_for labels c)) =
    mset (map snd labels)"
proof -
  have "map (\<lambda>k. dict_get_default labels k []) (map fst labels) = map snd labels"
    using assms by (auto simp: dict_get_default_def dict_get_def)
  then have labels: "mset (map (\<lambda>k. dict_get_default labels k []) (map fst labels)) = mset (map snd labels)"
    by (rule arg_cong)
  have "mset (filter P xs) + mset (filter (\<lambda>x. \<not> P x) xs) = mset xs" for P and xs :: "ustr list"
    by (induction xs) auto
  then have "mset (map f (filter P xs)) + mset (map f (filter (\<lambda>x. \<not> P x) xs)) = mset (map f xs)"
    for P and f :: "ustr \<Rightarrow> ustr" and xs
    by (metis image_mset_union mset_map)
  from this [where P = "\<lambda>k. k \<in> set (map norm_skill (cd_skills c))" and xs = "map fst labels"
      and f = "\<lambda>k. dict_get_default labels k []"]
  show ?thesis unfolding labels [symmetric] by (simp only: suggestion_for_def Let_def assignee_suggestion.simps)
qed

lemma suggestion_coverage:
  assumes "labels \<noteq> []"
  shows "sg_coverage (suggestion_for labels c) =
    of_nat (length (sg_covered_skills (suggestion_for labels c))) / of_nat (length labels)"
  using assms by (simp add: suggestion_for_def Let_def)

lemma coverage_range: "0 \<le> sg_coverage (suggestion_for labels c) \<and> sg_coverage (suggestion_for labels c) \<le> 1"
proof -
  have "length (filter P xs) \<le> length xs" for P and xs :: "ustr list" by simp
  from this [of "\<lambda>k. k \<in> norm_skill ` set (cd_skills c)" "map fst labels"] show ?thesis
    by (auto simp: suggestion_for_def Let_def divide_le_eq_1)
qed

lemma slice_to_subset: "set (slice_to n xs) \<subseteq> set xs"
  by (simp add: slice_to_def set_take_subset)

lemma suggest_from:
  assumes "s \<in> set (suggest_assignees req cands ext limit restrict)"
  shows "\<exists>c \<in> set cands. considered ext restrict c \<and> s = suggestion_for (label_by_key (required_labels req)) c"
proof -
  have "s \<in> set (sort_key rank_key
      (map (suggestion_for (label_by_key (required_labels req))) (filter (considered ext restrict) cands)))"
    using assms slice_to_subset by (fastforce simp: suggest_assignees_def Let_def split: option.splits)
  then show ?thesis by auto
qed

lemma suggest_sorted: "sorted (map rank_key (suggest_assignees req cands ext limit restrict))"
proof -
  have "sorted (map rank_key (slice_to n (sort_key rank_key xs)))" for n and xs :: "assignee_suggestion list"
    unfolding slice_to_def take_map [symmetric] by (rule sorted_wrt_take) simp
  then show ?thesis by (simp add: suggest_assignees_def Let_def split: option.split)
qed

lemma suggest_complete:
  "mset (suggest_assignees req cands ext None restrict) =
    mset (map (suggestion_for (label_by_key (required_labels req))) (filter (considered ext restrict) cands))"
  by (simp add: suggest_assignees_def Let_def)

end
