(* ===== verification/Repo.thy ===== *)
theory Repo
  imports Db_Store Capability
begin

section \<open>The repository\<close>

text \<open>
  \<open>infra/db/repo.py\<close>, one definition per method. A \<open>SELECT\<close> without \<open>ORDER BY\<close> returns rows in table
  order, one of the orders the database may choose; text is ordered by code points. A primary or
  foreign key or \<open>CHECK\<close> a row breaks raises \<open>IntegrityError\<close> and the transaction changes nothing.
\<close>

record person_record =
  pp_id :: uuid
  pp_name :: ustr
  pp_is_admin :: bool
  pp_capacity_h :: int
  pp_role_label :: "ustr option"

record plan_version_record =
  vr_id :: uuid
  vr_project_id :: uuid
  vr_status :: ustr
  vr_payload :: json

record project_record =
  jr_id :: uuid
  jr_title :: ustr
  jr_status :: ustr
  jr_deadline :: "date option"
  jr_priority :: ustr
  jr_template_code :: "ustr option"
  jr_start_date :: "date option"
  jr_notion_page_id :: "ustr option"

record task_record =
  tr_id :: uuid
  tr_name :: ustr
  tr_status :: ustr
  tr_start_date :: "date option"
  tr_end_date :: "date option"
  tr_duration_hours :: int

record capability_record =
  cr_person_id :: uuid
  cr_name :: ustr
  cr_skills :: "ustr list"
  cr_is_external :: bool

record task_meta =
  tm_task_id :: uuid
  tm_task_name :: ustr
  tm_project_title :: ustr
  tm_priority :: ustr
  tm_status :: ustr
  tm_start_date :: "date option"
  tm_end_date :: "date option"
  tm_duration_hours :: int
  tm_assignee_id :: "uuid option"
  tm_assignee_name :: "ustr option"
  tm_deadline :: "date option"

record template_task_spec =
  ts_ord :: int
  ts_name :: ustr
  ts_duration_hours :: int
  ts_allowed_person_ids :: "uuid list"
  ts_depends_on_ords :: "int list"
  ts_link_types :: "ustr list"
  ts_dep_lags :: "int list"
  ts_is_splittable :: bool
  ts_pair_mode :: ustr
  ts_duration_is_window :: bool

record project_template =
  pt_code :: ustr
  pt_tasks :: "template_task_spec list"

record audit_record =
  ar_created_at :: int
  ar_action :: ustr
  ar_entity_type :: ustr
  ar_payload :: "json option"
  ar_entity_id :: "uuid option"

text \<open>\<open>s.get(Model, pk)\<close>, \<open>s.scalar(select(...))\<close>: the row or nothing.\<close>

definition get_row :: "('r \<Rightarrow> 'k) \<Rightarrow> 'k \<Rightarrow> 'r list \<Rightarrow> 'r option" where
  "get_row key k rows = find (\<lambda>r. key r = k) rows"

definition update_row :: "('r \<Rightarrow> 'k) \<Rightarrow> 'k \<Rightarrow> ('r \<Rightarrow> 'r) \<Rightarrow> 'r list \<Rightarrow> 'r list" where
  "update_row key k f rows = map (\<lambda>r. if key r = k then f r else r) rows"

definition opt_or :: "'a option \<Rightarrow> 'a option \<Rightarrow> 'a option" where
  "opt_or x y = (case x of None \<Rightarrow> y | Some v \<Rightarrow> Some v)"

subsection \<open>People\<close>

definition person_record_of :: "person_row \<Rightarrow> person_record" where
  "person_record_of p =
     \<lparr>pp_id = pr_id p, pp_name = pr_name p, pp_is_admin = pr_is_admin p,
      pp_capacity_h = pr_capacity_h p, pp_role_label = pr_role_label p\<rparr>"

definition norm_name :: "ustr \<Rightarrow> ustr" where
  "norm_name s = map (\<lambda>c. if c = 1105 then 1077 else c) (lower (strip s))"

text \<open>\<open>min(fuzzy, key=len)\<close>: the first of the shortest.\<close>

fun min_by_len :: "ustr list \<Rightarrow> ustr option" where
  "min_by_len [] = None"
| "min_by_len (x # xs) =
     (case min_by_len xs of None \<Rightarrow> Some x | Some y \<Rightarrow> if length y < length x then Some y else Some x)"

definition fuzzy_match :: "ustr \<Rightarrow> ustr \<Rightarrow> bool" where
  "fuzzy_match q c = list_ex (\<lambda>w. w = q \<or> startswith w q) (split_ws (norm_name c))"

definition match_person_name :: "ustr list \<Rightarrow> ustr \<Rightarrow> ustr option" where
  "match_person_name candidates q0 =
     (let q = norm_name q0 in
      if q = [] then None
      else case find (\<lambda>c. norm_name c = q) candidates of
             Some c \<Rightarrow> Some c
           | None \<Rightarrow> min_by_len (filter (fuzzy_match q) candidates))"

definition find_person_by_name :: "db \<Rightarrow> ustr \<Rightarrow> person_record option" where
  "find_person_by_name d name =
     (let by_name = dict_of (map (\<lambda>p. (pr_name p, p)) (db_people d)) in
      case match_person_name (map fst by_name) name of
        None \<Rightarrow> None
      | Some chosen \<Rightarrow> map_option person_record_of (dict_get by_name chosen))"

definition get_person_by_name :: "ustr \<Rightarrow> person_record option proc" where
  "get_person_by_name name = query (\<lambda>d. find_person_by_name d name)"

definition get_person_by_tg_id :: "int \<Rightarrow> person_record option proc" where
  "get_person_by_tg_id tg =
     query (\<lambda>d. map_option person_record_of (get_row pr_tg_user_id (Some tg) (db_people d)))"

definition list_people :: "person_record list proc" where
  "list_people = query (\<lambda>d. map person_record_of (sort_key pr_name (db_people d)))"

definition get_solver_people :: "person list proc" where
  "get_solver_people =
     query (\<lambda>d. map (\<lambda>p. \<lparr>p_id = pr_id p, p_name = pr_name p, p_capacity_h = pr_capacity_h p\<rparr>)
       (sort_key pr_name (filter pr_is_active (db_people d))))"

subsection \<open>Plan versions\<close>

definition plan_record_of :: "plan_version_row \<Rightarrow> plan_version_record" where
  "plan_record_of v =
     \<lparr>vr_id = pv_id v, vr_project_id = pv_project_id v, vr_status = pv_status v, vr_payload = pv_payload v\<rparr>"

definition get_plan_version :: "uuid \<Rightarrow> plan_version_record option proc" where
  "get_plan_version i = query (\<lambda>d. map_option plan_record_of (get_row pv_id i (db_plans d)))"

definition set_plan_version_status :: "uuid \<Rightarrow> ustr \<Rightarrow> unit proc" where
  "set_plan_version_status i status = transaction (\<lambda>now d.
     ensure (get_row pv_id i (db_plans d) = None \<or> status \<in> set plan_statuses)
       ((), d\<lparr>db_plans := update_row pv_id i (\<lambda>v. v\<lparr>pv_status := status\<rparr>) (db_plans d)\<rparr>))"

text \<open>One \<open>UPDATE ... WHERE id = ... AND status = ...\<close>; true when a row matched.\<close>

definition transition_plan_status :: "uuid \<Rightarrow> ustr \<Rightarrow> ustr \<Rightarrow> bool proc" where
  "transition_plan_status i from_status to_status = transaction (\<lambda>now d.
     (let hit = (\<lambda>v. pv_id v = i \<and> pv_status v = from_status) in
      ensure (list_ex hit (db_plans d) \<longrightarrow> to_status \<in> set plan_statuses)
        (list_ex hit (db_plans d),
         d\<lparr>db_plans := map (\<lambda>v. if hit v then v\<lparr>pv_status := to_status\<rparr> else v) (db_plans d)\<rparr>)))"

definition insert_plan_version ::
  "uuid \<Rightarrow> uuid \<Rightarrow> ustr \<Rightarrow> json \<Rightarrow> uuid option \<Rightarrow> int \<Rightarrow> db \<Rightarrow> (unit \<times> db) res" where
  "insert_plan_version i project_id status payload actor_id now d =
     ensure (i \<notin> set (map pv_id (db_plans d)) \<and> has_project d project_id \<and> status \<in> set plan_statuses \<and>
             opt_ok (has_person d) actor_id)
       ((), d\<lparr>db_plans := db_plans d @
          [\<lparr>pv_id = i, pv_project_id = project_id, pv_status = status, pv_created_at = now,
            pv_created_by = actor_id, pv_payload = payload\<rparr>]\<rparr>)"

definition save_plan_version :: "uuid \<Rightarrow> ustr \<Rightarrow> json \<Rightarrow> uuid option \<Rightarrow> plan_version_record proc" where
  "save_plan_version project_id status payload actor_id =
     bind_proc uuid4 (\<lambda>i.
     bind_proc (transaction (insert_plan_version i project_id status payload actor_id)) (\<lambda>_.
     ret \<lparr>vr_id = i, vr_project_id = project_id, vr_status = status, vr_payload = payload\<rparr>))"

definition committed_rows :: "db \<Rightarrow> plan_version_row list" where
  "committed_rows d = filter (\<lambda>v. pv_status v = ascii ''committed'') (db_plans d)"

definition first_row :: "'a list \<Rightarrow> 'a option" where
  "first_row xs = (case xs of [] \<Rightarrow> None | x # _ \<Rightarrow> Some x)"

definition get_committed_plan :: "uuid \<Rightarrow> plan_version_record option proc" where
  "get_committed_plan project_id = query (\<lambda>d. map_option plan_record_of (first_row
     (sort_key (\<lambda>v. - pv_created_at v) (filter (\<lambda>v. pv_project_id v = project_id) (committed_rows d)))))"

definition list_committed_plans :: "json list proc" where
  "list_committed_plans = query (\<lambda>d. map pv_payload (committed_rows d))"

definition list_committed_plans_with_project :: "(uuid \<times> json) list proc" where
  "list_committed_plans_with_project =
     query (\<lambda>d. map (\<lambda>v. (pv_project_id v, pv_payload v)) (committed_rows d))"

text \<open>
  The project ids are a Python set, visited here in the order of their first plan; \<open>pages\<close> holds the
  non-empty card ids.
\<close>

definition reset_all_plans :: "ustr list proc" where
  "reset_all_plans = transaction (\<lambda>now d.
     (let pids = remdups (map pv_project_id (committed_rows d));
          plans = map (\<lambda>v. if pv_status v = ascii ''committed''
                           then v\<lparr>pv_status := ascii ''superseded''\<rparr> else v) (db_plans d);
          projects = map (\<lambda>p. if pj_id p \<in> set pids then p\<lparr>pj_status := ascii ''cancelled''\<rparr> else p)
                       (db_projects d);
          page_of = (\<lambda>i. case get_row pj_id i (db_projects d) of None \<Rightarrow> None
                       | Some p \<Rightarrow> (case pj_notion_page_id p of None \<Rightarrow> None
                                   | Some g \<Rightarrow> if g = [] then None else Some g))
      in Inr (List.map_filter page_of pids, d\<lparr>db_plans := plans, db_projects := projects\<rparr>)))"

subsection \<open>Editing a committed plan\<close>

text \<open>
  \<open>edit_assignments\<close> rewrites the \<open>assignments\<close> of a payload whose \<open>task_id\<close> is the key and tells
  whether one was; both editing methods apply it to the committed plans in turn and stop at the
  first that has the task.
\<close>

definition edit_entry :: "ustr \<Rightarrow> ((ustr, json) dict \<Rightarrow> (ustr, json) dict res) \<Rightarrow> json \<Rightarrow> (json \<times> bool) res" where
  "edit_entry task_key f a =
     bind_res (json_dict a) (\<lambda>d.
       if dict_get d (ascii ''task_id'') = Some (JStr task_key)
       then bind_res (f d) (\<lambda>d'. Inr (JObj d', True))
       else Inr (JObj d, False))"

definition edit_assignments ::
  "ustr \<Rightarrow> ((ustr, json) dict \<Rightarrow> (ustr, json) dict res) \<Rightarrow> json \<Rightarrow> json option res" where
  "edit_assignments task_key f payload =
     bind_res (json_dict payload) (\<lambda>d.
     bind_res (json_list (dict_get_default d (ascii ''assignments'') (JList []))) (\<lambda>as.
     bind_res (map_res (edit_entry task_key f) as) (\<lambda>edited.
       Inr (if list_ex snd edited
            then Some (JObj (dict_set (ascii ''assignments'') (JList (map fst edited)) d))
            else None))))"

fun edit_first_plan :: "(json \<Rightarrow> json option res) \<Rightarrow> plan_version_row list \<Rightarrow> (bool \<times> plan_version_row list) res" where
  "edit_first_plan f [] = Inr (False, [])"
| "edit_first_plan f (v # vs) =
     (if pv_status v = ascii ''committed''
      then bind_res (f (pv_payload v)) (\<lambda>r. case r of
             Some payload \<Rightarrow> Inr (True, v\<lparr>pv_payload := payload\<rparr> # vs)
           | None \<Rightarrow> bind_res (edit_first_plan f vs) (\<lambda>(b, vs'). Inr (b, v # vs')))
      else bind_res (edit_first_plan f vs) (\<lambda>(b, vs'). Inr (b, v # vs')))"

definition move_allocation :: "ustr \<Rightarrow> json \<Rightarrow> json res" where
  "move_allocation person_key al =
     bind_res (json_dict al) (\<lambda>d. Inr (JObj (dict_set (ascii ''person_id'') (JStr person_key) d)))"

definition move_entry :: "ustr \<Rightarrow> (ustr, json) dict \<Rightarrow> (ustr, json) dict res" where
  "move_entry person_key a =
     bind_res (json_list (dict_get_default a (ascii ''allocations'') (JList []))) (\<lambda>als.
     bind_res (map_res (move_allocation person_key) als) (\<lambda>als'.
       Inr (dict_set (ascii ''allocations'') (JList als')
             (dict_set (ascii ''person_id'') (JStr person_key) a))))"

definition reassign_in_plan :: "uuid \<Rightarrow> uuid \<Rightarrow> bool proc" where
  "reassign_in_plan task_id new_person_id = transaction (\<lambda>now d.
     bind_res (edit_first_plan
         (edit_assignments (uuid_str task_id) (move_entry (uuid_str new_person_id))) (db_plans d))
       (\<lambda>(moved, plans). Inr (moved, d\<lparr>db_plans := plans\<rparr>)))"

definition set_opt_date :: "string \<Rightarrow> date option \<Rightarrow> (ustr, json) dict \<Rightarrow> (ustr, json) dict" where
  "set_opt_date k day d =
     (case day of None \<Rightarrow> d | Some x \<Rightarrow> dict_set (ascii k) (JStr (isoformat x)) d)"

definition reschedule_entry :: "date option \<Rightarrow> date option \<Rightarrow> (ustr, json) dict \<Rightarrow> (ustr, json) dict res" where
  "reschedule_entry start end a = Inr (set_opt_date ''end_date'' end (set_opt_date ''start_date'' start a))"

definition update_schedule_in_plan :: "uuid \<Rightarrow> date option \<Rightarrow> date option \<Rightarrow> bool proc" where
  "update_schedule_in_plan task_id start end = transaction (\<lambda>now d.
     bind_res (edit_first_plan
         (edit_assignments (uuid_str task_id) (reschedule_entry start end)) (db_plans d))
       (\<lambda>(moved, plans). Inr (moved, d\<lparr>db_plans := plans\<rparr>)))"

subsection \<open>Projects\<close>

definition insert_project :: "project_row \<Rightarrow> db \<Rightarrow> (unit \<times> db) res" where
  "insert_project p d =
     ensure (pj_id p \<notin> set (map pj_id (db_projects d)) \<and> opt_ok (has_person d) (pj_created_by p) \<and>
             opt_ok (\<lambda>i. i \<in> set (map te_id (db_templates d))) (pj_template_id p))
       ((), d\<lparr>db_projects := db_projects d @ [p]\<rparr>)"

definition template_id_of :: "db \<Rightarrow> ustr \<Rightarrow> uuid option" where
  "template_id_of d code = map_option te_id (get_row te_code code (db_templates d))"

definition create_project ::
  "ustr \<Rightarrow> ustr \<Rightarrow> date option \<Rightarrow> date option \<Rightarrow> uuid option \<Rightarrow> ustr \<Rightarrow> uuid option \<Rightarrow> project_record proc" where
  "create_project title template_code deadline brief_return_date actor_id priority project_id =
     bind_proc (case project_id of Some i \<Rightarrow> ret i | None \<Rightarrow> uuid4) (\<lambda>i.
     bind_proc (transaction (\<lambda>now d. insert_project
         \<lparr>pj_id = i, pj_title = title, pj_template_id = template_id_of d template_code,
          pj_brief_return_date = brief_return_date, pj_deadline = deadline, pj_priority = priority,
          pj_status = ascii ''planning'', pj_notion_page_id = None, pj_created_at = now,
          pj_created_by = actor_id\<rparr> d)) (\<lambda>_.
     ret \<lparr>jr_id = i, jr_title = title, jr_status = ascii ''planning'', jr_deadline = deadline,
          jr_priority = priority,
          jr_template_code = (if template_code = [] then None else Some template_code),
          jr_start_date = None, jr_notion_page_id = None\<rparr>))"

definition project_record_of :: "project_row \<Rightarrow> project_record" where
  "project_record_of p =
     \<lparr>jr_id = pj_id p, jr_title = pj_title p, jr_status = pj_status p, jr_deadline = pj_deadline p,
      jr_priority = ascii ''medium'', jr_template_code = None, jr_start_date = None,
      jr_notion_page_id = pj_notion_page_id p\<rparr>"

definition get_project_by_title :: "ustr \<Rightarrow> project_record option proc" where
  "get_project_by_title title = query (\<lambda>d. map_option project_record_of
     (find (\<lambda>p. lower (pj_title p) = lower title) (db_projects d)))"

definition get_project :: "uuid \<Rightarrow> project_record option proc" where
  "get_project i = query (\<lambda>d. map_option project_record_of (get_row pj_id i (db_projects d)))"

definition set_project_status :: "uuid \<Rightarrow> ustr \<Rightarrow> unit proc" where
  "set_project_status i status = transaction (\<lambda>now d.
     Inr ((), d\<lparr>db_projects := update_row pj_id i (\<lambda>p. p\<lparr>pj_status := status\<rparr>) (db_projects d)\<rparr>))"

definition set_project_notion_page :: "uuid \<Rightarrow> ustr \<Rightarrow> unit proc" where
  "set_project_notion_page i page = transaction (\<lambda>now d.
     Inr ((), d\<lparr>db_projects := update_row pj_id i (\<lambda>p. p\<lparr>pj_notion_page_id := Some page\<rparr>) (db_projects d)\<rparr>))"

text \<open>The UTC date of a timestamp in microseconds since 1970; 1970-01-01 has ordinal 719163.\<close>

definition timestamp_date :: "int \<Rightarrow> date" where
  "timestamp_date us = us div 86400000000 + 719163"

definition list_projects :: "project_record list proc" where
  "list_projects = query (\<lambda>d. map (\<lambda>p.
     \<lparr>jr_id = pj_id p, jr_title = pj_title p, jr_status = pj_status p, jr_deadline = pj_deadline p,
      jr_priority = pj_priority p,
      jr_template_code = (case pj_template_id p of None \<Rightarrow> None
        | Some i \<Rightarrow> map_option te_code (get_row te_id i (db_templates d))),
      jr_start_date = Some (timestamp_date (pj_created_at p)), jr_notion_page_id = None\<rparr>)
     (sort_key (\<lambda>p. - pj_created_at p) (db_projects d)))"
end
