(* ===== verification/Repo_Tasks.thy ===== *)
theory Repo_Tasks
  imports Repo
begin

section \<open>The repository: tasks, assignments, templates, audit\<close>

text \<open>
  The methods of \<open>infra/db/repo.py\<close> on tasks, their assignees, the capacity overrides, the templates and
  the audit log.
\<close>

subsection \<open>Tasks and assignments\<close>

definition task_row_ok :: "db \<Rightarrow> task_row \<Rightarrow> bool" where
  "task_row_ok d t \<longleftrightarrow>
     tk_id t \<notin> set (map tk_id (db_tasks d)) \<and> has_project d (tk_project_id t) \<and>
     tk_source t \<in> set task_sources \<and> tk_pair_mode t \<in> set pair_modes"

definition insert_task :: "task_row \<Rightarrow> db \<Rightarrow> db res" where
  "insert_task t d = ensure (task_row_ok d t) (d\<lparr>db_tasks := db_tasks d @ [t]\<rparr>)"

definition insert_assignment :: "assignment_row \<Rightarrow> db \<Rightarrow> db res" where
  "insert_assignment a d =
     ensure ((an_task_id a, an_person_id a) \<notin> set (map (\<lambda>b. (an_task_id b, an_person_id b)) (db_assignments d)) \<and>
             has_task d (an_task_id a) \<and> has_person d (an_person_id a))
       (d\<lparr>db_assignments := db_assignments d @ [a]\<rparr>)"

definition captured_row ::
  "uuid \<Rightarrow> uuid \<Rightarrow> ustr \<Rightarrow> int \<Rightarrow> date option \<Rightarrow> time_of_day option \<Rightarrow> ustr list \<Rightarrow> task_row" where
  "captured_row i project_id name hours deadline time_start skills =
     \<lparr>tk_id = i, tk_project_id = project_id, tk_name = name, tk_duration_hours = hours,
      tk_start_date = None, tk_end_date = deadline, tk_time_start = time_start,
      tk_status = ascii ''not_done'', tk_source = ascii ''bot_formed'', tk_required_skills = skills,
      tk_is_splittable = False, tk_duration_is_window = False, tk_pair_mode = ascii ''none''\<rparr>"

definition task_record_of :: "task_row \<Rightarrow> task_record" where
  "task_record_of t =
     \<lparr>tr_id = tk_id t, tr_name = tk_name t, tr_status = tk_status t, tr_start_date = tk_start_date t,
      tr_end_date = tk_end_date t, tr_duration_hours = tk_duration_hours t\<rparr>"

definition create_task ::
  "uuid \<Rightarrow> ustr \<Rightarrow> int \<Rightarrow> date option \<Rightarrow> ustr list \<Rightarrow> time_of_day option \<Rightarrow> task_record proc" where
  "create_task project_id name duration_hours deadline required_skills time_start =
     bind_proc uuid4 (\<lambda>i.
     bind_proc (transaction (\<lambda>now d. bind_res
         (insert_task (captured_row i project_id name duration_hours deadline time_start required_skills) d)
         (\<lambda>d'. Inr ((), d')))) (\<lambda>_.
     ret \<lparr>tr_id = i, tr_name = name, tr_status = ascii ''not_done'', tr_start_date = None,
          tr_end_date = deadline, tr_duration_hours = duration_hours\<rparr>))"

definition assign_task :: "uuid \<Rightarrow> uuid \<Rightarrow> int \<Rightarrow> unit proc" where
  "assign_task task_id person_id hours = transaction (\<lambda>now d.
     (let key = (\<lambda>a. (an_task_id a, an_person_id a)) in
      case get_row key (task_id, person_id) (db_assignments d) of
        None \<Rightarrow> bind_res (insert_assignment
            \<lparr>an_task_id = task_id, an_person_id = person_id, an_hours = hours\<rparr> d) (\<lambda>d'. Inr ((), d'))
      | Some _ \<Rightarrow> Inr ((), d\<lparr>db_assignments :=
            update_row key (task_id, person_id) (\<lambda>a. a\<lparr>an_hours := hours\<rparr>) (db_assignments d)\<rparr>)))"

definition set_task_assignee :: "uuid \<Rightarrow> uuid \<Rightarrow> int \<Rightarrow> bool proc" where
  "set_task_assignee task_id person_id hours = transaction (\<lambda>now d.
     if get_row tk_id task_id (db_tasks d) = None then Inr (False, d)
     else bind_res (insert_assignment \<lparr>an_task_id = task_id, an_person_id = person_id, an_hours = hours\<rparr>
              (d\<lparr>db_assignments := filter (\<lambda>a. an_task_id a \<noteq> task_id) (db_assignments d)\<rparr>))
            (\<lambda>d'. Inr (True, d')))"

definition reschedule_row :: "date option \<Rightarrow> date option \<Rightarrow> task_row \<Rightarrow> task_row" where
  "reschedule_row start end t =
     t\<lparr>tk_start_date := opt_or start (tk_start_date t), tk_end_date := opt_or end (tk_end_date t)\<rparr>"

text \<open>The \<open>person_id\<close> argument of \<open>update_task_schedule\<close> is ignored by the source too.\<close>

definition update_task_schedule :: "uuid \<Rightarrow> date option \<Rightarrow> date option \<Rightarrow> uuid option \<Rightarrow> unit proc" where
  "update_task_schedule task_id start end person_id = transaction (\<lambda>now d.
     Inr ((), d\<lparr>db_tasks := update_row tk_id task_id (reschedule_row start end) (db_tasks d)\<rparr>))"

definition set_task_status :: "uuid \<Rightarrow> ustr \<Rightarrow> unit proc" where
  "set_task_status task_id status = transaction (\<lambda>now d.
     Inr ((), d\<lparr>db_tasks := update_row tk_id task_id (\<lambda>t. t\<lparr>tk_status := status\<rparr>) (db_tasks d)\<rparr>))"

definition project_task_records :: "db \<Rightarrow> uuid \<Rightarrow> task_record list" where
  "project_task_records d project_id =
     map task_record_of (sort_key tk_name (filter (\<lambda>t. tk_project_id t = project_id) (db_tasks d)))"

definition list_project_tasks :: "uuid \<Rightarrow> task_record list proc" where
  "list_project_tasks project_id = query (\<lambda>d. project_task_records d project_id)"

definition get_task_name_map :: "(uuid, ustr) dict proc" where
  "get_task_name_map = query (\<lambda>d. dict_of (map (\<lambda>t. (tk_id t, tk_name t)) (db_tasks d)))"

definition get_task_project_map :: "(uuid, ustr) dict proc" where
  "get_task_project_map = query (\<lambda>d. dict_of (concat (map (\<lambda>t.
     map (\<lambda>p. (tk_id t, pj_title p)) (filter (\<lambda>p. pj_id p = tk_project_id t) (db_projects d)))
     (db_tasks d))))"

text \<open>A left outer join: the matching rows, or one empty row.\<close>

definition outer :: "'a list \<Rightarrow> 'a option list" where
  "outer xs = (if xs = [] then [None] else map Some xs)"

definition task_meta_of :: "task_row \<Rightarrow> project_row \<Rightarrow> person_row option \<Rightarrow> task_meta" where
  "task_meta_of t p who =
     \<lparr>tm_task_id = tk_id t, tm_task_name = tk_name t, tm_project_title = pj_title p,
      tm_priority = pj_priority p, tm_status = tk_status t, tm_start_date = tk_start_date t,
      tm_end_date = tk_end_date t, tm_duration_hours = tk_duration_hours t,
      tm_assignee_id = map_option pr_id who, tm_assignee_name = map_option pr_name who,
      tm_deadline = opt_or (pj_deadline p) (tk_end_date t)\<rparr>"

definition task_assignees :: "db \<Rightarrow> task_row \<Rightarrow> person_row option list" where
  "task_assignees d t = concat (map (\<lambda>a. case a of
       None \<Rightarrow> [None]
     | Some r \<Rightarrow> outer (filter (\<lambda>p. pr_id p = an_person_id r) (db_people d)))
     (outer (filter (\<lambda>a. an_task_id a = tk_id t) (db_assignments d))))"

definition task_metas :: "db \<Rightarrow> task_meta list" where
  "task_metas d =
     sort_key (\<lambda>m. (tm_project_title m, tm_task_name m)) (concat (map (\<lambda>t.
       concat (map (\<lambda>p. map (task_meta_of t p) (task_assignees d t))
         (filter (\<lambda>p. pj_id p = tk_project_id t) (db_projects d)))) (db_tasks d)))"

definition list_tasks_with_meta :: "task_meta list proc" where
  "list_tasks_with_meta = query task_metas"

text \<open>
  The mirrored dependencies: the row's lag is not passed on, so the domain dependency has the
  default lag 0.
\<close>

definition list_task_dependencies :: "dependency list proc" where
  "list_task_dependencies = query (\<lambda>d. map (\<lambda>r.
     \<lparr>d_task_id = dp_task_id r, d_depends_on_id = dp_depends_on_id r, d_link_type = dp_link_type r,
      d_lag_working_days = 0\<rparr>) (db_dependencies d))"

subsection \<open>Instantiated template tasks\<close>

definition planned_row :: "uuid \<Rightarrow> assignment option \<Rightarrow> task \<Rightarrow> task_row" where
  "planned_row project_id a t =
     \<lparr>tk_id = t_id t, tk_project_id = project_id, tk_name = t_name t, tk_duration_hours = t_duration_hours t,
      tk_start_date = map_option a_start_date a, tk_end_date = map_option a_end_date a, tk_time_start = None,
      tk_status = ascii ''not_done'', tk_source = t_source t, tk_required_skills = t_required_skills t,
      tk_is_splittable = t_is_splittable t, tk_duration_is_window = t_duration_is_window t,
      tk_pair_mode = t_pair_mode t\<rparr>"

definition hours_by_person :: "assignment \<Rightarrow> (uuid, int) dict" where
  "hours_by_person a = fold (\<lambda>al d.
     dict_set (al_person_id al) (dict_get_default d (al_person_id al) 0 + al_hours al) d) (a_allocations a) []"

definition planned_assignees :: "task \<Rightarrow> assignment \<Rightarrow> (uuid, int) dict" where
  "planned_assignees t a =
     (if hours_by_person a = [] then [(a_person_id a, t_duration_hours t)] else hours_by_person a)"

definition assignments_by_task :: "assignment list \<Rightarrow> (uuid, assignment) dict" where
  "assignments_by_task as = dict_of (map (\<lambda>a. (a_task_id a, a)) as)"

definition planned_assignment_rows :: "assignment list \<Rightarrow> task \<Rightarrow> assignment_row list" where
  "planned_assignment_rows as t =
     (case dict_get (assignments_by_task as) (t_id t) of
        None \<Rightarrow> []
      | Some a \<Rightarrow> map (\<lambda>(pid, h). \<lparr>an_task_id = t_id t, an_person_id = pid, an_hours = h\<rparr>)
                   (planned_assignees t a))"

definition save_project_tasks :: "uuid \<Rightarrow> task list \<Rightarrow> assignment list \<Rightarrow> unit proc" where
  "save_project_tasks project_id tasks as = transaction (\<lambda>now d.
     bind_res (fold_res (\<lambda>t. insert_task
         (planned_row project_id (dict_get (assignments_by_task as) (t_id t)) t)) tasks d) (\<lambda>d1.
     bind_res (fold_res insert_assignment (concat (map (planned_assignment_rows as) tasks)) d1) (\<lambda>d2.
       Inr ((), d2))))"

subsection \<open>Capacity overrides\<close>

definition upsert_day_override :: "uuid \<Rightarrow> date \<Rightarrow> int \<Rightarrow> ustr option \<Rightarrow> unit proc" where
  "upsert_day_override person_id day capacity_h reason = transaction (\<lambda>now d.
     (let key = (\<lambda>r. (do_person_id r, do_day r)) in
      case get_row key (person_id, day) (db_overrides d) of
        None \<Rightarrow> ensure (has_person d person_id) ((), d\<lparr>db_overrides := db_overrides d @
            [\<lparr>do_person_id = person_id, do_day = day, do_capacity_h = capacity_h, do_reason = reason\<rparr>]\<rparr>)
      | Some _ \<Rightarrow> Inr ((), d\<lparr>db_overrides := update_row key (person_id, day)
            (\<lambda>r. r\<lparr>do_capacity_h := capacity_h, do_reason := reason\<rparr>) (db_overrides d)\<rparr>)))"

definition list_day_overrides :: "day_override list proc" where
  "list_day_overrides = query (\<lambda>d. map (\<lambda>r.
     \<lparr>o_person_id = do_person_id r, o_day = do_day r, o_capacity_h = do_capacity_h r\<rparr>) (db_overrides d))"

subsection \<open>Audit log\<close>

definition add_audit :: "uuid option \<Rightarrow> ustr \<Rightarrow> ustr \<Rightarrow> uuid option \<Rightarrow> json option \<Rightarrow> unit proc" where
  "add_audit actor_id action entity_type entity_id payload = transaction (\<lambda>now d.
     ensure (opt_ok (has_person d) actor_id) ((), d\<lparr>db_audit := db_audit d @
       [\<lparr>au_created_at = now, au_actor_id = actor_id, au_action = action, au_entity_type = entity_type,
         au_entity_id = entity_id, au_payload = payload\<rparr>]\<rparr>))"

definition list_audit :: "nat \<Rightarrow> nat \<Rightarrow> audit_record list proc" where
  "list_audit limit offset = query (\<lambda>d. map (\<lambda>a.
     \<lparr>ar_created_at = au_created_at a, ar_action = au_action a, ar_entity_type = au_entity_type a,
      ar_payload = au_payload a, ar_entity_id = au_entity_id a\<rparr>)
     (take limit (drop offset (sort_key (\<lambda>a. - au_created_at a) (db_audit d)))))"

subsection \<open>Capabilities and templates\<close>

text \<open>The skill names of a person's roles, one join row each.\<close>

definition person_skills :: "db \<Rightarrow> uuid \<Rightarrow> ustr list" where
  "person_skills d pid = remdups (concat (map (\<lambda>pe.
     concat (map (\<lambda>rs. map sk_name (filter (\<lambda>s. sk_id s = rs_skill_id rs) (db_skills d)))
       (filter (\<lambda>rs. rs_role_id rs = pe_role_id pe) (db_role_skills d))))
     (filter (\<lambda>pe. pe_person_id pe = pid) (db_person_roles d))))"

definition get_person_capabilities :: "capability_record list proc" where
  "get_person_capabilities = query (\<lambda>d. map (\<lambda>p.
     \<lparr>cr_person_id = pr_id p, cr_name = pr_name p, cr_skills = person_skills d (pr_id p),
      cr_is_external = pr_is_external p\<rparr>) (sort_key pr_name (filter pr_is_active (db_people d))))"

definition template_assignees :: "db \<Rightarrow> uuid \<Rightarrow> uuid list" where
  "template_assignees d tt = map ta_person_id (sort_key (\<lambda>r. (ta_priority r, ta_strictness r))
     (filter (\<lambda>r. ta_template_task_id r = tt) (db_template_assignees d)))"

definition template_deps :: "db \<Rightarrow> (uuid, int) dict \<Rightarrow> uuid \<Rightarrow> (int \<times> ustr \<times> int) list" where
  "template_deps d id_to_ord tt = List.map_filter (\<lambda>r.
     map_option (\<lambda>n. (n, td_link_type r, td_lag_working_days r)) (dict_get id_to_ord (td_depends_on_id r)))
     (filter (\<lambda>r. td_template_task_id r = tt) (db_template_deps d))"

definition template_spec :: "db \<Rightarrow> (uuid, int) dict \<Rightarrow> template_task_row \<Rightarrow> template_task_spec" where
  "template_spec d id_to_ord tt =
     (let deps = template_deps d id_to_ord (tt_id tt) in
      \<lparr>ts_ord = tt_ord tt, ts_name = tt_name tt, ts_duration_hours = tt_duration_hours tt,
       ts_allowed_person_ids = template_assignees d (tt_id tt),
       ts_depends_on_ords = map fst deps, ts_link_types = map (fst \<circ> snd) deps,
       ts_dep_lags = map (snd \<circ> snd) deps, ts_is_splittable = tt_is_splittable tt,
       ts_pair_mode = tt_pair_mode tt, ts_duration_is_window = tt_duration_is_window tt\<rparr>)"

definition project_template_of :: "db \<Rightarrow> ustr \<Rightarrow> project_template option" where
  "project_template_of d code = map_option (\<lambda>te.
     (let tts = sort_key tt_ord (filter (\<lambda>tt. tt_template_id tt = te_id te) (db_template_tasks d));
          id_to_ord = dict_of (map (\<lambda>tt. (tt_id tt, tt_ord tt)) tts)
      in \<lparr>pt_code = code, pt_tasks = map (template_spec d id_to_ord) tts\<rparr>))
     (get_row te_code code (db_templates d))"

definition get_project_template :: "ustr \<Rightarrow> project_template option proc" where
  "get_project_template code = query (\<lambda>d. project_template_of d code)"

end
