(* ===== verification/Repo_Invariant.thy ===== *)
theory Repo_Invariant
  imports Repo_Tasks
begin

section \<open>Every repository method keeps the constraints\<close>

text \<open>
  \<open>keeps P m\<close>: the procedure \<open>m\<close> keeps a property of the database, whether it returns or raises. The
  rules for sequencing, loops and handlers lift the facts about single transactions to whole use
  cases; \<open>keep_intros\<close> collects them.
\<close>

definition keeps :: "(db \<Rightarrow> bool) \<Rightarrow> 'a proc \<Rightarrow> bool" where
  "keeps P m \<longleftrightarrow> (\<forall>w. P (w_db w) \<longrightarrow> P (w_db (snd (m w))))"

named_theorems keep_intros "procedures that keep an invariant of the database"

lemma keepsD: "keeps P m \<Longrightarrow> P (w_db w) \<Longrightarrow> m w = (r, w') \<Longrightarrow> P (w_db w')"
  by (metis keeps_def snd_conv)

lemma keeps_pure [keep_intros]:
  "keeps P (ret x)" "keeps P (raise e)" "keeps P (query f)" "keeps P (lift_res r)" "keeps P uuid4"
  "keeps P (call_sink sink c)"
  by (simp_all add: keeps_def ret_def raise_def query_def lift_res_def uuid4_def call_sink_def)

lemma keeps_bind [keep_intros]: "keeps P m \<Longrightarrow> (\<And>x. keeps P (f x)) \<Longrightarrow> keeps P (bind_proc m f)"
  unfolding keeps_def bind_proc_def by (fastforce split: prod.split sum.split)

lemma keeps_catch [keep_intros]: "keeps P m \<Longrightarrow> (\<And>e. keeps P (h e)) \<Longrightarrow> keeps P (catch m h)"
  unfolding keeps_def catch_def by (fastforce split: prod.split sum.split)

lemma keeps_for_each [keep_intros]: "(\<And>x s. keeps P (f x s)) \<Longrightarrow> keeps P (for_each f xs s)"
  by (induction xs arbitrary: s) (simp_all add: keeps_pure keeps_bind)

lemma keeps_if [keep_intros]: "(b \<Longrightarrow> keeps P m) \<Longrightarrow> (\<not> b \<Longrightarrow> keeps P n) \<Longrightarrow> keeps P (if b then m else n)"
  by simp

lemma keeps_option [keep_intros]:
  "keeps P m \<Longrightarrow> (\<And>x. keeps P (f x)) \<Longrightarrow> keeps P (case opt of None \<Rightarrow> m | Some x \<Rightarrow> f x)"
  by (simp split: option.split)

lemma keeps_transaction:
  assumes "\<And>now d x d'. P d \<Longrightarrow> f now d = Inr (x, d') \<Longrightarrow> P d'"
  shows "keeps P (transaction f)"
  using assms by (auto simp: keeps_def transaction_def split: sum.split prod.split)

subsection \<open>Rows\<close>

lemma map_key_update [simp]: "(\<And>r. key (f r) = key r) \<Longrightarrow> map key (update_row key2 k f rows) = map key rows"
  by (simp add: update_row_def)

lemma update_row_mem: "r \<in> set (update_row key k f rows) \<Longrightarrow> \<exists>q \<in> set rows. r = q \<or> r = f q"
  by (auto simp: update_row_def)

text \<open>Only the tables a constraint reads matter to it.\<close>

lemma has_person_simps [simp]:
  "has_person (db_projects_update f d) = has_person d" "has_person (db_tasks_update g d) = has_person d"
  "has_person (db_assignments_update h d) = has_person d" "has_person (db_overrides_update i d) = has_person d"
  "has_person (db_plans_update j d) = has_person d" "has_person (db_audit_update k d) = has_person d"
  by (simp_all add: has_person_def fun_eq_iff)

lemma has_project_simps [simp]:
  "has_project (db_tasks_update g d) = has_project d"
  "has_project (db_assignments_update h d) = has_project d" "has_project (db_overrides_update i d) = has_project d"
  "has_project (db_plans_update j d) = has_project d" "has_project (db_audit_update k d) = has_project d"
  by (simp_all add: has_project_def fun_eq_iff)

lemma has_task_simps [simp]:
  "has_task (db_projects_update f d) = has_task d"
  "has_task (db_assignments_update h d) = has_task d" "has_task (db_overrides_update i d) = has_task d"
  "has_task (db_plans_update j d) = has_task d" "has_task (db_audit_update k d) = has_task d"
  by (simp_all add: has_task_def fun_eq_iff)

lemmas table_oks = db_ok_def projects_ok_def tasks_ok_def assignments_ok_def overrides_ok_def
  plans_ok_def audit_ok_def

lemma db_ok_plans:
  assumes "db_ok d" "distinct (map pv_id vs)"
    and "\<And>v. v \<in> set vs \<Longrightarrow> has_project d (pv_project_id v) \<and> pv_status v \<in> set plan_statuses \<and>
      opt_ok (has_person d) (pv_created_by v)"
  shows "db_ok (d\<lparr>db_plans := vs\<rparr>)"
  using assms by (simp add: table_oks)

lemma db_ok_projects:
  assumes "db_ok d" "distinct (map pj_id ps)" "set (map pj_id (db_projects d)) \<subseteq> set (map pj_id ps)"
    and "\<And>p. p \<in> set ps \<Longrightarrow> opt_ok (has_person d) (pj_created_by p) \<and>
      opt_ok (\<lambda>i. i \<in> set (map te_id (db_templates d))) (pj_template_id p)"
  shows "db_ok (d\<lparr>db_projects := ps\<rparr>)"
proof -
  have "has_project d i \<Longrightarrow> has_project (d\<lparr>db_projects := ps\<rparr>) i" for i
    using assms(3) by (auto simp: has_project_def)
  with assms show ?thesis by (simp add: table_oks)
qed

lemma db_ok_tasks:
  assumes "db_ok d" "distinct (map tk_id ts)" "set (map tk_id (db_tasks d)) \<subseteq> set (map tk_id ts)"
    and "\<And>t. t \<in> set ts \<Longrightarrow> has_project d (tk_project_id t) \<and> tk_source t \<in> set task_sources \<and>
      tk_pair_mode t \<in> set pair_modes"
  shows "db_ok (d\<lparr>db_tasks := ts\<rparr>)"
proof -
  have "has_task d i \<Longrightarrow> has_task (d\<lparr>db_tasks := ts\<rparr>) i" for i
    using assms(3) by (auto simp: has_task_def)
  with assms show ?thesis by (simp add: table_oks)
qed

lemma db_ok_assignments:
  assumes "db_ok d" "distinct (map (\<lambda>a. (an_task_id a, an_person_id a)) as)"
    and "\<And>a. a \<in> set as \<Longrightarrow> has_task d (an_task_id a) \<and> has_person d (an_person_id a)"
  shows "db_ok (d\<lparr>db_assignments := as\<rparr>)"
  using assms by (simp add: table_oks)

lemma db_ok_overrides:
  assumes "db_ok d" "distinct (map (\<lambda>r. (do_person_id r, do_day r)) rs)"
    and "\<And>r. r \<in> set rs \<Longrightarrow> has_person d (do_person_id r)"
  shows "db_ok (d\<lparr>db_overrides := rs\<rparr>)"
  using assms by (simp add: table_oks)

lemma db_ok_audit:
  assumes "db_ok d" "\<And>a. a \<in> set as \<Longrightarrow> opt_ok (has_person d) (au_actor_id a)"
  shows "db_ok (d\<lparr>db_audit := as\<rparr>)"
  using assms by (simp add: table_oks)

text \<open>Row-wise updates that keep the keys and references.\<close>

lemma map_plans_ok:
  assumes "db_ok d"
    and "\<And>v. v \<in> set (db_plans d) \<Longrightarrow> pv_id (g v) = pv_id v \<and> pv_project_id (g v) = pv_project_id v \<and>
      pv_created_by (g v) = pv_created_by v \<and> pv_status (g v) \<in> set plan_statuses"
  shows "db_ok (d\<lparr>db_plans := map g (db_plans d)\<rparr>)"
proof (rule db_ok_plans [OF assms(1)])
  have "map pv_id (map g (db_plans d)) = map pv_id (db_plans d)" using assms(2) by simp
  then show "distinct (map pv_id (map g (db_plans d)))" using assms(1) by (simp only: table_oks)
qed (use assms in \<open>auto simp: table_oks\<close>)

lemma map_projects_ok:
  assumes "db_ok d"
    and "\<And>p. p \<in> set (db_projects d) \<Longrightarrow> pj_id (g p) = pj_id p \<and> pj_template_id (g p) = pj_template_id p \<and>
      pj_created_by (g p) = pj_created_by p"
  shows "db_ok (d\<lparr>db_projects := map g (db_projects d)\<rparr>)"
proof (rule db_ok_projects [OF assms(1)])
  have ids: "map pj_id (map g (db_projects d)) = map pj_id (db_projects d)" using assms(2) by simp
  then show "distinct (map pj_id (map g (db_projects d)))" using assms(1) by (simp only: table_oks)
  show "set (map pj_id (db_projects d)) \<subseteq> set (map pj_id (map g (db_projects d)))" unfolding ids by simp
qed (use assms in \<open>auto simp: table_oks\<close>)

lemma map_tasks_ok:
  assumes "db_ok d"
    and "\<And>t. t \<in> set (db_tasks d) \<Longrightarrow> tk_id (g t) = tk_id t \<and> tk_project_id (g t) = tk_project_id t \<and>
      tk_source (g t) = tk_source t \<and> tk_pair_mode (g t) = tk_pair_mode t"
  shows "db_ok (d\<lparr>db_tasks := map g (db_tasks d)\<rparr>)"
proof (rule db_ok_tasks [OF assms(1)])
  have ids: "map tk_id (map g (db_tasks d)) = map tk_id (db_tasks d)" using assms(2) by simp
  then show "distinct (map tk_id (map g (db_tasks d)))" using assms(1) by (simp only: table_oks)
  show "set (map tk_id (db_tasks d)) \<subseteq> set (map tk_id (map g (db_tasks d)))" unfolding ids by simp
qed (use assms in \<open>auto simp: table_oks\<close>)

subsection \<open>Plan versions\<close>

lemma insert_plan_version_ok:
  assumes "db_ok d" "insert_plan_version i p s payload a now d = Inr (x, d')"
  shows "db_ok d'"
proof -
  from assms(2) have new: "i \<notin> set (map pv_id (db_plans d))" "has_project d p" "s \<in> set plan_statuses"
    "opt_ok (has_person d) a"
    and d': "d' = d\<lparr>db_plans := db_plans d @ [\<lparr>pv_id = i, pv_project_id = p, pv_status = s,
      pv_created_at = now, pv_created_by = a, pv_payload = payload\<rparr>]\<rparr>"
    by (auto simp: insert_plan_version_def res_simps)
  show ?thesis unfolding d'
    by (rule db_ok_plans [OF assms(1)]) (use assms(1) new in \<open>auto simp: table_oks\<close>)
qed

lemma keeps_save_plan_version [keep_intros]: "keeps db_ok (save_plan_version p s payload a)"
  unfolding save_plan_version_def by (intro keep_intros keeps_transaction) (rule insert_plan_version_ok)

lemma keeps_set_plan_version_status [keep_intros]: "keeps db_ok (set_plan_version_status i s)"
  unfolding set_plan_version_status_def
proof (rule keeps_transaction)
  fix now d x d'
  assume ok: "db_ok d" and "ensure (get_row pv_id i (db_plans d) = None \<or> s \<in> set plan_statuses)
    ((), d\<lparr>db_plans := update_row pv_id i (\<lambda>v. v\<lparr>pv_status := s\<rparr>) (db_plans d)\<rparr>) = Inr (x, d')"
  then have s: "get_row pv_id i (db_plans d) = None \<or> s \<in> set plan_statuses"
    and d': "d' = d\<lparr>db_plans := map (\<lambda>v. if pv_id v = i then v\<lparr>pv_status := s\<rparr> else v) (db_plans d)\<rparr>"
    by (auto simp: res_simps update_row_def)
  show "db_ok d'" unfolding d'
    by (rule map_plans_ok [OF ok]) (use ok s in \<open>auto simp: table_oks get_row_def find_None_iff\<close>)
qed

lemma keeps_transition_plan_status [keep_intros]: "keeps db_ok (transition_plan_status i s t)"
  unfolding transition_plan_status_def Let_def
proof (rule keeps_transaction)
  fix now d x d'
  let ?hit = "\<lambda>v. pv_id v = i \<and> pv_status v = s"
  assume ok: "db_ok d" and "ensure (list_ex ?hit (db_plans d) \<longrightarrow> t \<in> set plan_statuses)
    (list_ex ?hit (db_plans d), d\<lparr>db_plans := map (\<lambda>v. if ?hit v then v\<lparr>pv_status := t\<rparr> else v) (db_plans d)\<rparr>) =
      Inr (x, d')"
  then have t: "list_ex ?hit (db_plans d) \<longrightarrow> t \<in> set plan_statuses"
    and d': "d' = d\<lparr>db_plans := map (\<lambda>v. if ?hit v then v\<lparr>pv_status := t\<rparr> else v) (db_plans d)\<rparr>"
    by (auto simp: res_simps)
  show "db_ok d'" unfolding d'
    by (rule map_plans_ok [OF ok]) (use ok t in \<open>auto simp: table_oks list_ex_iff\<close>)
qed

lemma keeps_reset_all_plans [keep_intros]: "keeps db_ok reset_all_plans"
  unfolding reset_all_plans_def Let_def
proof (rule keeps_transaction)
  fix now and d :: db and x :: "ustr list" and d'
  let ?vs = "map (\<lambda>v. if pv_status v = ascii ''committed'' then v\<lparr>pv_status := ascii ''superseded''\<rparr> else v)
    (db_plans d)"
  let ?ps = "map (\<lambda>p. if pj_id p \<in> set (remdups (map pv_project_id (committed_rows d)))
    then p\<lparr>pj_status := ascii ''cancelled''\<rparr> else p) (db_projects d)"
  assume ok: "db_ok d" and "Inr (List.map_filter (\<lambda>i. case get_row pj_id i (db_projects d) of None \<Rightarrow> None
      | Some p \<Rightarrow> (case pj_notion_page_id p of None \<Rightarrow> None | Some g \<Rightarrow> if g = [] then None else Some g))
        (remdups (map pv_project_id (committed_rows d))), d\<lparr>db_plans := ?vs, db_projects := ?ps\<rparr>) = Inr (x, d')"
  then have d': "d' = d\<lparr>db_plans := ?vs\<rparr>\<lparr>db_projects := ?ps\<rparr>" by simp
  have "db_ok (d\<lparr>db_plans := ?vs\<rparr>)"
    by (rule map_plans_ok [OF ok]) (use ok in \<open>auto simp: table_oks plan_statuses_def\<close>)
  then have "db_ok ((d\<lparr>db_plans := ?vs\<rparr>)\<lparr>db_projects := ?ps\<rparr>)"
    using map_projects_ok [of "d\<lparr>db_plans := ?vs\<rparr>"
        "\<lambda>p. if pj_id p \<in> set (remdups (map pv_project_id (committed_rows d)))
          then p\<lparr>pj_status := ascii ''cancelled''\<rparr> else p"] by simp
  then show "db_ok d'" unfolding d' .
qed

subsection \<open>Edits of a committed plan\<close>

lemma edit_first_plan_rows:
  assumes "edit_first_plan f vs = Inr (moved, vs')"
  shows "list_all2 (\<lambda>v v'. \<exists>p. v' = v\<lparr>pv_payload := p\<rparr>) vs vs'"
  using assms
proof (induction vs arbitrary: moved vs')
  case (Cons v vs)
  have self: "v = v\<lparr>pv_payload := pv_payload v\<rparr>" for v :: plan_version_row by simp
  have rest: "list_all2 (\<lambda>v v'. \<exists>p. v' = v\<lparr>pv_payload := p\<rparr>) vs vs" for vs :: "plan_version_row list"
    using self by (intro list.rel_refl) blast
  from Cons.prems consider (here) p where "vs' = v\<lparr>pv_payload := p\<rparr> # vs"
    | (later) us where "vs' = v # us" "edit_first_plan f vs = Inr (moved, us)"
    by (auto simp: res_simps split: if_splits option.splits)
  then show ?case
  proof cases
    case here
    then show ?thesis using rest by auto
  next
    case later
    then show ?thesis using Cons.IH self [of v] by (simp only: list_all2_Cons) blast
  qed
qed simp

lemma payload_edit_ok:
  assumes "db_ok d" "list_all2 (\<lambda>v v'. \<exists>p. v' = v\<lparr>pv_payload := p\<rparr>) (db_plans d) vs'"
  shows "db_ok (d\<lparr>db_plans := vs'\<rparr>)"
proof (rule db_ok_plans [OF assms(1)])
  have "map pv_id vs' = map pv_id (db_plans d)"
    using assms(2) by (induction rule: list_all2_induct) auto
  then show "distinct (map pv_id vs')" using assms(1) by (simp add: table_oks)
  fix v' assume "v' \<in> set vs'"
  then obtain v p where "v \<in> set (db_plans d)" "v' = v\<lparr>pv_payload := p\<rparr>"
    using list_all2_right [OF assms(2)] by blast
  then show "has_project d (pv_project_id v') \<and> pv_status v' \<in> set plan_statuses \<and>
      opt_ok (has_person d) (pv_created_by v')"
    using assms(1) by (simp add: table_oks)
qed

lemma keeps_plan_edit: "keeps db_ok (transaction (\<lambda>now d.
     bind_res (edit_first_plan f (db_plans d)) (\<lambda>(moved, plans). Inr (moved, d\<lparr>db_plans := plans\<rparr>))))"
  by (rule keeps_transaction) (auto simp: res_simps dest!: edit_first_plan_rows intro: payload_edit_ok)

lemma keeps_reassign_in_plan [keep_intros]: "keeps db_ok (reassign_in_plan t p)"
  unfolding reassign_in_plan_def by (rule keeps_plan_edit)

lemma keeps_update_schedule_in_plan [keep_intros]: "keeps db_ok (update_schedule_in_plan t s e)"
  unfolding update_schedule_in_plan_def by (rule keeps_plan_edit)

subsection \<open>Projects\<close>

lemma keeps_create_project [keep_intros]: "keeps db_ok (create_project title code dl br a pri i)"
proof -
  have ins: "db_ok d'" if "db_ok d" "insert_project p d = Inr (x, d')" for p d x d'
  proof -
    from that(2) have "pj_id p \<notin> set (map pj_id (db_projects d))" "opt_ok (has_person d) (pj_created_by p)"
      "opt_ok (\<lambda>i. i \<in> set (map te_id (db_templates d))) (pj_template_id p)"
      and d': "d' = d\<lparr>db_projects := db_projects d @ [p]\<rparr>"
      by (auto simp: insert_project_def res_simps)
    with that(1) show ?thesis unfolding d' by (intro db_ok_projects) (auto simp: table_oks)
  qed
  show ?thesis unfolding create_project_def
    by (intro keep_intros keeps_transaction) (rule ins)
qed

lemma keeps_project_update:
  assumes "\<And>p. pj_id (g p) = pj_id p \<and> pj_template_id (g p) = pj_template_id p \<and> pj_created_by (g p) = pj_created_by p"
  shows "keeps db_ok (transaction (\<lambda>now d. Inr ((), d\<lparr>db_projects := update_row pj_id i g (db_projects d)\<rparr>)))"
  by (rule keeps_transaction) (auto simp: update_row_def assms intro!: map_projects_ok)

lemma keeps_set_project_status [keep_intros]: "keeps db_ok (set_project_status i s)"
  unfolding set_project_status_def by (rule keeps_project_update) simp

lemma keeps_set_project_notion_page [keep_intros]: "keeps db_ok (set_project_notion_page i s)"
  unfolding set_project_notion_page_def by (rule keeps_project_update) simp

lemma keeps_queries [keep_intros]:
  "keeps P (get_person_by_name n)" "keeps P (get_person_by_tg_id k)" "keeps P list_people"
  "keeps P get_solver_people" "keeps P (get_plan_version i)" "keeps P (get_committed_plan i)"
  "keeps P list_committed_plans" "keeps P list_committed_plans_with_project"
  "keeps P (get_project_by_title n)" "keeps P (get_project i)" "keeps P list_projects"
  "keeps P (list_project_tasks i)" "keeps P get_task_name_map" "keeps P get_task_project_map"
  "keeps P list_tasks_with_meta" "keeps P list_task_dependencies" "keeps P list_day_overrides"
  "keeps P (list_audit l k)" "keeps P get_person_capabilities" "keeps P (get_project_template n)"
  by (simp_all only: keeps_pure get_person_by_name_def get_person_by_tg_id_def list_people_def
      get_solver_people_def get_plan_version_def get_committed_plan_def list_committed_plans_def
      list_committed_plans_with_project_def get_project_by_title_def get_project_def list_projects_def
      list_project_tasks_def get_task_name_map_def get_task_project_map_def list_tasks_with_meta_def
      list_task_dependencies_def list_day_overrides_def list_audit_def get_person_capabilities_def
      get_project_template_def)

subsection \<open>Tasks, assignments, overrides, audit\<close>

lemma insert_task_ok:
  assumes "db_ok d" "insert_task t d = Inr d'"
  shows "db_ok d'"
proof -
  from assms(2) have t: "task_row_ok d t" and d': "d' = d\<lparr>db_tasks := db_tasks d @ [t]\<rparr>"
    by (auto simp: insert_task_def res_simps)
  with assms(1) show ?thesis unfolding d'
    by (intro db_ok_tasks) (auto simp: table_oks task_row_ok_def)
qed

lemma insert_assignment_ok:
  assumes "db_ok d" "insert_assignment a d = Inr d'"
  shows "db_ok d'"
proof -
  from assms(2) have a: "(an_task_id a, an_person_id a) \<notin> (\<lambda>b. (an_task_id b, an_person_id b)) ` set (db_assignments d)"
    "has_task d (an_task_id a)" "has_person d (an_person_id a)"
    and d': "d' = d\<lparr>db_assignments := db_assignments d @ [a]\<rparr>"
    by (auto simp: insert_assignment_def res_simps)
  with assms(1) show ?thesis unfolding d' by (intro db_ok_assignments) (auto simp: table_oks)
qed

lemma keeps_create_task [keep_intros]: "keeps db_ok (create_task p n h dl sk t)"
  unfolding create_task_def
  by (intro keep_intros keeps_transaction) (auto simp: res_simps intro: insert_task_ok)

lemma keeps_task_update:
  assumes "\<And>t. tk_id (g t) = tk_id t \<and> tk_project_id (g t) = tk_project_id t \<and>
      tk_source (g t) = tk_source t \<and> tk_pair_mode (g t) = tk_pair_mode t"
  shows "keeps db_ok (transaction (\<lambda>now d. Inr ((), d\<lparr>db_tasks := update_row tk_id i g (db_tasks d)\<rparr>)))"
  by (rule keeps_transaction) (auto simp: update_row_def assms intro!: map_tasks_ok)

lemma keeps_set_task_status [keep_intros]: "keeps db_ok (set_task_status i s)"
  unfolding set_task_status_def by (rule keeps_task_update) simp

lemma keeps_update_task_schedule [keep_intros]: "keeps db_ok (update_task_schedule i s e p)"
  unfolding update_task_schedule_def by (rule keeps_task_update) (simp add: reschedule_row_def)

lemma keeps_assign_task [keep_intros]: "keeps db_ok (assign_task t p h)"
  unfolding assign_task_def Let_def
proof (rule keeps_transaction)
  fix now and d :: db and x d'
  let ?key = "\<lambda>a. (an_task_id a, an_person_id a)"
  let ?as = "update_row ?key (t, p) (\<lambda>a. a\<lparr>an_hours := h\<rparr>) (db_assignments d)"
  assume ok: "db_ok d" and run: "(case get_row ?key (t, p) (db_assignments d) of
      None \<Rightarrow> bind_res (insert_assignment \<lparr>an_task_id = t, an_person_id = p, an_hours = h\<rparr> d) (\<lambda>d'. Inr ((), d'))
    | Some _ \<Rightarrow> Inr ((), d\<lparr>db_assignments := ?as\<rparr>)) = Inr (x, d')"
  have "map ?key ?as = map ?key (db_assignments d)" by simp
  then have "distinct (map ?key ?as)" using ok by (simp only: table_oks)
  moreover have "has_task d (an_task_id a) \<and> has_person d (an_person_id a)" if "a \<in> set ?as" for a
    using ok update_row_mem [OF that] by (auto simp: table_oks)
  ultimately have "db_ok (d\<lparr>db_assignments := ?as\<rparr>)" by (intro db_ok_assignments [OF ok])
  with run ok insert_assignment_ok show "db_ok d'" by (auto simp: res_simps split: option.splits)
qed

lemma keeps_set_task_assignee [keep_intros]: "keeps db_ok (set_task_assignee t p h)"
  unfolding set_task_assignee_def
proof (rule keeps_transaction)
  fix now and d :: db and x d'
  let ?d = "d\<lparr>db_assignments := filter (\<lambda>a. an_task_id a \<noteq> t) (db_assignments d)\<rparr>"
  assume ok: "db_ok d" and run: "(if get_row tk_id t (db_tasks d) = None then Inr (False, d)
    else bind_res (insert_assignment \<lparr>an_task_id = t, an_person_id = p, an_hours = h\<rparr> ?d) (\<lambda>d'. Inr (True, d'))) =
      Inr (x, d')"
  have "db_ok ?d"
    by (rule db_ok_assignments [OF ok]) (use ok in \<open>auto simp: table_oks distinct_map_filter\<close>)
  with run ok insert_assignment_ok show "db_ok d'" by (auto simp: res_simps split: if_splits)
qed

lemma keeps_save_project_tasks [keep_intros]: "keeps db_ok (save_project_tasks i ts as)"
  unfolding save_project_tasks_def
proof (rule keeps_transaction)
  fix now and d :: db and x d'
  assume ok: "db_ok d" and "bind_res (fold_res (\<lambda>t. insert_task
         (planned_row i (dict_get (assignments_by_task as) (t_id t)) t)) ts d) (\<lambda>d1.
     bind_res (fold_res insert_assignment (concat (map (planned_assignment_rows as) ts)) d1) (\<lambda>d2.
       Inr ((), d2))) = Inr (x, d')"
  then obtain d1 where d1: "fold_res (\<lambda>t. insert_task
       (planned_row i (dict_get (assignments_by_task as) (t_id t)) t)) ts d = Inr d1"
    and d2: "fold_res insert_assignment (concat (map (planned_assignment_rows as) ts)) d1 = Inr d'"
    by (auto simp: res_simps)
  have "db_ok d1" using d1 ok by (rule fold_res_invariant) (rule insert_task_ok)
  with d2 show "db_ok d'" by (rule fold_res_invariant) (rule insert_assignment_ok)
qed

lemma keeps_upsert_day_override [keep_intros]: "keeps db_ok (upsert_day_override p day c r)"
  unfolding upsert_day_override_def Let_def
proof (rule keeps_transaction)
  fix now and d :: db and x d'
  let ?key = "\<lambda>r. (do_person_id r, do_day r)"
  let ?new = "\<lparr>do_person_id = p, do_day = day, do_capacity_h = c, do_reason = r\<rparr>"
  let ?rs = "update_row ?key (p, day) (\<lambda>q. q\<lparr>do_capacity_h := c, do_reason := r\<rparr>) (db_overrides d)"
  assume ok: "db_ok d" and run: "(case get_row ?key (p, day) (db_overrides d) of
      None \<Rightarrow> ensure (has_person d p) ((), d\<lparr>db_overrides := db_overrides d @ [?new]\<rparr>)
    | Some _ \<Rightarrow> Inr ((), d\<lparr>db_overrides := ?rs\<rparr>)) = Inr (x, d')"
  show "db_ok d'"
  proof (cases "get_row ?key (p, day) (db_overrides d)")
    case None
    then have "(p, day) \<notin> ?key ` set (db_overrides d)" by (auto simp: get_row_def find_None_iff)
    moreover have "has_person d p" "d' = d\<lparr>db_overrides := db_overrides d @ [?new]\<rparr>"
      using None run by (auto simp: res_simps)
    ultimately show ?thesis using ok by (auto intro!: db_ok_overrides simp: table_oks)
  next
    case (Some q)
    have "map ?key ?rs = map ?key (db_overrides d)" by simp
    then have "distinct (map ?key ?rs)" using ok by (simp only: table_oks)
    moreover have "has_person d (do_person_id q)" if "q \<in> set ?rs" for q
      using ok update_row_mem [OF that] by (auto simp: table_oks)
    moreover have "d' = d\<lparr>db_overrides := ?rs\<rparr>" using Some run by simp
    ultimately show ?thesis by (simp only:) (rule db_ok_overrides [OF ok])
  qed
qed

lemma keeps_add_audit [keep_intros]: "keeps db_ok (add_audit a act ty i p)"
  unfolding add_audit_def
  by (rule keeps_transaction) (auto simp: res_simps table_oks intro!: db_ok_audit)

end
