(* ===== verification/Confirm_Plan.thy ===== *)
theory Confirm_Plan
  imports Repo_Invariant
begin

section \<open>Confirming a plan\<close>

text \<open>
  \<open>app/confirm_plan.py\<close>. The task sink is external: a record of its \<open>is_noop\<close> flag and its answer
  to a push, which may depend on every earlier call. A database outage (an exception of a query) is
  not modelled; a payload that does not parse and a sink that raises are.
\<close>

record task_sink =
  sink_is_noop :: bool
  sink_push :: "sink_call list \<Rightarrow> sink_call \<Rightarrow> ustr option res"

record confirm_result =
  cf_plan :: plan_version_record
  cf_mirror_total :: int
  cf_mirror_failed :: int

definition mirror_task ::
  "(uuid, ustr) dict \<Rightarrow> (uuid, ustr) dict \<Rightarrow> ustr \<Rightarrow> assignment \<Rightarrow> sink_task" where
  "mirror_task names people title a =
     \<lparr>st_title = dict_get_default names (a_task_id a) [1047, 1072, 1076, 1072, 1095, 1072],
      st_assignees = (case dict_get people (a_person_id a) of None \<Rightarrow> [] | Some n \<Rightarrow> [n]),
      st_project = Some title, st_deadline = Some (a_end_date a), st_time_start = None\<rparr>"

text \<open>The loop of \<open>_mirror_tasks\<close>: an exception ends it with the successes counted so far.\<close>

fun mirror_loop ::
  "task_sink \<Rightarrow> (assignment \<Rightarrow> sink_task) \<Rightarrow> assignment list \<Rightarrow> int \<Rightarrow> int proc" where
  "mirror_loop sink to_sink [] succeeded = ret succeeded"
| "mirror_loop sink to_sink (a # as) succeeded =
     bind_proc
       (catch (bind_proc (call_sink (sink_push sink) (PushTask (to_sink a))) (\<lambda>url. ret (Some url)))
         (\<lambda>e. ret None))
       (\<lambda>outcome. case outcome of
          None \<Rightarrow> ret succeeded
        | Some url \<Rightarrow> mirror_loop sink to_sink as (if url \<noteq> None then succeeded + 1 else succeeded))"

definition mirror_tasks :: "task_sink option \<Rightarrow> plan_version_record \<Rightarrow> (int \<times> int) proc" where
  "mirror_tasks sink pv =
     (case sink of
        None \<Rightarrow> ret (0, 0)
      | Some s \<Rightarrow>
          if sink_is_noop s then ret (0, 0)
          else bind_proc (get_project (vr_project_id pv)) (\<lambda>project.
               bind_proc get_task_name_map (\<lambda>names.
               bind_proc list_people (\<lambda>people.
                 let title = (case project of Some p \<Rightarrow> jr_title p
                              | None \<Rightarrow> [1055, 1088, 1086, 1077, 1082, 1090]);
                     people_names = dict_of (map (\<lambda>p. (pp_id p, pp_name p)) people)
                 in case deserialize_plan (vr_payload pv) of
                      Inl e \<Rightarrow> ret (0, 0)
                    | Inr plan \<Rightarrow>
                        bind_proc (mirror_loop s (mirror_task names people_names title) (pl_assignments plan) 0)
                          (\<lambda>succeeded. ret (int (length (pl_assignments plan)) - succeeded,
                                            int (length (pl_assignments plan))))))))"

definition confirm_plan :: "task_sink option \<Rightarrow> uuid \<Rightarrow> person_record option \<Rightarrow> confirm_result proc" where
  "confirm_plan sink plan_version_id actor =
     bind_proc (get_plan_version plan_version_id) (\<lambda>found.
     case found of
       None \<Rightarrow> raise (PlanNotFoundError plan_version_id)
     | Some pv \<Rightarrow>
         bind_proc (transition_plan_status plan_version_id (ascii ''proposed'') (ascii ''committed'')) (\<lambda>moved.
         if \<not> moved
         then bind_proc (get_plan_version plan_version_id) (\<lambda>current.
                raise (PlanNotProposedError (case current of Some c \<Rightarrow> vr_status c | None \<Rightarrow> ascii ''missing'')))
         else
           bind_proc (add_audit (map_option pp_id actor) (ascii ''confirm_plan'') (ascii ''plan_version'')
                        (Some plan_version_id) None) (\<lambda>_.
           bind_proc (set_project_status (vr_project_id pv) (ascii ''committed'')) (\<lambda>_.
           bind_proc (mirror_tasks sink pv) (\<lambda>(failed, total).
           ret \<lparr>cf_plan = \<lparr>vr_id = vr_id pv, vr_project_id = vr_project_id pv,
                            vr_status = ascii ''committed'', vr_payload = vr_payload pv\<rparr>,
                cf_mirror_total = total, cf_mirror_failed = failed\<rparr>)))))"

lemma keeps_mirror_loop [keep_intros]: "keeps P (mirror_loop sink f as n)"
  by (induction as arbitrary: n) (auto intro!: keep_intros)

lemma keeps_mirror_tasks [keep_intros]: "keeps P (mirror_tasks sink pv)"
  unfolding mirror_tasks_def Let_def
  by (auto intro!: keep_intros split: option.split sum.split)

lemma keeps_confirm_plan [keep_intros]: "keeps db_ok (confirm_plan sink i actor)"
  unfolding confirm_plan_def by (intro keep_intros) (auto intro!: keep_intros split: prod.split)

subsection \<open>What mirroring may and may not do\<close>

text \<open>
  \<open>total_proc m\<close>: the procedure never raises and leaves the database alone.
\<close>

definition quiet :: "'a proc \<Rightarrow> bool" where
  "quiet m \<longleftrightarrow> (\<forall>w. \<exists>x w'. m w = (Inr x, w') \<and> w_db w' = w_db w)"

lemma quietE:
  assumes "quiet m"
  obtains x w' where "m w = (Inr x, w')" "w_db w' = w_db w"
  using assms unfolding quiet_def by blast

lemma quiet_ret [simp]: "quiet (ret x)" "quiet (query f)"
  by (auto simp: quiet_def proc_simps)

lemma quiet_bind: "quiet m \<Longrightarrow> (\<And>x. quiet (f x)) \<Longrightarrow> quiet (bind_proc m f)"
  unfolding quiet_def bind_proc_def by (metis (no_types, lifting) case_prod_conv sum.case(2))

lemma quiet_caught: "quiet (catch (bind_proc (call_sink s c) (\<lambda>x. ret (Some x))) (\<lambda>e. ret None))"
  by (auto simp: quiet_def catch_def bind_proc_def call_sink_def ret_def split: sum.split)

lemma quiet_mirror_loop: "quiet (mirror_loop sink f as n)"
proof (induction as arbitrary: n)
  case (Cons a as)
  show ?case unfolding mirror_loop.simps
    by (rule quiet_bind [OF quiet_caught]) (use Cons.IH in \<open>auto split: option.split\<close>)
qed simp

lemma quiet_mirror_tasks: "quiet (mirror_tasks sink pv)"
  unfolding mirror_tasks_def get_project_def get_task_name_map_def list_people_def Let_def
  by (auto intro!: quiet_bind quiet_mirror_loop split: option.split sum.split)

lemma mirror_loop_count:
  "mirror_loop sink f as n w = (Inr m, w') \<Longrightarrow> n \<le> m \<and> m \<le> n + int (length as)"
proof (induction as arbitrary: n w)
  case (Cons a as)
  from Cons.prems obtain outcome :: "ustr option option" and w1 where
    rest: "(case outcome of None \<Rightarrow> ret n
       | Some url \<Rightarrow> mirror_loop sink f as (if url \<noteq> None then n + 1 else n)) w1 = (Inr m, w')"
    unfolding mirror_loop.simps bind_proc_Inr by (elim exE conjE)
  show ?case
  proof (cases outcome)
    case None
    with rest show ?thesis by (simp add: proc_simps)
  next
    case (Some url)
    with rest have "mirror_loop sink f as (if url \<noteq> None then n + 1 else n) w1 = (Inr m, w')" by simp
    from Cons.IH [OF this] show ?thesis by (auto split: if_splits)
  qed
qed (simp add: proc_simps)

lemma mirror_count:
  assumes "mirror_tasks sink pv w = (Inr (failed, all_n), w')"
  shows "0 \<le> failed \<and> failed \<le> all_n"
proof (cases "sink = None \<or> (\<exists>s. sink = Some s \<and> sink_is_noop s) \<or> (\<exists>e. deserialize_plan (vr_payload pv) = Inl e)")
  case True
  with assms show ?thesis
    by (auto simp: mirror_tasks_def proc_simps Let_def get_project_def get_task_name_map_def list_people_def
        split: option.splits if_splits)
next
  case False
  then obtain s plan where "sink = Some s" "\<not> sink_is_noop s" "deserialize_plan (vr_payload pv) = Inr plan"
    by (cases sink; cases "deserialize_plan (vr_payload pv)") auto
  with assms show ?thesis using mirror_loop_count
    by (fastforce simp: mirror_tasks_def proc_simps Let_def get_project_def get_task_name_map_def list_people_def)
qed

subsection \<open>Outcome of a confirmation\<close>

lemma transition_run:
  assumes "to_status \<in> set plan_statuses"
  shows "transition_plan_status i from_status to_status w =
    (Inr (\<exists>v \<in> set (db_plans (w_db w)). pv_id v = i \<and> pv_status v = from_status),
     w\<lparr>w_db := (w_db w)\<lparr>db_plans := map (\<lambda>v. if pv_id v = i \<and> pv_status v = from_status
        then v\<lparr>pv_status := to_status\<rparr> else v) (db_plans (w_db w))\<rparr>\<rparr>)"
  using assms by (simp add: transition_plan_status_def transaction_def ensure_def list_ex_iff)

lemma committed_status [simp]: "ascii ''committed'' \<in> set plan_statuses"
  by (simp add: plan_statuses_def)

lemma distinct_get_row:
  assumes "distinct (map key rows)" "r \<in> set rows"
  shows "get_row key (key r) rows = Some r"
  using assms by (induction rows) (auto simp: get_row_def)

lemma get_row_SomeD: "get_row key k rows = Some r \<Longrightarrow> r \<in> set rows \<and> key r = k"
  unfolding get_row_def by (induction rows) (auto split: if_splits)

lemma get_row_None: "get_row key k rows = None \<longleftrightarrow> k \<notin> key ` set rows"
  by (auto simp: get_row_def find_None_iff)

text \<open>The database a successful confirmation leaves.\<close>

definition confirmed_db :: "uuid \<Rightarrow> uuid \<Rightarrow> uuid option \<Rightarrow> int \<Rightarrow> db \<Rightarrow> db" where
  "confirmed_db i project actor_id now d =
     d\<lparr>db_plans := map (\<lambda>v. if pv_id v = i \<and> pv_status v = ascii ''proposed''
                          then v\<lparr>pv_status := ascii ''committed''\<rparr> else v) (db_plans d),
       db_audit := db_audit d @ [\<lparr>au_created_at = now, au_actor_id = actor_id,
         au_action = ascii ''confirm_plan'', au_entity_type = ascii ''plan_version'',
         au_entity_id = Some i, au_payload = None\<rparr>],
       db_projects := map (\<lambda>p. if pj_id p = project then p\<lparr>pj_status := ascii ''committed''\<rparr> else p)
         (db_projects d)\<rparr>"

lemma confirm_missing:
  assumes "get_row pv_id i (db_plans (w_db w)) = None"
  shows "confirm_plan sink i actor w = (Inl (PlanNotFoundError i), w)"
  using assms by (simp add: confirm_plan_def bind_proc_def get_plan_version_def proc_simps)

lemma confirm_not_proposed:
  assumes "distinct (map pv_id (db_plans (w_db w)))"
    and "get_row pv_id i (db_plans (w_db w)) = Some v" "pv_status v \<noteq> ascii ''proposed''"
  shows "confirm_plan sink i actor w = (Inl (PlanNotProposedError (pv_status v)), w)"
proof -
  have uniq: "u = v" if "u \<in> set (db_plans (w_db w))" "pv_id u = i" for u
    using get_row_SomeD [OF assms(2)] assms(1) that by (metis distinct_map inj_onD)
  then have no: "\<not> (\<exists>u \<in> set (db_plans (w_db w)). pv_id u = i \<and> pv_status u = ascii ''proposed'')"
    using assms(3) by blast
  then have "map (\<lambda>u. if pv_id u = i \<and> pv_status u = ascii ''proposed'' then u\<lparr>pv_status := ascii ''committed''\<rparr> else u)
      (db_plans (w_db w)) = db_plans (w_db w)"
    by (intro map_idI) auto
  then have stay: "transition_plan_status i (ascii ''proposed'') (ascii ''committed'') w = (Inr False, w)"
    using no by (simp add: transition_run del: map_eq_conv)
  show ?thesis
    using assms(2) by (simp add: confirm_plan_def bind_proc_def get_plan_version_def proc_simps stay plan_record_of_def)
qed

lemma confirm_proposed:
  assumes "get_row pv_id i (db_plans (w_db w)) = Some v" "pv_status v = ascii ''proposed''"
    and "opt_ok (has_person (w_db w)) (map_option pp_id actor)"
  shows "\<exists>r w'. confirm_plan sink i actor w = (Inr r, w') \<and>
    cf_plan r = (plan_record_of v)\<lparr>vr_status := ascii ''committed''\<rparr> \<and>
    0 \<le> cf_mirror_failed r \<and> cf_mirror_failed r \<le> cf_mirror_total r \<and>
    w_db w' = confirmed_db i (pv_project_id v) (map_option pp_id actor) (w_now w) (w_db w)"
proof -
  have hit: "\<exists>u \<in> set (db_plans (w_db w)). pv_id u = i \<and> pv_status u = ascii ''proposed''"
    using get_row_SomeD [OF assms(1)] assms(2) by blast
  let ?w = "w\<lparr>w_db := confirmed_db i (pv_project_id v) (map_option pp_id actor) (w_now w) (w_db w)\<rparr>"
  obtain m w' where mirror: "mirror_tasks sink (plan_record_of v) ?w = (Inr m, w')" and db: "w_db w' = w_db ?w"
    using quietE [OF quiet_mirror_tasks] by blast
  obtain failed all_n where m: "m = (failed, all_n)" by (cases m)
  from mirror_count [OF mirror [unfolded m]] have bounds: "0 \<le> failed \<and> failed \<le> all_n" .
  have status: "transition_plan_status i (ascii ''proposed'') (ascii ''committed'') w =
      (Inr True, w\<lparr>w_db := (w_db w)\<lparr>db_plans := map (\<lambda>v. if pv_id v = i \<and> pv_status v = ascii ''proposed''
        then v\<lparr>pv_status := ascii ''committed''\<rparr> else v) (db_plans (w_db w))\<rparr>\<rparr>)"
    using hit by (simp add: transition_run)
  have "confirm_plan sink i actor w =
      bind_proc (mirror_tasks sink (plan_record_of v)) (\<lambda>(failed, total).
        ret \<lparr>cf_plan = (plan_record_of v)\<lparr>vr_status := ascii ''committed''\<rparr>,
             cf_mirror_total = total, cf_mirror_failed = failed\<rparr>) ?w"
    using assms(1,3)
    by (simp add: confirm_plan_def bind_proc_def get_plan_version_def proc_simps status add_audit_def
        transaction_def ensure_def set_project_status_def update_row_def confirmed_db_def plan_record_of_def)
  then show ?thesis using mirror m bounds db by (simp add: bind_proc_def ret_def)
qed

subsection \<open>The life of a plan version\<close>

text \<open>
  The transactions of the whole program that touch plan versions, as events that may come from any
  handler in any order: \<open>save_plan_version\<close> (a new version starts as proposed), the compare-and-set
  of a confirmation and of a replaced proposal (\<open>bot/handlers/task_router.py\<close>), the reset, and the
  edits of a committed payload. Other transactions leave the plan versions alone.
\<close>

datatype plan_event =
    Save uuid json "uuid option"
  | Confirm uuid
  | Supersede uuid
  | ResetAll
  | Reassign uuid uuid
  | Reschedule uuid "date option" "date option"
  | Other db

text \<open>Whether the event took effect, and the world after it.\<close>

definition effect :: "bool proc \<Rightarrow> world \<Rightarrow> bool \<times> world" where
  "effect m w = (case m w of (Inl e, w') \<Rightarrow> (False, w') | (Inr b, w') \<Rightarrow> (b, w'))"

definition then_true :: "'a proc \<Rightarrow> bool proc" where
  "then_true m = bind_proc m (\<lambda>_. ret True)"

fun run_event :: "plan_event \<Rightarrow> world \<Rightarrow> bool \<times> world" where
  "run_event (Save project payload actor) w =
     effect (then_true (save_plan_version project (ascii ''proposed'') payload actor)) w"
| "run_event (Confirm i) w = effect (transition_plan_status i (ascii ''proposed'') (ascii ''committed'')) w"
| "run_event (Supersede i) w = effect (transition_plan_status i (ascii ''proposed'') (ascii ''superseded'')) w"
| "run_event ResetAll w = effect (then_true reset_all_plans) w"
| "run_event (Reassign t p) w = effect (reassign_in_plan t p) w"
| "run_event (Reschedule t s e) w = effect (update_schedule_in_plan t s e) w"
| "run_event (Other d) w = (True, w\<lparr>w_db := d\<lparr>db_plans := db_plans (w_db w)\<rparr>\<rparr>)"

inductive lifecycle :: "world \<Rightarrow> (plan_event \<times> bool) list \<Rightarrow> world \<Rightarrow> bool" where
  lifecycle_start: "lifecycle w [] w"
| lifecycle_step: "lifecycle w tr w1 \<Longrightarrow> run_event ev w1 = (done, w2) \<Longrightarrow> lifecycle w (tr @ [(ev, done)]) w2"

definition status_of :: "world \<Rightarrow> uuid \<Rightarrow> ustr option" where
  "status_of w i = map_option pv_status (get_row pv_id i (db_plans (w_db w)))"

text \<open>The three states as ranks: proposed, committed, superseded; a version never goes back.\<close>

definition rank :: "ustr option \<Rightarrow> nat" where
  "rank s = (if s = None then 0 else if s = Some (ascii ''proposed'') then 1
     else if s = Some (ascii ''committed'') then 2 else 3)"

lemma get_row_map:
  assumes "\<And>r. key (g r) = key r"
  shows "get_row key k (map g rows) = map_option g (get_row key k rows)"
  using assms by (induction rows) (auto simp: get_row_def)

lemma get_row_append:
  "get_row key k (rows @ [r]) =
    (case get_row key k rows of Some q \<Rightarrow> Some q | None \<Rightarrow> if key r = k then Some r else None)"
  by (induction rows) (auto simp: get_row_def)

lemma status_transition:
  assumes "t \<in> set plan_statuses"
    and "effect (transition_plan_status i s t) w = (done, w')" "distinct (map pv_id (db_plans (w_db w)))"
  shows "status_of w' j = (if j = i \<and> status_of w i = Some s then Some t else status_of w j)"
    and "done \<longleftrightarrow> status_of w i = Some s" and "map pv_id (db_plans (w_db w')) = map pv_id (db_plans (w_db w))"
proof -
  let ?g = "\<lambda>v. if pv_id v = i \<and> pv_status v = s then v\<lparr>pv_status := t\<rparr> else v"
  from assms(2) have w': "w_db w' = (w_db w)\<lparr>db_plans := map ?g (db_plans (w_db w))\<rparr>"
    and hit: "done \<longleftrightarrow> (\<exists>v \<in> set (db_plans (w_db w)). pv_id v = i \<and> pv_status v = s)"
    by (auto simp: effect_def transition_run [OF assms(1)])
  show "map pv_id (db_plans (w_db w')) = map pv_id (db_plans (w_db w))" by (simp add: w')
  show "status_of w' j = (if j = i \<and> status_of w i = Some s then Some t else status_of w j)"
  proof (cases "get_row pv_id j (db_plans (w_db w))")
    case None
    then show ?thesis by (auto simp: status_of_def w' get_row_map [where g = ?g and key = pv_id])
  next
    case (Some v)
    then have "pv_id v = j" using get_row_SomeD by metis
    with Some show ?thesis by (auto simp: status_of_def w' get_row_map [where g = ?g and key = pv_id])
  qed
  show "done \<longleftrightarrow> status_of w i = Some s"
  proof
    assume "done"
    then obtain v where v: "v \<in> set (db_plans (w_db w))" "pv_id v = i" "pv_status v = s" using hit by blast
    with distinct_get_row [OF assms(3) v(1)] show "status_of w i = Some s" by (simp add: status_of_def)
  next
    assume "status_of w i = Some s"
    then obtain v where v: "get_row pv_id i (db_plans (w_db w)) = Some v" "pv_status v = s"
      by (auto simp: status_of_def)
    from get_row_SomeD [OF v(1)] v(2) show "done" unfolding hit by blast
  qed
qed

lemma effect_keeps:
  assumes "effect m w = (b, w')" and "\<And>r. m w = (r, w') \<Longrightarrow> P"
  shows P
  using assms by (auto simp: effect_def split: prod.splits sum.splits)

lemma status_saved:
  assumes "save_plan_version p s payload a w = (r, w')" "s = ascii ''proposed''"
  shows "distinct (map pv_id (db_plans (w_db w))) \<longrightarrow> distinct (map pv_id (db_plans (w_db w')))"
    and "status_of w' i = status_of w i \<or> status_of w i = None \<and> status_of w' i = Some s"
proof -
  let ?i = "w_uuid w (w_next w)"
  let ?row = "\<lparr>pv_id = ?i, pv_project_id = p, pv_status = s, pv_created_at = w_now w, pv_created_by = a,
    pv_payload = payload\<rparr>"
  have "w_db w' = w_db w \<or> (?i \<notin> set (map pv_id (db_plans (w_db w))) \<and>
      w_db w' = (w_db w)\<lparr>db_plans := db_plans (w_db w) @ [?row]\<rparr>)"
    using assms(1)
    by (auto simp: save_plan_version_def bind_proc_def uuid4_def transaction_def insert_plan_version_def
        ensure_def ret_def split: if_splits)
  then show "distinct (map pv_id (db_plans (w_db w))) \<longrightarrow> distinct (map pv_id (db_plans (w_db w')))"
    and "status_of w' i = status_of w i \<or> status_of w i = None \<and> status_of w' i = Some s"
    by (cases "get_row pv_id i (db_plans (w_db w))"; auto simp: status_of_def get_row_append)+
qed

lemma status_edited:
  assumes "list_all2 (\<lambda>v v'. \<exists>p. v' = v\<lparr>pv_payload := p\<rparr>) vs vs'"
  shows "map pv_id vs' = map pv_id vs \<and>
    map_option pv_status (get_row pv_id i vs') = map_option pv_status (get_row pv_id i vs)"
  using assms
proof (induction rule: list_all2_induct)
  case (Cons v vs v' vs')
  then obtain p where "v' = v\<lparr>pv_payload := p\<rparr>" by blast
  with Cons.IH show ?case by (simp add: get_row_def)
qed simp

lemma status_plan_edit:
  assumes "effect (transaction (\<lambda>now d. bind_res (edit_first_plan f (db_plans d))
      (\<lambda>(moved, plans). Inr (moved, d\<lparr>db_plans := plans\<rparr>)))) w = (b, w')"
  shows "map pv_id (db_plans (w_db w')) = map pv_id (db_plans (w_db w)) \<and> status_of w' i = status_of w i"
proof (cases "edit_first_plan f (db_plans (w_db w))")
  case (Inl e)
  then show ?thesis using assms by (auto simp: effect_def transaction_def)
next
  case (Inr r)
  then obtain moved vs' where r: "edit_first_plan f (db_plans (w_db w)) = Inr (moved, vs')" by (cases r) auto
  with assms have "db_plans (w_db w') = vs'" by (auto simp: effect_def transaction_def)
  with status_edited [OF edit_first_plan_rows [OF r]] show ?thesis by (simp add: status_of_def)
qed

lemma status_reset:
  assumes "effect (then_true reset_all_plans) w = (b, w')"
  shows "map pv_id (db_plans (w_db w')) = map pv_id (db_plans (w_db w)) \<and>
    status_of w' i = (if status_of w i = Some (ascii ''committed'') then Some (ascii ''superseded'') else status_of w i)"
proof -
  let ?g = "\<lambda>v. if pv_status v = ascii ''committed'' then v\<lparr>pv_status := ascii ''superseded''\<rparr> else v"
  have plans: "db_plans (w_db w') = map ?g (db_plans (w_db w))"
    using assms by (auto simp: effect_def then_true_def bind_proc_def reset_all_plans_def transaction_def
        ret_def Let_def)
  have "get_row pv_id i (map ?g (db_plans (w_db w))) = map_option ?g (get_row pv_id i (db_plans (w_db w)))"
    by (rule get_row_map) simp
  then show ?thesis by (cases "get_row pv_id i (db_plans (w_db w))") (auto simp: status_of_def plans)
qed

lemma rank_simps [simp]:
  "rank None = 0" "rank (Some (ascii ''proposed'')) = 1" "rank (Some (ascii ''committed'')) = 2"
  "rank (Some (ascii ''superseded'')) = 3"
  by (simp_all add: rank_def)

text \<open>Every event keeps the ids distinct and moves no version backwards.\<close>

lemma run_event_step:
  assumes "run_event ev w = (b, w')" "distinct (map pv_id (db_plans (w_db w)))"
  shows "distinct (map pv_id (db_plans (w_db w')))" and "rank (status_of w i) \<le> rank (status_of w' i)"
    and "ev = Confirm i \<Longrightarrow> b \<Longrightarrow> rank (status_of w i) = 1 \<and> rank (status_of w' i) = 2"
proof -
  have sup: "ascii ''superseded'' \<in> set plan_statuses" by (simp add: plan_statuses_def)
  have all: "distinct (map pv_id (db_plans (w_db w'))) \<and> rank (status_of w i) \<le> rank (status_of w' i) \<and>
      (ev = Confirm i \<longrightarrow> b \<longrightarrow> rank (status_of w i) = 1 \<and> rank (status_of w' i) = 2)"
  proof (cases ev)
    case (Save p payload a)
    then obtain r where "save_plan_version p (ascii ''proposed'') payload a w = (r, w')"
      using assms(1) by (auto simp: effect_def then_true_def bind_proc_def ret_def split: prod.splits sum.splits)
    from status_saved(1) [OF this] status_saved(2) [OF this, of i] assms(2) Save show ?thesis by auto
  next
    case (Confirm j)
    then have "effect (transition_plan_status j (ascii ''proposed'') (ascii ''committed'')) w = (b, w')"
      using assms(1) by simp
    from status_transition(2,3) [OF committed_status this assms(2)]
      status_transition(1) [OF committed_status this assms(2), of i] assms(2) Confirm show ?thesis by auto
  next
    case (Supersede j)
    then have "effect (transition_plan_status j (ascii ''proposed'') (ascii ''superseded'')) w = (b, w')"
      using assms(1) by simp
    from status_transition(2,3) [OF sup this assms(2)]
      status_transition(1) [OF sup this assms(2), of i] assms(2) Supersede show ?thesis by auto
  next
    case ResetAll
    with status_reset [of w b w' i] assms show ?thesis by (auto split: if_splits)
  next
    case (Reassign t p)
    with status_plan_edit [of _ w b w' i] assms show ?thesis by (simp add: reassign_in_plan_def)
  next
    case (Reschedule t s e)
    with status_plan_edit [of _ w b w' i] assms show ?thesis by (simp add: update_schedule_in_plan_def)
  next
    case (Other d)
    with assms show ?thesis by (auto simp: status_of_def)
  qed
  then show "distinct (map pv_id (db_plans (w_db w')))" "rank (status_of w i) \<le> rank (status_of w' i)"
    "ev = Confirm i \<Longrightarrow> b \<Longrightarrow> rank (status_of w i) = 1 \<and> rank (status_of w' i) = 2" by blast+
qed

lemma lifecycle_confirms:
  assumes "lifecycle w tr w'" "distinct (map pv_id (db_plans (w_db w)))"
  shows "distinct (map pv_id (db_plans (w_db w'))) \<and> rank (status_of w i) \<le> rank (status_of w' i) \<and>
    length (filter (\<lambda>(ev, b). ev = Confirm i \<and> b) tr) \<le> (if rank (status_of w' i) \<le> 1 then 0 else 1)"
  using assms
proof (induction rule: lifecycle.induct)
  case (lifecycle_step w tr w1 ev b w2)
  then have IH: "distinct (map pv_id (db_plans (w_db w1)))" "rank (status_of w i) \<le> rank (status_of w1 i)"
    "length (filter (\<lambda>(ev, b). ev = Confirm i \<and> b) tr) \<le> (if rank (status_of w1 i) \<le> 1 then 0 else 1)"
    by auto
  note step = run_event_step(1) [OF lifecycle_step.hyps(2) IH(1)]
    run_event_step(2,3) [OF lifecycle_step.hyps(2) IH(1), of i]
  show ?case
  proof (cases "ev = Confirm i \<and> b")
    case True
    with step IH show ?thesis by auto
  next
    case False
    then have "length (filter (\<lambda>(ev, b). ev = Confirm i \<and> b) (tr @ [(ev, b)])) =
        length (filter (\<lambda>(ev, b). ev = Confirm i \<and> b) tr)" by auto
    with step IH show ?thesis by (auto split: if_splits)
  qed
qed simp

end
