(* ===== verification/Task_Use_Cases.thy ===== *)
theory Task_Use_Cases
  imports Confirm_Plan
begin

section \<open>Vacations, task capture and task status\<close>

text \<open>
  \<open>app/set_vacation.py\<close>, \<open>app/capture_task.py\<close> and \<open>app/mark_task_done.py\<close>. Messages are the source's
  Russian texts by code points.
\<close>

subsection \<open>SetVacationUseCase\<close>

definition MAX_VACATION_DAYS :: int where
  "MAX_VACATION_DAYS = 60"

definition MIN_CAPACITY_H :: int where
  "MIN_CAPACITY_H = 0"

definition MAX_CAPACITY_H :: int where
  "MAX_CAPACITY_H = 12"

definition vacation_denied :: exn where
  "vacation_denied = PermissionError
     [1058, 1086, 1083, 1100, 1082, 1086, 32, 1072, 1076, 1084, 1080, 1085, 32, 1084, 1086, 1078, 1077,
      1090, 32, 1086, 1092, 1086, 1088, 1084, 1083, 1103, 1090, 1100, 32, 1086, 1090, 1087, 1091,
      1089, 1082, 46]"

definition vacation_reversed :: exn where
  "vacation_reversed = InvalidVacationError
     [1044, 1072, 1090, 1072, 32, 1085, 1072, 1095, 1072, 1083, 1072, 32, 1086, 1090, 1087, 1091, 1089,
      1082, 1072, 32, 1087, 1086, 1079, 1078, 1077, 32, 1076, 1072, 1090, 1099, 32, 1086, 1082,
      1086, 1085, 1095, 1072, 1085, 1080, 1103, 46]"

definition vacation_too_long :: "int \<Rightarrow> exn" where
  "vacation_too_long range_days = InvalidVacationError
     ([1057, 1083, 1080, 1096, 1082, 1086, 1084, 32, 1076, 1083, 1080, 1085, 1085, 1099, 1081, 32, 1087,
      1077, 1088, 1080, 1086, 1076, 58, 32] @ int_dec range_days @
      [32, 1076, 1085, 1077, 1081, 44, 32, 1084, 1072, 1082, 1089, 1080, 1084, 1091, 1084, 32] @ int_dec MAX_VACATION_DAYS @ [46])"

definition vacation_bad_capacity :: exn where
  "vacation_bad_capacity = InvalidVacationError
     ([1025, 1084, 1082, 1086, 1089, 1090, 1100, 32, 1076, 1086, 1083, 1078, 1085, 1072, 32, 1073, 1099,
      1090, 1100, 32, 1086, 1090, 32] @ int_dec MIN_CAPACITY_H @
      [32, 1076, 1086, 32] @ int_dec MAX_CAPACITY_H @ [32, 1095, 1072, 1089, 1086, 1074, 46])"

text \<open>The \<open>while day <= day_to\<close> loop with its counter.\<close>

function vacation_days :: "uuid \<Rightarrow> int \<Rightarrow> date \<Rightarrow> date \<Rightarrow> int \<Rightarrow> int proc" where
  "vacation_days pid capacity day day_to days_set =
     (if day \<le> day_to
      then bind_proc (upsert_day_override pid day capacity (Some (ascii ''vacation'')))
             (\<lambda>_. vacation_days pid capacity (day + 1) day_to (days_set + 1))
      else ret days_set)"
  by pat_completeness auto
termination
  by (relation "measure (\<lambda>(pid, c, day, day_to, n). nat (day_to + 1 - day))") auto

declare vacation_days.simps [simp del]

definition set_vacation :: "vacation_intent \<Rightarrow> uuid option \<Rightarrow> bool \<Rightarrow> int proc" where
  "set_vacation i actor_id is_admin =
     (let range_days = va_day_to i - va_day_from i + 1 in
      if \<not> is_admin then raise vacation_denied
      else if va_day_from i > va_day_to i then raise vacation_reversed
      else if range_days > MAX_VACATION_DAYS then raise (vacation_too_long range_days)
      else if \<not> (MIN_CAPACITY_H \<le> va_capacity_h i \<and> va_capacity_h i \<le> MAX_CAPACITY_H)
      then raise vacation_bad_capacity
      else bind_proc (get_person_by_name (va_person_name i)) (\<lambda>found.
        case found of
          None \<Rightarrow> raise (PersonNotFoundError (va_person_name i))
        | Some person \<Rightarrow>
            bind_proc (vacation_days (pp_id person) (va_capacity_h i) (va_day_from i) (va_day_to i) 0) (\<lambda>days_set.
            bind_proc (add_audit actor_id (ascii ''set_vacation'') (ascii ''day_override'')
                (Some (pp_id person))
                (Some (jobj [(''from'', JStr (isoformat (va_day_from i))),
                             (''to'', JStr (isoformat (va_day_to i))),
                             (''capacity_h'', JInt (va_capacity_h i))]))) (\<lambda>_.
            ret days_set))))"

subsection \<open>CaptureTaskUseCase\<close>

record capture_result =
  cu_task_title :: ustr
  cu_project_title :: ustr
  cu_assignee_names :: "ustr list"
  cu_deadline_iso :: "ustr option"
  cu_notion_url :: "ustr option"
  cu_task_id :: "uuid option"
  cu_duration_hours :: int
  cu_is_duplicate :: bool

definition INBOX_PROJECT :: ustr where
  "INBOX_PROJECT = ascii ''Inbox''"

definition CAPTURE_HOURS :: int where
  "CAPTURE_HOURS = 8"

definition capture_target :: "ustr option \<Rightarrow> ustr" where
  "capture_target name =
     (let n = strip (case name of None \<Rightarrow> [] | Some s \<Rightarrow> s) in if n = [] then INBOX_PROJECT else n)"

definition resolve_project :: "ustr option \<Rightarrow> person_record option \<Rightarrow> project_record proc" where
  "resolve_project name actor =
     bind_proc (get_project_by_title (capture_target name)) (\<lambda>existing.
     case existing of
       Some p \<Rightarrow> ret p
     | None \<Rightarrow> create_project (capture_target name) [] None None (map_option pp_id actor)
                 (ascii ''medium'') None)"

definition same_open_task :: "ustr \<Rightarrow> task_record \<Rightarrow> bool" where
  "same_open_task title task \<longleftrightarrow>
     tr_status task \<noteq> ascii ''done'' \<and> lower (strip (tr_name task)) = lower (strip title)"

definition find_duplicate :: "uuid \<Rightarrow> ustr \<Rightarrow> task_record option proc" where
  "find_duplicate project_id title =
     bind_proc (list_project_tasks project_id) (\<lambda>tasks. ret (find (same_open_task title) tasks))"

definition capture_duration :: "int option \<Rightarrow> int" where
  "capture_duration est = (case est of Some h \<Rightarrow> if h > 0 then h else CAPTURE_HOURS | None \<Rightarrow> CAPTURE_HOURS)"

text \<open>\<open>f" {time:%H:%M}"\<close> of a time in seconds since midnight.\<close>

definition hour_minute :: "time_of_day \<Rightarrow> ustr" where
  "hour_minute t = zfill 2 (nat_dec (nat (t div 3600))) @ [58] @ zfill 2 (nat_dec (nat (t div 60 mod 60)))"

definition capture_deadline_iso :: "date option \<Rightarrow> time_of_day option \<Rightarrow> ustr option" where
  "capture_deadline_iso deadline time_start =
     (case deadline of
        None \<Rightarrow> None
      | Some d \<Rightarrow> Some (isoformat d @ (case time_start of None \<Rightarrow> [] | Some t \<Rightarrow> [32] @ hour_minute t)))"

definition assign_one :: "uuid \<Rightarrow> int \<Rightarrow> ustr \<Rightarrow> ustr list \<Rightarrow> ustr list proc" where
  "assign_one task_id duration name names =
     bind_proc (get_person_by_name name) (\<lambda>found.
     case found of
       None \<Rightarrow> ret names
     | Some person \<Rightarrow> bind_proc (assign_task task_id (pp_id person) duration)
                         (\<lambda>_. ret (names @ [pp_name person])))"

definition push_captured :: "task_sink option \<Rightarrow> sink_task \<Rightarrow> ustr option proc" where
  "push_captured sink t =
     (case sink of None \<Rightarrow> ret None
      | Some s \<Rightarrow> catch (call_sink (sink_push s) (PushTask t)) (\<lambda>e. ret None))"

definition capture_task ::
  "task_sink option \<Rightarrow> capture_task_intent \<Rightarrow> person_record option \<Rightarrow> capture_result proc" where
  "capture_task sink i actor =
     bind_proc (resolve_project (ct_project_name i) actor) (\<lambda>project.
     bind_proc (find_duplicate (jr_id project) (ct_task_title i)) (\<lambda>duplicate.
     case duplicate of
       Some d \<Rightarrow> ret
         \<lparr>cu_task_title = tr_name d, cu_project_title = jr_title project, cu_assignee_names = [],
          cu_deadline_iso = map_option isoformat (tr_end_date d), cu_notion_url = None,
          cu_task_id = Some (tr_id d), cu_duration_hours = tr_duration_hours d, cu_is_duplicate = True\<rparr>
     | None \<Rightarrow>
         let duration = capture_duration (ct_est_hours i) in
         bind_proc (create_task (jr_id project) (ct_task_title i) duration (ct_deadline i)
                      (ct_required_skills i) (ct_time_start i)) (\<lambda>task.
         bind_proc (for_each (assign_one (tr_id task) duration) (ct_assignee_names i) []) (\<lambda>names.
         bind_proc (add_audit (map_option pp_id actor) (ascii ''capture_task'') (ascii ''task'')
             (Some (tr_id task))
             (Some (jobj [(''title'', JStr (ct_task_title i)), (''project'', JStr (jr_title project)),
                          (''assignees'', JList (map JStr names))]))) (\<lambda>_.
         bind_proc (push_captured sink
             \<lparr>st_title = ct_task_title i, st_assignees = names, st_project = Some (jr_title project),
              st_deadline = ct_deadline i, st_time_start = ct_time_start i\<rparr>) (\<lambda>url. ret
         \<lparr>cu_task_title = ct_task_title i, cu_project_title = jr_title project, cu_assignee_names = names,
          cu_deadline_iso = capture_deadline_iso (ct_deadline i) (ct_time_start i), cu_notion_url = url,
          cu_task_id = Some (tr_id task), cu_duration_hours = duration, cu_is_duplicate = False\<rparr>))))))"

subsection \<open>MarkTaskDoneUseCase\<close>

record project_sink =
  ps_create_card :: "sink_call list \<Rightarrow> sink_call \<Rightarrow> ustr option res"
  ps_mark_task_done :: "sink_call list \<Rightarrow> sink_call \<Rightarrow> bool res"
  ps_archive_card :: "sink_call list \<Rightarrow> sink_call \<Rightarrow> bool res"

definition ALLOWED_STATUSES :: "ustr list" where
  "ALLOWED_STATUSES = map ascii [''not_done'', ''done'', ''preliminary'', ''confirmed'']"

definition mark_denied :: exn where
  "mark_denied = PermissionError
     [1058, 1086, 1083, 1100, 1082, 1086, 32, 1072, 1076, 1084, 1080, 1085, 32, 1084, 1086, 1078, 1077,
      1090, 32, 1084, 1077, 1085, 1103, 1090, 1100, 32, 1089, 1090, 1072, 1090, 1091, 1089, 32,
      1079, 1072, 1076, 1072, 1095, 1080, 46]"

definition tick_notion :: "project_sink option \<Rightarrow> uuid \<Rightarrow> unit proc" where
  "tick_notion sink task_id =
     (case sink of
        None \<Rightarrow> ret ()
      | Some s \<Rightarrow> catch
          (bind_proc list_tasks_with_meta (\<lambda>metas.
           case find (\<lambda>m. tm_task_id m = task_id) metas of
             None \<Rightarrow> ret ()
           | Some meta \<Rightarrow>
               bind_proc (get_project_by_title (tm_project_title meta)) (\<lambda>project.
               case project of
                 None \<Rightarrow> ret ()
               | Some p \<Rightarrow>
                   (case jr_notion_page_id p of
                      None \<Rightarrow> ret ()
                    | Some page \<Rightarrow>
                        if page = [] then ret ()
                        else bind_proc (call_sink (ps_mark_task_done s) (TickTask page (tm_task_name meta)))
                               (\<lambda>_. ret ())))))
          (\<lambda>e. ret ()))"

definition mark_task_done ::
  "project_sink option \<Rightarrow> uuid \<Rightarrow> uuid option \<Rightarrow> bool \<Rightarrow> ustr \<Rightarrow> unit proc" where
  "mark_task_done sink task_id actor_id is_admin status =
     (if \<not> is_admin then raise mark_denied
      else if status \<notin> set ALLOWED_STATUSES then raise (InvalidStatusError status)
      else bind_proc (set_task_status task_id status) (\<lambda>_.
           bind_proc (add_audit actor_id (ascii ''mark_task'') (ascii ''task'') (Some task_id)
                        (Some (jobj [(''status'', JStr status)]))) (\<lambda>_.
           if status = ascii ''done'' then tick_notion sink task_id else ret ())))"

subsection \<open>All of them keep the constraints\<close>

lemma keeps_vacation_days [keep_intros]: "keeps db_ok (vacation_days pid c day day_to n)"
proof (induction pid c day day_to n rule: vacation_days.induct)
  case (1 pid c day day_to n)
  then show ?case by (subst vacation_days.simps) (auto intro!: keep_intros)
qed

lemma keeps_set_vacation [keep_intros]: "keeps db_ok (set_vacation i a adm)"
  unfolding set_vacation_def Let_def by (intro keep_intros)

lemma keeps_resolve_project [keep_intros]: "keeps db_ok (resolve_project n a)"
  unfolding resolve_project_def by (intro keep_intros)

lemma keeps_find_duplicate [keep_intros]: "keeps P (find_duplicate p t)"
  unfolding find_duplicate_def by (intro keep_intros)

lemma keeps_assign_one [keep_intros]: "keeps db_ok (assign_one t d n ns)"
  unfolding assign_one_def by (intro keep_intros)

lemma keeps_push_captured [keep_intros]: "keeps P (push_captured s t)"
  unfolding push_captured_def by (intro keep_intros)

lemma keeps_capture_task [keep_intros]: "keeps db_ok (capture_task s i a)"
  unfolding capture_task_def Let_def by (intro keep_intros)

lemma keeps_tick_notion [keep_intros]: "keeps P (tick_notion s t)"
  unfolding tick_notion_def by (intro keep_intros)

lemma keeps_mark_task_done [keep_intros]: "keeps db_ok (mark_task_done s t a adm st)"
  unfolding mark_task_done_def by (intro keep_intros)

end
