(* ===== verification/Add_Project.thy ===== *)
theory Add_Project
  imports Task_Use_Cases Greedy_Correct Critical_Path
begin

section \<open>Adding a project\<close>

text \<open>
  \<open>app/add_project.py\<close>: a template is copied into tasks with fresh ids, the solver plans them, and the
  project, its tasks, the proposed plan version and an audit row are stored, one transaction each.
  \<open>solver\<close> is the \<open>SolverPort\<close> the use case is given; the locale \<open>solver_port\<close> states what it relies
  on and is interpreted on the greedy solver.
\<close>

subsection \<open>The solver port\<close>

record solver =
  sv_plan :: "plan_request \<Rightarrow> plan_result res"
  sv_presented_earliest_end :: "plan_request \<Rightarrow> date \<Rightarrow> date res"

definition greedy_solver :: "networkx \<Rightarrow> working_calendar \<Rightarrow> solver" where
  "greedy_solver nx calendar =
     \<lparr>sv_plan = plan nx calendar,
      sv_presented_earliest_end = (\<lambda>req start. presented_earliest_end nx req start calendar)\<rparr>"

locale solver_port =
  fixes slv :: solver
  assumes planned_once: "sv_plan slv req = Inr r \<Longrightarrow> distinct (map t_id (rq_tasks req)) \<Longrightarrow>
      distinct (map a_task_id (pl_assignments r)) \<and>
      set (map a_task_id (pl_assignments r)) = t_id ` set (rq_tasks req)"

lemma documented_solver: "networkx_documented nx \<Longrightarrow> solver_port (greedy_solver nx cal)"
  by unfold_locales (use plan_covers in \<open>simp add: greedy_solver_def\<close>)

interpretation greedy: solver_port "greedy_solver reference_networkx (weekend_calendar holidays)" for holidays
  by (rule documented_solver [OF reference_networkx_documented])

subsection \<open>instantiate_template\<close>

definition fresh_task_ids :: "template_task_spec list \<Rightarrow> (int, uuid) dict proc" where
  "fresh_task_ids specs = for_each (\<lambda>spec d. bind_proc uuid4 (\<lambda>i. ret (dict_set (ts_ord spec) i d))) specs []"

definition instantiate_task :: "uuid \<Rightarrow> (int, uuid) dict \<Rightarrow> template_task_spec \<Rightarrow> task res" where
  "instantiate_task project_id ord_to_id spec =
     bind_res (dict_item ord_to_id (ts_ord spec)) (\<lambda>i.
       Inr ((task_default i (ts_name spec) (ts_duration_hours spec) (ts_allowed_person_ids spec))
         \<lparr>t_project_id := Some project_id, t_is_splittable := ts_is_splittable spec,
          t_pair_mode := ts_pair_mode spec, t_duration_is_window := ts_duration_is_window spec,
          t_source := ascii ''template''\<rparr>))"

definition instantiate_dep :: "(int, uuid) dict \<Rightarrow> template_task_spec \<Rightarrow> nat \<Rightarrow> dependency res" where
  "instantiate_dep ord_to_id spec i =
     bind_res (dict_item ord_to_id (ts_ord spec)) (\<lambda>tid.
     bind_res (dict_item ord_to_id (ts_depends_on_ords spec ! i)) (\<lambda>dep.
       Inr \<lparr>d_task_id = tid, d_depends_on_id = dep,
            d_link_type = (if i < length (ts_link_types spec) then ts_link_types spec ! i else ascii ''FS''),
            d_lag_working_days = (if i < length (ts_dep_lags spec) then ts_dep_lags spec ! i else 0)\<rparr>))"

definition instantiate_deps :: "(int, uuid) dict \<Rightarrow> template_task_spec \<Rightarrow> dependency list res" where
  "instantiate_deps ord_to_id spec =
     map_res (instantiate_dep ord_to_id spec) [0..<length (ts_depends_on_ords spec)]"

definition instantiate_template :: "project_template \<Rightarrow> uuid \<Rightarrow> (task list \<times> dependency list) proc" where
  "instantiate_template template project_id =
     bind_proc (fresh_task_ids (pt_tasks template)) (\<lambda>ord_to_id.
     bind_proc (lift_res (map_res (instantiate_task project_id ord_to_id) (pt_tasks template))) (\<lambda>tasks.
     bind_proc (lift_res (map_res (instantiate_deps ord_to_id) (pt_tasks template))) (\<lambda>deps.
     ret (tasks, concat deps))))"

subsection \<open>AddProjectUseCase\<close>

record add_project_result =
  ax_project :: project_record
  ax_plan_version_id :: uuid
  ax_plan :: plan_result
  ax_tasks :: "task list"
  ax_earliest_end :: "date option"
  ax_notion_page_id :: "ustr option"

fun template_code_str :: "template_code \<Rightarrow> ustr" where
  "template_code_str Standard = ascii ''standard''"
| "template_code_str Lite = ascii ''lite''"

definition empty_title :: exn where
  "empty_title = InvalidProjectError
     [1053, 1072, 1079, 1074, 1072, 1085, 1080, 1077, 32, 1087, 1088, 1086, 1077, 1082, 1090, 1072, 32,
      1087, 1091, 1089, 1090, 1086, 1077, 46]"

definition past_deadline :: exn where
  "past_deadline = InvalidProjectError
     [1044, 1077, 1076, 1083, 1072, 1081, 1085, 32, 1074, 32, 1087, 1088, 1086, 1096, 1083, 1086, 1084,
      46]"

definition empty_template :: exn where
  "empty_template = InvalidProjectError
     [1064, 1072, 1073, 1083, 1086, 1085, 32, 1073, 1077, 1079, 32, 1079, 1072, 1076, 1072, 1095, 46]"

definition template_cycle :: exn where
  "template_cycle = InvalidProjectError
     [1062, 1080, 1082, 1083, 32, 1074, 32, 1079, 1072, 1074, 1080, 1089, 1080, 1084, 1086, 1089, 1090,
      1103, 1093, 32, 1096, 1072, 1073, 1083, 1086, 1085, 1072, 46]"

definition no_executors :: exn where
  "no_executors = InvalidProjectError
     [1053, 1077, 32, 1084, 1086, 1075, 1091, 32, 1087, 1086, 1089, 1090, 1088, 1086, 1080, 1090, 1100,
      32, 1087, 1083, 1072, 1085, 58, 32, 1074, 32, 1089, 1080, 1089, 1090, 1077, 1084, 1077, 32,
      1085, 1077, 1090, 32, 1085, 1080, 32, 1086, 1076, 1085, 1086, 1075, 1086, 32, 1080, 1089,
      1087, 1086, 1083, 1085, 1080, 1090, 1077, 1083, 1103, 46, 32, 1044, 1086, 1073, 1072, 1074,
      1100, 1090, 1077, 32, 1083, 1102, 1076, 1077, 1081, 32, 1095, 1077, 1088, 1077, 1079, 32, 115,
      101, 101, 100, 32, 1080, 1083, 1080, 32, 1074, 1077, 1073, 45, 1072, 1076, 1084, 1080, 1085,
      1082, 1091, 46]"

definition project_title_error :: "add_project_intent \<Rightarrow> project_template \<Rightarrow> date \<Rightarrow> exn option" where
  "project_title_error i template today =
     (if strip (ap_title i) = [] then Some empty_title
      else if (case ap_deadline i of None \<Rightarrow> False | Some d \<Rightarrow> d < today) then Some past_deadline
      else if pt_tasks template = [] then Some empty_template
      else None)"

text \<open>The two exceptions of the solver that are translated; any other passes through.\<close>

fun solver_error :: "exn \<Rightarrow> exn" where
  "solver_error NetworkXUnfeasible = template_cycle"
| "solver_error NoPeopleError = no_executors"
| "solver_error e = e"

definition project_request ::
  "add_project_intent \<Rightarrow> person list \<Rightarrow> task list \<Rightarrow> dependency list \<Rightarrow> date \<Rightarrow> day_allocation list
    \<Rightarrow> day_override list \<Rightarrow> plan_request" where
  "project_request i people tasks deps today existing overrides =
     \<lparr>rq_people = people, rq_tasks = tasks, rq_dependencies = deps, rq_horizon_start = today,
      rq_day_overrides = overrides, rq_existing_allocations = existing, rq_deadline = ap_deadline i\<rparr>"

definition solve_project :: "solver \<Rightarrow> add_project_intent \<Rightarrow> plan_request \<Rightarrow> date \<Rightarrow> (plan_result \<times> date option) res" where
  "solve_project slv i req today =
     (case sv_plan slv req of
        Inl e \<Rightarrow> Inl (solver_error e)
      | Inr pl \<Rightarrow>
          (case ap_deadline i of
             Some _ \<Rightarrow> Inr (pl, None)
           | None \<Rightarrow> bind_res (sv_presented_earliest_end slv req today) (\<lambda>e. Inr (pl, Some e))))"

definition make_card :: "project_sink option \<Rightarrow> uuid \<Rightarrow> sink_project \<Rightarrow> ustr option proc" where
  "make_card sink project_id master_card =
     (case sink of
        None \<Rightarrow> ret None
      | Some s \<Rightarrow> catch
          (bind_proc (call_sink (ps_create_card s) (CreateCard master_card)) (\<lambda>page.
           case page of
             None \<Rightarrow> ret None
           | Some g \<Rightarrow> if g = [] then ret page
                       else bind_proc (set_project_notion_page project_id g) (\<lambda>_. ret page)))
          (\<lambda>e. ret None))"

definition store_project ::
  "add_project_intent \<Rightarrow> uuid option \<Rightarrow> uuid \<Rightarrow> task list \<Rightarrow> plan_result
    \<Rightarrow> (project_record \<times> plan_version_record) proc" where
  "store_project i actor_id project_id tasks pl =
     bind_proc (create_project (strip (ap_title i)) (template_code_str (ap_template_code i)) (ap_deadline i)
                  (ap_brief_return_date i) actor_id (ascii ''medium'') (Some project_id)) (\<lambda>project.
     bind_proc (save_project_tasks (jr_id project) tasks (pl_assignments pl)) (\<lambda>_.
     bind_proc (save_plan_version (jr_id project) (ascii ''proposed'') (serialize_plan pl) actor_id) (\<lambda>pv.
     bind_proc (add_audit actor_id (ascii ''add_project'') (ascii ''project'') (Some (jr_id project))
                  (Some (jobj [(''title'', JStr (strip (ap_title i)))]))) (\<lambda>_.
     ret (project, pv)))))"

definition add_project ::
  "solver \<Rightarrow> project_sink option \<Rightarrow> add_project_intent \<Rightarrow> person_record option \<Rightarrow> person list
    \<Rightarrow> project_template \<Rightarrow> date \<Rightarrow> day_allocation list \<Rightarrow> day_override list \<Rightarrow> add_project_result proc" where
  "add_project slv sink i actor people template today existing overrides =
     (case project_title_error i template today of
        Some e \<Rightarrow> raise e
      | None \<Rightarrow>
          bind_proc uuid4 (\<lambda>project_id.
          bind_proc (instantiate_template template project_id) (\<lambda>(tasks, deps).
          bind_proc (lift_res (solve_project slv i
              (project_request i people tasks deps today existing overrides) today)) (\<lambda>(pl, earliest_end).
          bind_proc (store_project i (map_option pp_id actor) project_id tasks pl) (\<lambda>(project, pv).
          bind_proc (make_card sink (jr_id project)
              \<lparr>sp_title = strip (ap_title i), sp_template_code = Some (template_code_str (ap_template_code i)),
               sp_task_names = map t_name tasks, sp_deadline = ap_deadline i\<rparr>) (\<lambda>page.
          ret \<lparr>ax_project = project, ax_plan_version_id = vr_id pv, ax_plan = pl, ax_tasks = tasks,
               ax_earliest_end = earliest_end, ax_notion_page_id = page\<rparr>))))))"

subsection \<open>The constraints are kept\<close>

lemma keeps_fresh_task_ids [keep_intros]: "keeps P (fresh_task_ids specs)"
  unfolding fresh_task_ids_def by (intro keep_intros)

lemma keeps_instantiate_template [keep_intros]: "keeps P (instantiate_template t p)"
  unfolding instantiate_template_def by (intro keep_intros)

lemma keeps_make_card [keep_intros]: "keeps db_ok (make_card s p c)"
  unfolding make_card_def by (intro keep_intros)

lemma keeps_store_project [keep_intros]: "keeps db_ok (store_project i a p ts pl)"
  unfolding store_project_def by (intro keep_intros)

lemma keeps_pair [keep_intros]: "(\<And>a b. keeps P (f a b)) \<Longrightarrow> keeps P (case x of (a, b) \<Rightarrow> f a b)"
  by (cases x) simp

lemma keeps_add_project [keep_intros]: "keeps db_ok (add_project slv s i a ps t d ex ov)"
  unfolding add_project_def by (intro keep_intros)

end
