(* ===== verification/Load_Views.thy ===== *)
theory Load_Views
  imports Repo_Tasks Domain_Units
begin

section \<open>Load: suggestions, heat map and board\<close>

text \<open>
  \<open>app/suggest_assignees.py\<close>, \<open>app/load_summary.py\<close> and \<open>app/admin_board.py\<close>. The heat map is modelled up
  to the arguments of \<open>render_heatmap\<close>, which draws them. Hours per day are exact fractions; Python
  divides floats, so a sum of several rounded fractions may differ from the model in the last bit.
\<close>

subsection \<open>SuggestAssigneesUseCase\<close>

definition DEFAULT_LIMIT :: int where
  "DEFAULT_LIMIT = 5"

definition add_load :: "json \<Rightarrow> (uuid, int) dict \<Rightarrow> (uuid, int) dict res" where
  "add_load payload load =
     bind_res (deserialize_allocations payload) (\<lambda>als.
       Inr (fold (\<lambda>al d. dict_set (al_person_id al) (dict_get_default d (al_person_id al) 0 + al_hours al) d) als load))"

definition committed_load :: "(uuid, int) dict proc" where
  "committed_load = bind_proc list_committed_plans (\<lambda>payloads. lift_res (fold_res add_load payloads []))"

definition candidate_of :: "(uuid, int) dict \<Rightarrow> capability_record \<Rightarrow> candidate" where
  "candidate_of load c =
     \<lparr>cd_person_id = cr_person_id c, cd_name = cr_name c, cd_skills = cr_skills c,
      cd_is_external = cr_is_external c, cd_load_hours = dict_get_default load (cr_person_id c) 0\<rparr>"

definition suggest_use_case ::
  "ustr list \<Rightarrow> bool \<Rightarrow> int option \<Rightarrow> uuid list \<Rightarrow> assignee_suggestion list proc" where
  "suggest_use_case required_skills include_external limit restrict_to =
     bind_proc get_person_capabilities (\<lambda>caps.
     bind_proc committed_load (\<lambda>load.
     ret (suggest_assignees required_skills (map (candidate_of load) caps) include_external limit restrict_to)))"

subsection \<open>LoadSummaryUseCase\<close>

definition day_list :: "date \<Rightarrow> nat \<Rightarrow> date list" where
  "day_list start days = map (\<lambda>i. start + int i) [0..<days]"

definition day_index :: "date \<Rightarrow> nat \<Rightarrow> (date, nat) dict" where
  "day_index start days = dict_of (zip (day_list start days) [0..<days])"

definition count_used ::
  "(date, nat) dict \<Rightarrow> day_allocation \<Rightarrow> (uuid \<times> nat, int) dict \<Rightarrow> (uuid \<times> nat, int) dict" where
  "count_used index a used =
     (case dict_get index (al_day a) of
        None \<Rightarrow> used
      | Some j \<Rightarrow> dict_set (al_person_id a, j) (dict_get_default used (al_person_id a, j) 0 + al_hours a) used)"

record heatmap =
  hm_labels :: "ustr list"
  hm_days :: "date list"
  hm_matrix :: "int list list"
  hm_capacity :: int

definition load_summary :: "person list \<Rightarrow> day_allocation list \<Rightarrow> date \<Rightarrow> nat \<Rightarrow> heatmap" where
  "load_summary people allocations start days =
     (let used = fold (count_used (day_index start days)) allocations []
      in \<lparr>hm_labels = map p_name people, hm_days = day_list start days,
          hm_matrix = map (\<lambda>p. map (\<lambda>j. dict_get_default used (p_id p, j) 0) [0..<days]) people,
          hm_capacity = (case people of [] \<Rightarrow> 8 | p # _ \<Rightarrow> p_capacity_h p)\<rparr>)"

subsection \<open>AdminBoardUseCase\<close>

record schedule_row =
  sr_task_id :: ustr
  sr_project_title :: ustr
  sr_task_name :: ustr
  sr_assignee_name :: ustr
  sr_assignee_id :: ustr
  sr_deadline :: "date option"
  sr_slots :: int
  sr_status :: ustr

record calendar_row =
  kr_person_name :: ustr
  kr_cells :: "ustr list"

record load_row =
  lr_name :: ustr
  lr_capacity_slots :: int
  lr_slots :: "int list"
  lr_overloaded :: "bool list"
  lr_free :: "int list"
  lr_pct :: int

record board =
  bd_days :: "date list"
  bd_schedule :: "schedule_row list"
  bd_calendar :: "calendar_row list"
  bd_load_rows :: "load_row list"
  bd_totals :: "int list"

definition task_span :: "task_meta \<Rightarrow> date list" where
  "task_span t =
     (let end = opt_or (tm_end_date t) (tm_deadline t) in
      case (tm_start_date t, end) of
        (Some s, Some e) \<Rightarrow> if e \<ge> s then map (\<lambda>i. s + int i) [0..<nat (e - s + 1)] else [e]
      | (None, Some e) \<Rightarrow> [e]
      | (Some s, None) \<Rightarrow> [s]
      | (None, None) \<Rightarrow> [])"

definition DASH :: ustr where
  "DASH = [8212]"

definition schedule_row_of :: "task_meta \<Rightarrow> schedule_row" where
  "schedule_row_of t =
     \<lparr>sr_task_id = uuid_str (tm_task_id t), sr_project_title = tm_project_title t, sr_task_name = tm_task_name t,
      sr_assignee_name = (case tm_assignee_name t of None \<Rightarrow> DASH | Some n \<Rightarrow> if n = [] then DASH else n),
      sr_assignee_id = (case tm_assignee_id t of None \<Rightarrow> [] | Some i \<Rightarrow> uuid_str i),
      sr_deadline = tm_deadline t, sr_slots = hours_to_slots (of_int (tm_duration_hours t)),
      sr_status = tm_status t\<rparr>"

definition per_day_hours :: "task_meta \<Rightarrow> rat" where
  "per_day_hours t = (if task_span t = [] then 0 else of_int (tm_duration_hours t) / of_nat (length (task_span t)))"

text \<open>The two accumulators of the loop over the tasks: hours per person and day, names per calendar cell.\<close>

definition add_person_hours ::
  "(date, nat) dict \<Rightarrow> task_meta \<Rightarrow> date \<Rightarrow> (uuid \<times> nat, rat) dict \<Rightarrow> (uuid \<times> nat, rat) dict" where
  "add_person_hours index t day hours =
     (case (dict_get index day, tm_assignee_id t) of
        (Some j, Some i) \<Rightarrow> dict_set (i, j) (dict_get_default hours (i, j) 0 + per_day_hours t) hours
      | _ \<Rightarrow> hours)"

definition add_cell ::
  "(date, nat) dict \<Rightarrow> task_meta \<Rightarrow> date \<Rightarrow> (ustr \<times> nat, ustr list) dict \<Rightarrow> (ustr \<times> nat, ustr list) dict" where
  "add_cell index t day cells =
     (case (dict_get index day, tm_assignee_name t) of
        (Some j, Some n) \<Rightarrow> if n = [] then cells
                           else dict_set (n, j) (dict_get_default cells (n, j) [] @ [tm_task_name t]) cells
      | _ \<Rightarrow> cells)"

definition person_day_hours :: "(date, nat) dict \<Rightarrow> task_meta list \<Rightarrow> (uuid \<times> nat, rat) dict" where
  "person_day_hours index tasks = fold (\<lambda>t. fold (add_person_hours index t) (task_span t)) tasks []"

definition calendar_cells :: "(date, nat) dict \<Rightarrow> task_meta list \<Rightarrow> (ustr \<times> nat, ustr list) dict" where
  "calendar_cells index tasks = fold (\<lambda>t. fold (add_cell index t) (task_span t)) tasks []"

definition date_max :: date where
  "date_max = 3652059"

definition schedule_key :: "schedule_row \<Rightarrow> date \<times> ustr \<times> ustr" where
  "schedule_key r =
     (case sr_deadline r of None \<Rightarrow> date_max | Some d \<Rightarrow> d, sr_project_title r, sr_task_name r)"

definition calendar_rows :: "person_record list \<Rightarrow> (ustr \<times> nat, ustr list) dict \<Rightarrow> nat \<Rightarrow> calendar_row list" where
  "calendar_rows people cells days =
     map (\<lambda>p. \<lparr>kr_person_name = pp_name p,
       kr_cells = map (\<lambda>j. join (ascii '', '') (dict_get_default cells (pp_name p, j) [])) [0..<days]\<rparr>) people"

text \<open>\<open>round(x)\<close>: to the nearest integer, ties to the even one.\<close>

definition py_round :: "rat \<Rightarrow> int" where
  "py_round x =
     (let f = \<lfloor>x\<rfloor>; d = x - of_int f in
      if d < 1 / 2 then f else if d > 1 / 2 then f + 1 else if even f then f else f + 1)"

definition load_row_of :: "(uuid \<times> nat, rat) dict \<Rightarrow> nat \<Rightarrow> person_record \<Rightarrow> load_row" where
  "load_row_of hours days p =
     (let cap = hours_to_slots (of_int (pp_capacity_h p));
          slots = map (\<lambda>j. hours_to_slots (dict_get_default hours (pp_id p, j) 0)) [0..<days];
          available = cap * int days
      in \<lparr>lr_name = pp_name p, lr_capacity_slots = cap, lr_slots = slots,
          lr_overloaded = map (\<lambda>s. s > cap) slots, lr_free = map (\<lambda>s. max (cap - s) 0) slots,
          lr_pct = (if available \<noteq> 0 then py_round (of_int (sum_list slots) / of_int available * 100) else 0)\<rparr>)"

definition load_totals :: "load_row list \<Rightarrow> nat \<Rightarrow> int list" where
  "load_totals rows days = fold (\<lambda>r totals. map (\<lambda>(a, b). a + b) (zip totals (lr_slots r))) rows (replicate days 0)"

definition build_board :: "task_meta list \<Rightarrow> person_record list \<Rightarrow> date \<Rightarrow> nat \<Rightarrow> board" where
  "build_board tasks people start days =
     (let index = day_index start days;
          rows = map (load_row_of (person_day_hours index tasks) days) people
      in \<lparr>bd_days = day_list start days, bd_schedule = sort_key schedule_key (map schedule_row_of tasks),
          bd_calendar = calendar_rows people (calendar_cells index tasks) days,
          bd_load_rows = rows, bd_totals = load_totals rows days\<rparr>)"

subsection \<open>What the cells hold\<close>

lemma day_list_nth [simp]: "j < days \<Longrightarrow> day_list start days ! j = start + int j"
  by (simp add: day_list_def)

lemma length_day_list [simp]: "length (day_list start days) = days"
  by (simp add: day_list_def)

lemma distinct_day_list: "distinct (day_list start days)"
  by (simp add: day_list_def distinct_map inj_on_def)

lemma day_index_get:
  "dict_get (day_index start days) d = Some j \<longleftrightarrow> j < days \<and> d = start + int j"
proof -
  have "distinct (map fst (zip (day_list start days) [0..<days]))" by (simp add: distinct_day_list)
  then have "distinct (map fst (rev (zip (day_list start days) [0..<days])))" by (simp add: rev_map [symmetric])
  then have "dict_get (day_index start days) d = Some j \<longleftrightarrow> (d, j) \<in> set (zip (day_list start days) [0..<days])"
    by (simp add: day_index_def dict_simps)
  also have "\<dots> \<longleftrightarrow> j < days \<and> d = start + int j" by (auto simp: in_set_zip intro!: exI [of _ j])
  finally show ?thesis .
qed

lemma day_index_None: "dict_get (day_index start days) d = None \<longleftrightarrow> \<not> (\<exists>j < days. d = start + int j)"
  using day_index_get [of start days d] by (cases "dict_get (day_index start days) d") auto

lemma count_used_get:
  assumes "j < days"
  shows "dict_get_default (count_used (day_index start days) a used) (pid, j) 0 =
    dict_get_default used (pid, j) 0 +
      (if (al_person_id a, al_day a) = (pid, start + int j) then al_hours a else 0)"
proof (cases "dict_get (day_index start days) (al_day a)")
  case None
  moreover from None assms have "al_day a \<noteq> start + int j" by (auto simp: day_index_None)
  ultimately show ?thesis by (simp add: count_used_def)
next
  case (Some k)
  then have "al_day a = start + int k" by (simp add: day_index_get)
  with Some show ?thesis by (auto simp: count_used_def dict_get_default_def dict_simps)
qed

lemma fold_count_used:
  assumes "j < days"
  shows "dict_get_default (fold (count_used (day_index start days)) als used) (pid, j) 0 =
    dict_get_default used (pid, j) 0 + booked als (pid, start + int j)"
proof (induction als arbitrary: used)
  case (Cons a als)
  then show ?case using count_used_get [OF assms, of start a used pid] by (simp add: booked_Cons)
qed simp

lemma load_summary_cell:
  assumes "p < length people" "j < days"
  shows "hm_matrix (load_summary people als start days) ! p ! j = booked als (p_id (people ! p), start + int j)"
  using assms fold_count_used [OF assms(2), of start als "[]"]
  by (simp add: load_summary_def dict_get_default_def)

lemma distinct_task_span: "distinct (task_span t)"
  by (auto simp: task_span_def Let_def distinct_map inj_on_def split: option.split)

lemma add_person_hours_get:
  assumes "j < days"
  shows "dict_get_default (add_person_hours (day_index start days) t d hours) (i, j) 0 =
    dict_get_default hours (i, j) 0 +
      (if tm_assignee_id t = Some i \<and> d = start + int j then per_day_hours t else 0)"
proof (cases "dict_get (day_index start days) d")
  case None
  moreover from None assms have "d \<noteq> start + int j" by (auto simp: day_index_None)
  ultimately show ?thesis by (simp add: add_person_hours_def)
next
  case (Some k)
  then have "d = start + int k" by (simp add: day_index_get)
  with Some show ?thesis
    by (cases "tm_assignee_id t") (auto simp: add_person_hours_def dict_get_default_def dict_simps)
qed

definition hours_on :: "uuid \<Rightarrow> date \<Rightarrow> task_meta \<Rightarrow> rat" where
  "hours_on i d t = (if tm_assignee_id t = Some i \<and> d \<in> set (task_span t) then per_day_hours t else 0)"

lemma fold_span_hours:
  assumes "j < days" "distinct ds"
  shows "dict_get_default (fold (add_person_hours (day_index start days) t) ds hours) (i, j) 0 =
    dict_get_default hours (i, j) 0 +
      (if tm_assignee_id t = Some i \<and> start + int j \<in> set ds then per_day_hours t else 0)"
  using assms(2)
proof (induction ds arbitrary: hours)
  case (Cons d ds)
  then show ?case using add_person_hours_get [OF assms(1), of start t d hours i] by auto
qed simp

lemma person_day_hours_get:
  assumes "j < days"
  shows "dict_get_default (person_day_hours (day_index start days) tasks) (i, j) 0 =
    sum_list (map (hours_on i (start + int j)) tasks)"
proof -
  have "dict_get_default (fold (\<lambda>t. fold (add_person_hours (day_index start days) t) (task_span t)) tasks hours) (i, j) 0 =
      dict_get_default hours (i, j) 0 + sum_list (map (hours_on i (start + int j)) tasks)" for hours
    by (induction tasks arbitrary: hours)
      (simp_all add: fold_span_hours [OF assms distinct_task_span] hours_on_def)
  from this [of "[]"] show ?thesis by (simp add: person_day_hours_def dict_get_default_def)
qed

lemma fold_totals:
  assumes "\<forall>r \<in> set rows. length (lr_slots r) = days" "length totals = days" "j < days"
  shows "fold (\<lambda>r totals. map (\<lambda>(a, b). a + b) (zip totals (lr_slots r))) rows totals ! j =
    totals ! j + sum_list (map (\<lambda>r. lr_slots r ! j) rows)"
  using assms by (induction rows arbitrary: totals) auto

lemma hours_to_slots_bounds: "0 \<le> hours_to_slots h \<and> (0 \<le> h \<longrightarrow> h \<le> of_int (hours_to_slots h) * 4 \<and>
    of_int (hours_to_slots h) * 4 < h + 4)"
  by (auto simp: hours_to_slots_def) (use ceiling_correct [of "h / 4"] in linarith)+

lemma board_slots:
  assumes "p < length people" "j < days"
  shows "lr_slots (bd_load_rows (build_board tasks people start days) ! p) ! j =
    hours_to_slots (sum_list (map (hours_on (pp_id (people ! p)) (start + int j)) tasks))"
  using assms by (simp add: build_board_def Let_def load_row_of_def person_day_hours_get)

lemma board_totals:
  assumes "j < days"
  shows "bd_totals (build_board tasks people start days) ! j =
    sum_list (map (\<lambda>p. hours_to_slots (sum_list (map (hours_on (pp_id p) (start + int j)) tasks))) people)"
proof -
  have "bd_totals (build_board tasks people start days) ! j =
      sum_list (map (\<lambda>r. lr_slots r ! j)
        (map (load_row_of (person_day_hours (day_index start days) tasks) days) people))"
    unfolding build_board_def load_totals_def Let_def board.simps
    by (subst fold_totals [where days = days]) (use assms in \<open>auto simp: load_row_of_def Let_def\<close>)
  then show ?thesis using assms by (simp add: load_row_of_def Let_def comp_def person_day_hours_get)
qed

text \<open>The committed load of a person is what all committed plans book for them.\<close>

lemma fold_person_hours:
  "dict_get_default (fold (\<lambda>al d. dict_set (al_person_id al) (dict_get_default d (al_person_id al) 0 + al_hours al) d) als load) pid 0 =
    dict_get_default load pid 0 + sum_list (map al_hours (filter (\<lambda>al. al_person_id al = pid) als))"
  by (induction als arbitrary: load) (simp_all add: dict_get_default_def dict_simps)

lemma committed_load_get:
  assumes "fold_res add_load payloads load = Inr load'" "map_res deserialize_allocations payloads = Inr alss"
  shows "dict_get_default load' pid 0 =
    dict_get_default load pid 0 + sum_list (map al_hours (filter (\<lambda>al. al_person_id al = pid) (concat alss)))"
  using assms
proof (induction payloads arbitrary: load alss)
  case (Cons p payloads)
  from Cons.prems(2) obtain als rest where als: "deserialize_allocations p = Inr als"
    "map_res deserialize_allocations payloads = Inr rest" "alss = als # rest" by (auto simp: res_simps)
  have step: "add_load p load = Inr (fold (\<lambda>al d. dict_set (al_person_id al)
      (dict_get_default d (al_person_id al) 0 + al_hours al) d) als load)"
    by (simp add: add_load_def als(1))
  from Cons.prems(1) have "fold_res add_load payloads (fold (\<lambda>al d. dict_set (al_person_id al)
      (dict_get_default d (al_person_id al) 0 + al_hours al) d) als load) = Inr load'"
    by (simp add: step)
  from Cons.IH [OF this als(2)] als(3) show ?case by (simp add: fold_person_hours)
qed simp

lemma suggest_use_case_run:
  assumes "map_res deserialize_allocations (map pv_payload (committed_rows (w_db w))) = Inr alss"
  shows "\<exists>load caps. suggest_use_case req ext limit restrict w =
      (Inr (suggest_assignees req (map (candidate_of load) caps) ext limit restrict), w) \<and>
    get_person_capabilities w = (Inr caps, w) \<and>
    (\<forall>pid. dict_get_default load pid 0 = sum_list (map al_hours (filter (\<lambda>al. al_person_id al = pid) (concat alss))))"
proof -
  let ?ps = "map pv_payload (committed_rows (w_db w))"
  have "\<exists>load. fold_res add_load ?ps [] = Inr load \<and> True"
  proof (rule fold_res_total)
    fix x u assume "x \<in> set ?ps"
    with assms obtain als where "deserialize_allocations x = Inr als"
      by (auto simp: map_res_Inr dest!: list_all2_left)
    then show "\<exists>v. add_load x u = Inr v \<and> True" by (simp add: add_load_def)
  qed simp
  then obtain load where load: "fold_res add_load ?ps [] = Inr load" by blast
  have "dict_get_default load pid 0 = sum_list (map al_hours (filter (\<lambda>al. al_person_id al = pid) (concat alss)))" for pid
    using committed_load_get [OF load assms, of pid] by (simp add: dict_get_default_def)
  with load show ?thesis
    by (auto simp: suggest_use_case_def bind_proc_def get_person_capabilities_def query_def committed_load_def
        list_committed_plans_def lift_res_def ret_def)
qed

end
