(* ===== verification/Chat_Memory.thy ===== *)
theory Chat_Memory
  imports Py_Text
begin

section \<open>The memory of the bot: recent messages and armed voices\<close>

text \<open>
  \<open>infra/history.py\<close> and \<open>infra/voice_arm.py\<close>: what the process remembers of a chat. Readings of
  \<open>datetime.now\<close> are arguments, in microseconds.
\<close>

subsection \<open>ChatHistory\<close>

record chat_history =
  ch_max_turns :: nat
  ch_by_chat :: "(int, ustr list) dict"

text \<open>A \<open>deque(maxlen=n)\<close> drops entries from its left end.\<close>

definition deque_append :: "nat \<Rightarrow> 'a list \<Rightarrow> 'a \<Rightarrow> 'a list" where
  "deque_append n buf x = drop (Suc (length buf) - n) (buf @ [x])"

definition record_message :: "int \<Rightarrow> ustr \<Rightarrow> chat_history \<Rightarrow> chat_history" where
  "record_message chat_id text h =
     (let stripped = strip text in
      if stripped = [] then h
      else h\<lparr>ch_by_chat := dict_set chat_id
             (deque_append (ch_max_turns h) (dict_get_default (ch_by_chat h) chat_id []) stripped) (ch_by_chat h)\<rparr>)"

definition recent_messages :: "int \<Rightarrow> chat_history \<Rightarrow> ustr list" where
  "recent_messages chat_id h = dict_get_default (ch_by_chat h) chat_id []"

lemma recent_record:
  "recent_messages c (record_message chat_id text h) =
    (if c = chat_id \<and> strip text \<noteq> []
     then deque_append (ch_max_turns h) (recent_messages c h) (strip text) else recent_messages c h)"
  by (auto simp: recent_messages_def record_message_def Let_def dict_get_default_def dict_simps)

lemma record_max [simp]: "ch_max_turns (record_message c t h) = ch_max_turns h"
  by (simp add: record_message_def Let_def)

definition last_n :: "nat \<Rightarrow> 'a list \<Rightarrow> 'a list" where
  "last_n n xs = drop (length xs - n) xs"

lemma last_n_append: "deque_append n (last_n n xs) x = last_n n (xs @ [x])"
  by (cases "length xs \<le> n") (auto simp: deque_append_def last_n_def Suc_diff_le)

lemma recent_window:
  "recent_messages c (fold (\<lambda>(chat, text). record_message chat text) msgs
      \<lparr>ch_max_turns = n, ch_by_chat = []\<rparr>) =
    last_n n (filter (\<lambda>s. s \<noteq> []) (map (strip \<circ> snd) (filter (\<lambda>m. fst m = c) msgs)))"
proof -
  define h0 where "h0 = \<lparr>ch_max_turns = n, ch_by_chat = [] :: (int, ustr list) dict\<rparr>"
  let ?run = "\<lambda>ms. fold (\<lambda>(chat, text). record_message chat text) ms h0"
  let ?texts = "\<lambda>ms. filter (\<lambda>s. s \<noteq> []) (map (strip \<circ> snd) (filter (\<lambda>m. fst m = c) ms))"
  have "ch_max_turns (?run ms) = n \<and> recent_messages c (?run ms) = last_n n (?texts ms)" for ms
  proof (induction ms rule: rev_induct)
    case Nil
    show ?case by (simp add: h0_def recent_messages_def dict_get_default_def last_n_def)
  next
    case (snoc m ms)
    then show ?case by (cases m) (auto simp: recent_record last_n_append)
  qed
  then show ?thesis by (simp add: h0_def)
qed

subsection \<open>VoiceArm\<close>

definition VOICE_WINDOW :: int where
  "VOICE_WINDOW = 120000000"

type_synonym voice_arm = "(int \<times> int, int) dict"

definition arm :: "int \<Rightarrow> int \<Rightarrow> int \<Rightarrow> voice_arm \<Rightarrow> voice_arm" where
  "arm chat_id user_id now armed = dict_set (chat_id, user_id) now armed"

definition is_armed :: "int \<Rightarrow> int \<Rightarrow> int \<Rightarrow> voice_arm \<Rightarrow> bool" where
  "is_armed chat_id user_id now armed =
     (case dict_get armed (chat_id, user_id) of None \<Rightarrow> False | Some ts \<Rightarrow> now - ts \<le> VOICE_WINDOW)"

lemma armed_after_arm:
  "is_armed c u now (arm chat_id user_id t armed) \<longleftrightarrow>
    (if (c, u) = (chat_id, user_id) then now - t \<le> VOICE_WINDOW else is_armed c u now armed)"
  by (auto simp: is_armed_def arm_def dict_simps)

end
