(* ===== verification/Bot_Base.thy ===== *)
theory Bot_Base
  imports Add_Project Load_Views Chat_Memory
begin

section \<open>Handlers: replies, conversation state, procedures of the bot\<close>

text \<open>
  What every handler of \<open>bot/\<close> works on: the world of the use cases, the messages it sends and the
  conversation state of the chat. aiogram keeps that state behind \<open>FSMContext\<close>; it is the parameter
  \<open>fsm_port\<close>, with its documented behaviour as the locale \<open>fsm_context\<close>. Sending is an entry in the
  list of replies; a failing Telegram call is not modelled.
\<close>

subsection \<open>Replies\<close>

datatype button = Button ustr ustr

datatype reply =
    Answer ustr
  | AnswerButtons ustr "button list list"
  | AnswerPhoto heatmap ustr
  | CallbackAnswer "ustr option" bool
  | RetireKeyboard
  | DeleteAck

subsection \<open>FSMContext\<close>

text \<open>
  The arguments of a capture that waits for its key fields (\<open>ToolBox.pending_capture\<close>); a missing
  title is the missing key of an empty dictionary, and the estimate is the raw value of the model. The values a conversation stores are such
  arguments, texts and lists of texts.
\<close>

record capture_args =
  ca_title :: "ustr option"
  ca_assignees :: "ustr list"
  ca_project :: ustr
  ca_deadline :: "ustr option"
  ca_est_hours :: json
  ca_required_skills :: "ustr list"

datatype fsm_value = FText ustr | FTexts "ustr list" | FArgs capture_args

text \<open>\<open>get_state\<close>, \<open>get_data\<close>, \<open>set_state\<close>, \<open>update_data(key=value)\<close> and \<open>clear\<close>.\<close>

record 's fsm_port =
  fp_state :: "'s \<Rightarrow> ustr option"
  fp_data :: "'s \<Rightarrow> ustr \<Rightarrow> fsm_value option"
  fp_set_state :: "ustr option \<Rightarrow> 's \<Rightarrow> 's"
  fp_update_data :: "ustr \<Rightarrow> fsm_value \<Rightarrow> 's \<Rightarrow> 's"
  fp_clear :: "'s \<Rightarrow> 's"

locale fsm_context =
  fixes fsm :: "'s fsm_port"
  assumes state_set [simp]: "fp_state fsm (fp_set_state fsm st s) = st"
    and data_set [simp]: "fp_data fsm (fp_set_state fsm st s) = fp_data fsm s"
    and state_update [simp]: "fp_state fsm (fp_update_data fsm k v s) = fp_state fsm s"
    and data_update [simp]: "fp_data fsm (fp_update_data fsm k v s) = (fp_data fsm s)(k \<mapsto> v)"
    and state_clear [simp]: "fp_state fsm (fp_clear fsm s) = None"
    and data_clear [simp]: "fp_data fsm (fp_clear fsm s) = (\<lambda>k. None)"

text \<open>The in-memory storage the bot runs with keeps a state and a dictionary.\<close>

type_synonym memory_fsm = "ustr option \<times> (ustr, fsm_value) dict"

definition memory_storage :: "memory_fsm fsm_port" where
  "memory_storage =
     \<lparr>fp_state = fst, fp_data = (\<lambda>s. dict_get (snd s)), fp_set_state = (\<lambda>st s. (st, snd s)),
      fp_update_data = (\<lambda>k v s. (fst s, dict_set k v (snd s))), fp_clear = (\<lambda>s. (None, []))\<rparr>"

interpretation memory: fsm_context memory_storage
  by unfold_locales (simp_all add: memory_storage_def dict_get_set_fun fun_eq_iff)

subsection \<open>Procedures of a handler\<close>

record 's bot_state =
  bs_world :: world
  bs_fsm :: 's
  bs_replies :: "reply list"
  bs_history :: chat_history
  bs_voice :: voice_arm

type_synonym ('s, 'a) bot = "'s bot_state \<Rightarrow> 'a res \<times> 's bot_state"

definition bret :: "'a \<Rightarrow> ('s, 'a) bot" where
  "bret x b = (Inr x, b)"

definition braise :: "exn \<Rightarrow> ('s, 'a) bot" where
  "braise e b = (Inl e, b)"

definition bbind :: "('s, 'a) bot \<Rightarrow> ('a \<Rightarrow> ('s, 'b) bot) \<Rightarrow> ('s, 'b) bot" where
  "bbind m f b = (case m b of (Inl e, b') \<Rightarrow> (Inl e, b') | (Inr x, b') \<Rightarrow> f x b')"

definition bcatch :: "('s, 'a) bot \<Rightarrow> (exn \<Rightarrow> ('s, 'a) bot) \<Rightarrow> ('s, 'a) bot" where
  "bcatch m h b = (case m b of (Inl e, b') \<Rightarrow> h e b' | (Inr x, b') \<Rightarrow> (Inr x, b'))"

definition run_use_case :: "'a proc \<Rightarrow> ('s, 'a) bot" where
  "run_use_case m b = (case m (bs_world b) of (r, w) \<Rightarrow> (r, b\<lparr>bs_world := w\<rparr>))"

definition send :: "reply \<Rightarrow> ('s, unit) bot" where
  "send r b = (Inr (), b\<lparr>bs_replies := bs_replies b @ [r]\<rparr>)"

definition on_fsm :: "('s \<Rightarrow> 's) \<Rightarrow> ('s, unit) bot" where
  "on_fsm f b = (Inr (), b\<lparr>bs_fsm := f (bs_fsm b)\<rparr>)"

definition get_fsm :: "('s \<Rightarrow> 'a) \<Rightarrow> ('s, 'a) bot" where
  "get_fsm f b = (Inr (f (bs_fsm b)), b)"

definition on_history :: "(chat_history \<Rightarrow> chat_history) \<Rightarrow> ('s, unit) bot" where
  "on_history f b = (Inr (), b\<lparr>bs_history := f (bs_history b)\<rparr>)"

definition on_voice :: "(voice_arm \<Rightarrow> voice_arm) \<Rightarrow> ('s, unit) bot" where
  "on_voice f b = (Inr (), b\<lparr>bs_voice := f (bs_voice b)\<rparr>)"

definition get_bot :: "('s bot_state \<Rightarrow> 'a) \<Rightarrow> ('s, 'a) bot" where
  "get_bot f b = (Inr (f b), b)"

named_theorems bot_simps "running handlers"

lemma bot_runs [bot_simps]:
  "bret x b = (Inr x, b)" "braise e b = (Inl e, b)"
  "send r b = (Inr (), b\<lparr>bs_replies := bs_replies b @ [r]\<rparr>)"
  "on_fsm f b = (Inr (), b\<lparr>bs_fsm := f (bs_fsm b)\<rparr>)" "get_fsm g b = (Inr (g (bs_fsm b)), b)"
  "on_history h b = (Inr (), b\<lparr>bs_history := h (bs_history b)\<rparr>)"
  "on_voice v b = (Inr (), b\<lparr>bs_voice := v (bs_voice b)\<rparr>)" "get_bot k b = (Inr (k b), b)"
  by (simp_all add: bret_def braise_def send_def on_fsm_def get_fsm_def on_history_def on_voice_def get_bot_def)

lemma bbind_run [bot_simps]: "m b = (Inr x, b') \<Longrightarrow> bbind m f b = f x b'"
  by (simp add: bbind_def)

lemma bbind_error [bot_simps]: "m b = (Inl e, b') \<Longrightarrow> bbind m f b = (Inl e, b')"
  by (simp add: bbind_def)

lemma bcatch_run [bot_simps]:
  "m b = (Inr x, b') \<Longrightarrow> bcatch m h b = (Inr x, b')" "m b = (Inl e, b') \<Longrightarrow> bcatch m h b = h e b'"
  by (simp_all add: bcatch_def)

lemma use_case_run [bot_simps]: "m (bs_world b) = (r, w) \<Longrightarrow> run_use_case m b = (r, b\<lparr>bs_world := w\<rparr>)"
  by (simp add: run_use_case_def)

subsection \<open>Handlers that keep the database\<close>

text \<open>\<open>bkeeps P m\<close>: \<open>m\<close> keeps a property of the database, however it ends.\<close>

definition bkeeps :: "(db \<Rightarrow> bool) \<Rightarrow> ('s, 'a) bot \<Rightarrow> bool" where
  "bkeeps P m \<longleftrightarrow> (\<forall>b. P (w_db (bs_world b)) \<longrightarrow> P (w_db (bs_world (snd (m b)))))"

lemma bkeepsD: "bkeeps P m \<Longrightarrow> P (w_db (bs_world b)) \<Longrightarrow> m b = (r, b') \<Longrightarrow> P (w_db (bs_world b'))"
  by (metis bkeeps_def snd_conv)

lemma bkeeps_pure [keep_intros]:
  "bkeeps P (bret x)" "bkeeps P (braise e)" "bkeeps P (send r)" "bkeeps P (on_fsm f)" "bkeeps P (get_fsm g)"
  "bkeeps P (on_history h)" "bkeeps P (on_voice v)" "bkeeps P (get_bot k)"
  by (simp_all add: bkeeps_def bot_simps)

lemma bkeeps_bind [keep_intros]: "bkeeps P m \<Longrightarrow> (\<And>x. bkeeps P (f x)) \<Longrightarrow> bkeeps P (bbind m f)"
  unfolding bkeeps_def bbind_def by (fastforce split: prod.split sum.split)

lemma bkeeps_catch [keep_intros]: "bkeeps P m \<Longrightarrow> (\<And>e. bkeeps P (h e)) \<Longrightarrow> bkeeps P (bcatch m h)"
  unfolding bkeeps_def bcatch_def by (fastforce split: prod.split sum.split)

lemma bkeeps_use_case [keep_intros]: "keeps P m \<Longrightarrow> bkeeps P (run_use_case m)"
  unfolding bkeeps_def run_use_case_def keeps_def by (auto split: prod.split)

lemma bkeeps_if [keep_intros]: "(c \<Longrightarrow> bkeeps P m) \<Longrightarrow> (\<not> c \<Longrightarrow> bkeeps P n) \<Longrightarrow> bkeeps P (if c then m else n)"
  by simp

lemma bkeeps_option [keep_intros]:
  "bkeeps P m \<Longrightarrow> (\<And>x. bkeeps P (f x)) \<Longrightarrow> bkeeps P (case opt of None \<Rightarrow> m | Some x \<Rightarrow> f x)"
  by (simp split: option.split)

lemma bkeeps_pair [keep_intros]: "(\<And>x y. bkeeps P (f x y)) \<Longrightarrow> bkeeps P (case z of (x, y) \<Rightarrow> f x y)"
  by (cases z) simp

end
