(* ===== verification/Plan_Texts.thy ===== *)
theory Plan_Texts
  imports Bot_Base Plan_Diff
begin

section \<open>Texts of plans\<close>

text \<open>
  \<open>bot/replies/plan_explainer.py\<close> and \<open>app/explain_plan.py\<close>: the lines of a plan summary, and the
  optional rephrasing by a language model, a parameter that answers a text or raises. The Russian
  literals are given by code points.
\<close>

definition lines_text :: "ustr list \<Rightarrow> ustr" where
  "lines_text ls = join [10] ls"

text \<open>\<open>d.strftime("%d.%m")\<close>.\<close>

definition fmt_day :: "date \<Rightarrow> ustr" where
  "fmt_day d = (case ymd d of (y, m, k) \<Rightarrow> zfill 2 (nat_dec (nat k)) @ [46] @ zfill 2 (nat_dec (nat m)))"

definition explainer_name :: "(uuid, ustr) dict \<Rightarrow> uuid \<Rightarrow> ustr \<Rightarrow> ustr" where
  "explainer_name name_map key fallback = dict_get_default name_map key fallback"

definition LEVERS :: ustr where
  "LEVERS =
     [1056, 1099, 1095, 1072, 1075, 1080, 58, 32, 1089, 1086, 1082, 1088, 1072, 1090, 1080, 1090, 1100,
      32, 1086, 1073, 1098, 1105, 1084, 32, 40, 108, 105, 116, 101, 41, 32, 124, 32, 1076, 1086,
      1073, 1072, 1074, 1080, 1090, 1100, 32, 1080, 1089, 1087, 1086, 1083, 1085, 1080, 1090, 1077,
      1083, 1103, 32, 124, 32, 1087, 1077, 1088, 1077, 1085, 1077, 1089, 1090, 1080, 32, 1076, 1077,
      1076, 1083, 1072, 1081, 1085, 32, 8212, 32, 1085, 1072, 1087, 1080, 1096, 1080, 1090, 1077,
      44, 32, 1082, 1072, 1082, 1086, 1081, 32, 1087, 1088, 1080, 1084, 1077, 1085, 1080, 1090,
      1100, 46]"

definition assignment_line :: "(uuid, ustr) dict \<Rightarrow> (uuid, ustr) dict \<Rightarrow> assignment \<Rightarrow> ustr" where
  "assignment_line task_names person_names a =
     [8226, 32] @ explainer_name task_names (a_task_id a) [1079, 1072, 1076, 1072, 1095, 1072] @
     [32, 8594, 32] @ explainer_name person_names (a_person_id a) DASH @ [32, 40] @
     (if a_start_date a = a_end_date a then fmt_day (a_start_date a)
      else fmt_day (a_start_date a) @ [8211] @ fmt_day (a_end_date a)) @ [41]"

text \<open>One risk, as both explainers print it.\<close>

definition risk_line :: "(uuid, ustr) dict \<Rightarrow> risk_flag \<Rightarrow> ustr" where
  "risk_line person_names r =
     [32, 32, 8211, 32] @
     (case r_person_id r of None \<Rightarrow> DASH | Some p \<Rightarrow> explainer_name person_names p DASH) @
     (case r_day r of None \<Rightarrow> [] | Some d \<Rightarrow> [32] @ fmt_day d) @ [58, 32] @ r_message r"

definition deadline_was_missed :: "plan_result \<Rightarrow> date \<Rightarrow> bool" where
  "deadline_was_missed pl deadline \<longleftrightarrow>
     filter (\<lambda>r. r_kind r = ascii ''deadline_missed'') (pl_risks pl) \<noteq> [] \<or>
     (case pl_end_date pl of None \<Rightarrow> False | Some e \<Rightarrow> e > deadline)"

definition tight_line :: "date \<Rightarrow> date option \<Rightarrow> ustr" where
  "tight_line deadline earliest_end =
     [9888, 32, 1044, 1077, 1076, 1083, 1072, 1081, 1085, 32] @ fmt_day deadline @ [32, 1078, 1105, 1089, 1090, 1082, 1080, 1081, 44, 32, 1087, 1083, 1072, 1085, 32, 1087, 1083, 1086,
      1090, 1085, 1099, 1081] @
     (case earliest_end of None \<Rightarrow> []
      | Some e \<Rightarrow> [32, 40, 1087, 1086, 32, 1096, 1072, 1073, 1083, 1086, 1085, 1091, 32, 1088, 1072, 1085, 1085, 1103,
      1103, 32, 1076, 1072, 1090, 1072, 32] @ fmt_day e @ [41]) @ [46]"

definition reachable_line :: "date \<Rightarrow> ustr" where
  "reachable_line deadline = [9989, 32, 1044, 1077, 1076, 1083, 1072, 1081, 1085, 32] @ fmt_day deadline @ [32, 1076, 1086, 1089, 1090, 1080, 1078, 1080, 1084, 46]"

definition plan_lines :: "plan_result \<Rightarrow> (uuid, ustr) dict \<Rightarrow> (uuid, ustr) dict \<Rightarrow> ustr list" where
  "plan_lines pl task_names person_names =
     (if pl_assignments pl = [] then [[1055, 1083, 1072, 1085, 32, 1087, 1091, 1089, 1090, 58, 32, 1079, 1072, 1076, 1072, 1095, 32, 1085,
      1077, 1090, 46]]
      else ([1055, 1083, 1072, 1085, 58, 32] @ nat_dec (length (pl_assignments pl)) @ [32, 1079, 1072, 1076, 1072, 1095, 40, 1080, 41, 46]) #
           map (assignment_line task_names person_names) (pl_assignments pl))"

definition overload_lines :: "plan_result \<Rightarrow> (uuid, ustr) dict \<Rightarrow> ustr list" where
  "overload_lines pl person_names =
     (if plan_overloads pl = [] then []
      else ([9888, 32, 1055, 1077, 1088, 1077, 1075, 1088, 1091, 1079, 1099, 58, 32] @ nat_dec (length (plan_overloads pl)) @ [46]) #
           map (risk_line person_names) (plan_overloads pl))"

definition verdict_lines :: "plan_result \<Rightarrow> date option \<Rightarrow> date option \<Rightarrow> ustr list" where
  "verdict_lines pl deadline earliest_end =
     (case deadline of
        Some d \<Rightarrow> [if deadline_was_missed pl d then tight_line d earliest_end else reachable_line d]
      | None \<Rightarrow>
          (if plan_overloads pl \<noteq> [] then [LEVERS] else []) @
          (case (earliest_end, pl_end_date pl) of
             (Some e, _) \<Rightarrow> [[1057, 1072, 1084, 1072, 1103, 32, 1088, 1072, 1085, 1085, 1103, 1103, 32, 1076, 1072, 1090, 1072,
      32, 1079, 1072, 1074, 1077, 1088, 1096, 1077, 1085, 1080, 1103, 58, 32] @ fmt_day e @ [46]]
           | (None, Some e) \<Rightarrow> [[1047, 1072, 1074, 1077, 1088, 1096, 1077, 1085, 1080, 1077, 58, 32] @ fmt_day e @ [46]]
           | (None, None) \<Rightarrow> []))"

definition explain_plan ::
  "plan_result \<Rightarrow> (uuid, ustr) dict \<Rightarrow> (uuid, ustr) dict \<Rightarrow> date option \<Rightarrow> date option \<Rightarrow> ustr" where
  "explain_plan pl task_names person_names deadline earliest_end =
     lines_text (plan_lines pl task_names person_names @ overload_lines pl person_names @
                 verdict_lines pl deadline earliest_end)"

definition diff_risk_lines :: "ustr \<Rightarrow> (uuid, ustr) dict \<Rightarrow> risk_flag list \<Rightarrow> ustr list" where
  "diff_risk_lines label person_names risks =
     (if risks = [] then []
      else (label @ [58, 32] @ nat_dec (length risks) @ [46]) # map (risk_line person_names) risks)"

definition explain_diff :: "plan_diff \<Rightarrow> (uuid, ustr) dict \<Rightarrow> (uuid, ustr) dict \<Rightarrow> ustr" where
  "explain_diff df task_names person_names =
     lines_text
       ((if pd_moved_tasks df = [] then [[1057, 1076, 1074, 1080, 1075, 1086, 1074, 32, 1079, 1072, 1076, 1072, 1095, 32, 1085, 1077, 1090,
      46]]
         else [[1057, 1076, 1074, 1080, 1085, 1077, 1090, 1089, 1103, 32, 1079, 1072, 1076, 1072, 1095, 58, 32] @ nat_dec (length (pd_moved_tasks df)) @ [32, 40] @
               join (ascii '', '') (map (\<lambda>t. explainer_name task_names t [1079, 1072, 1076, 1072, 1095, 1072]) (pd_moved_tasks df)) @ [41, 46]]) @
        diff_risk_lines [1053, 1086, 1074, 1099, 1077, 32, 1087, 1077, 1088, 1077, 1075, 1088, 1091, 1079, 1099] person_names (pd_new_overloads df) @
        diff_risk_lines [1059, 1081, 1076, 1091, 1090, 32, 1087, 1077, 1088, 1077, 1075, 1088, 1091, 1079, 1099] person_names (pd_removed_overloads df))"

subsection \<open>ExplainPlanUseCase\<close>

definition explain_use_case ::
  "(ustr \<Rightarrow> ustr res) option \<Rightarrow> plan_result \<Rightarrow> (uuid, ustr) dict \<Rightarrow> (uuid, ustr) dict \<Rightarrow> date option
    \<Rightarrow> date option \<Rightarrow> ustr" where
  "explain_use_case llm pl task_names person_names deadline earliest_end =
     (let summary = explain_plan pl task_names person_names deadline earliest_end in
      case llm of
        None \<Rightarrow> summary
      | Some f \<Rightarrow> (case f summary of
                    Inl exc \<Rightarrow> summary
                  | Inr enriched \<Rightarrow> if strip enriched = [] then summary else strip enriched))"

subsection \<open>What a summary says\<close>

text \<open>The structure of a joined text can be read back as long as no line holds a line break.\<close>

fun text_lines :: "ustr \<Rightarrow> ustr list" where
  "text_lines s = split_char 10 s"

lemma split_char_nonempty [simp]: "split_char c s \<noteq> []"
  by (induction s) (auto split: list.split)

lemma split_char_none: "c \<notin> set s \<Longrightarrow> split_char c s = [s]"
  by (induction s) auto

lemma split_char_append: "c \<notin> set s \<Longrightarrow> split_char c (s @ c # t) = s # split_char c t"
  by (induction s) auto

lemma text_lines_join:
  "ls \<noteq> [] \<Longrightarrow> \<forall>l \<in> set ls. 10 \<notin> set l \<Longrightarrow> text_lines (lines_text ls) = ls"
  unfolding lines_text_def
  by (induction "[10] :: ustr" ls rule: join.induct) (auto simp: split_char_none split_char_append)

lemma explain_use_case_text: "explain_plan pl tn pn dl e \<noteq> [] \<Longrightarrow> explain_use_case llm pl tn pn dl e \<noteq> []"
  by (auto simp: explain_use_case_def Let_def split: option.split sum.split)

lemma lines_text_nonempty: "l \<noteq> [] \<Longrightarrow> lines_text (l # ls) \<noteq> []"
  by (cases ls) (simp_all add: lines_text_def)

lemma explain_plan_nonempty: "explain_plan pl tn pn dl e \<noteq> []"
  unfolding explain_plan_def plan_lines_def by (cases "pl_assignments pl = []") (auto intro!: lines_text_nonempty)

end
