(* ===== verification/Middlewares.thy ===== *)
theory Middlewares
  imports Bot_Base
begin

section \<open>Middlewares\<close>

text \<open>
  \<open>bot/middlewares/\<close> (throttle, actor resolution, error boundary) and \<open>app/errors.py\<close>. Readings of
  \<open>time.monotonic\<close> are arguments, seconds as rationals.
\<close>

subsection \<open>ThrottleMiddleware\<close>

record throttle =
  th_min :: rat
  th_last_seen :: "(int, rat) dict"

text \<open>One event at time \<open>now\<close>: whether the handler runs.\<close>

definition throttle_call :: "int option \<Rightarrow> rat \<Rightarrow> throttle \<Rightarrow> bool \<times> throttle" where
  "throttle_call tg_id now th =
     (case tg_id of
        None \<Rightarrow> (True, th)
      | Some u \<Rightarrow>
          (case dict_get (th_last_seen th) u of
             Some seen \<Rightarrow> if now - seen < th_min th then (False, th)
                          else (True, th\<lparr>th_last_seen := dict_set u now (th_last_seen th)\<rparr>)
           | None \<Rightarrow> (True, th\<lparr>th_last_seen := dict_set u now (th_last_seen th)\<rparr>)))"

fun throttle_run :: "(int option \<times> rat) list \<Rightarrow> throttle \<Rightarrow> bool list \<times> throttle" where
  "throttle_run [] th = ([], th)"
| "throttle_run ((u, now) # evs) th =
     (let (ok, th1) = throttle_call u now th; (oks, th2) = throttle_run evs th1 in (ok # oks, th2))"

definition accepted_times :: "int \<Rightarrow> (int option \<times> rat) list \<Rightarrow> throttle \<Rightarrow> rat list" where
  "accepted_times u evs th =
     map (snd \<circ> fst) (filter (\<lambda>(ev, ok). ok \<and> fst ev = Some u) (zip evs (fst (throttle_run evs th))))"

lemma throttle_min [simp]: "th_min (snd (throttle_call u now th)) = th_min th"
  by (auto simp: throttle_call_def split: option.split)

lemma throttle_other: "v \<noteq> Some u \<Longrightarrow> dict_get (th_last_seen (snd (throttle_call v now th))) u = dict_get (th_last_seen th) u"
  by (auto simp: throttle_call_def dict_simps split: option.split)

lemma throttle_accepted:
  assumes "0 \<le> th_min th"
  shows "sorted_wrt (\<lambda>s t. th_min th \<le> t - s) (accepted_times u evs th) \<and>
    (\<forall>seen t. dict_get (th_last_seen th) u = Some seen \<longrightarrow> t \<in> set (accepted_times u evs th) \<longrightarrow> th_min th \<le> t - seen)"
  using assms
proof (induction evs arbitrary: th)
  case (Cons ev evs)
  obtain v now where ev: "ev = (v, now)" by fastforce
  obtain ok th1 where call: "throttle_call v now th = (ok, th1)" by fastforce
  then have min1: "th_min th1 = th_min th" by (metis snd_conv throttle_min)
  have times: "accepted_times u (ev # evs) th = (if ok \<and> v = Some u then now # accepted_times u evs th1 else accepted_times u evs th1)"
    by (simp add: accepted_times_def ev call case_prod_beta)
  note IH = Cons.IH [of th1, unfolded min1, OF Cons.prems]
  show ?case
  proof (cases "v = Some u")
    case False
    with call throttle_other [of v u now th] IH show ?thesis by (simp add: times)
  next
    case True
    show ?thesis
    proof (cases ok)
      case False
      with call True have "th1 = th" by (auto simp: throttle_call_def split: option.splits if_splits)
      with IH False show ?thesis by (simp add: times)
    next
      case ok: True
      with call True have last: "dict_get (th_last_seen th1) u = Some now"
        and fit: "\<forall>seen. dict_get (th_last_seen th) u = Some seen \<longrightarrow> th_min th \<le> now - seen"
        by (auto simp: throttle_call_def dict_simps split: option.splits if_splits)
      from IH last have later: "\<forall>t \<in> set (accepted_times u evs th1). th_min th \<le> t - now" by blast
      have "th_min th \<le> t - last'" if "dict_get (th_last_seen th) u = Some last'" "t \<in> set (accepted_times u evs th1)" for t last'
        using fit later that Cons.prems by fastforce
      with IH later fit ok True show ?thesis by (auto simp: times)
    qed
  qed
qed (simp add: accepted_times_def)

subsection \<open>ActorMiddleware\<close>

record actor =
  ac_tg_user_id :: "int option"
  ac_is_admin :: bool
  ac_in_team_chat :: bool

definition resolve_actor ::
  "int list \<Rightarrow> bool \<Rightarrow> int option \<Rightarrow> int option \<Rightarrow> int option \<Rightarrow> (actor \<times> person_record option) proc" where
  "resolve_actor admin_ids has_repo team_chat_id tg_id chat_id =
     (let in_team_chat = (team_chat_id \<noteq> None \<and> chat_id = team_chat_id);
          listed = (case tg_id of None \<Rightarrow> False | Some u \<Rightarrow> u \<in> set admin_ids)
      in bind_proc (case tg_id of
                      Some u \<Rightarrow> if has_repo then get_person_by_tg_id u else ret None
                    | None \<Rightarrow> ret None) (\<lambda>found.
         ret (\<lparr>ac_tg_user_id = tg_id, ac_is_admin = listed \<or> found \<noteq> None \<or> in_team_chat,
               ac_in_team_chat = in_team_chat\<rparr>, found)))"

lemma resolve_actor_run:
  "resolve_actor admin_ids has_repo team_chat tg chat w =
    (Inr (\<lparr>ac_tg_user_id = tg,
       ac_is_admin = (\<exists>u. tg = Some u \<and> (u \<in> set admin_ids \<or> has_repo \<and> get_row pr_tg_user_id tg (db_people (w_db w)) \<noteq> None)) \<or>
         (team_chat \<noteq> None \<and> chat = team_chat),
       ac_in_team_chat = (team_chat \<noteq> None \<and> chat = team_chat)\<rparr>,
      if has_repo \<and> tg \<noteq> None then map_option person_record_of (get_row pr_tg_user_id tg (db_people (w_db w))) else None), w)"
  by (cases tg) (auto simp: resolve_actor_def bind_proc_def ret_def get_person_by_tg_id_def query_def Let_def)

subsection \<open>Error boundary\<close>

definition generic_error :: ustr where
  "generic_error =
     [1063, 1090, 1086, 45, 1090, 1086, 32, 1087, 1086, 1096, 1083, 1086, 32, 1085, 1077, 32, 1090, 1072,
      1082, 46, 32, 1055, 1086, 1087, 1088, 1086, 1073, 1091, 1081, 32, 1087, 1077, 1088, 1077,
      1092, 1086, 1088, 1084, 1091, 1083, 1080, 1088, 1086, 1074, 1072, 1090, 1100, 32, 1079, 1072,
      1087, 1088, 1086, 1089, 46]"

fun user_message :: "exn \<Rightarrow> ustr" where
  "user_message (PermissionError s) =
     [1058, 1086, 1083, 1100, 1082, 1086, 32, 1072, 1076, 1084, 1080, 1085, 32, 1084, 1086, 1078, 1077,
      1090, 32, 1087, 1088, 1072, 1074, 1080, 1090, 1100, 32, 1087, 1083, 1072, 1085, 46]"
| "user_message (PlanNotFoundError i) =
     [1053, 1077, 32, 1085, 1072, 1096, 1105, 1083, 32, 1090, 1072, 1082, 1086, 1081, 32, 1087, 1083,
      1072, 1085, 46]"
| "user_message (PlanNotProposedError s) =
     [1069, 1090, 1086, 1090, 32, 1087, 1083, 1072, 1085, 32, 1091, 1078, 1077, 32, 1079, 1072, 1092,
      1080, 1082, 1089, 1080, 1088, 1086, 1074, 1072, 1085, 46]"
| "user_message (PersonNotFoundError n) =
     [1053, 1077, 32, 1085, 1072, 1096, 1105, 1083, 32, 1090, 1072, 1082, 1086, 1075, 1086, 32, 1095,
      1077, 1083, 1086, 1074, 1077, 1082, 1072, 32, 1074, 32, 1082, 1086, 1084, 1072, 1085, 1076,
      1077, 46]"
| "user_message (InvalidVacationError s) = s"
| "user_message e = generic_error"

datatype telegram_event = MessageEvent | CallbackEvent | OtherEvent

definition error_boundary :: "telegram_event \<Rightarrow> ('s, 'a) bot \<Rightarrow> ('s, 'a option) bot" where
  "error_boundary event handler =
     bcatch (bbind handler (\<lambda>x. bret (Some x))) (\<lambda>exc.
       bbind (case event of
                MessageEvent \<Rightarrow> send (Answer (user_message exc))
              | CallbackEvent \<Rightarrow> send (CallbackAnswer (Some (user_message exc)) True)
              | OtherEvent \<Rightarrow> bret ()) (\<lambda>_. bret None))"

lemma error_boundary_total: "\<exists>x b'. error_boundary event handler b = (Inr x, b')"
proof (cases "handler b")
  case (Pair r b1)
  then show ?thesis
    by (cases r; cases event) (auto simp: error_boundary_def bcatch_def bbind_def bret_def send_def)
qed

end
