(* ===== verification/Bot_Replies.thy ===== *)
theory Bot_Replies
  imports Plan_Texts Middlewares
begin

section \<open>Replies of the task router\<close>

text \<open>
  The functions of \<open>bot/handlers/task_router.py\<close> that run a use case and word its outcome, and
  \<open>build_load_image\<close> of \<open>bot/handlers/load.py\<close>.
\<close>

definition quoted :: "ustr \<Rightarrow> ustr" where
  "quoted s = [171] @ s @ [187]"

subsection \<open>Keyboards and pending plans\<close>

definition plan_keyboard :: "uuid \<Rightarrow> button list list" where
  "plan_keyboard plan_id =
     [[Button [9989, 32, 1055, 1086, 1076, 1090, 1074, 1077, 1088, 1076, 1080, 1090, 1100] (ascii ''confirm:'' @ uuid_str plan_id),
       Button [9999, 65039, 32, 1055, 1088, 1072, 1074, 1082, 1072] (ascii ''edit:'' @ uuid_str plan_id)]]"

definition parse_pv_id :: "fsm_value option \<Rightarrow> uuid option" where
  "parse_pv_id raw =
     (case raw of
        Some (FText s) \<Rightarrow> if s = [] then None else (case uuid_parse s of Inl e \<Rightarrow> None | Inr i \<Rightarrow> Some i)
      | _ \<Rightarrow> None)"

lemma parse_pv_id_str [simp]: "parse_pv_id (Some (FText (uuid_str i))) = Some i"
  by (simp add: parse_pv_id_def)

subsection \<open>Adding a project\<close>

definition list_existing :: "day_allocation list proc" where
  "list_existing = bind_proc list_committed_plans (\<lambda>payloads.
     bind_proc (lift_res (map_res deserialize_allocations payloads)) (\<lambda>alss. ret (concat alss)))"

definition invalid_project_reply :: "exn \<Rightarrow> ustr option" where
  "invalid_project_reply e =
     (case e of InvalidProjectError msg \<Rightarrow> Some ([1053, 1077, 32, 1084, 1086, 1075, 1091, 32, 1089, 1086, 1079, 1076, 1072, 1090, 1100, 32, 1087,
      1088, 1086, 1077, 1082, 1090, 58, 32] @ msg) | _ \<Rightarrow> None)"

definition notion_url_of :: "ustr \<Rightarrow> ustr" where
  "notion_url_of page = ascii ''https://www.notion.so/'' @ filter (\<lambda>c. c \<noteq> 45) page"

definition project_text :: "(ustr \<Rightarrow> ustr res) option \<Rightarrow> person list \<Rightarrow> date option \<Rightarrow> add_project_result \<Rightarrow> ustr" where
  "project_text llm people deadline result =
     [1055, 1088, 1086, 1077, 1082, 1090, 32] @ quoted (jr_title (ax_project result)) @
     [32, 8212, 32, 1087, 1088, 1077, 1076, 1083, 1086, 1078, 1077, 1085, 1085, 1099, 1081, 32, 1087,
      1083, 1072, 1085, 58] @ [10] @
     explain_use_case llm (ax_plan result) (dict_of (map (\<lambda>t. (t_id t, t_name t)) (ax_tasks result)))
       (dict_of (map (\<lambda>p. (p_id p, p_name p)) people)) deadline (ax_earliest_end result)"

definition project_link :: "add_project_result \<Rightarrow> ustr list" where
  "project_link result =
     (case ax_notion_page_id result of None \<Rightarrow> [] | Some g \<Rightarrow> if g = [] then [] else [notion_url_of g])"

text \<open>Text, proposed plan version and the links for \<open>notion_links\<close>.\<close>

definition build_add_project_reply ::
  "add_project_intent \<Rightarrow> solver \<Rightarrow> person_record option \<Rightarrow> date \<Rightarrow> (ustr \<Rightarrow> ustr res) option
    \<Rightarrow> project_sink option \<Rightarrow> (ustr \<times> uuid option \<times> ustr list) proc" where
  "build_add_project_reply i slv actor_record today llm sink =
     bind_proc (get_project_template (template_code_str (ap_template_code i))) (\<lambda>found.
     case found of
       None \<Rightarrow> ret ([1064, 1072, 1073, 1083, 1086, 1085, 32] @ quoted (template_code_str (ap_template_code i)) @ [32, 1085, 1077, 32, 1085, 1072, 1081, 1076, 1077, 1085, 46], None, [])
     | Some template \<Rightarrow>
         bind_proc get_solver_people (\<lambda>people.
         if people = [] then ret
           ([1042, 32, 1082, 1086, 1084, 1072, 1085, 1076, 1077, 32, 1085, 1077, 1090, 32, 1072, 1082, 1090,
      1080, 1074, 1085, 1099, 1093, 32, 1083, 1102, 1076, 1077, 1081, 32, 8212, 32, 1085, 1077,
      1082, 1086, 1084, 1091, 32, 1087, 1083, 1072, 1085, 1080, 1088, 1086, 1074, 1072, 1090, 1100,
      46], None, [])
         else bind_proc list_existing (\<lambda>existing.
           catch
             (bind_proc (add_project slv sink i actor_record people template today existing []) (\<lambda>result.
              ret (project_text llm people (ap_deadline i) result @
                   concat (map (\<lambda>url. [10, 10] @ [128279, 32, 78, 111, 116, 105, 111, 110, 32, 40, 1087, 1088, 1086, 1077, 1082, 1090, 41, 58, 32] @ url) (project_link result)),
                   Some (ax_plan_version_id result), project_link result)))
             (\<lambda>e. case invalid_project_reply e of
                    Some msg \<Rightarrow> ret (msg, None, [])
                  | None \<Rightarrow> raise e))))"

subsection \<open>Reassigning a task\<close>

definition match_tasks :: "ustr \<Rightarrow> task_meta list \<Rightarrow> task_meta list" where
  "match_tasks task_ref tasks =
     (let ref = casefold (strip task_ref);
          exact = filter (\<lambda>t. casefold (tm_task_name t) = ref) tasks
      in if ref = [] then []
         else if exact \<noteq> [] then exact
         else filter (\<lambda>t. contains ref (casefold (tm_task_name t))) tasks)"

definition unknown_person :: "ustr \<Rightarrow> ustr" where
  "unknown_person name = [1053, 1077, 32, 1085, 1072, 1096, 1105, 1083, 32, 1095, 1077, 1083, 1086, 1074, 1077, 1082, 1072,
      32] @ quoted name @ [32, 8212, 32, 1091, 1090, 1086, 1095, 1085, 1080, 32, 1080, 1084, 1103, 46]"

definition ambiguous_task :: "task_meta list \<Rightarrow> ustr" where
  "ambiguous_task ts =
     [1053, 1072, 1096, 1105, 1083, 32, 1085, 1077, 1089, 1082, 1086, 1083, 1100, 1082, 1086, 32, 1079,
      1072, 1076, 1072, 1095, 32, 40] @ join (ascii '', '') (sort (remdups (map tm_task_name ts))) @
     [41, 32, 8212, 32, 1091, 1090, 1086, 1095, 1085, 1080, 44, 32, 1082, 1072, 1082, 1091, 1102, 32,
      1085, 1072, 1079, 1085, 1072, 1095, 1080, 1090, 1100, 46]"

definition build_assign_reply :: "assign_intent \<Rightarrow> uuid option \<Rightarrow> ustr proc" where
  "build_assign_reply i actor_id =
     bind_proc (get_person_by_name (as_person_name i)) (\<lambda>found.
     case found of
       None \<Rightarrow> ret (unknown_person (as_person_name i))
     | Some person \<Rightarrow>
         bind_proc list_tasks_with_meta (\<lambda>metas.
         case match_tasks (as_task_ref i) metas of
           [] \<Rightarrow> ret ([1053, 1077, 32, 1085, 1072, 1096, 1105, 1083, 32, 1079, 1072, 1076, 1072, 1095, 1091, 32] @ quoted (as_task_ref i) @
                     [32, 8212, 32, 1101, 1090, 1086, 32, 1085, 1077, 32, 1085, 1072, 1096, 1072, 32, 1079, 1072, 1076,
      1072, 1095, 1072, 63, 32, 1059, 1090, 1086, 1095, 1085, 1080, 32, 1085, 1072, 1079, 1074,
      1072, 1085, 1080, 1077, 46])
         | t1 # t2 # ts \<Rightarrow> ret (ambiguous_task (t1 # t2 # ts))
         | [t] \<Rightarrow>
             bind_proc (set_task_assignee (tm_task_id t) (pp_id person) 8) (\<lambda>done.
             if \<not> done
             then ret ([1053, 1077, 32, 1085, 1072, 1096, 1105, 1083, 32, 1079, 1072, 1076, 1072, 1095, 1091, 32] @ quoted (as_task_ref i) @ [32, 8212, 32, 1091, 1090, 1086, 1095, 1085, 1080, 32, 1085, 1072, 1079, 1074, 1072, 1085, 1080,
      1077, 46])
             else bind_proc (reassign_in_plan (tm_task_id t) (pp_id person)) (\<lambda>_.
                  bind_proc (add_audit actor_id (ascii ''reassign_task'') (ascii ''task'') (Some (tm_task_id t))
                    (Some (jobj [(''person_id'', JStr (uuid_str (pp_id person)))]))) (\<lambda>_.
                  ret ([1053, 1072, 1079, 1085, 1072, 1095, 1080, 1083, 32] @ quoted (tm_task_name t) @ [32, 1085, 1072, 32] @ pp_name person @ [46]))))))"

subsection \<open>Capturing a task\<close>

definition MAX_SUGGESTED :: nat where
  "MAX_SUGGESTED = 3"

definition suggestion_hint :: "capture_task_intent \<Rightarrow> ustr option proc" where
  "suggestion_hint i =
     (if ct_assignee_names i \<noteq> [] \<or> ct_required_skills i = [] then ret None
      else bind_proc (suggest_use_case (ct_required_skills i) False (Some DEFAULT_LIMIT) []) (\<lambda>suggestions.
           (let names = take MAX_SUGGESTED (map sg_name (filter (\<lambda>s. sg_coverage s > 0) suggestions)) in
            ret (if names = [] then None else Some ([32, 32, 1087, 1088, 1077, 1076, 1083, 1072, 1075, 1072, 1102, 58, 32] @ join (ascii '', '') names)))))"

definition format_capture_confirmation :: "ustr \<Rightarrow> ustr \<Rightarrow> ustr list \<Rightarrow> ustr option \<Rightarrow> ustr option \<Rightarrow> ustr" where
  "format_capture_confirmation title project assignees deadline_iso hint =
     lines_text
       ([[10003, 32, 1047, 1072, 1087, 1080, 1089, 1072, 1083], [32, 32, 1079, 1072, 1076, 1072, 1095, 1072, 58, 32] @ title, [32, 32, 1087, 1088, 1086, 1077, 1082, 1090, 58, 32] @ project,
         [32, 32, 1082, 1086, 1084, 1091, 58, 32] @ (if join (ascii '', '') assignees = [] then DASH else join (ascii '', '') assignees),
         [32, 32, 1076, 1077, 1076, 1083, 1072, 1081, 1085, 58, 32] @ (case deadline_iso of None \<Rightarrow> DASH | Some d \<Rightarrow> if d = [] then DASH else d)] @
        (case hint of None \<Rightarrow> [] | Some h \<Rightarrow> [h]))"

definition build_capture_reply ::
  "capture_task_intent \<Rightarrow> person_record option \<Rightarrow> task_sink option \<Rightarrow> (ustr \<times> capture_result) proc" where
  "build_capture_reply i actor_record sink =
     bind_proc (capture_task sink i actor_record) (\<lambda>result.
     if cu_is_duplicate result
     then ret ([1058, 1072, 1082, 1072, 1103, 32, 1079, 1072, 1076, 1072, 1095, 1072, 32, 1091, 1078, 1077, 32,
      1077, 1089, 1090, 1100, 32, 1074, 32, 1087, 1088, 1086, 1077, 1082, 1090, 1077, 32] @ quoted (cu_project_title result) @
               [32, 8212, 32, 1085, 1077, 32, 1076, 1091, 1073, 1083, 1080, 1088, 1091, 1102, 46], result)
     else bind_proc (suggestion_hint i) (\<lambda>hint.
          ret (format_capture_confirmation (cu_task_title result) (cu_project_title result)
                 (cu_assignee_names result) (cu_deadline_iso result) hint @
               (case cu_notion_url result of
                  None \<Rightarrow> []
                | Some url \<Rightarrow> if url = [] then [] else [10, 10] @ [128279, 32, 78, 111, 116, 105, 111, 110, 58, 32] @ url),
               result)))"

definition append_notion_links :: "ustr \<Rightarrow> ustr list \<Rightarrow> ustr" where
  "append_notion_links text urls =
     (let extra = filter (\<lambda>u. u \<noteq> [] \<and> \<not> contains text u) urls in
      if extra = [] then text
      else text @ [10, 10] @ lines_text (map (\<lambda>u. [128279, 32, 78, 111, 116, 105, 111, 110, 58, 32] @ u) extra))"

subsection \<open>Wording an intent\<close>

fun operation_str :: "what_if_operation \<Rightarrow> ustr" where
  "operation_str ShiftDeadline = ascii ''shift_deadline''"
| "operation_str AddPerson = ascii ''add_person''"
| "operation_str SwitchToLite = ascii ''switch_to_lite''"
| "operation_str DropProject = ascii ''drop_project''"

definition text_or :: "ustr \<Rightarrow> ustr option \<Rightarrow> ustr" where
  "text_or fallback s = (case s of None \<Rightarrow> fallback | Some t \<Rightarrow> if t = [] then fallback else t)"

fun describe_intent :: "intent \<Rightarrow> ustr" where
  "describe_intent (AddProjectIntent i) =
     [1055, 1088, 1086, 1077, 1082, 1090, 32] @ quoted (ap_title i) @ [44, 32, 1096, 1072, 1073, 1083, 1086, 1085, 32] @ template_code_str (ap_template_code i) @
     [44, 32, 1076, 1077, 1076, 1083, 1072, 1081, 1085, 58, 32] @ (case ap_deadline i of None \<Rightarrow> [1086, 1073, 1088, 1072, 1090, 1085, 1099, 1081, 32, 1088, 1077, 1078, 1080, 1084, 32, 40, 1050,
      1055, 41] | Some d \<Rightarrow> isoformat d) @ [46]"
| "describe_intent (CaptureTaskIntent i) =
     [1047, 1072, 1076, 1072, 1095, 1072, 58, 32] @ ct_task_title i @ [32, 40, 1082, 1086, 1084, 1091, 58, 32] @
     text_or [1085, 1077, 32, 1085, 1072, 1079, 1085, 1072, 1095, 1077, 1085, 1086] (Some (join (ascii '', '') (ct_assignee_names i))) @ [41, 46]"
| "describe_intent (LoadIntent i) =
     [1047, 1072, 1075, 1088, 1091, 1079, 1082, 1072, 58, 32] @ text_or [1074, 1089, 1103, 32, 1082, 1086, 1084, 1072, 1085, 1076, 1072] (ld_person_name i) @ [46]"
| "describe_intent (WhatIfIntent i) =
     [1063, 1090, 1086, 45, 1077, 1089, 1083, 1080, 58, 32] @ operation_str (wi_operation i) @ [44, 32, 1087, 1088, 1086, 1077, 1082, 1090, 32] @ text_or DASH (wi_project_title i) @ [46]"
| "describe_intent (VacationIntent i) =
     [1054, 1090, 1087, 1091, 1089, 1082, 32] @ va_person_name i @ [58, 32] @ isoformat (va_day_from i) @ [8211] @ isoformat (va_day_to i) @ [46]"
| "describe_intent (ConfirmIntent i) =
     [1055, 1086, 1076, 1090, 1074, 1077, 1088, 1078, 1076, 1077, 1085, 1080, 1077, 32, 1087, 1086, 1089,
      1083, 1077, 1076, 1085, 1077, 1075, 1086, 32, 1087, 1088, 1077, 1076, 1083, 1086, 1078, 1077,
      1085, 1085, 1086, 1075, 1086, 32, 1087, 1083, 1072, 1085, 1072, 46]"
| "describe_intent (AssignIntent i) =
     [1053, 1072, 1079, 1085, 1072, 1095, 1080, 1090, 1100, 32] @ as_task_ref i @ [32, 1085, 1072, 32] @ as_person_name i @ [46]"
| "describe_intent (ClarifyIntent i) = text_or [1053, 1077, 32, 1087, 1086, 1085, 1103, 1083, 32, 1082, 1086, 1084, 1072, 1085, 1076, 1091, 46] (cl_question i)"

definition confirm_reply_text :: "confirm_result \<Rightarrow> ustr" where
  "confirm_reply_text result =
     [9989, 32, 1055, 1083, 1072, 1085, 32, 1079, 1072, 1092, 1080, 1082, 1089, 1080, 1088, 1086, 1074,
      1072, 1085, 46] @
     (if cf_mirror_failed result = 0 then []
      else [10] @ [9888, 65039, 32, 78, 111, 116, 105, 111, 110, 58, 32, 1085, 1077, 32, 1091, 1076, 1072, 1083, 1086,
      1089, 1100, 32, 1086, 1090, 1088, 1072, 1079, 1080, 1090, 1100, 32] @ int_dec (cf_mirror_failed result) @
           [32, 1080, 1079, 32] @ int_dec (cf_mirror_total result) @ [32, 1079, 1072, 1076, 1072, 1095, 46])"

subsection \<open>The load image\<close>

definition DEFAULT_DAYS :: nat where
  "DEFAULT_DAYS = 14"

definition narrowed :: "ustr option \<Rightarrow> person list \<Rightarrow> person list" where
  "narrowed person_name people =
     (case person_name of
        None \<Rightarrow> people
      | Some n \<Rightarrow> (let matched = filter (\<lambda>p. casefold (p_name p) = casefold n) people in
                   if n = [] \<or> matched = [] then people else matched))"

definition build_load_image :: "date \<Rightarrow> nat \<Rightarrow> ustr option \<Rightarrow> heatmap option proc" where
  "build_load_image start days person_name =
     bind_proc get_solver_people (\<lambda>people.
     if people = [] then ret None
     else bind_proc list_existing (\<lambda>allocations.
          ret (Some (load_summary (narrowed person_name people) allocations start days))))"

subsection \<open>The constraints are kept\<close>

lemma keeps_list_existing [keep_intros]: "keeps P list_existing"
  unfolding list_existing_def list_committed_plans_def by (intro keep_intros)

lemma keeps_add_project_reply [keep_intros]: "keeps db_ok (build_add_project_reply i s a d l k)"
  unfolding build_add_project_reply_def get_project_template_def get_solver_people_def by (intro keep_intros)

lemma keeps_assign_reply [keep_intros]: "keeps db_ok (build_assign_reply i a)"
  unfolding build_assign_reply_def get_person_by_name_def list_tasks_with_meta_def
  by (intro keep_intros) (auto split: list.split intro!: keep_intros)

lemma keeps_suggestion_hint [keep_intros]: "keeps P (suggestion_hint i)"
  unfolding suggestion_hint_def suggest_use_case_def get_person_capabilities_def committed_load_def
    list_committed_plans_def Let_def by (intro keep_intros)

lemma keeps_capture_reply [keep_intros]: "keeps db_ok (build_capture_reply i a s)"
  unfolding build_capture_reply_def by (intro keep_intros)

lemma keeps_load_image [keep_intros]: "keeps P (build_load_image s d n)"
  unfolding build_load_image_def get_solver_people_def by (intro keep_intros)

end
