(* ===== verification/Clarify.thy ===== *)
theory Clarify
  imports Bot_Replies
begin

section \<open>Clarifying a capture by buttons\<close>

text \<open>
  \<open>bot/handlers/clarify.py\<close>: a small dialogue that collects project, assignee and deadline of a task
  and captures it once all three are known. The number at the end of a button's callback data is an
  argument of its handler, as is the current date.
\<close>

subsection \<open>Missing fields\<close>

datatype capture_field = ProjectField | AssigneeField | DeadlineField

definition missing_fields :: "capture_args \<Rightarrow> capture_field list" where
  "missing_fields args =
     (if strip (ca_project args) = [] then [ProjectField] else []) @
     (if ca_assignees args = [] then [AssigneeField] else []) @
     (if ca_deadline args = None \<or> ca_deadline args = Some [] then [DeadlineField] else [])"

definition no_args :: capture_args where
  "no_args =
     \<lparr>ca_title = None, ca_assignees = [], ca_project = [], ca_deadline = None, ca_est_hours = JNull,
      ca_required_skills = []\<rparr>"

subsection \<open>Keyboards\<close>

definition MAX_OPTIONS :: nat where
  "MAX_OPTIONS = 12"

definition options_kb :: "ustr list \<Rightarrow> string \<Rightarrow> button list \<Rightarrow> button list list" where
  "options_kb options prefix extra =
     map (\<lambda>(i, opt). [Button opt (ascii prefix @ nat_dec i)])
       (zip [0..<length (take MAX_OPTIONS options)] (take MAX_OPTIONS options)) @
     map (\<lambda>btn. [btn]) extra"

definition deadline_kb :: "button list list" where
  "deadline_kb =
     [[Button [1057, 1077, 1075, 1086, 1076, 1085, 1103] (ascii ''cap:dl:0''), Button [1047, 1072, 1074, 1090, 1088, 1072] (ascii ''cap:dl:1'')],
      [Button [43, 51, 32, 1076, 1085, 1103] (ascii ''cap:dl:3''), Button [43, 1085, 1077, 1076, 1077, 1083, 1103] (ascii ''cap:dl:7'')],
      [Button [1042, 1074, 1077, 1089, 1090, 1080, 32, 1076, 1072, 1090, 1091] (ascii ''cap:dltext'')]]"

subsection \<open>Typed dates\<close>

text \<open>\<open>date(y, m, d)\<close> of arbitrary integers overflows past the C \<open>int\<close> range.\<close>

definition date_of_ints :: "int \<Rightarrow> int \<Rightarrow> int \<Rightarrow> date res" where
  "date_of_ints y m d =
     (if list_ex (\<lambda>n. n < - (2 ^ 31) \<or> n \<ge> 2 ^ 31) [y, m, d] then Inl (OtherError (ascii ''OverflowError''))
      else make_date y m d)"

definition caught_date :: "date res \<Rightarrow> date option res" where
  "caught_date r = (case r of Inl ValueError \<Rightarrow> Inr None | Inl e \<Rightarrow> Inl e | Inr d \<Rightarrow> Inr (Some d))"

definition dotted_date :: "int \<Rightarrow> ustr list \<Rightarrow> date option res" where
  "dotted_date this_year parts =
     (case map py_int parts of
        [Some d, Some m] \<Rightarrow> caught_date (date_of_ints this_year m d)
      | [Some d, Some m, Some y] \<Rightarrow> caught_date (date_of_ints y m d)
      | _ \<Rightarrow> Inr None)"

definition parse_typed_date :: "date \<Rightarrow> ustr \<Rightarrow> date option res" where
  "parse_typed_date today text =
     (case fromisoformat (strip text) of
        Inr d \<Rightarrow> Inr (Some d)
      | Inl e \<Rightarrow> dotted_date (fst (ymd today)) (split_char 46 (strip text)))"

subsection \<open>The flow\<close>

definition ask_field :: "'s fsm_port \<Rightarrow> capture_args \<Rightarrow> ('s, unit) bot" where
  "ask_field fsm args =
     (case missing_fields args of
        [] \<Rightarrow> braise IndexError
      | ProjectField # _ \<Rightarrow>
          bbind (run_use_case list_projects) (\<lambda>projects.
          bbind (on_fsm (fp_update_data fsm (ascii ''proj_options'') (FTexts (map jr_title projects)))) (\<lambda>_.
          bbind (on_fsm (fp_set_state fsm None)) (\<lambda>_.
          send (AnswerButtons [1042, 32, 1082, 1072, 1082, 1086, 1081, 32, 1087, 1088, 1086, 1077, 1082, 1090, 32, 1079, 1072,
      1087, 1080, 1089, 1072, 1090, 1100, 32, 1079, 1072, 1076, 1072, 1095, 1091, 63]
                 (options_kb (map jr_title projects) ''cap:proj:''
                   [Button [10133, 32, 1053, 1086, 1074, 1099, 1081, 32, 1087, 1088, 1086, 1077, 1082, 1090] (ascii ''cap:projnew'')])))))
      | AssigneeField # _ \<Rightarrow>
          bbind (run_use_case list_people) (\<lambda>people.
          bbind (on_fsm (fp_update_data fsm (ascii ''asg_options'') (FTexts (map pp_name people)))) (\<lambda>_.
          bbind (on_fsm (fp_set_state fsm None)) (\<lambda>_.
          send (AnswerButtons [1050, 1090, 1086, 32, 1080, 1089, 1087, 1086, 1083, 1085, 1080, 1090, 1077, 1083, 1100, 63] (options_kb (map pp_name people) ''cap:asg:'' [])))))
      | DeadlineField # _ \<Rightarrow>
          bbind (on_fsm (fp_set_state fsm None)) (\<lambda>_.
          send (AnswerButtons [1050, 1072, 1082, 1086, 1081, 32, 1076, 1077, 1076, 1083, 1072, 1081, 1085, 63] deadline_kb)))"

definition start_capture_clarify :: "'s fsm_port \<Rightarrow> capture_args \<Rightarrow> ('s, unit) bot" where
  "start_capture_clarify fsm pending =
     bbind (on_fsm (fp_update_data fsm (ascii ''capture'') (FArgs pending))) (\<lambda>_. ask_field fsm pending)"

text \<open>
  \<open>field_int\<close> is pydantic's validation of an \<open>int\<close> field: the estimate reached the dialogue unvalidated.
\<close>

definition opt_field :: "(json \<Rightarrow> 'a res) \<Rightarrow> json \<Rightarrow> 'a option res" where
  "opt_field f j = (if j = JNull then Inr None else bind_res (f j) (\<lambda>x. Inr (Some x)))"

definition capture_intent_of :: "(json \<Rightarrow> int res) \<Rightarrow> capture_args \<Rightarrow> capture_task_intent res" where
  "capture_intent_of field_int args =
     (case ca_title args of
        None \<Rightarrow> Inl KeyError
      | Some title \<Rightarrow>
          bind_res (case ca_deadline args of
                      None \<Rightarrow> Inr None
                    | Some d \<Rightarrow> if d = [] then Inr None else bind_res (fromisoformat d) (\<lambda>x. Inr (Some x))) (\<lambda>deadline.
          bind_res (opt_field field_int (ca_est_hours args)) (\<lambda>est_hours.
          (let i = \<lparr>ct_task_title = title, ct_assignee_names = ca_assignees args, ct_project_name = Some (ca_project args),
                    ct_deadline = deadline, ct_time_start = None, ct_est_hours = est_hours,
                    ct_required_skills = ca_required_skills args\<rparr>
           in if capture_fields_ok i then Inr i else Inl ValueError))))"

definition finalize_capture ::
  "'s fsm_port \<Rightarrow> (json \<Rightarrow> int res) \<Rightarrow> bool \<Rightarrow> person_record option \<Rightarrow> task_sink option \<Rightarrow> capture_args \<Rightarrow> ('s, unit) bot" where
  "finalize_capture fsm fi is_admin actor_record sink args =
     bbind (on_fsm (fp_clear fsm)) (\<lambda>_.
     if \<not> is_admin then send (Answer [1058, 1086, 1083, 1100, 1082, 1086, 32, 1072, 1076, 1084, 1080, 1085, 32, 1084, 1086, 1078, 1077,
      1090, 32, 1089, 1090, 1072, 1074, 1080, 1090, 1100, 32, 1079, 1072, 1076, 1072, 1095, 1080,
      46])
     else bbind (run_use_case (lift_res (capture_intent_of fi args))) (\<lambda>i.
          bbind (run_use_case (build_capture_reply i actor_record sink)) (\<lambda>(text, result).
          send (Answer text))))"

definition after_fill ::
  "'s fsm_port \<Rightarrow> (json \<Rightarrow> int res) \<Rightarrow> bool \<Rightarrow> person_record option \<Rightarrow> task_sink option \<Rightarrow> capture_args \<Rightarrow> ('s, unit) bot" where
  "after_fill fsm fi is_admin actor_record sink args =
     bbind (on_fsm (fp_update_data fsm (ascii ''capture'') (FArgs args))) (\<lambda>_.
     if missing_fields args \<noteq> [] then ask_field fsm args
     else finalize_capture fsm fi is_admin actor_record sink args)"

definition stored_args :: "'s fsm_port \<Rightarrow> 's \<Rightarrow> capture_args" where
  "stored_args fsm s = (case fp_data fsm s (ascii ''capture'') of Some (FArgs a) \<Rightarrow> a | _ \<Rightarrow> no_args)"

definition stored_options :: "'s fsm_port \<Rightarrow> string \<Rightarrow> 's \<Rightarrow> ustr list" where
  "stored_options fsm key s = (case fp_data fsm s (ascii key) of Some (FTexts xs) \<Rightarrow> xs | _ \<Rightarrow> [])"

text \<open>\<open>options[idx]\<close> counts from the end for a negative index.\<close>

definition py_nth :: "'a list \<Rightarrow> int \<Rightarrow> 'a res" where
  "py_nth xs i =
     (let j = (if i < 0 then i + int (length xs) else i)
      in if 0 \<le> j \<and> j < int (length xs) then Inr (xs ! nat j) else Inl IndexError)"

definition pick_from_options ::
  "'s fsm_port \<Rightarrow> (json \<Rightarrow> int res) \<Rightarrow> bool \<Rightarrow> person_record option \<Rightarrow> task_sink option \<Rightarrow> string \<Rightarrow>
    (ustr \<Rightarrow> capture_args \<Rightarrow> capture_args) \<Rightarrow> int \<Rightarrow> ('s, unit) bot" where
  "pick_from_options fsm fi is_admin actor_record sink opts_key fill idx =
     bbind (get_fsm (\<lambda>s. (stored_options fsm opts_key s, stored_args fsm s))) (\<lambda>(options, args).
     if idx \<ge> int (length options)
     then send (CallbackAnswer (Some [1042, 1072, 1088, 1080, 1072, 1085, 1090, 32, 1085, 1077, 32, 1085, 1072, 1081, 1076, 1077, 1085,
      46]) True)
     else bbind (run_use_case (lift_res (py_nth options idx))) (\<lambda>choice.
          bbind (send (CallbackAnswer None False)) (\<lambda>_.
          after_fill fsm fi is_admin actor_record sink (fill choice args))))"

definition fill_project :: "ustr \<Rightarrow> capture_args \<Rightarrow> capture_args" where
  "fill_project choice args = args\<lparr>ca_project := choice\<rparr>"

definition fill_assignee :: "ustr \<Rightarrow> capture_args \<Rightarrow> capture_args" where
  "fill_assignee choice args = args\<lparr>ca_assignees := [choice]\<rparr>"

definition fill_deadline :: "date \<Rightarrow> capture_args \<Rightarrow> capture_args" where
  "fill_deadline d args = args\<lparr>ca_deadline := Some (isoformat d)\<rparr>"

definition handle_pick_project ::
  "'s fsm_port \<Rightarrow> (json \<Rightarrow> int res) \<Rightarrow> bool \<Rightarrow> person_record option \<Rightarrow> task_sink option \<Rightarrow> int \<Rightarrow> ('s, unit) bot" where
  "handle_pick_project fsm fi adm who sink = pick_from_options fsm fi adm who sink ''proj_options'' fill_project"

definition handle_pick_assignee ::
  "'s fsm_port \<Rightarrow> (json \<Rightarrow> int res) \<Rightarrow> bool \<Rightarrow> person_record option \<Rightarrow> task_sink option \<Rightarrow> int \<Rightarrow> ('s, unit) bot" where
  "handle_pick_assignee fsm fi adm who sink = pick_from_options fsm fi adm who sink ''asg_options'' fill_assignee"

definition WAITING_PROJECT_NAME :: ustr where
  "WAITING_PROJECT_NAME = ascii ''CaptureClarifyState:waiting_project_name''"

definition WAITING_DEADLINE_TEXT :: ustr where
  "WAITING_DEADLINE_TEXT = ascii ''CaptureClarifyState:waiting_deadline_text''"

definition handle_new_project :: "'s fsm_port \<Rightarrow> ('s, unit) bot" where
  "handle_new_project fsm =
     bbind (on_fsm (fp_set_state fsm (Some WAITING_PROJECT_NAME))) (\<lambda>_.
     bbind (send (CallbackAnswer None False)) (\<lambda>_.
     send (Answer [1053, 1072, 1087, 1080, 1096, 1080, 32, 1085, 1072, 1079, 1074, 1072, 1085, 1080, 1077, 32, 1085,
      1086, 1074, 1086, 1075, 1086, 32, 1087, 1088, 1086, 1077, 1082, 1090, 1072, 32, 1086, 1076,
      1085, 1080, 1084, 32, 1089, 1086, 1086, 1073, 1097, 1077, 1085, 1080, 1077, 1084, 46])))"

definition handle_pick_deadline ::
  "'s fsm_port \<Rightarrow> (json \<Rightarrow> int res) \<Rightarrow> bool \<Rightarrow> person_record option \<Rightarrow> task_sink option \<Rightarrow> date \<Rightarrow> int \<Rightarrow> ('s, unit) bot" where
  "handle_pick_deadline fsm fi adm who sink today days =
     bbind (get_fsm (stored_args fsm)) (\<lambda>args.
     bbind (send (CallbackAnswer None False)) (\<lambda>_.
     after_fill fsm fi adm who sink (fill_deadline (today + days) args)))"

definition handle_deadline_text :: "'s fsm_port \<Rightarrow> ('s, unit) bot" where
  "handle_deadline_text fsm =
     bbind (on_fsm (fp_set_state fsm (Some WAITING_DEADLINE_TEXT))) (\<lambda>_.
     bbind (send (CallbackAnswer None False)) (\<lambda>_.
     send (Answer [1053, 1072, 1087, 1080, 1096, 1080, 32, 1076, 1072, 1090, 1091, 58, 32, 50, 48, 50, 54, 45, 48, 54,
      45, 50, 49, 32, 1080, 1083, 1080, 32, 50, 49, 46, 48, 54, 46, 50, 48, 50, 54, 46])))"

definition handle_typed_project ::
  "'s fsm_port \<Rightarrow> (json \<Rightarrow> int res) \<Rightarrow> bool \<Rightarrow> person_record option \<Rightarrow> task_sink option \<Rightarrow> ustr \<Rightarrow> ('s, unit) bot" where
  "handle_typed_project fsm fi adm who sink text =
     bbind (get_fsm (stored_args fsm)) (\<lambda>args.
     after_fill fsm fi adm who sink (fill_project (strip text) args))"

definition handle_typed_deadline ::
  "'s fsm_port \<Rightarrow> (json \<Rightarrow> int res) \<Rightarrow> bool \<Rightarrow> person_record option \<Rightarrow> task_sink option \<Rightarrow> date \<Rightarrow> ustr \<Rightarrow> ('s, unit) bot" where
  "handle_typed_deadline fsm fi adm who sink today text =
     bbind (run_use_case (lift_res (parse_typed_date today text))) (\<lambda>parsed.
     case parsed of
       None \<Rightarrow> send (Answer [1053, 1077, 32, 1087, 1086, 1085, 1103, 1083, 32, 1076, 1072, 1090, 1091, 46, 32, 1060, 1086, 1088,
      1084, 1072, 1090, 58, 32, 50, 48, 50, 54, 45, 48, 54, 45, 50, 49, 32, 1080, 1083, 1080, 32,
      50, 49, 46, 48, 54, 46, 50, 48, 50, 54, 46])
     | Some d \<Rightarrow> bbind (get_fsm (stored_args fsm)) (\<lambda>args.
                 after_fill fsm fi adm who sink (fill_deadline d args)))"

subsection \<open>Filling a field\<close>

lemma missing_fill:
  "strip choice \<noteq> [] \<Longrightarrow> missing_fields (fill_project choice args) = filter (\<lambda>f. f \<noteq> ProjectField) (missing_fields args)"
  "missing_fields (fill_assignee choice args) = filter (\<lambda>f. f \<noteq> AssigneeField) (missing_fields args)"
  "missing_fields (fill_deadline d args) = filter (\<lambda>f. f \<noteq> DeadlineField) (missing_fields args)"
  by (simp_all add: missing_fields_def fill_project_def fill_assignee_def fill_deadline_def)

text \<open>A question reads the database and ends with a message.\<close>

lemma ask_field_run:
  assumes "missing_fields args \<noteq> []"
  shows "\<exists>b'. ask_field fsm args b = (Inr (), b') \<and> bs_world b' = bs_world b \<and>
    (\<exists>r. bs_replies b' = bs_replies b @ [r])"
  using assms
  by (auto simp: ask_field_def neq_Nil_conv bbind_def run_use_case_def list_projects_def list_people_def query_def
      on_fsm_def send_def split: capture_field.split)

context fsm_context begin

lemma ask_field_keeps_args:
  "ask_field fsm args b = (r, b') \<Longrightarrow> stored_args fsm (bs_fsm b') = stored_args fsm (bs_fsm b)"
  by (auto simp: ask_field_def bbind_def run_use_case_def list_projects_def list_people_def query_def braise_def
      on_fsm_def send_def stored_args_def ascii_def split: list.splits capture_field.splits)

lemma after_fill_incomplete:
  assumes "missing_fields args \<noteq> []"
  shows "\<exists>b'. after_fill fsm fi adm who sink args b = (Inr (), b') \<and> bs_world b' = bs_world b \<and>
    stored_args fsm (bs_fsm b') = args \<and> (\<exists>r. bs_replies b' = bs_replies b @ [r])"
proof -
  let ?b = "b\<lparr>bs_fsm := fp_update_data fsm (ascii ''capture'') (FArgs args) (bs_fsm b)\<rparr>"
  obtain b' where ask: "ask_field fsm args ?b = (Inr (), b')" "bs_world b' = bs_world ?b"
    "\<exists>r. bs_replies b' = bs_replies ?b @ [r]"
    using ask_field_run [OF assms] by blast
  have "stored_args fsm (bs_fsm b') = args"
    using ask_field_keeps_args [OF ask(1)] by (simp add: stored_args_def)
  with ask assms show ?thesis by (simp add: after_fill_def bbind_def on_fsm_def)
qed

lemma after_fill_refused:
  assumes "missing_fields args = []" "\<not> adm"
  shows "\<exists>b'. after_fill fsm fi adm who sink args b = (Inr (), b') \<and> bs_world b' = bs_world b \<and>
    fp_state fsm (bs_fsm b') = None \<and> fp_data fsm (bs_fsm b') = (\<lambda>k. None)"
  using assms by (simp add: after_fill_def finalize_capture_def bbind_def on_fsm_def send_def)

lemma after_fill_captures:
  assumes "missing_fields args = []" "adm" "capture_intent_of fi args = Inr i"
    "build_capture_reply i who sink (bs_world b) = (r, w')"
  shows "\<exists>b'. after_fill fsm fi adm who sink args b = (bind_res r (\<lambda>_. Inr ()), b') \<and> bs_world b' = w' \<and>
    fp_state fsm (bs_fsm b') = None \<and> fp_data fsm (bs_fsm b') = (\<lambda>k. None)"
  using assms
  by (cases r) (auto simp: after_fill_def finalize_capture_def bbind_def on_fsm_def send_def run_use_case_def lift_res_def)

end

lemma capture_intent_fields:
  assumes "capture_intent_of fi args = Inr i"
  shows "ca_title args = Some (ct_task_title i)" "ct_assignee_names i = ca_assignees args"
    "ct_project_name i = Some (ca_project args)" "ct_time_start i = None"
  using assms by (auto simp: capture_intent_of_def res_simps Let_def split: option.splits if_splits)

lemma missing_none: "missing_fields args = [] \<longleftrightarrow>
    strip (ca_project args) \<noteq> [] \<and> ca_assignees args \<noteq> [] \<and> ca_deadline args \<noteq> None \<and> ca_deadline args \<noteq> Some []"
  by (auto simp: missing_fields_def)

end
