(* ===== verification/Replan.thy ===== *)
theory Replan
  imports Plan_Texts
begin

section \<open>Replanning committed work\<close>

text \<open>
  \<open>bot/handlers/replan.py\<close>: the committed plans become one request, which is solved with the current
  capacity overrides and summarised. Nothing is stored.
\<close>

subsection \<open>The request\<close>

definition read_hours :: "json \<Rightarrow> int res" where
  "read_hours al = bind_res (json_item ''hours'' al) json_int"

definition replan_task :: "(uuid, ustr) dict \<Rightarrow> json \<Rightarrow> task list res" where
  "replan_task name_map a =
     bind_res (bind_res (json_item ''task_id'' a) json_uuid) (\<lambda>tid.
     bind_res (bind_res (bind_res (json_get ''allocations'' (JList []) a) json_list) (map_res read_hours)) (\<lambda>hs.
     if sum_list hs = 0 then Inr []
     else bind_res (bind_res (json_item ''person_id'' a) json_uuid) (\<lambda>pid.
          Inr [task_default tid (dict_get_default name_map tid (ascii ''task'')) (sum_list hs) [pid]])))"

definition replan_payload_tasks :: "(uuid, ustr) dict \<Rightarrow> json \<Rightarrow> task list res" where
  "replan_payload_tasks name_map payload =
     bind_res (bind_res (json_get ''assignments'' (JList []) payload) json_list) (\<lambda>as.
     bind_res (map_res (replan_task name_map) as) (\<lambda>ts. Inr (concat ts)))"

definition linked_within :: "task list \<Rightarrow> dependency \<Rightarrow> bool" where
  "linked_within tasks d \<longleftrightarrow> d_task_id d \<in> t_id ` set tasks \<and> d_depends_on_id d \<in> t_id ` set tasks"

definition replan_request ::
  "person list \<Rightarrow> task list \<Rightarrow> dependency list \<Rightarrow> day_override list \<Rightarrow> date \<Rightarrow> plan_request" where
  "replan_request people tasks deps overrides today =
     \<lparr>rq_people = people, rq_tasks = tasks, rq_dependencies = filter (linked_within tasks) deps,
      rq_horizon_start = today, rq_day_overrides = overrides, rq_existing_allocations = [], rq_deadline = None\<rparr>"

definition reconstruct_request :: "date \<Rightarrow> plan_request option proc" where
  "reconstruct_request today =
     bind_proc get_solver_people (\<lambda>people.
     if people = [] then ret None
     else bind_proc list_committed_plans (\<lambda>payloads.
          bind_proc get_task_name_map (\<lambda>name_map.
          bind_proc (lift_res (map_res (replan_payload_tasks name_map) payloads)) (\<lambda>tss.
          if concat tss = [] then ret None
          else bind_proc list_task_dependencies (\<lambda>deps.
               bind_proc list_day_overrides (\<lambda>overrides.
               ret (Some (replan_request people (concat tss) deps overrides today))))))))"

subsection \<open>The summary\<close>

definition fmt_date :: "date \<Rightarrow> ustr" where
  "fmt_date d = (case ymd d of (y, m, k) \<Rightarrow> fmt_day d @ [46] @ nat_dec (nat y))"

definition all_clear :: ustr where
  "all_clear = lines_text
     [[128260, 32, 1055, 1077, 1088, 1077, 1089, 1095, 1080, 1090, 1072, 1083, 32, 1087, 1083, 1072, 1085,
      32, 1087, 1086, 32, 1090, 1077, 1082, 1091, 1097, 1080, 1084, 32, 1076, 1072, 1085, 1085,
      1099, 1084, 46],
      [9989, 32, 1042, 1089, 1105, 32, 1087, 1086, 1084, 1077, 1097, 1072, 1077, 1090, 1089, 1103, 32,
      8212, 32, 1087, 1077, 1088, 1077, 1075, 1088, 1091, 1079, 1086, 1082, 32, 1085, 1077, 1090,
      46], [],
      [1069, 1090, 1086, 32, 1087, 1088, 1077, 1076, 1087, 1088, 1086, 1089, 1084, 1086, 1090, 1088, 44,
      32, 1087, 1083, 1072, 1085, 32, 1085, 1077, 32, 1084, 1077, 1085, 1103, 1083, 1089, 1103, 46]]"

definition summary_head :: "ustr list" where
  "summary_head =
     [[128260, 32, 1055, 1077, 1088, 1077, 1089, 1095, 1080, 1090, 1072, 1083, 32, 1087, 1083, 1072, 1085,
      32, 1087, 1086, 32, 1090, 1077, 1082, 1091, 1097, 1080, 1084, 32, 1076, 1072, 1085, 1085,
      1099, 1084, 46], [],
      [9888, 65039, 32, 1055, 1077, 1088, 1077, 1075, 1088, 1091, 1079, 1082, 1080, 32, 8212, 32, 1074,
      32, 1101, 1090, 1080, 32, 1076, 1085, 1080, 32, 1091, 32, 1095, 1077, 1083, 1086, 1074, 1077,
      1082, 1072, 32, 1073, 1086, 1083, 1100, 1096, 1077, 32, 1088, 1072, 1073, 1086, 1090, 1099,
      44, 32, 1095, 1077, 1084, 32, 1074, 1083, 1077, 1079, 1072, 1077, 1090, 32, 1074, 32, 1076,
      1077, 1085, 1100, 58]]"

definition summary_tail :: "ustr list" where
  "summary_tail =
     [[],
      [1069, 1090, 1086, 32, 1087, 1088, 1077, 1076, 1087, 1088, 1086, 1089, 1084, 1086, 1090, 1088, 32,
      8212, 32, 1087, 1083, 1072, 1085, 32, 1053, 1045, 32, 1080, 1079, 1084, 1077, 1085, 1105,
      1085, 46, 32, 1063, 1090, 1086, 1073, 1099, 32, 1087, 1088, 1080, 1084, 1077, 1085, 1080,
      1090, 1100, 32, 1085, 1086, 1074, 1086, 1077, 32, 1088, 1072, 1089, 1087, 1080, 1089, 1072,
      1085, 1080, 1077, 44, 32, 1074, 1085, 1077, 1089, 1080, 32, 1087, 1088, 1072, 1074, 1082,
      1080, 32, 1095, 1077, 1088, 1077, 1079, 32, 47, 116, 97, 115, 107, 46]]"

definition who_of :: "(uuid, ustr) dict \<Rightarrow> risk_flag \<Rightarrow> ustr" where
  "who_of person_names r =
     (case r_person_id r of None \<Rightarrow> DASH | Some p \<Rightarrow> dict_get_default person_names p DASH)"

definition overload_key :: "(uuid, ustr) dict \<Rightarrow> risk_flag \<Rightarrow> ustr \<times> date" where
  "overload_key person_names r =
     (who_of person_names r, case r_day r of None \<Rightarrow> 1 | Some d \<Rightarrow> d)"

definition busy_projects :: "assignment list \<Rightarrow> (uuid, ustr) dict \<Rightarrow> risk_flag \<Rightarrow> ustr list" where
  "busy_projects as task_project r = sort (remdups (concat (map (\<lambda>a. concat (map (\<lambda>al.
     if Some (al_person_id al) = r_person_id r \<and> Some (al_day al) = r_day r
     then [dict_get_default task_project (a_task_id a) [1087, 1088, 1086, 1077, 1082, 1090]] else [])
     (a_allocations a))) as)))"

definition overload_line :: "assignment list \<Rightarrow> (uuid, ustr) dict \<Rightarrow> (uuid, ustr) dict \<Rightarrow> risk_flag \<Rightarrow> ustr" where
  "overload_line as person_names task_project r =
     [8226, 32] @ who_of person_names r @ [32, 8212, 32] @
     (case r_day r of None \<Rightarrow> DASH | Some d \<Rightarrow> fmt_date d) @ [44, 32, 1087, 1088, 1086, 1077, 1082, 1090, 1099, 58, 32] @
     (let ps = busy_projects as task_project r in if ps = [] then DASH else join (ascii '', '') ps)"

definition format_summary ::
  "risk_flag list \<Rightarrow> (uuid, ustr) dict \<Rightarrow> assignment list \<Rightarrow> (uuid, ustr) dict \<Rightarrow> ustr" where
  "format_summary flags person_names as task_project =
     (if flags = [] then all_clear
      else lines_text (summary_head @
             map (overload_line as person_names task_project) (sort_key (overload_key person_names) flags) @
             summary_tail))"

definition nothing_to_replan :: ustr where
  "nothing_to_replan =
     [1053, 1077, 1095, 1077, 1075, 1086, 32, 1087, 1077, 1088, 1077, 1089, 1095, 1080, 1090, 1099, 1074,
      1072, 1090, 1100, 32, 8212, 32, 1085, 1077, 1090, 32, 1079, 1072, 1092, 1080, 1082, 1089,
      1080, 1088, 1086, 1074, 1072, 1085, 1085, 1099, 1093, 32, 1087, 1083, 1072, 1085, 1086, 1074,
      46]"

definition build_replan_summary :: "solver \<Rightarrow> date \<Rightarrow> ustr proc" where
  "build_replan_summary slv today =
     bind_proc (reconstruct_request today) (\<lambda>request.
     case request of
       None \<Rightarrow> ret nothing_to_replan
     | Some req \<Rightarrow>
         bind_proc (lift_res (sv_plan slv req)) (\<lambda>result.
         bind_proc get_task_project_map (\<lambda>task_project.
         ret (format_summary (plan_overloads result) (dict_of (map (\<lambda>p. (p_id p, p_name p)) (rq_people req)))
                (pl_assignments result) task_project))))"

definition handle_replan :: "solver option \<Rightarrow> bool \<Rightarrow> date \<Rightarrow> ('s, unit) bot" where
  "handle_replan slv is_admin today =
     (if \<not> is_admin
      then send (Answer [1058, 1086, 1083, 1100, 1082, 1086, 32, 1072, 1076, 1084, 1080, 1085, 32, 1084, 1086, 1078, 1077,
      1090, 32, 1079, 1072, 1087, 1091, 1089, 1082, 1072, 1090, 1100, 32, 1087, 1077, 1088, 1077,
      1089, 1095, 1105, 1090, 46])
      else case slv of
             None \<Rightarrow> send (Answer [1055, 1077, 1088, 1077, 1089, 1095, 1105, 1090, 32, 1085, 1077, 1076, 1086, 1089, 1090, 1091, 1087,
      1077, 1085, 58, 32, 1088, 1077, 1087, 1086, 1079, 1080, 1090, 1086, 1088, 1080, 1081, 32,
      1085, 1077, 32, 1087, 1086, 1076, 1082, 1083, 1102, 1095, 1105, 1085, 46])
           | Some s \<Rightarrow> bbind (run_use_case (build_replan_summary s today)) (\<lambda>text. send (Answer text)))"

subsection \<open>Reading committed plans\<close>

lemma read_hours_serialized: "map_res read_hours (map serialize_allocation als) = Inr (map al_hours als)"
  by (induction als) (simp_all add: read_hours_def serialize_allocation_def jobj_item dict_item_def)

definition replanned :: "(uuid, ustr) dict \<Rightarrow> assignment \<Rightarrow> task list" where
  "replanned name_map a =
     (let h = sum_list (map al_hours (a_allocations a)) in
      if h = 0 then [] else [task_default (a_task_id a) (dict_get_default name_map (a_task_id a) (ascii ''task'')) h
        [a_person_id a]])"

lemma replan_task_serialized: "replan_task name_map (serialize_assignment a) = Inr (replanned name_map a)"
  by (simp add: replan_task_def serialize_assignment_def jobj_item jobj_get dict_item_def dict_get_default_def
      json_uuid_def read_hours_serialized replanned_def Let_def)

lemma replan_payload_serialized:
  "replan_payload_tasks name_map (serialize_plan p) = Inr (concat (map (replanned name_map) (pl_assignments p)))"
proof -
  have "map_res (replan_task name_map) (map serialize_assignment as) = Inr (map (replanned name_map) as)" for as
    by (induction as) (simp_all add: replan_task_serialized)
  then show ?thesis
    by (simp add: replan_payload_tasks_def serialize_plan_def jobj_get dict_get_default_def)
qed

definition committed_work :: "db \<Rightarrow> plan_result list \<Rightarrow> task list" where
  "committed_work d ps = concat (map (\<lambda>p. concat (map (replanned (dict_of (map (\<lambda>t. (tk_id t, tk_name t)) (db_tasks d))))
     (pl_assignments p))) ps)"

lemma reconstruct_run:
  assumes "map pv_payload (committed_rows (w_db w)) = map serialize_plan ps"
    and "filter pr_is_active (db_people (w_db w)) \<noteq> []"
  shows "\<exists>people. get_solver_people w = (Inr people, w) \<and> reconstruct_request today w =
    (Inr (if committed_work (w_db w) ps = [] then None
          else Some (replan_request people (committed_work (w_db w) ps)
            (map (\<lambda>r. \<lparr>d_task_id = dp_task_id r, d_depends_on_id = dp_depends_on_id r, d_link_type = dp_link_type r,
               d_lag_working_days = 0\<rparr>) (db_dependencies (w_db w)))
            (map (\<lambda>r. \<lparr>o_person_id = do_person_id r, o_day = do_day r, o_capacity_h = do_capacity_h r\<rparr>)
              (db_overrides (w_db w))) today)), w)"
proof -
  define nm where "nm = dict_of (map (\<lambda>t. (tk_id t, tk_name t)) (db_tasks (w_db w)))"
  have tss: "map_res (replan_payload_tasks nm) (map serialize_plan qs) =
      Inr (map (\<lambda>p. concat (map (replanned nm) (pl_assignments p))) qs)" for qs
    by (induction qs) (simp_all add: replan_payload_serialized)
  have "sort_key pr_name (filter pr_is_active (db_people (w_db w))) \<noteq> []"
    using assms(2) by (metis length_0_conv length_sort)
  then show ?thesis
    using tss [of ps] assms(1)
    by (simp add: reconstruct_request_def bind_proc_def get_solver_people_def query_def list_committed_plans_def
        get_task_name_map_def lift_res_def ret_def list_task_dependencies_def list_day_overrides_def
        committed_work_def nm_def [symmetric])
qed

subsection \<open>Replanning only reads\<close>

lemma readonly_reconstruct: "snd (reconstruct_request today w) = w"
  by (simp add: reconstruct_request_def bind_proc_def get_solver_people_def query_def list_committed_plans_def
      get_task_name_map_def lift_res_def ret_def list_task_dependencies_def list_day_overrides_def
      split: sum.split)

lemma readonly_summary: "snd (build_replan_summary slv today w) = w"
proof (cases "reconstruct_request today w")
  case (Pair r w1)
  with readonly_reconstruct [of today w] have "w1 = w" by simp
  with Pair show ?thesis
    by (cases r) (auto simp: build_replan_summary_def bind_proc_def lift_res_def ret_def get_task_project_map_def
        query_def split: option.split sum.split)
qed

lemma readonly_handle_replan: "bs_world (snd (handle_replan slv adm today b)) = bs_world b"
proof (cases slv)
  case (Some s)
  obtain r where "build_replan_summary s today (bs_world b) = (r, bs_world b)"
    using readonly_summary [of s today "bs_world b"] by (metis surjective_pairing)
  with Some show ?thesis
    by (cases r) (simp_all add: handle_replan_def send_def bbind_def run_use_case_def)
qed (simp add: handle_replan_def send_def)

lemma all_clear_iff: "format_summary flags names as projects = all_clear \<longleftrightarrow> flags = []"
  by (simp add: format_summary_def all_clear_def lines_text_def summary_head_def)

end
