(* ===== verification/Tool_Box.thy ===== *)
theory Tool_Box
  imports Clarify Replan
begin

section \<open>The tools of the agent\<close>

text \<open>
  \<open>infra/llm/tools.py\<close>: the \<open>ToolBox\<close> of one message, its ten executors and \<open>execute\<close>. The arguments of
  a call are the JSON object the model sent. pydantic's validation of \<open>int\<close> and \<open>time\<close> fields, the text
  of an exception and Python's \<open>repr\<close> of a nested value are fields of \<open>tool_env\<close>. The percentage
  \<open>int(s.coverage * 100)\<close> is exact up to 49 required skills, where the float product agrees.
\<close>

subsection \<open>Values of the model\<close>

type_synonym tool_args = "(ustr, json) dict"

fun truthy :: "json \<Rightarrow> bool" where
  "truthy JNull = False"
| "truthy (JBool b) = b"
| "truthy (JInt n) = (n \<noteq> 0)"
| "truthy (JStr s) = (s \<noteq> [])"
| "truthy (JList xs) = (xs \<noteq> [])"
| "truthy (JObj d) = (d \<noteq> [])"

text \<open>\<open>args.get(k)\<close>, \<open>args.get(k) or dflt\<close> and iteration over a value.\<close>

definition arg :: "string \<Rightarrow> tool_args \<Rightarrow> json" where
  "arg k args = dict_get_default args (ascii k) JNull"

definition arg_or :: "string \<Rightarrow> json \<Rightarrow> tool_args \<Rightarrow> json" where
  "arg_or k dflt args = (if truthy (arg k args) then arg k args else dflt)"

fun iterate :: "json \<Rightarrow> json list res" where
  "iterate (JList xs) = Inr xs"
| "iterate (JStr s) = Inr (map (\<lambda>c. JStr [c]) s)"
| "iterate (JObj d) = Inr (map (JStr \<circ> fst) d)"
| "iterate _ = Inl malformed"

fun py_str :: "(json \<Rightarrow> ustr) \<Rightarrow> json \<Rightarrow> ustr" where
  "py_str repr JNull = ascii ''None''"
| "py_str repr (JBool b) = (if b then ascii ''True'' else ascii ''False'')"
| "py_str repr (JInt n) = int_dec n"
| "py_str repr (JStr s) = s"
| "py_str repr j = repr j"

fun to_int :: "json \<Rightarrow> int res" where
  "to_int (JInt n) = Inr n"
| "to_int (JBool b) = Inr (if b then 1 else 0)"
| "to_int (JStr s) = (case py_int s of None \<Rightarrow> Inl ValueError | Some n \<Rightarrow> Inr n)"
| "to_int _ = Inl malformed"

text \<open>\<open>[str(x) for x in (args.get(k) or [])]\<close>\<close>

definition text_list :: "(json \<Rightarrow> ustr) \<Rightarrow> string \<Rightarrow> tool_args \<Rightarrow> ustr list res" where
  "text_list repr k args = bind_res (iterate (arg_or k (JList []) args)) (\<lambda>xs. Inr (map (py_str repr) xs))"

definition opt_date :: "(json \<Rightarrow> ustr) \<Rightarrow> json \<Rightarrow> date option res" where
  "opt_date repr v =
     (if \<not> truthy v then Inr None else bind_res (fromisoformat (py_str repr v)) (\<lambda>d. Inr (Some d)))"

definition req_date :: "(json \<Rightarrow> ustr) \<Rightarrow> json \<Rightarrow> date res" where
  "req_date repr v = fromisoformat (py_str repr v)"

subsection \<open>The ToolBox\<close>

record tool_env =
  te_solver :: solver
  te_is_admin :: bool
  te_actor :: "person_record option"
  te_task_sink :: "task_sink option"
  te_project_sink :: "project_sink option"
  te_today :: date
  te_repr :: "json \<Rightarrow> ustr"
  te_exc_text :: "exn \<Rightarrow> ustr"
  te_field_int :: "json \<Rightarrow> int res"
  te_field_time :: "json \<Rightarrow> time_of_day res"

record capture_entry =
  ce_task_id :: "uuid option"
  ce_duration :: int
  ce_title :: ustr
  ce_project :: ustr
  ce_deadline_iso :: "ustr option"
  ce_assignees :: "ustr list"
  ce_idx :: nat

record tool_box =
  tb_last_proposed :: "uuid option"
  tb_notion_urls :: "ustr list"
  tb_pending :: "capture_args option"
  tb_replies :: "ustr list"
  tb_captures :: "(ustr, capture_entry) dict"

definition new_tool_box :: tool_box where
  "new_tool_box =
     \<lparr>tb_last_proposed = None, tb_notion_urls = [], tb_pending = None, tb_replies = [], tb_captures = []\<rparr>"

text \<open>A tool acts on its \<open>ToolBox\<close> and on the world; an exception keeps what was done before it.\<close>

type_synonym 'a tool = "tool_box \<times> world \<Rightarrow> 'a res \<times> tool_box \<times> world"

definition tret :: "'a \<Rightarrow> 'a tool" where
  "tret x s = (Inr x, s)"

definition traise :: "exn \<Rightarrow> 'a tool" where
  "traise e s = (Inl e, s)"

definition tbind :: "'a tool \<Rightarrow> ('a \<Rightarrow> 'b tool) \<Rightarrow> 'b tool" where
  "tbind m f s = (case m s of (Inl e, s') \<Rightarrow> (Inl e, s') | (Inr x, s') \<Rightarrow> f x s')"

definition tcatch :: "'a tool \<Rightarrow> (exn \<Rightarrow> 'a tool) \<Rightarrow> 'a tool" where
  "tcatch m h s = (case m s of (Inl e, s') \<Rightarrow> h e s' | (Inr x, s') \<Rightarrow> (Inr x, s'))"

definition on_repo :: "'a proc \<Rightarrow> 'a tool" where
  "on_repo m s = (case m (snd s) of (r, w) \<Rightarrow> (r, fst s, w))"

definition from_res :: "'a res \<Rightarrow> 'a tool" where
  "from_res r s = (r, s)"

definition get_box :: "(tool_box \<Rightarrow> 'a) \<Rightarrow> 'a tool" where
  "get_box f s = (Inr (f (fst s)), s)"

definition change_box :: "(tool_box \<Rightarrow> tool_box) \<Rightarrow> unit tool" where
  "change_box f s = (Inr (), f (fst s), snd s)"

fun tfor_each :: "('a \<Rightarrow> unit tool) \<Rightarrow> 'a list \<Rightarrow> unit tool" where
  "tfor_each f [] = tret ()"
| "tfor_each f (x # xs) = tbind (f x) (\<lambda>_. tfor_each f xs)"

subsection \<open>Read tools\<close>

definition LOAD_DAYS :: int where
  "LOAD_DAYS = 14"

definition MAX_LISTED :: nat where
  "MAX_LISTED = 12"

text \<open>\<open>(args.get(k) or "").strip()\<close>\<close>

definition stripped_arg :: "string \<Rightarrow> ustr \<Rightarrow> tool_args \<Rightarrow> ustr res" where
  "stripped_arg k dflt args = bind_res (json_str (arg_or k (JStr dflt) args)) (\<lambda>s. Inr (strip s))"

definition team_load_line :: "(uuid, int) dict \<Rightarrow> person \<Rightarrow> ustr" where
  "team_load_line used p =
     [8226, 32] @ p_name p @ [58, 32] @
     int_dec (hours_to_working_days (dict_get_default used (p_id p) 0) (p_capacity_h p)) @ [32, 47, 32] @
     int_dec (hours_to_working_days (p_capacity_h p * LOAD_DAYS) (p_capacity_h p)) @ [32, 1076, 1085, 46]"

definition get_team_load :: "tool_args \<Rightarrow> ustr tool" where
  "get_team_load args =
     tbind (on_repo get_solver_people) (\<lambda>people.
     if people = [] then tret [1042, 32, 1082, 1086, 1084, 1072, 1085, 1076, 1077, 32, 1085, 1077, 1090, 32, 1072, 1082, 1090,
      1080, 1074, 1085, 1099, 1093, 32, 1083, 1102, 1076, 1077, 1081, 46]
     else tbind (from_res (stripped_arg ''person_name'' [] args)) (\<lambda>wanted.
          tbind (on_repo committed_load) (\<lambda>used.
          let named = filter (\<lambda>p. casefold (p_name p) = casefold wanted) people;
              shown = (if casefold wanted = [] \<or> named = [] then people else named)
          in tret (lines_text ([1047, 1072, 1075, 1088, 1091, 1079, 1082, 1072, 32, 1082, 1086, 1084, 1072, 1085, 1076, 1099, 32,
      40, 1079, 1072, 1085, 1103, 1090, 1086, 32, 47, 32, 1105, 1084, 1082, 1086, 1089, 1090, 1100,
      44, 32, 1088, 1072, 1073, 1086, 1095, 1080, 1077, 32, 1076, 1085, 1080, 41, 58] #
                     map (team_load_line used) shown)))))"

definition candidate_line :: "assignee_suggestion \<Rightarrow> ustr" where
  "candidate_line s =
     [8226, 32] @ sg_name s @ [58, 32, 1087, 1086, 1082, 1088, 1099, 1090, 1080, 1077, 32] @ int_dec \<lfloor>sg_coverage s * 100\<rfloor> @
     [37, 44, 32, 1079, 1072, 1075, 1088, 1091, 1079, 1082, 1072, 32] @ int_dec (sg_load_hours s) @ [32, 1095, 46]"

definition bound_ids :: "(ustr, uuid) dict \<Rightarrow> ustr list \<Rightarrow> uuid list" where
  "bound_ids by_name names = concat (map (\<lambda>n. case dict_get by_name (casefold n) of None \<Rightarrow> [] | Some i \<Rightarrow> [i]) names)"

definition find_assignees :: "tool_env \<Rightarrow> tool_args \<Rightarrow> ustr tool" where
  "find_assignees env args =
     tbind (from_res (text_list (te_repr env) ''required_skills'' args)) (\<lambda>skills.
     tbind (from_res (text_list (te_repr env) ''bound_assignees'' args)) (\<lambda>bound_names.
     tbind (if bound_names = [] then tret []
            else tbind (on_repo list_people) (\<lambda>people.
                 tret (bound_ids (dict_of (map (\<lambda>p. (casefold (pp_name p), pp_id p)) people)) bound_names))) (\<lambda>ids.
     tbind (on_repo (suggest_use_case skills False (Some DEFAULT_LIMIT) ids)) (\<lambda>suggestions.
     let covering = filter (\<lambda>s. sg_coverage s > 0) suggestions;
         ranked = (if covering = [] then suggestions else covering)
     in if ranked = [] then tret [1055, 1086, 1076, 1093, 1086, 1076, 1103, 1097, 1080, 1093, 32, 1080, 1089, 1087, 1086, 1083, 1085,
      1080, 1090, 1077, 1083, 1077, 1081, 32, 1085, 1077, 32, 1085, 1072, 1096, 1105, 1083, 46]
        else tret (lines_text
               ((if ids = [] then [1050, 1072, 1085, 1076, 1080, 1076, 1072, 1090, 1099, 58] else [1050, 1072, 1085, 1076, 1080, 1076, 1072, 1090, 1099, 32, 40, 1078, 1105, 1089, 1090, 1082, 1072,
      1103, 32, 1087, 1088, 1080, 1074, 1103, 1079, 1082, 1072, 32, 1080, 1079, 32, 1096, 1072,
      1073, 1083, 1086, 1085, 1072, 41, 58]) #
                map candidate_line (take MAX_LISTED ranked)))))))"

definition person_line :: "(uuid, ustr list) dict \<Rightarrow> (uuid, int) dict \<Rightarrow> person_record \<Rightarrow> ustr" where
  "person_line caps used p =
     [8226, 32] @ pp_name p @
     (case pp_role_label p of None \<Rightarrow> [] | Some r \<Rightarrow> if r = [] then [] else ascii '', '' @ r) @ [32, 91] @
     (let skills = join (ascii '', '') (sort (remdups (dict_get_default caps (pp_id p) []))) in
      if skills = [] then DASH else skills) @ [93, 32, 8212, 32, 1079, 1072, 1075, 1088, 1091, 1079, 1082, 1072, 32] @
     int_dec (hours_to_working_days (dict_get_default used (pp_id p) 0) (pp_capacity_h p)) @ [32, 1076, 1085, 46]"

definition list_people_tool :: "ustr tool" where
  "list_people_tool =
     tbind (on_repo list_people) (\<lambda>people.
     if people = [] then tret [1050, 1086, 1084, 1072, 1085, 1076, 1072, 32, 1087, 1091, 1089, 1090, 1072, 46]
     else tbind (on_repo get_person_capabilities) (\<lambda>caps.
          tbind (on_repo committed_load) (\<lambda>used.
          tret (lines_text ([1050, 1086, 1084, 1072, 1085, 1076, 1072, 58] #
            map (person_line (dict_of (map (\<lambda>c. (cr_person_id c, cr_skills c)) caps)) used) (take MAX_LISTED people))))))"

definition project_line :: "project_record \<Rightarrow> ustr" where
  "project_line pr =
     [8226, 32] @ jr_title pr @ [32, 40] @ jr_status pr @ [44, 32, 1076, 1077, 1076, 1083, 1072, 1081, 1085, 32] @
     (case jr_deadline pr of None \<Rightarrow> [1073, 1077, 1079, 32, 1076, 1077, 1076, 1083, 1072, 1081, 1085, 1072] | Some d \<Rightarrow> isoformat d) @ [41]"

definition list_projects_tool :: "ustr tool" where
  "list_projects_tool =
     tbind (on_repo list_projects) (\<lambda>projects.
     if projects = [] then tret [1055, 1088, 1086, 1077, 1082, 1090, 1086, 1074, 32, 1085, 1077, 1090, 46]
     else tret (lines_text ([1055, 1088, 1086, 1077, 1082, 1090, 1099, 58] # map project_line (take MAX_LISTED projects))))"

subsection \<open>capture_task\<close>

definition asked_by_buttons :: ustr where
  "asked_by_buttons =
     [1053, 1077, 1076, 1086, 1089, 1090, 1072, 1102, 1097, 1080, 1077, 32, 1082, 1083, 1102, 1095, 1077,
      1074, 1099, 1077, 32, 1087, 1086, 1083, 1103, 32, 1079, 1072, 1087, 1088, 1086, 1096, 1077,
      1085, 1099, 32, 1091, 32, 1084, 1077, 1085, 1077, 1076, 1078, 1077, 1088, 1072, 32, 1082,
      1085, 1086, 1087, 1082, 1072, 1084, 1080, 32, 8212, 32, 1079, 1072, 1076, 1072, 1095, 1072,
      32, 1073, 1091, 1076, 1077, 1090, 32, 1087, 1086, 1089, 1090, 1072, 1074, 1083, 1077, 1085,
      1072, 32, 1087, 1086, 1089, 1083, 1077, 32, 1074, 1099, 1073, 1086, 1088, 1072, 44, 32, 1086,
      1090, 1074, 1077, 1095, 1072, 1090, 1100, 32, 1085, 1080, 1095, 1077, 1075, 1086, 32, 1085,
      1077, 32, 1085, 1091, 1078, 1085, 1086, 46]"

definition same_task_reply :: ustr where
  "same_task_reply = [1069, 1090, 1086, 32, 1090, 1072, 32, 1078, 1077, 32, 1079, 1072, 1076, 1072, 1095, 1072, 32, 8212,
      32, 1076, 1086, 1073, 1072, 1074, 1080, 1083, 32, 1080, 1089, 1087, 1086, 1083, 1085, 1080,
      1090, 1077, 1083, 1103, 44, 32, 1085, 1086, 1074, 1091, 1102, 32, 1085, 1077, 32, 1089, 1086,
      1079, 1076, 1072, 1102, 46]"

text \<open>\<open>" ".join(str(title).split()).casefold()\<close>\<close>

definition capture_key :: "ustr \<Rightarrow> ustr" where
  "capture_key title = casefold (join [32] (split_ws title))"

definition pending_args ::
  "tool_env \<Rightarrow> tool_args \<Rightarrow> ustr list \<Rightarrow> ustr \<Rightarrow> date option \<Rightarrow> capture_args res" where
  "pending_args env args assignees project deadline =
     bind_res (stripped_arg ''title'' [1079, 1072, 1076, 1072, 1095, 1072] args) (\<lambda>title.
     bind_res (text_list (te_repr env) ''required_skills'' args) (\<lambda>skills.
     Inr \<lparr>ca_title = Some title, ca_assignees = assignees, ca_project = project,
          ca_deadline = map_option isoformat deadline, ca_est_hours = arg ''est_hours'' args,
          ca_required_skills = skills\<rparr>))"

text \<open>One more assignee of a task captured before in this message.\<close>

definition merge_assignee :: "ustr \<Rightarrow> ustr \<Rightarrow> unit tool" where
  "merge_assignee key name =
     tbind (on_repo (get_person_by_name name)) (\<lambda>found.
     tbind (get_box (\<lambda>b. dict_get (tb_captures b) key)) (\<lambda>entry.
     case (found, entry) of
       (Some person, Some e) \<Rightarrow>
         if pp_name person \<in> set (ce_assignees e) then tret ()
         else tbind (case ce_task_id e of
                       None \<Rightarrow> traise IntegrityError
                     | Some tid \<Rightarrow> on_repo (assign_task tid (pp_id person) (ce_duration e))) (\<lambda>_.
              change_box (\<lambda>b. b\<lparr>tb_captures :=
                dict_set key (e\<lparr>ce_assignees := ce_assignees e @ [pp_name person]\<rparr>) (tb_captures b)\<rparr>))
     | _ \<Rightarrow> tret ()))"

definition entry_confirmation :: "capture_entry \<Rightarrow> ustr" where
  "entry_confirmation e =
     format_capture_confirmation (ce_title e) (ce_project e) (ce_assignees e) (ce_deadline_iso e) None"

definition refresh_reply :: "ustr \<Rightarrow> tool_box \<Rightarrow> tool_box" where
  "refresh_reply key b =
     (case dict_get (tb_captures b) key of
        None \<Rightarrow> b
      | Some e \<Rightarrow> b\<lparr>tb_replies := (tb_replies b)[ce_idx e := entry_confirmation e]\<rparr>)"

definition tool_capture_intent ::
  "tool_env \<Rightarrow> tool_args \<Rightarrow> ustr list \<Rightarrow> ustr \<Rightarrow> date option \<Rightarrow> capture_task_intent res" where
  "tool_capture_intent env args assignees project deadline =
     bind_res (text_list (te_repr env) ''required_skills'' args) (\<lambda>skills.
     bind_res (bind_res (dict_item args (ascii ''title'')) json_str) (\<lambda>title.
     bind_res (opt_field (te_field_time env) (arg_or ''time_start'' JNull args)) (\<lambda>time_start.
     bind_res (opt_field (te_field_int env) (arg ''est_hours'' args)) (\<lambda>est_hours.
     let i = \<lparr>ct_task_title = title, ct_assignee_names = assignees, ct_project_name = Some project,
              ct_deadline = deadline, ct_time_start = time_start, ct_est_hours = est_hours,
              ct_required_skills = skills\<rparr>
     in if capture_fields_ok i then Inr i else Inl ValueError))))"

definition remember_capture :: "ustr \<Rightarrow> capture_result \<Rightarrow> tool_box \<Rightarrow> tool_box" where
  "remember_capture key result b =
     (let urls = (case cu_notion_url result of None \<Rightarrow> [] | Some u \<Rightarrow> if u = [] then [] else [u]);
          e = \<lparr>ce_task_id = cu_task_id result, ce_duration = cu_duration_hours result,
               ce_title = cu_task_title result, ce_project = cu_project_title result,
               ce_deadline_iso = cu_deadline_iso result, ce_assignees = cu_assignee_names result,
               ce_idx = length (tb_replies b)\<rparr>
      in b\<lparr>tb_notion_urls := tb_notion_urls b @ urls, tb_replies := tb_replies b @ [entry_confirmation e],
           tb_captures := dict_set key e (tb_captures b)\<rparr>)"

definition capture_new :: "tool_env \<Rightarrow> ustr \<Rightarrow> capture_task_intent \<Rightarrow> ustr tool" where
  "capture_new env key i =
     tbind (on_repo (build_capture_reply i (te_actor env) (te_task_sink env))) (\<lambda>(text, result).
     if cu_is_duplicate result then tret text
     else tbind (change_box (remember_capture key result)) (\<lambda>_.
          tret (format_capture_confirmation (cu_task_title result) (cu_project_title result)
                  (cu_assignee_names result) (cu_deadline_iso result) None)))"

definition capture_task_tool :: "tool_env \<Rightarrow> tool_args \<Rightarrow> ustr tool" where
  "capture_task_tool env args =
     tbind (from_res (text_list (te_repr env) ''assignees'' args)) (\<lambda>assignees.
     tbind (from_res (stripped_arg ''project'' [] args)) (\<lambda>project.
     tbind (from_res (opt_date (te_repr env) (arg ''deadline'' args))) (\<lambda>deadline.
     if assignees = [] \<or> project = [] \<or> deadline = None
     then tbind (from_res (pending_args env args assignees project deadline)) (\<lambda>p.
          tbind (change_box (\<lambda>b. b\<lparr>tb_pending := Some p\<rparr>)) (\<lambda>_.
          tret asked_by_buttons))
     else tbind (from_res (dict_item args (ascii ''title''))) (\<lambda>title.
          tbind (get_box (\<lambda>b. dict_has (tb_captures b) (capture_key (py_str (te_repr env) title)))) (\<lambda>known.
          if known
          then tbind (tfor_each (merge_assignee (capture_key (py_str (te_repr env) title))) assignees) (\<lambda>_.
               tbind (change_box (refresh_reply (capture_key (py_str (te_repr env) title)))) (\<lambda>_.
               tret same_task_reply))
          else tbind (from_res (tool_capture_intent env args assignees project deadline)) (\<lambda>i.
               capture_new env (capture_key (py_str (te_repr env) title)) i))))))"

subsection \<open>The other write tools\<close>

fun template_code_of :: "json \<Rightarrow> template_code res" where
  "template_code_of (JStr s) =
     (if s = ascii ''standard'' then Inr Standard else if s = ascii ''lite'' then Inr Lite else Inl ValueError)"
| "template_code_of _ = Inl ValueError"

definition plan_project_tool :: "tool_env \<Rightarrow> tool_args \<Rightarrow> ustr tool" where
  "plan_project_tool env args =
     tbind (from_res (dict_item args (ascii ''title''))) (\<lambda>title.
     tbind (from_res (dict_item args (ascii ''template''))) (\<lambda>template.
     tbind (from_res (opt_date (te_repr env) (arg ''deadline'' args))) (\<lambda>deadline.
     tbind (from_res (json_str title)) (\<lambda>name.
     tbind (from_res (template_code_of template)) (\<lambda>code.
     tbind (on_repo (build_add_project_reply
              \<lparr>ap_title = name, ap_template_code = code, ap_deadline = deadline, ap_brief_return_date = None,
               ap_notes = None\<rparr>
              (te_solver env) (te_actor env) (te_today env) None (te_project_sink env))) (\<lambda>(text, proposed, links).
     tbind (change_box (\<lambda>b. b\<lparr>tb_notion_urls := tb_notion_urls b @ links, tb_last_proposed := proposed\<rparr>)) (\<lambda>_.
     tret text)))))))"

definition vacation_reply :: "vacation_intent \<Rightarrow> int \<Rightarrow> ustr" where
  "vacation_reply i days =
     [1054, 1092, 1086, 1088, 1084, 1080, 1083, 32, 1086, 1090, 1087, 1091, 1089, 1082, 32] @ va_person_name i @ [58, 32] @ isoformat (va_day_from i) @ [8211] @
     isoformat (va_day_to i) @ [32, 40] @ int_dec days @ [32, 1076, 1085, 46, 41, 46, 32, 1047, 1072, 1087, 1091, 1089, 1090, 1080, 32, 114, 101, 112, 108,
      97, 110, 32, 1087, 1088, 1080, 32, 1085, 1077, 1086, 1073, 1093, 1086, 1076, 1080, 1084, 1086,
      1089, 1090, 1080, 46]"

definition set_vacation_tool :: "tool_env \<Rightarrow> tool_args \<Rightarrow> ustr tool" where
  "set_vacation_tool env args =
     tbind (from_res (dict_item args (ascii ''person''))) (\<lambda>person.
     tbind (from_res (bind_res (dict_item args (ascii ''day_from'')) (req_date (te_repr env)))) (\<lambda>day_from.
     tbind (from_res (bind_res (dict_item args (ascii ''day_to'')) (req_date (te_repr env)))) (\<lambda>day_to.
     tbind (from_res (to_int (dict_get_default args (ascii ''capacity_h'') (JInt 0)))) (\<lambda>capacity_h.
     tbind (from_res (json_str person)) (\<lambda>name.
     let i = \<lparr>va_person_name = name, va_day_from = day_from, va_day_to = day_to, va_capacity_h = capacity_h\<rparr>
     in tcatch (tbind (on_repo (set_vacation i (map_option pp_id (te_actor env)) True)) (\<lambda>days.
                tret (vacation_reply i days)))
          (\<lambda>e. case e of PersonNotFoundError _ \<Rightarrow> tret (unknown_person name) | _ \<Rightarrow> traise e))))))"

definition replan_tool :: "tool_env \<Rightarrow> ustr tool" where
  "replan_tool env = on_repo (build_replan_summary (te_solver env) (te_today env))"

definition assign_task_tool :: "tool_env \<Rightarrow> tool_args \<Rightarrow> ustr tool" where
  "assign_task_tool env args =
     tbind (from_res (dict_item args (ascii ''task_ref''))) (\<lambda>task_ref.
     tbind (from_res (dict_item args (ascii ''person''))) (\<lambda>person.
     tbind (from_res (json_str task_ref)) (\<lambda>ref.
     tbind (from_res (json_str person)) (\<lambda>name.
     on_repo (build_assign_reply \<lparr>as_task_ref = ref, as_person_name = name\<rparr> (map_option pp_id (te_actor env)))))))"

definition mark_task_done_tool :: "tool_env \<Rightarrow> tool_args \<Rightarrow> ustr tool" where
  "mark_task_done_tool env args =
     (let task_ref = strip (py_str (te_repr env) (arg_or ''task_ref'' (JStr []) args)) in
      tbind (on_repo list_tasks_with_meta) (\<lambda>metas.
      case match_tasks task_ref metas of
        [] \<Rightarrow> tret ([1053, 1077, 32, 1085, 1072, 1096, 1105, 1083, 32, 1079, 1072, 1076, 1072, 1095, 1091, 32] @ quoted task_ref @ [32, 8212, 32, 1091, 1090, 1086, 1095, 1085, 1080, 32, 1085, 1072, 1079, 1074, 1072, 1085, 1080,
      1077, 46])
      | t1 # t2 # ts \<Rightarrow>
          tret ([1053, 1072, 1096, 1105, 1083, 32, 1085, 1077, 1089, 1082, 1086, 1083, 1100, 1082, 1086, 32, 1079,
      1072, 1076, 1072, 1095, 32, 40] @
                join (ascii '', '') (sort (remdups (map tm_task_name (t1 # t2 # ts)))) @
                [41, 32, 8212, 32, 1091, 1090, 1086, 1095, 1085, 1080, 44, 32, 1082, 1072, 1082, 1091, 1102, 32,
      1086, 1090, 1084, 1077, 1090, 1080, 1090, 1100, 46])
      | [t] \<Rightarrow>
          tbind (on_repo (mark_task_done (te_project_sink env) (tm_task_id t)
                   (map_option pp_id (te_actor env)) True (ascii ''done''))) (\<lambda>_.
          tret ([1054, 1090, 1084, 1077, 1090, 1080, 1083, 32] @ quoted (tm_task_name t) @ [32, 1082, 1072, 1082, 32, 1074, 1099, 1087, 1086, 1083, 1085, 1077, 1085, 1085, 1091, 1102, 46]))))"

subsection \<open>execute\<close>

definition ADMIN_ONLY_MSG :: ustr where
  "ADMIN_ONLY_MSG = [1058, 1086, 1083, 1100, 1082, 1086, 32, 1072, 1076, 1084, 1080, 1085, 32, 1084, 1086, 1078, 1077,
      1090, 32, 1084, 1077, 1085, 1103, 1090, 1100, 32, 1087, 1083, 1072, 1085, 46]"

definition WRITE_TOOLS :: "ustr list" where
  "WRITE_TOOLS =
     map ascii [''capture_task'', ''plan_project'', ''set_vacation'', ''replan'', ''assign_task'', ''mark_task_done'']"

definition EXECUTORS :: "tool_env \<Rightarrow> (ustr, tool_args \<Rightarrow> ustr tool) dict" where
  "EXECUTORS env =
     map (\<lambda>(n, f). (ascii n, f))
       [(''get_team_load'', get_team_load),
        (''find_assignees'', find_assignees env),
        (''list_people'', \<lambda>args. list_people_tool),
        (''list_projects'', \<lambda>args. list_projects_tool),
        (''capture_task'', capture_task_tool env),
        (''plan_project'', plan_project_tool env),
        (''set_vacation'', set_vacation_tool env),
        (''replan'', \<lambda>args. replan_tool env),
        (''assign_task'', assign_task_tool env),
        (''mark_task_done'', mark_task_done_tool env)]"

definition tool_error :: "tool_env \<Rightarrow> ustr \<Rightarrow> exn \<Rightarrow> ustr" where
  "tool_error env name e = [1054, 1096, 1080, 1073, 1082, 1072, 32, 1080, 1085, 1089, 1090, 1088, 1091, 1084, 1077, 1085, 1090,
      1072, 32] @ name @ [58, 32] @ te_exc_text env e"

definition execute :: "tool_env \<Rightarrow> ustr \<Rightarrow> tool_args \<Rightarrow> ustr tool" where
  "execute env name args =
     (if name \<in> set WRITE_TOOLS \<and> \<not> te_is_admin env then tret ADMIN_ONLY_MSG
      else case dict_get (EXECUTORS env) name of
             None \<Rightarrow> tret ([1053, 1077, 1080, 1079, 1074, 1077, 1089, 1090, 1085, 1099, 1081, 32, 1080, 1085, 1089, 1090, 1088,
      1091, 1084, 1077, 1085, 1090, 32] @ name @ [46])
           | Some executor \<Rightarrow> tcatch (executor args) (\<lambda>e. tret (tool_error env name e)))"

end
