(* ===== verification/Agent.thy ===== *)
theory Agent
  imports Tool_Box
begin

section \<open>The tool-use loop\<close>

text \<open>
  \<open>infra/llm/agent.py\<close>. The language model (\<open>messages.create\<close>) is a parameter: a response or an
  exception for every conversation. The parser of the degraded mode is injected into the agent and is
  a parameter too; it may raise.
\<close>

record chat_context =
  cx_today :: date
  cx_aliases :: "(ustr, ustr) dict"
  cx_known_people :: "ustr list"
  cx_known_projects :: "ustr list"
  cx_recent_messages :: "ustr list"

datatype block = TextBlock ustr | ToolUseBlock ustr ustr json | OtherBlock

record llm_response =
  lr_stop_reason :: "ustr option"
  lr_content :: "block list"

datatype agent_message = UserText ustr | AssistantTurn "block list" | ToolResults "(ustr \<times> ustr) list"

type_synonym language_model = "agent_message list \<Rightarrow> llm_response res"

text \<open>The text is missing when the degraded mode describes a clarification without a question.\<close>

record agent_reply =
  rp_text :: "ustr option"
  rp_proposed_pv_id :: "uuid option"
  rp_notion_urls :: "ustr list"
  rp_clarify :: "capture_args option"
  rp_captured_replies :: "ustr list"

definition MAX_ITERS :: nat where
  "MAX_ITERS = 10"

definition CAP_MESSAGE :: ustr where
  "CAP_MESSAGE = [1053, 1077, 32, 1091, 1089, 1087, 1077, 1083, 32, 1086, 1073, 1088, 1072, 1073, 1086, 1090, 1072,
      1090, 1100, 32, 8212, 32, 1087, 1077, 1088, 1077, 1092, 1086, 1088, 1084, 1091, 1083, 1080,
      1088, 1091, 1081, 32, 1082, 1086, 1088, 1086, 1095, 1077, 46]"

definition INTERRUPT_NOTICE :: ustr where
  "INTERRUPT_NOTICE =
     [9888, 65039, 32, 1044, 1072, 1083, 1100, 1085, 1077, 1081, 1096, 1072, 1103, 32, 1086, 1073, 1088,
      1072, 1073, 1086, 1090, 1082, 1072, 32, 1087, 1088, 1077, 1088, 1074, 1072, 1085, 1072, 32,
      1080, 1079, 45, 1079, 1072, 32, 1086, 1096, 1080, 1073, 1082, 1080, 32, 8212, 32, 1087, 1086,
      1074, 1090, 1086, 1088, 1080, 1090, 1077, 32, 1086, 1089, 1090, 1072, 1083, 1100, 1085, 1086,
      1077, 32, 1086, 1090, 1076, 1077, 1083, 1100, 1085, 1099, 1084, 32, 1089, 1086, 1086, 1073,
      1097, 1077, 1085, 1080, 1077, 1084, 46]"

definition PLAN_PROPOSED_LINE :: ustr where
  "PLAN_PROPOSED_LINE = [1055, 1088, 1077, 1076, 1083, 1086, 1078, 1080, 1083, 32, 1087, 1083, 1072, 1085, 32, 8212, 32,
      1087, 1086, 1076, 1090, 1074, 1077, 1088, 1076, 1080, 32, 1082, 1085, 1086, 1087, 1082, 1086,
      1081, 32, 1085, 1080, 1078, 1077, 46]"

definition build_context_block :: "chat_context \<Rightarrow> ustr" where
  "build_context_block ctx =
     (let orelse = (\<lambda>s. if s = [] then DASH else s) in
      ascii ''today='' @ isoformat (cx_today ctx) @ [10] @
      [1082, 1086, 1084, 1072, 1085, 1076, 1072, 58, 32] @ orelse (join (ascii '', '') (cx_known_people ctx)) @ [10] @
      [1087, 1088, 1086, 1077, 1082, 1090, 1099, 58, 32] @ orelse (join (ascii '', '') (cx_known_projects ctx)) @ [10] @
      [1085, 1077, 1076, 1072, 1074, 1085, 1080, 1077, 32, 1089, 1086, 1086, 1073, 1097, 1077, 1085, 1080,
      1103, 58] @ [10] @ orelse (lines_text (cx_recent_messages ctx)))"

fun block_text :: "block \<Rightarrow> ustr" where
  "block_text (TextBlock s) = s"
| "block_text _ = []"

definition final_text :: "llm_response \<Rightarrow> ustr" where
  "final_text resp =
     (let text = strip (concat (map block_text (lr_content resp)))
      in if text = [] then CAP_MESSAGE else text)"

definition partial_reply :: "tool_box \<Rightarrow> agent_reply option" where
  "partial_reply b =
     (if tb_last_proposed b = None \<and> tb_replies b = [] \<and> tb_notion_urls b = [] then None
      else let ls = (if tb_last_proposed b \<noteq> None then [PLAN_PROPOSED_LINE] else []) @ [INTERRUPT_NOTICE];
               replies = tb_replies b @ ls
           in Some \<lparr>rp_text = Some (join [10, 10] replies), rp_proposed_pv_id = tb_last_proposed b,
                    rp_notion_urls = tb_notion_urls b, rp_clarify = None, rp_captured_replies = replies\<rparr>)"

definition reply_with :: "ustr \<Rightarrow> tool_box \<Rightarrow> agent_reply" where
  "reply_with text b =
     \<lparr>rp_text = Some text, rp_proposed_pv_id = tb_last_proposed b, rp_notion_urls = tb_notion_urls b,
      rp_clarify = tb_pending b, rp_captured_replies = tb_replies b\<rparr>"

text \<open>The tool calls of one response, in order, with their results.\<close>

fun run_blocks :: "tool_env \<Rightarrow> block list \<Rightarrow> (ustr \<times> ustr) list tool" where
  "run_blocks env [] = tret []"
| "run_blocks env (ToolUseBlock i name input # bs) =
     tbind (execute env name (case input of JObj d \<Rightarrow> d | _ \<Rightarrow> [])) (\<lambda>out.
     tbind (run_blocks env bs) (\<lambda>results. tret ((i, out) # results)))"
| "run_blocks env (TextBlock s # bs) = run_blocks env bs"
| "run_blocks env (OtherBlock # bs) = run_blocks env bs"

fun agent_loop :: "language_model \<Rightarrow> tool_env \<Rightarrow> nat \<Rightarrow> agent_message list \<Rightarrow> agent_reply tool" where
  "agent_loop model env 0 messages = get_box (reply_with CAP_MESSAGE)"
| "agent_loop model env (Suc n) messages =
     tbind (from_res (model messages)) (\<lambda>resp.
     if lr_stop_reason resp \<noteq> Some (ascii ''tool_use'') then get_box (reply_with (final_text resp))
     else tbind (run_blocks env (lr_content resp)) (\<lambda>results.
          agent_loop model env n (messages @ [AssistantTurn (lr_content resp), ToolResults results])))"

fun describe_degraded :: "intent \<Rightarrow> ustr option" where
  "describe_degraded (ClarifyIntent i) = cl_question i"
| "describe_degraded (LoadIntent i) = Some [1055, 1086, 1082, 1072, 1079, 1099, 1074, 1072, 1102, 32, 1079, 1072, 1075, 1088, 1091, 1079, 1082,
      1091, 32, 1082, 1086, 1084, 1072, 1085, 1076, 1099, 46]"
| "describe_degraded (CaptureTaskIntent i) =
     Some (rstrip_by (\<lambda>c. c = 58 \<or> c = 32) ([1047, 1072, 1087, 1080, 1089, 1072, 1083, 32, 1079, 1072, 1076, 1072, 1095, 1091, 58, 32] @ strip (ct_task_title i)))"
| "describe_degraded (AddProjectIntent i) = Some ([1055, 1083, 1072, 1085, 1080, 1088, 1091, 1102, 32, 1087, 1088, 1086, 1077, 1082, 1090, 32] @ quoted (ap_title i) @ [46])"
| "describe_degraded (WhatIfIntent i) = Some [1052, 1086, 1076, 1077, 1083, 1080, 1088, 1091, 1102, 32, 1089, 1094, 1077, 1085, 1072, 1088, 1080,
      1081, 32, 40, 1095, 1090, 1086, 45, 1077, 1089, 1083, 1080, 41, 46]"
| "describe_degraded (VacationIntent i) =
     Some (rstrip_by is_space ([1054, 1092, 1086, 1088, 1084, 1083, 1103, 1102, 32, 1086, 1090, 1087, 1091, 1089, 1082, 32] @ va_person_name i @ [46]))"
| "describe_degraded (ConfirmIntent i) = Some [1055, 1086, 1076, 1090, 1074, 1077, 1088, 1078, 1076, 1072, 1102, 32, 1087, 1086, 1089, 1083, 1077,
      1076, 1085, 1080, 1081, 32, 1087, 1088, 1077, 1076, 1083, 1086, 1078, 1077, 1085, 1085, 1099,
      1081, 32, 1087, 1083, 1072, 1085, 46]"
| "describe_degraded (AssignIntent i) = Some [1055, 1077, 1088, 1077, 1085, 1072, 1079, 1085, 1072, 1095, 1072, 1102, 32, 1079, 1072, 1076, 1072,
      1095, 1091, 46]"

type_synonym sync_parser = "ustr \<Rightarrow> chat_context \<Rightarrow> intent res"

definition fallback_text :: "sync_parser \<Rightarrow> ustr \<Rightarrow> chat_context \<Rightarrow> ustr option res" where
  "fallback_text parser text ctx = bind_res (parser text ctx) (\<lambda>i. Inr (describe_degraded i))"

definition plain_reply :: "ustr option \<Rightarrow> agent_reply" where
  "plain_reply text =
     \<lparr>rp_text = text, rp_proposed_pv_id = None, rp_notion_urls = [], rp_clarify = None, rp_captured_replies = []\<rparr>"

definition first_user :: "ustr \<Rightarrow> chat_context \<Rightarrow> ustr" where
  "first_user text ctx = build_context_block ctx @ [10] @ ascii ''---'' @ [10] @ text"

definition agent_run ::
  "language_model \<Rightarrow> sync_parser \<Rightarrow> tool_env \<Rightarrow> ustr \<Rightarrow> chat_context \<Rightarrow> agent_reply tool" where
  "agent_run model parser env text ctx =
     tcatch (agent_loop model env MAX_ITERS [UserText (first_user text ctx)]) (\<lambda>e.
       tbind (get_box partial_reply) (\<lambda>partial.
       case partial of
         Some r \<Rightarrow> tret r
       | None \<Rightarrow> tbind (from_res (fallback_text parser text ctx)) (\<lambda>answer. tret (plain_reply answer))))"

subsection \<open>Running tools\<close>

lemma execute_total: "\<exists>out s'. execute env name args s = (Inr out, s')"
  by (auto simp: execute_def tret_def tcatch_def split: option.split prod.split sum.split)

lemma run_blocks_total: "\<exists>results s'. run_blocks env bs s = (Inr results, s')"
proof (induction env bs arbitrary: s rule: run_blocks.induct)
  case (2 env i name input bs)
  obtain out s1 where "execute env name (case input of JObj d \<Rightarrow> d | _ \<Rightarrow> []) s = (Inr out, s1)"
    using execute_total by blast
  moreover obtain results s2 where "run_blocks env bs s1 = (Inr results, s2)" using 2 by blast
  ultimately show ?case by (simp add: tbind_def tret_def)
qed (simp_all add: tret_def)

text \<open>The loop raises only when the model does.\<close>

lemma agent_loop_returns:
  assumes "\<And>ms. \<exists>resp. model ms = Inr resp"
  shows "\<exists>r s'. agent_loop model env n messages s = (Inr r, s')"
proof (induction n arbitrary: messages s)
  case 0
  show ?case by (simp add: get_box_def)
next
  case (Suc n)
  obtain resp where resp: "model messages = Inr resp" using assms by blast
  show ?case
  proof (cases "lr_stop_reason resp \<noteq> Some (ascii ''tool_use'')")
    case True
    with resp show ?thesis by (simp add: tbind_def from_res_def get_box_def)
  next
    case False
    obtain results s1 where "run_blocks env (lr_content resp) s = (Inr results, s1)"
      using run_blocks_total by blast
    with False resp Suc show ?thesis by (simp add: tbind_def from_res_def)
  qed
qed

lemma agent_loop_reply:
  assumes "agent_loop model env n messages s = (Inr r, b, w)"
  shows "\<exists>text. r = reply_with text b"
  using assms
proof (induction n arbitrary: messages s)
  case 0
  then show ?case by (auto simp: get_box_def)
next
  case (Suc n)
  then show ?case
    by (auto simp: tbind_def from_res_def get_box_def split: sum.splits prod.splits if_splits)
qed

lemma agent_run_cases:
  obtains (finished) r b w' said where "agent_run model parser env text' ctx s = (Inr r, b, w')" "r = reply_with said b"
  | (interrupted) r b w' where "agent_run model parser env text' ctx s = (Inr r, b, w')" "partial_reply b = Some r"
  | (degraded) b w' where "agent_run model parser env text' ctx s =
      (bind_res (fallback_text parser text' ctx) (\<lambda>t. Inr (plain_reply t)), b, w')" "partial_reply b = None"
proof -
  obtain r b w' where run: "agent_loop model env MAX_ITERS [UserText (first_user text' ctx)] s = (r, b, w')"
    by (metis surjective_pairing)
  show ?thesis
  proof (cases r)
    case (Inr rep)
    then obtain said where "rep = reply_with said b" using agent_loop_reply run by blast
    then show ?thesis using run Inr by (intro that(1)) (auto simp: agent_run_def tcatch_def)
  next
    case (Inl e)
    show ?thesis
    proof (cases "partial_reply b")
      case None
      with run Inl have "agent_run model parser env text' ctx s =
          (bind_res (fallback_text parser text' ctx) (\<lambda>t. Inr (plain_reply t)), b, w')"
        by (cases "fallback_text parser text' ctx")
          (simp_all add: agent_run_def tcatch_def tbind_def get_box_def from_res_def tret_def)
      then show ?thesis using None by (rule that(3))
    next
      case (Some rep)
      with run Inl have "agent_run model parser env text' ctx s = (Inr rep, b, w')"
        by (simp add: agent_run_def tcatch_def tbind_def get_box_def tret_def)
      then show ?thesis using Some by (rule that(2))
    qed
  qed
qed

end
