(* ===== verification/Agent_Safety.thy ===== *)
theory Agent_Safety
  imports Agent
begin

section \<open>What the agent can do to the database\<close>

text \<open>
  Whatever the language model answers, its tools reach the database through the repository methods
  below. The locale \<open>write_invariant\<close> lists them: a property of the database that each of them keeps is
  kept by every use case, tool and run of the agent. It holds of the constraints of the schema and of
  the list of committed plan versions. For a sender who is no administrator every tool only reads.
\<close>

locale write_invariant =
  fixes P :: "db \<Rightarrow> bool"
  assumes keeps_new_project: "\<And>title code dl br who pri i. keeps P (create_project title code dl br who pri i)"
    and keeps_new_tasks: "\<And>i ts as. keeps P (save_project_tasks i ts as)"
    and keeps_proposal: "\<And>i payload who. keeps P (save_plan_version i (ascii ''proposed'') payload who)"
    and keeps_page: "\<And>i page. keeps P (set_project_notion_page i page)"
    and keeps_new_task: "\<And>i n h dl sk t. keeps P (create_task i n h dl sk t)"
    and keeps_assign: "\<And>t p h. keeps P (assign_task t p h)"
    and keeps_assignee: "\<And>t p h. keeps P (set_task_assignee t p h)"
    and keeps_reassign: "\<And>t p. keeps P (reassign_in_plan t p)"
    and keeps_override: "\<And>p day c r. keeps P (upsert_day_override p day c r)"
    and keeps_status: "\<And>t st. keeps P (set_task_status t st)"
    and keeps_audit: "\<And>who act ty i j. keeps P (add_audit who act ty i j)"

subsection \<open>Tools that keep a property\<close>

definition tkeeps :: "(db \<Rightarrow> bool) \<Rightarrow> 'a tool \<Rightarrow> bool" where
  "tkeeps P m \<longleftrightarrow> (\<forall>s. P (w_db (snd s)) \<longrightarrow> P (w_db (snd (snd (m s)))))"

lemma tkeepsD: "tkeeps P m \<Longrightarrow> P (w_db w) \<Longrightarrow> m (b, w) = (r, b', w') \<Longrightarrow> P (w_db w')"
  unfolding tkeeps_def by (metis snd_conv)

lemma tkeeps_pure [keep_intros]:
  "tkeeps P (tret x)" "tkeeps P (traise e)" "tkeeps P (from_res r)" "tkeeps P (get_box f)" "tkeeps P (change_box g)"
  by (simp_all add: tkeeps_def tret_def traise_def from_res_def get_box_def change_box_def)

lemma tkeeps_bind [keep_intros]: "tkeeps P m \<Longrightarrow> (\<And>x. tkeeps P (f x)) \<Longrightarrow> tkeeps P (tbind m f)"
  unfolding tkeeps_def tbind_def by (fastforce split: prod.split sum.split)

lemma tkeeps_catch [keep_intros]: "tkeeps P m \<Longrightarrow> (\<And>e. tkeeps P (h e)) \<Longrightarrow> tkeeps P (tcatch m h)"
  unfolding tkeeps_def tcatch_def by (fastforce split: prod.split sum.split)

lemma tkeeps_repo [keep_intros]: "keeps P m \<Longrightarrow> tkeeps P (on_repo m)"
  unfolding tkeeps_def on_repo_def keeps_def by (auto split: prod.split)

lemma tkeeps_if [keep_intros]: "(c \<Longrightarrow> tkeeps P m) \<Longrightarrow> (\<not> c \<Longrightarrow> tkeeps P n) \<Longrightarrow> tkeeps P (if c then m else n)"
  by simp

lemma tkeeps_pair [keep_intros]: "(\<And>x y. tkeeps P (f x y)) \<Longrightarrow> tkeeps P (case z of (x, y) \<Rightarrow> f x y)"
  by (cases z) simp

lemma tkeeps_option [keep_intros]:
  "tkeeps P m \<Longrightarrow> (\<And>x. tkeeps P (f x)) \<Longrightarrow> tkeeps P (case opt of None \<Rightarrow> m | Some x \<Rightarrow> f x)"
  by (simp split: option.split)

lemma tkeeps_for_each [keep_intros]: "(\<And>x. tkeeps P (f x)) \<Longrightarrow> tkeeps P (tfor_each f xs)"
  by (induction xs) (auto intro!: tkeeps_bind tkeeps_pure)

subsection \<open>Read tools\<close>

lemma keeps_committed_load [keep_intros]: "keeps P committed_load"
  unfolding committed_load_def by (intro keep_intros)

lemma keeps_suggest_use_case [keep_intros]: "keeps P (suggest_use_case sk ext n r)"
  unfolding suggest_use_case_def by (intro keep_intros)

lemma tkeeps_get_team_load [keep_intros]: "tkeeps P (get_team_load args)"
  unfolding get_team_load_def Let_def by (intro keep_intros)

lemma tkeeps_find_assignees [keep_intros]: "tkeeps P (find_assignees env args)"
  unfolding find_assignees_def Let_def by (intro keep_intros)

lemma tkeeps_list_people [keep_intros]: "tkeeps P list_people_tool"
  unfolding list_people_tool_def by (intro keep_intros)

lemma tkeeps_list_projects [keep_intros]: "tkeeps P list_projects_tool"
  unfolding list_projects_tool_def by (intro keep_intros)

lemma keeps_replan_summary [keep_intros]: "keeps P (build_replan_summary slv today)"
  by (simp add: keeps_def readonly_summary)

lemma executor_names: "dict_get (EXECUTORS env) name = Some f \<Longrightarrow>
    name \<in> ascii ` {''get_team_load'', ''find_assignees'', ''list_people'', ''list_projects''} \<or> name \<in> set WRITE_TOOLS"
  by (auto simp: EXECUTORS_def WRITE_TOOLS_def dict_get_def split: if_splits)

subsection \<open>Write tools\<close>

context write_invariant begin

lemmas writes [keep_intros] =
  keeps_new_project keeps_new_tasks keeps_proposal keeps_page keeps_new_task keeps_assign keeps_assignee
  keeps_reassign keeps_override keeps_status keeps_audit

lemma capture_keeps [keep_intros]: "keeps P (build_capture_reply i who sink)"
proof -
  have "keeps P (resolve_project n a)" for n a
    unfolding resolve_project_def by (intro keep_intros)
  moreover have "keeps P (assign_one t d n ns)" for t d n ns
    unfolding assign_one_def by (intro keep_intros)
  ultimately show ?thesis
    unfolding build_capture_reply_def capture_task_def Let_def by (intro keep_intros)
qed

lemma add_project_keeps [keep_intros]: "keeps P (build_add_project_reply i slv who today llm sink)"
proof -
  have "keeps P (make_card s p c)" for s p c
    unfolding make_card_def by (intro keep_intros)
  moreover have "keeps P (store_project i a p ts pl)" for a p ts pl
    unfolding store_project_def by (intro keep_intros)
  ultimately show ?thesis
    unfolding build_add_project_reply_def add_project_def by (intro keep_intros)
qed

lemma vacation_days_keeps: "keeps P (vacation_days pid c day day_to n)"
proof (induction pid c day day_to n rule: vacation_days.induct)
  case (1 pid c day day_to n)
  then show ?case by (subst vacation_days.simps) (auto intro!: keep_intros)
qed

lemma vacation_keeps [keep_intros]: "keeps P (set_vacation i a adm)"
  unfolding set_vacation_def Let_def by (intro keep_intros vacation_days_keeps)

lemma assign_reply_keeps [keep_intros]: "keeps P (build_assign_reply i a)"
  unfolding build_assign_reply_def by (intro keep_intros) (auto split: list.split intro!: keep_intros)

lemma mark_done_keeps [keep_intros]: "keeps P (mark_task_done s t a adm st)"
  unfolding mark_task_done_def by (intro keep_intros)

lemma capture_tool_keeps: "tkeeps P (capture_task_tool env args)"
proof -
  have "tkeeps P (merge_assignee k n)" for k n
    unfolding merge_assignee_def by (intro keep_intros)
  then show ?thesis
    unfolding capture_task_tool_def capture_new_def by (intro keep_intros)
qed

lemma vacation_tool_keeps: "tkeeps P (set_vacation_tool env args)"
  unfolding set_vacation_tool_def Let_def
  by (intro keep_intros) (auto split: exn.split intro!: keep_intros)

lemma mark_tool_keeps: "tkeeps P (mark_task_done_tool env args)"
  unfolding mark_task_done_tool_def Let_def
  by (intro keep_intros) (auto split: list.split intro!: keep_intros)

lemma write_tools_keep:
  "tkeeps P (plan_project_tool env args)" "tkeeps P (replan_tool env)" "tkeeps P (assign_task_tool env args)"
  unfolding plan_project_tool_def replan_tool_def assign_task_tool_def by (intro keep_intros)+

lemma executor_keeps: "dict_get (EXECUTORS env) name = Some f \<Longrightarrow> tkeeps P (f args)"
  by (auto simp: EXECUTORS_def dict_get_def capture_tool_keeps vacation_tool_keeps mark_tool_keeps write_tools_keep
      intro!: keep_intros split: if_splits)

lemma execute_keeps [keep_intros]: "tkeeps P (execute env name args)"
  unfolding execute_def by (auto split: option.split intro!: keep_intros dest: executor_keeps)

end

subsection \<open>Runs of the agent\<close>

lemma run_blocks_keeps:
  assumes "\<And>name args. tkeeps P (execute env name args)"
  shows "tkeeps P (run_blocks env bs)"
proof (induction bs)
  case (Cons b bs)
  then show ?case by (cases b) (auto intro!: keep_intros assms)
qed (simp add: keep_intros)

lemma agent_run_keeps:
  assumes "\<And>name args. tkeeps P (execute env name args)"
  shows "tkeeps P (agent_run model parser env text ctx)"
proof -
  have "tkeeps P (agent_loop model env n ms)" for n ms
    by (induction n arbitrary: ms) (auto intro!: keep_intros run_blocks_keeps assms)
  then show ?thesis unfolding agent_run_def by (intro keep_intros)
qed

lemma execute_readonly:
  assumes "\<not> te_is_admin env"
  shows "tkeeps P (execute env name args)"
proof (cases "name \<in> set WRITE_TOOLS")
  case True
  with assms show ?thesis by (simp add: execute_def keep_intros)
next
  case False
  have "tkeeps P (f args)" if "dict_get (EXECUTORS env) name = Some f" for f
    using that False by (auto simp: EXECUTORS_def WRITE_TOOLS_def dict_get_def intro!: keep_intros split: if_splits)
  then show ?thesis by (auto simp: execute_def intro!: keep_intros split: option.split)
qed

subsection \<open>The committed plans\<close>

definition commits :: "db \<Rightarrow> uuid list" where
  "commits d = map pv_id (committed_rows d)"

lemma commits_by_plans: "db_plans d' = db_plans d \<Longrightarrow> commits d' = commits d"
  by (simp add: commits_def committed_rows_def)

lemma keeps_same_plans:
  assumes "\<And>now d x d'. f now d = Inr (x, d') \<Longrightarrow> db_plans d' = db_plans d"
  shows "keeps (\<lambda>d. commits d = C) (transaction f)"
  by (rule keeps_transaction) (metis assms commits_by_plans)

lemma insert_same_plans:
  "insert_task t d = Inr d' \<Longrightarrow> db_plans d' = db_plans d"
  "insert_assignment a d = Inr d' \<Longrightarrow> db_plans d' = db_plans d"
  by (auto simp: insert_task_def insert_assignment_def res_simps)

lemma commits_edit:
  assumes "edit_first_plan f vs = Inr (hit, vs')"
  shows "map pv_id (filter (\<lambda>v. pv_status v = s) vs') = map pv_id (filter (\<lambda>v. pv_status v = s) vs)"
proof -
  have "map pv_id (filter (\<lambda>v. pv_status v = s) vs') = map pv_id (filter (\<lambda>v. pv_status v = s) vs)"
    if "list_all2 (\<lambda>v v'. \<exists>p. v' = v\<lparr>pv_payload := p\<rparr>) vs vs'"
    using that
  proof (induction rule: list_all2_induct)
    case (Cons v vs v' vs')
    then obtain p where "v' = v\<lparr>pv_payload := p\<rparr>" by blast
    then show ?case using Cons.IH by simp
  qed simp
  then show ?thesis using edit_first_plan_rows [OF assms] .
qed

interpretation schema: write_invariant db_ok
  by unfold_locales (intro keep_intros)+

interpretation committed: write_invariant "\<lambda>d. commits d = C" for C
proof unfold_locales
  show "keeps (\<lambda>d. commits d = C) (create_project title code dl br who pri i)" for title code dl br who pri i
    unfolding create_project_def by (intro keep_intros keeps_same_plans) (auto simp: insert_project_def res_simps)
  show "keeps (\<lambda>d. commits d = C) (save_project_tasks i ts as)" for i ts as
    unfolding save_project_tasks_def
  proof (rule keeps_same_plans)
    fix now and d :: db and x d'
    assume "bind_res (fold_res (\<lambda>t. insert_task
         (planned_row i (dict_get (assignments_by_task as) (t_id t)) t)) ts d) (\<lambda>d1.
     bind_res (fold_res insert_assignment (concat (map (planned_assignment_rows as) ts)) d1) (\<lambda>d2.
       Inr ((), d2))) = Inr (x, d')"
    then obtain d1 where d1: "fold_res (\<lambda>t. insert_task
         (planned_row i (dict_get (assignments_by_task as) (t_id t)) t)) ts d = Inr d1"
      and d2: "fold_res insert_assignment (concat (map (planned_assignment_rows as) ts)) d1 = Inr d'"
      by (auto simp: res_simps)
    have "db_plans d1 = db_plans d"
      by (rule fold_res_invariant [OF d1, of "\<lambda>e. db_plans e = db_plans d"]) (simp_all add: insert_same_plans)
    moreover have "db_plans d' = db_plans d1"
      by (rule fold_res_invariant [OF d2, of "\<lambda>e. db_plans e = db_plans d1"]) (simp_all add: insert_same_plans)
    ultimately show "db_plans d' = db_plans d" by simp
  qed
  show "keeps (\<lambda>d. commits d = C) (save_plan_version i (ascii ''proposed'') payload who)" for i payload who
    unfolding save_plan_version_def
    by (intro keep_intros keeps_transaction) (auto simp: insert_plan_version_def res_simps commits_def committed_rows_def)
  show "keeps (\<lambda>d. commits d = C) (set_project_notion_page i page)" for i page
    unfolding set_project_notion_page_def by (rule keeps_same_plans) auto
  show "keeps (\<lambda>d. commits d = C) (create_task i n h dl sk t)" for i n h dl sk t
    unfolding create_task_def by (intro keep_intros keeps_same_plans) (auto simp: res_simps insert_same_plans)
  show "keeps (\<lambda>d. commits d = C) (assign_task t p h)" for t p h
    unfolding assign_task_def Let_def
    by (rule keeps_same_plans) (auto simp: res_simps insert_same_plans split: option.splits)
  show "keeps (\<lambda>d. commits d = C) (set_task_assignee t p h)" for t p h
    unfolding set_task_assignee_def
    by (rule keeps_same_plans) (auto simp: res_simps dest!: insert_same_plans(2) split: if_splits)
  show "keeps (\<lambda>d. commits d = C) (reassign_in_plan t p)" for t p
    unfolding reassign_in_plan_def
    by (rule keeps_transaction) (auto simp: res_simps commits_def committed_rows_def commits_edit)
  show "keeps (\<lambda>d. commits d = C) (upsert_day_override p day c r)" for p day c r
    unfolding upsert_day_override_def Let_def
    by (rule keeps_same_plans) (auto simp: res_simps split: option.splits)
  show "keeps (\<lambda>d. commits d = C) (set_task_status t st)" for t st
    unfolding set_task_status_def by (rule keeps_same_plans) auto
  show "keeps (\<lambda>d. commits d = C) (add_audit who act ty i j)" for who act ty i j
    unfolding add_audit_def by (rule keeps_same_plans) (auto simp: res_simps)
qed

end
