(* ===== verification/Task_Router.thy ===== *)
theory Task_Router
  imports Agent_Safety
begin

section \<open>The task router\<close>

text \<open>
  The handlers of \<open>bot/handlers/task_router.py\<close>: a message becomes a confirmation, a run of the agent or
  a list of intents. What aiogram injects is the record \<open>services\<close>: use cases, sinks, parser and agent,
  each optional as in the code. The parser, the language model and speech recognition are parameters.
\<close>

record services =
  hs_has_repo :: bool
  hs_solver :: "solver option"
  hs_explain :: "(ustr \<Rightarrow> ustr res) option"
  hs_confirm :: "task_sink option option"
  hs_task_sink :: "task_sink option"
  hs_project_sink :: "project_sink option"
  hs_parse :: "ustr \<Rightarrow> chat_context \<Rightarrow> intent res"
  hs_parse_intents :: "ustr \<Rightarrow> chat_context \<Rightarrow> intent list res"
  hs_agent :: "(language_model \<times> sync_parser) option"
  hs_history :: bool
  hs_today :: date
  hs_repr :: "json \<Rightarrow> ustr"
  hs_exc_text :: "exn \<Rightarrow> ustr"
  hs_field_int :: "json \<Rightarrow> int res"
  hs_field_time :: "json \<Rightarrow> time_of_day res"

record sender =
  sd_is_admin :: bool
  sd_record :: "person_record option"
  sd_chat :: "int option"

subsection \<open>Confirming\<close>

definition refused_confirm :: "exn \<Rightarrow> bool" where
  "refused_confirm e = (case e of PlanNotFoundError _ \<Rightarrow> True | PlanNotProposedError _ \<Rightarrow> True | _ \<Rightarrow> False)"

definition confirm_latest ::
  "task_sink option option \<Rightarrow> person_record option \<Rightarrow> uuid option \<Rightarrow> confirm_intent \<Rightarrow> ('s, bool) bot" where
  "confirm_latest confirm_uc actor_record last_pv_id i =
     (case opt_or (co_plan_version_id i) last_pv_id of
        None \<Rightarrow> bbind (send (Answer [1053, 1077, 1090, 32, 1087, 1083, 1072, 1085, 1072, 32, 1085, 1072, 32, 1087, 1086, 1076, 1090,
      1074, 1077, 1088, 1078, 1076, 1077, 1085, 1080, 1077, 32, 8212, 32, 1089, 1085, 1072, 1095,
      1072, 1083, 1072, 32, 1087, 1088, 1077, 1076, 1083, 1086, 1078, 1080, 32, 1087, 1083, 1072,
      1085, 46])) (\<lambda>_. bret False)
      | Some target \<Rightarrow>
          (case (confirm_uc, actor_record) of
             (Some sink, Some who) \<Rightarrow>
               bcatch (bbind (run_use_case (confirm_plan sink target (Some who))) (\<lambda>result.
                       bbind (send (Answer (confirm_reply_text result))) (\<lambda>_. bret True)))
                 (\<lambda>e. if refused_confirm e
                      then bbind (send (Answer [1055, 1083, 1072, 1085, 32, 1085, 1077, 32, 1085, 1072, 1081, 1076, 1077, 1085, 32, 1080, 1083,
      1080, 32, 1091, 1078, 1077, 32, 1079, 1072, 1092, 1080, 1082, 1089, 1080, 1088, 1086, 1074,
      1072, 1085, 46])) (\<lambda>_. bret False)
                      else braise e)
           | _ \<Rightarrow> bbind (send (Answer [1041, 1072, 1079, 1072, 32, 1076, 1072, 1085, 1085, 1099, 1093, 32, 1085, 1077, 32, 1087, 1086,
      1076, 1082, 1083, 1102, 1095, 1077, 1085, 1072, 46])) (\<lambda>_. bret False)))"

definition pending_plan :: "'s fsm_port option \<Rightarrow> 's \<Rightarrow> uuid option" where
  "pending_plan fsm s =
     (case fsm of None \<Rightarrow> None | Some f \<Rightarrow> parse_pv_id (fp_data f s (ascii ''pending_pv_id'')))"

definition on_state :: "'s fsm_port option \<Rightarrow> ('s fsm_port \<Rightarrow> 's \<Rightarrow> 's) \<Rightarrow> ('s, unit) bot" where
  "on_state fsm f = (case fsm of None \<Rightarrow> bret () | Some port \<Rightarrow> on_fsm (f port))"

definition stash_proposal :: "'s fsm_port option \<Rightarrow> uuid \<Rightarrow> ('s, unit) bot" where
  "stash_proposal fsm proposal =
     on_state fsm (\<lambda>f. fp_update_data f (ascii ''pending_pv_id'') (FText (uuid_str proposal)))"

subsection \<open>One intent\<close>

definition only_admin :: ustr where
  "only_admin = [1058, 1086, 1083, 1100, 1082, 1086, 32, 1072, 1076, 1084, 1080, 1085, 32, 1084, 1086, 1078, 1077,
      1090, 32, 1087, 1088, 1072, 1074, 1080, 1090, 1100, 32, 1087, 1083, 1072, 1085, 46]"

definition answer_plan :: "ustr \<Rightarrow> uuid option \<Rightarrow> ('s, unit) bot" where
  "answer_plan text proposal =
     send (case proposal of None \<Rightarrow> Answer text | Some i \<Rightarrow> AnswerButtons text (plan_keyboard i))"

definition load_caption :: "ustr option \<Rightarrow> ustr" where
  "load_caption person_name =
     [1047, 1072, 1075, 1088, 1091, 1079, 1082, 1072, 32, 40] @ text_or [1074, 1089, 1103, 32, 1082, 1086, 1084, 1072, 1085, 1076, 1072] person_name @ [41, 32, 1085, 1072, 32] @ nat_dec DEFAULT_DAYS @ [32, 1076, 1085, 1077, 1081, 46]"

definition no_active_people :: ustr where
  "no_active_people = [1042, 32, 1082, 1086, 1084, 1072, 1085, 1076, 1077, 32, 1085, 1077, 1090, 32, 1072, 1082, 1090,
      1080, 1074, 1085, 1099, 1093, 32, 1083, 1102, 1076, 1077, 1081, 32, 8212, 32, 1085, 1077,
      1095, 1077, 1075, 1086, 32, 1087, 1086, 1082, 1072, 1079, 1099, 1074, 1072, 1090, 1100, 46]"

definition answer_load :: "date \<Rightarrow> ustr option \<Rightarrow> ('s, unit) bot" where
  "answer_load today person_name =
     bbind (run_use_case (build_load_image today DEFAULT_DAYS person_name)) (\<lambda>png.
     case png of
       None \<Rightarrow> send (Answer no_active_people)
     | Some photo \<Rightarrow> send (AnswerPhoto photo (load_caption person_name)))"

definition dispatch_confirm ::
  "services \<Rightarrow> sender \<Rightarrow> 's fsm_port option \<Rightarrow> uuid option \<Rightarrow> confirm_intent \<Rightarrow> ('s, uuid option) bot" where
  "dispatch_confirm sv who fsm last_pv_id i =
     (if hs_confirm sv = None \<and> \<not> hs_has_repo sv
      then bbind (send (Answer (describe_intent (ConfirmIntent i)))) (\<lambda>_. bret None)
      else bbind (get_fsm (pending_plan fsm)) (\<lambda>pending.
           bbind (confirm_latest (hs_confirm sv) (sd_record who) (opt_or last_pv_id pending) i) (\<lambda>committed.
           bbind (if committed then on_state fsm fp_clear else bret ()) (\<lambda>_. bret None))))"

definition dispatch_add_project ::
  "services \<Rightarrow> sender \<Rightarrow> 's fsm_port option \<Rightarrow> solver \<Rightarrow> add_project_intent \<Rightarrow> ('s, uuid option) bot" where
  "dispatch_add_project sv who fsm slv i =
     bbind (run_use_case (build_add_project_reply i slv (sd_record who) (hs_today sv) (hs_explain sv)
              (hs_project_sink sv))) (\<lambda>(text, proposal, links).
     bbind (answer_plan text proposal) (\<lambda>_.
     bbind (case proposal of None \<Rightarrow> bret () | Some p \<Rightarrow> stash_proposal fsm p) (\<lambda>_. bret proposal)))"

definition dispatch_described :: "intent \<Rightarrow> ('s, uuid option) bot" where
  "dispatch_described i = bbind (send (Answer (describe_intent i))) (\<lambda>_. bret None)"

fun dispatch_allowed ::
  "services \<Rightarrow> sender \<Rightarrow> 's fsm_port option \<Rightarrow> uuid option \<Rightarrow> intent \<Rightarrow> ('s, uuid option) bot" where
  "dispatch_allowed sv who fsm last_pv_id (ConfirmIntent i) = dispatch_confirm sv who fsm last_pv_id i"
| "dispatch_allowed sv who fsm last_pv_id (CaptureTaskIntent i) =
     (if \<not> hs_has_repo sv then dispatch_described (CaptureTaskIntent i)
      else bbind (run_use_case (build_capture_reply i (sd_record who) (hs_task_sink sv))) (\<lambda>(text, result).
           bbind (send (Answer text)) (\<lambda>_. bret None)))"
| "dispatch_allowed sv who fsm last_pv_id (AssignIntent i) =
     (case sd_record who of
        Some person \<Rightarrow>
          if hs_has_repo sv
          then bbind (run_use_case (build_assign_reply i (Some (pp_id person)))) (\<lambda>text.
               bbind (send (Answer text)) (\<lambda>_. bret None))
          else dispatch_described (AssignIntent i)
      | None \<Rightarrow> dispatch_described (AssignIntent i))"
| "dispatch_allowed sv who fsm last_pv_id (AddProjectIntent i) =
     (case (hs_solver sv, sd_record who) of
        (Some slv, Some person) \<Rightarrow>
          if hs_has_repo sv then dispatch_add_project sv who fsm slv i
          else dispatch_described (AddProjectIntent i)
      | _ \<Rightarrow> dispatch_described (AddProjectIntent i))"
| "dispatch_allowed sv who fsm last_pv_id (LoadIntent i) =
     (if hs_has_repo sv then bbind (answer_load (hs_today sv) (ld_person_name i)) (\<lambda>_. bret None)
      else dispatch_described (LoadIntent i))"
| "dispatch_allowed sv who fsm last_pv_id i = dispatch_described i"

fun is_clarify :: "intent \<Rightarrow> bool" where
  "is_clarify (ClarifyIntent i) = True"
| "is_clarify _ = False"

definition dispatch_intent ::
  "services \<Rightarrow> sender \<Rightarrow> 's fsm_port option \<Rightarrow> uuid option \<Rightarrow> intent \<Rightarrow> ('s, uuid option) bot" where
  "dispatch_intent sv who fsm last_pv_id i =
     (if is_clarify i then dispatch_described i
      else if \<not> can_execute (intent_kind i) (sd_is_admin who)
      then bbind (send (Answer only_admin)) (\<lambda>_. bret None)
      else dispatch_allowed sv who fsm last_pv_id i)"

definition intents_to_dispatch :: "intent list \<Rightarrow> intent list" where
  "intents_to_dispatch intents =
     (let real = filter (\<lambda>i. \<not> is_clarify i) intents in if real \<noteq> [] then real else take 1 intents)"

fun dispatch_all ::
  "services \<Rightarrow> sender \<Rightarrow> 's fsm_port option \<Rightarrow> uuid option \<Rightarrow> intent list \<Rightarrow> uuid option \<Rightarrow> ('s, uuid option) bot" where
  "dispatch_all sv who fsm last_pv_id [] last_pv = bret last_pv"
| "dispatch_all sv who fsm last_pv_id (i # is) last_pv =
     bbind (dispatch_intent sv who fsm last_pv_id i) (\<lambda>p. dispatch_all sv who fsm last_pv_id is (opt_or p last_pv))"

subsection \<open>The agent path\<close>

definition tool_env_of :: "services \<Rightarrow> sender \<Rightarrow> solver \<Rightarrow> tool_env" where
  "tool_env_of sv who slv =
     \<lparr>te_solver = slv, te_is_admin = sd_is_admin who, te_actor = sd_record who, te_task_sink = hs_task_sink sv,
      te_project_sink = hs_project_sink sv, te_today = hs_today sv, te_repr = hs_repr sv,
      te_exc_text = hs_exc_text sv, te_field_int = hs_field_int sv, te_field_time = hs_field_time sv\<rparr>"

definition run_agent ::
  "language_model \<times> sync_parser \<Rightarrow> tool_env \<Rightarrow> ustr \<Rightarrow> chat_context \<Rightarrow> ('s, agent_reply) bot" where
  "run_agent agent env text ctx b =
     (case agent_run (fst agent) (snd agent) env text ctx (new_tool_box, bs_world b) of
        (r, box, w) \<Rightarrow> (r, b\<lparr>bs_world := w\<rparr>))"

text \<open>The text the user sees; it is never empty. A missing text breaks the string operations on it.\<close>

definition agent_text :: "agent_reply \<Rightarrow> ustr res" where
  "agent_text reply =
     bind_res (let shown = filter (\<lambda>r. strip r \<noteq> []) (rp_captured_replies reply) in
               if shown \<noteq> [] then Inr (join [10, 10] shown)
               else case rp_text reply of None \<Rightarrow> Inl malformed | Some s \<Rightarrow> Inr s) (\<lambda>base.
     let final = append_notion_links base (rp_notion_urls reply)
     in Inr (if strip final = [] then [1043, 1086, 1090, 1086, 1074, 1086, 46] else final))"

definition record_history :: "services \<Rightarrow> sender \<Rightarrow> ustr \<Rightarrow> ('s, unit) bot" where
  "record_history sv who text =
     (case sd_chat who of
        Some chat \<Rightarrow> if hs_history sv then on_history (record_message chat text) else bret ()
      | None \<Rightarrow> bret ())"

definition answer_agent :: "services \<Rightarrow> sender \<Rightarrow> 's fsm_port option \<Rightarrow> agent_reply \<Rightarrow> ('s, uuid option) bot" where
  "answer_agent sv who fsm reply =
     (case (rp_clarify reply, fsm) of
        (Some pending, Some f) \<Rightarrow> bbind (start_capture_clarify f pending) (\<lambda>_. bret None)
      | _ \<Rightarrow>
          bbind (run_use_case (lift_res (agent_text reply))) (\<lambda>final.
          bbind (answer_plan final (rp_proposed_pv_id reply)) (\<lambda>_.
          bbind (record_history sv who final) (\<lambda>_.
          bbind (case rp_proposed_pv_id reply of None \<Rightarrow> bret () | Some p \<Rightarrow> stash_proposal fsm p) (\<lambda>_.
          bret (rp_proposed_pv_id reply))))))"

subsection \<open>One message\<close>

definition CONFIRM_PHRASES :: "ustr list" where
  "CONFIRM_PHRASES =
     [[1086, 1082], [1086, 1082, 1077, 1081], [111, 107], [1086, 107], [1076, 1072], [1072, 1075, 1072], [1087, 1086, 1076, 1090, 1074, 1077, 1088, 1078, 1076, 1072, 1102], [1087, 1086, 1076, 1090, 1074, 1077, 1088, 1076, 1080],
      [1087, 1086, 1076, 1090, 1074, 1077, 1088, 1076, 1080, 1090, 1100], [1092, 1080, 1082, 1089, 1080, 1088, 1091, 1081], [1079, 1072, 1092, 1080, 1082, 1089, 1080, 1088, 1091, 1081], [1075, 1086], [121, 101, 115]]"

text \<open>\<open>text.strip().casefold().rstrip("!. ")\<close> is one of the phrases.\<close>

definition is_confirm_phrase :: "ustr \<Rightarrow> bool" where
  "is_confirm_phrase text \<longleftrightarrow>
     rstrip_by (\<lambda>c. c \<in> {33, 46, 32}) (casefold (strip text)) \<in> set CONFIRM_PHRASES"

definition unknown_sender :: ustr where
  "unknown_sender =
     [1053, 1077, 32, 1091, 1079, 1085, 1072, 1083, 32, 1090, 1077, 1073, 1103, 32, 8212, 32, 1103, 32,
      1086, 1090, 1074, 1077, 1095, 1072, 1102, 32, 1090, 1086, 1083, 1100, 1082, 1086, 32, 1091,
      1095, 1072, 1089, 1090, 1085, 1080, 1082, 1072, 1084, 32, 1082, 1086, 1084, 1072, 1085, 1076,
      1099, 46, 32, 1055, 1086, 1087, 1088, 1086, 1089, 1080, 32, 1072, 1076, 1084, 1080, 1085,
      1080, 1089, 1090, 1088, 1072, 1090, 1086, 1088, 1072, 32, 1076, 1086, 1073, 1072, 1074, 1080,
      1090, 1100, 32, 1090, 1077, 1073, 1103, 46]"

definition stranger :: "services \<Rightarrow> sender \<Rightarrow> bool" where
  "stranger sv who \<longleftrightarrow> hs_has_repo sv \<and> sd_record who = None \<and> \<not> sd_is_admin who"

definition already_committed :: ustr where
  "already_committed = [1069, 1090, 1086, 1090, 32, 1087, 1083, 1072, 1085, 32, 1091, 1078, 1077, 32, 1079, 1072, 1092,
      1080, 1082, 1089, 1080, 1088, 1086, 1074, 1072, 1085, 46]"

definition confirm_typed :: "task_sink option \<Rightarrow> sender \<Rightarrow> 's fsm_port \<Rightarrow> uuid \<Rightarrow> ('s, uuid option) bot" where
  "confirm_typed sink who fsm target =
     bbind (bcatch (bbind (run_use_case (confirm_plan sink target (sd_record who))) (\<lambda>result.
                    send (Answer (confirm_reply_text result))))
             (\<lambda>e. if refused_confirm e then send (Answer already_committed) else braise e)) (\<lambda>_.
     bbind (on_fsm (fp_clear fsm)) (\<lambda>_. bret None))"

definition known_names :: "services \<Rightarrow> (ustr list \<times> ustr list) proc" where
  "known_names sv =
     (if \<not> hs_has_repo sv then ret ([], [])
      else bind_proc list_people (\<lambda>people. bind_proc list_projects (\<lambda>projects.
           ret (map pp_name people, map jr_title projects))))"

definition chat_recent :: "services \<Rightarrow> sender \<Rightarrow> chat_history \<Rightarrow> ustr list" where
  "chat_recent sv who h =
     (case sd_chat who of Some chat \<Rightarrow> if hs_history sv then recent_messages chat h else [] | None \<Rightarrow> [])"

definition interpret_text ::
  "services \<Rightarrow> sender \<Rightarrow> 's fsm_port option \<Rightarrow> uuid option \<Rightarrow> ustr \<Rightarrow> ('s, uuid option) bot" where
  "interpret_text sv who fsm last_pv_id text =
     bbind (run_use_case (known_names sv)) (\<lambda>(people, projects).
     bbind (get_bot (\<lambda>b. chat_recent sv who (bs_history b))) (\<lambda>recent.
     bbind (record_history sv who text) (\<lambda>_.
     let ctx = \<lparr>cx_today = hs_today sv, cx_aliases = [], cx_known_people = people, cx_known_projects = projects,
                cx_recent_messages = recent\<rparr>
     in case (hs_agent sv, hs_solver sv, hs_has_repo sv) of
          (Some agent, Some slv, True) \<Rightarrow>
            bbind (run_agent agent (tool_env_of sv who slv) text ctx) (answer_agent sv who fsm)
        | _ \<Rightarrow>
            bbind (run_use_case (lift_res (hs_parse_intents sv text ctx))) (\<lambda>intents.
            dispatch_all sv who fsm last_pv_id (intents_to_dispatch intents) None))))"

definition handle_text ::
  "services \<Rightarrow> sender \<Rightarrow> 's fsm_port option \<Rightarrow> uuid option \<Rightarrow> ustr \<Rightarrow> ('s, uuid option) bot" where
  "handle_text sv who fsm last_pv_id text =
     (if stranger sv who then bbind (send (Answer unknown_sender)) (\<lambda>_. bret None)
      else bbind (get_fsm (pending_plan fsm)) (\<lambda>pending.
           case (hs_confirm sv, fsm, opt_or pending last_pv_id) of
             (Some sink, Some f, Some target) \<Rightarrow>
               if is_confirm_phrase text then confirm_typed sink who f target
               else interpret_text sv who fsm last_pv_id text
           | _ \<Rightarrow> interpret_text sv who fsm last_pv_id text))"

subsection \<open>/task\<close>

text \<open>\<open>s.partition(" ")[2]\<close>\<close>

definition after_space :: "ustr \<Rightarrow> ustr" where
  "after_space s = tl (dropWhile (\<lambda>c. c \<noteq> 32) s)"

definition handle_task :: "services \<Rightarrow> sender \<Rightarrow> 's fsm_port option \<Rightarrow> ustr \<Rightarrow> ('s, unit) bot" where
  "handle_task sv who fsm message =
     (let text = strip (after_space message) in
      if text = [] then send (Answer [1053, 1072, 1087, 1080, 1096, 1080, 44, 32, 1095, 1090, 1086, 32, 1085, 1091, 1078, 1085, 1086, 58, 32, 47, 116, 97, 115, 107, 32, 60, 1090, 1077, 1082, 1089, 1090, 62, 46])
      else bbind (handle_text sv who fsm None text) (\<lambda>_. bret ()))"

subsection \<open>The edit loop\<close>

definition PLAN_EDIT_WAITING :: ustr where
  "PLAN_EDIT_WAITING = ascii ''PlanEditState:waiting''"

text \<open>A fresh proposal retires the plan it replaces and cancels that plan's project.\<close>

definition supersede :: "uuid \<Rightarrow> unit proc" where
  "supersede old_plan =
     bind_proc (get_plan_version old_plan) (\<lambda>found.
     bind_proc (transition_plan_status old_plan (ascii ''proposed'') (ascii ''superseded'')) (\<lambda>moved.
     case found of
       Some pv \<Rightarrow> if moved then set_project_status (vr_project_id pv) (ascii ''cancelled'') else ret ()
     | None \<Rightarrow> ret ()))"

definition handle_edit_text :: "services \<Rightarrow> sender \<Rightarrow> 's fsm_port \<Rightarrow> ustr \<Rightarrow> ('s, unit) bot" where
  "handle_edit_text sv who fsm message =
     (let text = strip message; sv' = sv\<lparr>hs_agent := None\<rparr> in
      if text = [] then bret ()
      else bbind (get_fsm (pending_plan (Some fsm))) (\<lambda>old.
           bbind (handle_text sv' who (Some fsm) old text) (\<lambda>new.
           case new of
             None \<Rightarrow> bret ()
           | Some fresh \<Rightarrow>
               if \<not> hs_has_repo sv then bret ()
               else bbind (case old of
                             Some prev \<Rightarrow> if prev \<noteq> fresh then run_use_case (supersede prev) else bret ()
                           | None \<Rightarrow> bret ()) (\<lambda>_.
                    bbind (on_fsm (fp_set_state fsm (Some PLAN_EDIT_WAITING))) (\<lambda>_.
                    on_fsm (fp_update_data fsm (ascii ''pending_pv_id'') (FText (uuid_str fresh))))))))"

subsection \<open>Messages and voices\<close>

text \<open>What the handlers read of a message; \<open>mg_has_bot\<close> is \<open>message.bot is not None\<close>.\<close>

record chat_message =
  mg_text :: ustr
  mg_has_chat :: bool
  mg_private :: bool
  mg_has_bot :: bool
  mg_user :: "int option"
  mg_reply_to_bot :: bool
  mg_now :: int

definition is_addressed_in_group :: "ustr \<Rightarrow> chat_message \<Rightarrow> bool" where
  "is_addressed_in_group username m \<longleftrightarrow>
     \<not> mg_has_chat m \<or> mg_private m \<or> \<not> mg_has_bot m \<or>
     contains (lower (mg_text m)) (lower ([64] @ username)) \<or> mg_reply_to_bot m"

definition arm_sender :: "bool \<Rightarrow> sender \<Rightarrow> chat_message \<Rightarrow> ('s, unit) bot" where
  "arm_sender has_arm who m =
     (case (mg_user m, sd_chat who) of
        (Some user, Some chat) \<Rightarrow>
          if has_arm \<and> \<not> mg_private m then on_voice (arm chat user (mg_now m)) else bret ()
      | _ \<Rightarrow> bret ())"

definition handle_mention_or_dm ::
  "services \<Rightarrow> sender \<Rightarrow> 's fsm_port option \<Rightarrow> ustr \<Rightarrow> bool \<Rightarrow> chat_message \<Rightarrow> ('s, unit) bot" where
  "handle_mention_or_dm sv who fsm username has_arm m =
     (let raw = mg_text m;
          text = (if startswith [64] (lower raw) then strip (after_space raw) else strip raw)
      in if \<not> is_addressed_in_group username m then bret ()
         else bbind (arm_sender has_arm who m) (\<lambda>_.
              if text = []
              then send (Answer [1057, 1083, 1091, 1096, 1072, 1102, 33, 32, 1053, 1072, 1087, 1080, 1096, 1080, 32, 1079, 1072,
      1087, 1088, 1086, 1089, 32, 1074, 32, 1086, 1076, 1085, 1086, 1084, 32, 1089, 1086, 1086,
      1073, 1097, 1077, 1085, 1080, 1080, 32, 1089, 1086, 32, 1084, 1085, 1086, 1081, 32, 8212, 32,
      1080, 1083, 1080, 32, 1087, 1088, 1086, 1089, 1090, 1086, 32, 1087, 1088, 1080, 1096, 1083,
      1080, 32, 1075, 1086, 1083, 1086, 1089, 1086, 1074, 1086, 1077, 46])
              else bbind (handle_text sv who fsm None text) (\<lambda>_. bret ())))"

text \<open>
  A voice: its size, what downloading yields, and the answer of speech recognition, which may time
  out, find no text or raise. The caption is the text of the message.
\<close>

datatype download = NoFilePath | NoAudio | Audio

datatype transcription = TimedOut | Transcript "ustr option" | SttRaised exn

record voice =
  vc_size :: "int option"
  vc_download :: download
  vc_stt :: transcription

definition MAX_VOICE_BYTES :: int where
  "MAX_VOICE_BYTES = 20 * 1024 * 1024"

definition voice_armed :: "bool \<Rightarrow> sender \<Rightarrow> chat_message \<Rightarrow> voice_arm \<Rightarrow> bool" where
  "voice_armed has_arm who m armed \<longleftrightarrow>
     has_arm \<and> (case (mg_user m, sd_chat who) of
                  (Some user, Some chat) \<Rightarrow> is_armed chat user (mg_now m) armed | _ \<Rightarrow> False)"

definition recognised :: "transcription \<Rightarrow> ustr option" where
  "recognised t = (case t of Transcript (Some s) \<Rightarrow> if s = [] then None else Some s | _ \<Rightarrow> None)"

definition transcribe_and_handle :: "services \<Rightarrow> sender \<Rightarrow> 's fsm_port option \<Rightarrow> voice \<Rightarrow> ('s, unit) bot" where
  "transcribe_and_handle sv who fsm v =
     bbind (send (Answer [127897, 32, 1056, 1072, 1089, 1087, 1086, 1079, 1085, 1072, 1102, 8230])) (\<lambda>_.
     case vc_stt v of
       SttRaised e \<Rightarrow> braise e
     | t \<Rightarrow> bbind (send DeleteAck) (\<lambda>_.
           case recognised t of
             None \<Rightarrow> send (Answer (if t = TimedOut then [1044, 1086, 1083, 1075, 1086, 32, 1088, 1072, 1089, 1087, 1086, 1079, 1085, 1072, 1102, 32, 8212,
      32, 1087, 1088, 1080, 1096, 1083, 1080, 32, 1087, 1086, 1082, 1086, 1088, 1086, 1095, 1077,
      32, 1080, 1083, 1080, 32, 1090, 1077, 1082, 1089, 1090, 1086, 1084, 46]
                                 else [1053, 1077, 32, 1091, 1076, 1072, 1083, 1086, 1089, 1100, 32, 1088, 1072, 1089, 1087, 1086, 1079,
      1085, 1072, 1090, 1100, 32, 1075, 1086, 1083, 1086, 1089, 32, 8212, 32, 1085, 1072, 1087,
      1080, 1096, 1080, 32, 1090, 1077, 1082, 1089, 1090, 1086, 1084, 46]))
           | Some text \<Rightarrow> bbind (handle_text sv who fsm None text) (\<lambda>_. bret ())))"

definition handle_voice ::
  "services \<Rightarrow> sender \<Rightarrow> 's fsm_port option \<Rightarrow> ustr \<Rightarrow> bool \<Rightarrow> bool \<Rightarrow> voice option \<Rightarrow> chat_message \<Rightarrow> ('s, unit) bot" where
  "handle_voice sv who fsm username has_stt has_arm note m =
     bbind (get_bot (\<lambda>b. voice_armed has_arm who m (bs_voice b))) (\<lambda>armed.
     if \<not> is_addressed_in_group username m \<and> \<not> armed then bret ()
     else case note of
            Some v \<Rightarrow>
              if \<not> has_stt \<or> \<not> mg_has_bot m
              then send (Answer [1043, 1086, 1083, 1086, 1089, 1086, 1074, 1099, 1077, 32, 1089, 1086, 1086, 1073, 1097, 1077, 1085,
      1080, 1103, 32, 1085, 1077, 32, 1087, 1086, 1076, 1076, 1077, 1088, 1078, 1080, 1074, 1072,
      1102, 1090, 1089, 1103, 32, 8212, 32, 1085, 1072, 1087, 1080, 1096, 1080, 32, 1090, 1077,
      1082, 1089, 1090, 1086, 1084, 46])
              else if (case vc_size v of Some n \<Rightarrow> n > MAX_VOICE_BYTES | None \<Rightarrow> False)
              then send (Answer [1043, 1086, 1083, 1086, 1089, 1086, 1074, 1086, 1077, 32, 1089, 1083, 1080, 1096, 1082, 1086, 1084,
      32, 1073, 1086, 1083, 1100, 1096, 1086, 1077, 32, 8212, 32, 1087, 1088, 1080, 1096, 1083,
      1080, 32, 1087, 1086, 1082, 1086, 1088, 1086, 1095, 1077, 32, 1080, 1083, 1080, 32, 1090,
      1077, 1082, 1089, 1090, 1086, 1084, 46])
              else (case vc_download v of
                      NoFilePath \<Rightarrow> send (Answer [1053, 1077, 32, 1091, 1076, 1072, 1083, 1086, 1089, 1100, 32, 1087, 1086, 1083, 1091, 1095, 1080,
      1090, 1100, 32, 1075, 1086, 1083, 1086, 1089, 1086, 1074, 1086, 1077, 32, 1089, 1086, 1086,
      1073, 1097, 1077, 1085, 1080, 1077, 32, 8212, 32, 1085, 1072, 1087, 1080, 1096, 1080, 32,
      1090, 1077, 1082, 1089, 1090, 1086, 1084, 46])
                    | NoAudio \<Rightarrow> send (Answer [1053, 1077, 32, 1091, 1076, 1072, 1083, 1086, 1089, 1100, 32, 1089, 1082, 1072, 1095, 1072, 1090,
      1100, 32, 1075, 1086, 1083, 1086, 1089, 1086, 1074, 1086, 1077, 32, 1089, 1086, 1086, 1073,
      1097, 1077, 1085, 1080, 1077, 32, 8212, 32, 1085, 1072, 1087, 1080, 1096, 1080, 32, 1090,
      1077, 1082, 1089, 1090, 1086, 1084, 46])
                    | Audio \<Rightarrow> transcribe_and_handle sv who fsm v)
          | None \<Rightarrow> send (Answer [1043, 1086, 1083, 1086, 1089, 1086, 1074, 1099, 1077, 32, 1089, 1086, 1086, 1073, 1097, 1077, 1085,
      1080, 1103, 32, 1085, 1077, 32, 1087, 1086, 1076, 1076, 1077, 1088, 1078, 1080, 1074, 1072,
      1102, 1090, 1089, 1103, 32, 8212, 32, 1085, 1072, 1087, 1080, 1096, 1080, 32, 1090, 1077,
      1082, 1089, 1090, 1086, 1084, 46]))"

end
