(* ===== verification/Commands.thy ===== *)
theory Commands
  imports Task_Router
begin

section \<open>Commands and buttons\<close>

text \<open>
  \<open>bot/handlers/confirm.py\<close> (the two buttons under a proposed plan), \<open>load.py\<close>, \<open>vacation.py\<close> and
  \<open>start.py\<close>. The callback data of a button and the text of a command are arguments.
\<close>

subsection \<open>confirm.py\<close>

text \<open>\<open>cb.data.split(":", 1)[1]\<close>; the router filter guarantees the colon.\<close>

definition after_colon :: "ustr \<Rightarrow> ustr" where
  "after_colon s = tl (dropWhile (\<lambda>c. c \<noteq> 58) s)"

definition handle_confirm ::
  "bool \<Rightarrow> person_record option \<Rightarrow> task_sink option option \<Rightarrow> ustr \<Rightarrow> ('s, unit) bot" where
  "handle_confirm is_admin actor_record confirm_uc data =
     (if \<not> is_admin then send (CallbackAnswer (Some [1058, 1086, 1083, 1100, 1082, 1086, 32, 1072, 1076, 1084, 1080, 1085, 32, 1084, 1086, 1078, 1077,
      1090, 32, 1087, 1086, 1076, 1090, 1074, 1077, 1088, 1078, 1076, 1072, 1090, 1100, 32, 1087,
      1083, 1072, 1085, 46]) True)
      else bbind (run_use_case (lift_res (uuid_parse (after_colon data)))) (\<lambda>target.
           case confirm_uc of
             None \<Rightarrow> send (CallbackAnswer (Some [1041, 1072, 1079, 1072, 32, 1076, 1072, 1085, 1085, 1099, 1093, 32, 1085, 1077, 32, 1087, 1086,
      1076, 1082, 1083, 1102, 1095, 1077, 1085, 1072, 46]) False)
           | Some sink \<Rightarrow>
               bcatch (bbind (run_use_case (confirm_plan sink target actor_record)) (\<lambda>result.
                       bbind (send RetireKeyboard) (\<lambda>_.
                       send (CallbackAnswer (Some (confirm_reply_text result)) (cf_mirror_failed result \<noteq> 0)))))
                 (\<lambda>e. if refused_confirm e
                      then bbind (send RetireKeyboard) (\<lambda>_. send (CallbackAnswer (Some already_committed) True))
                      else braise e)))"

definition handle_edit :: "'s fsm_port \<Rightarrow> bool \<Rightarrow> ustr \<Rightarrow> ('s, unit) bot" where
  "handle_edit fsm is_admin data =
     (if \<not> is_admin then send (CallbackAnswer (Some only_admin) True)
      else bbind (on_fsm (fp_set_state fsm (Some PLAN_EDIT_WAITING))) (\<lambda>_.
           bbind (on_fsm (fp_update_data fsm (ascii ''pending_pv_id'') (FText (after_colon data)))) (\<lambda>_.
           bbind (send (CallbackAnswer None False)) (\<lambda>_.
           send (Answer [1054, 1087, 1080, 1096, 1080, 32, 1087, 1088, 1072, 1074, 1082, 1091, 32, 8212, 32, 1087, 1077,
      1088, 1077, 1092, 1086, 1088, 1084, 1091, 1083, 1080, 1088, 1091, 1081, 32, 1079, 1072, 1087,
      1088, 1086, 1089, 32, 1080, 1083, 1080, 32, 1085, 1072, 1087, 1080, 1096, 1080, 32, 171, 1095,
      1090, 1086, 45, 1077, 1089, 1083, 1080, 187, 32, 1086, 1087, 1077, 1088, 1072, 1094, 1080,
      1102, 46, 32, 1050, 1072, 1082, 32, 1073, 1091, 1076, 1077, 1096, 1100, 32, 1075, 1086, 1090,
      1086, 1074, 32, 1087, 1086, 1076, 1090, 1074, 1077, 1088, 1076, 1080, 1090, 1100, 32, 8212,
      32, 1085, 1072, 1087, 1080, 1096, 1080, 32, 171, 1086, 1082, 187, 46])))))"

subsection \<open>load.py\<close>

definition plain_context :: "date \<Rightarrow> chat_context" where
  "plain_context today =
     \<lparr>cx_today = today, cx_aliases = [], cx_known_people = [], cx_known_projects = [], cx_recent_messages = []\<rparr>"

text \<open>\<open>getattr(intent, "person_name", None)\<close>\<close>

fun intent_person :: "intent \<Rightarrow> ustr option" where
  "intent_person (LoadIntent i) = ld_person_name i"
| "intent_person (WhatIfIntent i) = wi_person_name i"
| "intent_person (VacationIntent i) = Some (va_person_name i)"
| "intent_person (AssignIntent i) = Some (as_person_name i)"
| "intent_person _ = None"

definition handle_load :: "services \<Rightarrow> sender \<Rightarrow> ustr \<Rightarrow> ('s, unit) bot" where
  "handle_load sv who message =
     (let said = strip (after_space message);
          text = (if said = [] then ascii ''load'' else said)
      in if stranger sv who then send (Answer unknown_sender)
         else bbind (run_use_case (lift_res (hs_parse sv text (plain_context (hs_today sv))))) (\<lambda>i.
              if \<not> hs_has_repo sv
              then send (Answer ([1047, 1072, 1075, 1088, 1091, 1079, 1082, 1072, 32, 40] @ text_or [1074, 1089, 1103, 32, 1082, 1086, 1084, 1072, 1085, 1076, 1072] (intent_person i) @
                                 [41, 58, 32, 1088, 1077, 1087, 1086, 1079, 1080, 1090, 1086, 1088, 1080, 1081, 32, 1085, 1077, 32,
      1087, 1086, 1076, 1082, 1083, 1102, 1095, 1105, 1085, 46]))
              else answer_load (hs_today sv) (intent_person i)))"

subsection \<open>vacation.py\<close>

definition dash_range :: "vacation_intent \<Rightarrow> ustr" where
  "dash_range i = isoformat (va_day_from i) @ [8211] @ isoformat (va_day_to i)"

definition vacation_done :: "vacation_intent \<Rightarrow> int \<Rightarrow> ustr" where
  "vacation_done i days =
     [1054, 1090, 1087, 1091, 1089, 1082, 32] @ va_person_name i @ [32] @ dash_range i @ [32, 1086, 1092, 1086, 1088, 1084, 1083, 1077, 1085, 32, 40] @ int_dec days @
     [32, 1076, 1085, 46, 41, 46, 32, 1055, 1077, 1088, 1077, 1087, 1083, 1072, 1085, 1080, 1088, 1086,
      1074, 1082, 1072, 32, 1087, 1088, 1086, 1080, 1079, 1086, 1081, 1076, 1105, 1090, 32, 1087,
      1088, 1080, 32, 1089, 1083, 1077, 1076, 1091, 1102, 1097, 1077, 1081, 32, 1079, 1072, 1103,
      1074, 1082, 1077, 32, 1087, 1088, 1086, 1077, 1082, 1090, 1072, 46]"

definition vacation_without_repo :: "vacation_intent \<Rightarrow> ustr" where
  "vacation_without_repo i =
     [1054, 1090, 1087, 1091, 1089, 1082, 32] @ va_person_name i @ [58, 32] @ dash_range i @
     [46, 32, 1056, 1077, 1087, 1086, 1079, 1080, 1090, 1086, 1088, 1080, 1081, 32, 1085, 1077, 32, 1087,
      1086, 1076, 1082, 1083, 1102, 1095, 1105, 1085, 32, 8212, 32, 1080, 1079, 1084, 1077, 1085,
      1077, 1085, 1080, 1103, 32, 1085, 1077, 32, 1089, 1086, 1093, 1088, 1072, 1085, 1077, 1085,
      1099, 46]"

definition store_vacation :: "sender \<Rightarrow> person_record \<Rightarrow> vacation_intent \<Rightarrow> ('s, unit) bot" where
  "store_vacation who actor_record i =
     bcatch (bbind (run_use_case (set_vacation i (Some (pp_id actor_record)) (sd_is_admin who))) (\<lambda>days.
             send (Answer (vacation_done i days))))
       (\<lambda>e. case e of
              PermissionError s \<Rightarrow> send (Answer s)
            | PersonNotFoundError n \<Rightarrow>
                send (Answer ([1057, 1086, 1090, 1088, 1091, 1076, 1085, 1080, 1082, 32] @ quoted (va_person_name i) @ [32, 1085, 1077, 32, 1085, 1072, 1081, 1076, 1077, 1085, 46]))
            | _ \<Rightarrow> braise e)"

definition handle_vacation :: "services \<Rightarrow> sender \<Rightarrow> ustr \<Rightarrow> ('s, unit) bot" where
  "handle_vacation sv who message =
     (let text = strip (after_space message) in
      if stranger sv who then send (Answer unknown_sender)
      else if text = []
      then send (Answer [1059, 1082, 1072, 1078, 1080, 32, 1080, 1084, 1103, 32, 1080, 32, 1076, 1072, 1090, 1099, 58, 32,
        47, 118, 97, 99, 97, 116, 105, 111, 110, 32, 60, 1080, 1084, 1103, 62, 32, 60, 1076, 1072, 1090, 1072, 95,
        1086, 1090, 62, 32, 60, 1076, 1072, 1090, 1072, 95, 1076, 1086, 62, 46])
      else bbind (run_use_case (lift_res (hs_parse sv text (plain_context (hs_today sv))))) (\<lambda>parsed.
           case parsed of
             VacationIntent i \<Rightarrow>
               if \<not> can_execute (intent_kind (VacationIntent i)) (sd_is_admin who)
               then send (Answer [1058, 1086, 1083, 1100, 1082, 1086, 32, 1072, 1076, 1084, 1080, 1085, 32, 1084, 1086, 1078, 1077,
      1090, 32, 1086, 1092, 1086, 1088, 1084, 1083, 1103, 1090, 1100, 32, 1086, 1090, 1087, 1091,
      1089, 1082, 46])
               else (case sd_record who of
                       Some person \<Rightarrow> if hs_has_repo sv then store_vacation who person i
                                      else send (Answer (vacation_without_repo i))
                     | None \<Rightarrow> send (Answer (vacation_without_repo i)))
           | _ \<Rightarrow> send (Answer [1053, 1077, 32, 1087, 1086, 1085, 1103, 1083, 32, 1092, 1086, 1088, 1084, 1072, 1090, 46, 32, 1055,
      1088, 1080, 1084, 1077, 1088, 58, 32, 47, 118, 97, 99, 97, 116, 105, 111, 110, 32, 1040, 1081,
      1075, 1091, 1083, 1100, 32, 49, 48, 32, 1080, 1102, 1085, 1103, 32, 8211, 32, 49, 50, 32,
      1080, 1102, 1085, 1103, 46])))"

subsection \<open>start.py\<close>

definition GREETING :: ustr where
  "GREETING =
     lines_text
       [[1055, 1088, 1080, 1074, 1077, 1090, 33, 32, 1071, 32, 1074, 1080, 1088, 1090, 1091, 1072, 1083,
      1100, 1085, 1099, 1081, 32, 1087, 1083, 1072, 1085, 1080, 1088, 1086, 1074, 1097, 1080, 1082,
      32, 1082, 1086, 1084, 1072, 1085, 1076, 1099, 46], [],
        [1050, 1086, 1084, 1072, 1085, 1076, 1099, 58],
        [8226, 32, 47, 116, 97, 115, 107, 32, 60, 1090, 1077, 1082, 1089, 1090, 62, 32, 8212, 32, 1089,
      1086, 1079, 1076, 1072, 1090, 1100, 32, 1087, 1088, 1086, 1077, 1082, 1090, 32, 1080, 1083,
      1080, 32, 1079, 1072, 1076, 1072, 1095, 1091],
        [8226, 32, 47, 108, 111, 97, 100, 32, 91, 1080, 1084, 1103, 93, 32, 8212, 32, 1087, 1086, 1082,
      1072, 1079, 1072, 1090, 1100, 32, 1079, 1072, 1075, 1088, 1091, 1079, 1082, 1091],
        [8226, 32, 47, 118, 97, 99, 97, 116, 105, 111, 110, 32, 8212, 32, 1086, 1092, 1086, 1088, 1084,
      1080, 1090, 1100, 32, 1086, 1090, 1087, 1091, 1089, 1082],
        [8226, 32, 47, 114, 101, 112, 108, 97, 110, 32, 8212, 32, 1087, 1077, 1088, 1077, 1089, 1095, 1080,
      1090, 1072, 1090, 1100, 32, 1087, 1083, 1072, 1085], [],
        [1052, 1086, 1078, 1085, 1086, 32, 1087, 1080, 1089, 1072, 1090, 1100, 32, 1075, 1086, 1083, 1086,
      1089, 1086, 1084, 32, 1074, 32, 1086, 1090, 1074, 1077, 1090, 32, 1085, 1072, 32, 1084, 1086,
      1105, 32, 1089, 1086, 1086, 1073, 1097, 1077, 1085, 1080, 1077, 46]]"

definition handle_start :: "('s, unit) bot" where
  "handle_start = send (Answer GREETING)"

end
