(* ===== verification/Dispatcher.thy ===== *)
theory Dispatcher
  imports Commands Clarify
begin

section \<open>From updates to handlers\<close>

text \<open>
  \<open>build_dispatcher\<close> of \<open>bot/runner.py\<close> as aiogram runs it: which handler an update reaches, in the order
  of the routers and of the handlers inside each, and the middlewares around it, the error boundary
  outside, then the throttle (messages only), then the resolution of the sender. What the \<open>Command\<close>
  filter reads from a message is the parameter \<open>dp_command\<close>. Conversations are kept per chat and user.
\<close>

subsection \<open>Updates\<close>

datatype content = TextContent | VoiceContent voice | OtherContent

datatype update = MessageUpdate content chat_message | CallbackUpdate ustr

record event =
  ev_user :: "int option"
  ev_chat :: "int option"
  ev_monotonic :: rat
  ev_today :: date
  ev_update :: update

record deployment =
  dp_services :: services
  dp_admin_ids :: "int list"
  dp_team_chat :: "int option"
  dp_username :: ustr
  dp_command :: "chat_message \<Rightarrow> ustr option"

subsection \<open>Routers\<close>

datatype message_handler = OnStart | OnTypedProject | OnTypedDeadline | OnVoice | OnTask | OnEditText | OnMention
  | OnLoad | OnVacation | OnReplan

text \<open>A filter sees the command, the state of the conversation, the content and the text.\<close>

type_synonym message_filter = "ustr option \<Rightarrow> ustr option \<Rightarrow> content \<Rightarrow> chat_message \<Rightarrow> bool"

definition on_command :: "string \<Rightarrow> message_filter" where
  "on_command name cmd st content m \<longleftrightarrow> cmd = Some (ascii name)"

definition has_text :: "content \<Rightarrow> chat_message \<Rightarrow> bool" where
  "has_text content m \<longleftrightarrow> content = TextContent \<and> mg_text m \<noteq> []"

definition in_state :: "ustr \<Rightarrow> message_filter" where
  "in_state s cmd st content m \<longleftrightarrow> st = Some s \<and> has_text content m"

definition on_voice_note :: message_filter where
  "on_voice_note cmd st content m \<longleftrightarrow> (case content of VoiceContent v \<Rightarrow> True | _ \<Rightarrow> False)"

definition on_plain_text :: message_filter where
  "on_plain_text cmd st content m \<longleftrightarrow> has_text content m \<and> \<not> startswith (mg_text m) (ascii ''/'')"

definition clarify_routes :: "(message_filter \<times> message_handler) list" where
  "clarify_routes =
     [(in_state WAITING_PROJECT_NAME, OnTypedProject), (in_state WAITING_DEADLINE_TEXT, OnTypedDeadline)]"

definition task_routes :: "(message_filter \<times> message_handler) list" where
  "task_routes =
     [(on_voice_note, OnVoice), (on_command ''task'', OnTask), (in_state PLAN_EDIT_WAITING, OnEditText),
      (on_plain_text, OnMention)]"

definition message_routes :: "(message_filter \<times> message_handler) list" where
  "message_routes =
     [(on_command ''start'', OnStart)] @ clarify_routes @ task_routes @ [(on_command ''load'', OnLoad)] @
     [(on_command ''vacation'', OnVacation)] @ [(on_command ''replan'', OnReplan)]"

definition route_message :: "ustr option \<Rightarrow> ustr option \<Rightarrow> content \<Rightarrow> chat_message \<Rightarrow> message_handler option" where
  "route_message cmd st content m = map_option snd (find (\<lambda>(f, h). f cmd st content m) message_routes)"

datatype callback_handler = OnPickProject | OnPickAssignee | OnNewProject | OnPickDeadline | OnDeadlineText | OnConfirm | OnEdit

definition callback_routes :: "((ustr \<Rightarrow> bool) \<times> callback_handler) list" where
  "callback_routes =
     [(\<lambda>d. startswith d (ascii ''cap:proj:''), OnPickProject), (\<lambda>d. startswith d (ascii ''cap:asg:''), OnPickAssignee),
      (\<lambda>d. d = ascii ''cap:projnew'', OnNewProject), (\<lambda>d. startswith d (ascii ''cap:dl:''), OnPickDeadline),
      (\<lambda>d. d = ascii ''cap:dltext'', OnDeadlineText)] @
     [(\<lambda>d. startswith d (ascii ''confirm:''), OnConfirm), (\<lambda>d. startswith d (ascii ''edit:''), OnEdit)]"

definition route_callback :: "ustr \<Rightarrow> callback_handler option" where
  "route_callback data = map_option snd (find (\<lambda>(f, h). f data) callback_routes)"

subsection \<open>Handlers\<close>

definition run_message ::
  "deployment \<Rightarrow> services \<Rightarrow> 's fsm_port \<Rightarrow> sender \<Rightarrow> message_handler \<Rightarrow> content \<Rightarrow> chat_message \<Rightarrow> ('s, unit) bot" where
  "run_message d sv fsm who h content m =
     (case h of
        OnStart \<Rightarrow> handle_start
      | OnTypedProject \<Rightarrow> handle_typed_project fsm (hs_field_int sv) (sd_is_admin who) (sd_record who) (hs_task_sink sv) (mg_text m)
      | OnTypedDeadline \<Rightarrow> handle_typed_deadline fsm (hs_field_int sv) (sd_is_admin who) (sd_record who) (hs_task_sink sv)
          (hs_today sv) (mg_text m)
      | OnVoice \<Rightarrow> handle_voice sv who (Some fsm) (dp_username d) True True
          (case content of VoiceContent v \<Rightarrow> Some v | _ \<Rightarrow> None) m
      | OnTask \<Rightarrow> handle_task sv who (Some fsm) (mg_text m)
      | OnEditText \<Rightarrow> handle_edit_text sv who fsm (mg_text m)
      | OnMention \<Rightarrow> handle_mention_or_dm sv who (Some fsm) (dp_username d) True m
      | OnLoad \<Rightarrow> handle_load sv who (mg_text m)
      | OnVacation \<Rightarrow> handle_vacation sv who (mg_text m)
      | OnReplan \<Rightarrow> handle_replan (if hs_has_repo sv then hs_solver sv else None) (sd_is_admin who) (hs_today sv))"

text \<open>\<open>int(cb.data.rsplit(":", 1)[1])\<close>\<close>

definition callback_index :: "ustr \<Rightarrow> int res" where
  "callback_index data =
     (case py_int (rev (takeWhile (\<lambda>c. c \<noteq> 58) (rev data))) of None \<Rightarrow> Inl ValueError | Some n \<Rightarrow> Inr n)"

definition run_callback ::
  "services \<Rightarrow> 's fsm_port \<Rightarrow> sender \<Rightarrow> callback_handler \<Rightarrow> ustr \<Rightarrow> ('s, unit) bot" where
  "run_callback sv fsm who h data =
     (let index = run_use_case (lift_res (callback_index data)) in
      case h of
        OnPickProject \<Rightarrow> bbind index (handle_pick_project fsm (hs_field_int sv) (sd_is_admin who) (sd_record who) (hs_task_sink sv))
      | OnPickAssignee \<Rightarrow> bbind index (handle_pick_assignee fsm (hs_field_int sv) (sd_is_admin who) (sd_record who) (hs_task_sink sv))
      | OnNewProject \<Rightarrow> handle_new_project fsm
      | OnPickDeadline \<Rightarrow> bbind index
          (handle_pick_deadline fsm (hs_field_int sv) (sd_is_admin who) (sd_record who) (hs_task_sink sv) (hs_today sv))
      | OnDeadlineText \<Rightarrow> handle_deadline_text fsm
      | OnConfirm \<Rightarrow> handle_confirm (sd_is_admin who) (sd_record who) (hs_confirm sv) data
      | OnEdit \<Rightarrow> handle_edit fsm (sd_is_admin who) data)"

subsection \<open>The dispatcher\<close>

record 's dispatcher =
  ds_throttle :: throttle
  ds_conversations :: "int option \<times> int option \<Rightarrow> 's"
  ds_world :: world
  ds_replies :: "reply list"
  ds_history :: chat_history
  ds_voice :: voice_arm

definition conversation_key :: "event \<Rightarrow> int option \<times> int option" where
  "conversation_key e = (ev_chat e, ev_user e)"

definition enter :: "event \<Rightarrow> 's dispatcher \<Rightarrow> 's bot_state" where
  "enter e s =
     \<lparr>bs_world = ds_world s, bs_fsm = ds_conversations s (conversation_key e), bs_replies = ds_replies s,
      bs_history = ds_history s, bs_voice = ds_voice s\<rparr>"

definition leave :: "event \<Rightarrow> 's bot_state \<Rightarrow> 's dispatcher \<Rightarrow> 's dispatcher" where
  "leave e b s =
     s\<lparr>ds_conversations := (ds_conversations s)(conversation_key e := bs_fsm b), ds_world := bs_world b,
       ds_replies := bs_replies b, ds_history := bs_history b, ds_voice := bs_voice b\<rparr>"

definition services_at :: "deployment \<Rightarrow> event \<Rightarrow> services" where
  "services_at d e = (dp_services d)\<lparr>hs_today := ev_today e\<rparr>"

definition with_actor :: "deployment \<Rightarrow> event \<Rightarrow> (sender \<Rightarrow> ('s, unit) bot) \<Rightarrow> ('s, unit) bot" where
  "with_actor d e handler =
     bbind (run_use_case (resolve_actor (dp_admin_ids d) (hs_has_repo (dp_services d)) (dp_team_chat d) (ev_user e) (ev_chat e)))
       (\<lambda>(ac, found). handler \<lparr>sd_is_admin = ac_is_admin ac, sd_record = found, sd_chat = ev_chat e\<rparr>)"

definition guarded :: "deployment \<Rightarrow> event \<Rightarrow> telegram_event \<Rightarrow> (sender \<Rightarrow> ('s, unit) bot) \<Rightarrow> 's dispatcher \<Rightarrow> 's dispatcher" where
  "guarded d e kind handler s = leave e (snd (error_boundary kind (with_actor d e handler) (enter e s))) s"

definition process_update :: "deployment \<Rightarrow> 's fsm_port \<Rightarrow> event \<Rightarrow> 's dispatcher \<Rightarrow> 's dispatcher" where
  "process_update d fsm e s =
     (case ev_update e of
        MessageUpdate content m \<Rightarrow>
          (case route_message (dp_command d m) (fp_state fsm (ds_conversations s (conversation_key e))) content m of
             None \<Rightarrow> s
           | Some h \<Rightarrow>
               (let (ok, th) = throttle_call (ev_user e) (ev_monotonic e) (ds_throttle s);
                    s' = s\<lparr>ds_throttle := th\<rparr>
                in if ok then guarded d e MessageEvent (\<lambda>who. run_message d (services_at d e) fsm who h content m) s'
                   else s'))
      | CallbackUpdate data \<Rightarrow>
          (case route_callback data of
             None \<Rightarrow> s
           | Some h \<Rightarrow> guarded d e CallbackEvent (\<lambda>who. run_callback (services_at d e) fsm who h data) s))"

fun process_all :: "deployment \<Rightarrow> 's fsm_port \<Rightarrow> event list \<Rightarrow> 's dispatcher \<Rightarrow> 's dispatcher" where
  "process_all d fsm [] s = s"
| "process_all d fsm (e # es) s = process_all d fsm es (process_update d fsm e s)"

end
