(* ===== verification/Py_Regex.thy ===== *)
theory Py_Regex
  imports Py_Text
begin

section \<open>Regular expressions of Python's re module\<close>

text \<open>
  The constructs the program's patterns use, with the backtracking semantics of \<open>re\<close>: greedy repetition
  of a character class, optional parts, alternatives tried in order, capture groups and word
  boundaries. \<open>match_re\<close> lists the ways to match from a position, the preferred one first;
  \<open>re_search\<close> takes the first way at the first position that has one. Letters of \<open>\w\<close> are the Latin and
  Cyrillic ones, \<open>\d\<close> the ASCII digits.
\<close>

datatype regex =
    Eps
  | Many "nat \<Rightarrow> bool" nat "nat option"
  | Boundary
  | Then regex regex
  | Maybe regex
  | Either regex regex
  | Group nat regex

type_synonym groups = "(nat \<times> ustr) list"

definition is_word_cp :: "nat \<Rightarrow> bool" where
  "is_word_cp c \<longleftrightarrow>
     is_digit c \<or> c = 95 \<or> c \<in> {65..90} \<or> c \<in> {97..122} \<or> c \<in> {170, 178, 179, 181, 185, 186, 188, 189, 190} \<or>
     c \<in> {192..591} \<and> c \<noteq> 215 \<and> c \<noteq> 247 \<or> c \<in> {1024..1153} \<or> c \<in> {1162..1327}"

definition at_boundary :: "ustr \<Rightarrow> nat \<Rightarrow> bool" where
  "at_boundary s i \<longleftrightarrow> (0 < i \<and> is_word_cp (s ! (i - 1))) \<noteq> (i < length s \<and> is_word_cp (s ! i))"

text \<open>How many characters of a class follow, up to the bound of the repetition.\<close>

definition run_length :: "(nat \<Rightarrow> bool) \<Rightarrow> nat option \<Rightarrow> ustr \<Rightarrow> nat" where
  "run_length p hi s =
     (case hi of None \<Rightarrow> length (takeWhile p s) | Some h \<Rightarrow> length (takeWhile p (take h s)))"

primrec match_re :: "ustr \<Rightarrow> regex \<Rightarrow> nat \<times> groups \<Rightarrow> (nat \<times> groups) list" where
  "match_re s Eps m = [m]"
| "match_re s (Many p lo hi) m =
     map (\<lambda>k. (fst m + k, snd m)) (rev [lo..<Suc (run_length p hi (drop (fst m) s))])"
| "match_re s Boundary m = (if at_boundary s (fst m) then [m] else [])"
| "match_re s (Then r1 r2) m = concat (map (match_re s r2) (match_re s r1 m))"
| "match_re s (Maybe r) m = match_re s r m @ [m]"
| "match_re s (Either r1 r2) m = match_re s r1 m @ match_re s r2 m"
| "match_re s (Group k r) m =
     map (\<lambda>(j, gs). (j, (k, take (j - fst m) (drop (fst m) s)) # gs)) (match_re s r m)"

definition first_way :: "(nat \<times> groups) list \<Rightarrow> groups option" where
  "first_way ms = (case ms of [] \<Rightarrow> None | m # ms' \<Rightarrow> Some (snd m))"

definition re_match :: "regex \<Rightarrow> ustr \<Rightarrow> groups option" where
  "re_match r s = first_way (match_re s r (0, []))"

definition re_search :: "regex \<Rightarrow> ustr \<Rightarrow> groups option" where
  "re_search r s = first_way (concat (map (\<lambda>i. match_re s r (i, [])) [0..<Suc (length s)]))"

lemma first_way_None [simp]: "first_way ms = None \<longleftrightarrow> ms = []"
  by (simp add: first_way_def split: list.split)

text \<open>\<open>m[k]\<close>; the latest capture of a group counts, a group that took no part is \<open>None\<close>.\<close>

definition group :: "groups \<Rightarrow> nat \<Rightarrow> ustr option" where
  "group gs k = map_of gs k"

definition group_text :: "groups \<Rightarrow> nat \<Rightarrow> ustr" where
  "group_text gs k = (case group gs k of None \<Rightarrow> [] | Some t \<Rightarrow> t)"

subsection \<open>Building patterns\<close>

abbreviation One :: "(nat \<Rightarrow> bool) \<Rightarrow> regex" where
  "One p \<equiv> Many p 1 (Some 1)"

definition sequence :: "regex list \<Rightarrow> regex" where
  "sequence rs = foldr Then rs Eps"

text \<open>A literal under \<open>IGNORECASE\<close>, given in lower case, and alternatives of literals.\<close>

definition word_ci :: "ustr \<Rightarrow> regex" where
  "word_ci w = sequence (map (\<lambda>x. One (\<lambda>c. lower_cp c = x)) w)"

definition any_word_ci :: "ustr list \<Rightarrow> regex" where
  "any_word_ci ws = (case rev ws of [] \<Rightarrow> Eps | w # vs \<Rightarrow> foldl (\<lambda>r v. Either (word_ci v) r) (word_ci w) vs)"

subsection \<open>What a pattern matches\<close>

text \<open>The language of a pattern as a relation between the ends of a match.\<close>

primrec spans :: "ustr \<Rightarrow> regex \<Rightarrow> nat \<Rightarrow> nat \<Rightarrow> bool" where
  "spans s Eps i j \<longleftrightarrow> i = j"
| "spans s (Many p lo hi) i j \<longleftrightarrow>
     i + lo \<le> j \<and> (case hi of None \<Rightarrow> True | Some h \<Rightarrow> j \<le> i + h) \<and>
     (j \<le> max i (length s)) \<and> (\<forall>k \<in> {i..<j}. p (s ! k))"
| "spans s Boundary i j \<longleftrightarrow> i = j \<and> at_boundary s i"
| "spans s (Then r1 r2) i j \<longleftrightarrow> (\<exists>k \<in> {i..max i (length s)}. spans s r1 i k \<and> spans s r2 k j)"
| "spans s (Maybe r) i j \<longleftrightarrow> i = j \<or> spans s r i j"
| "spans s (Either r1 r2) i j \<longleftrightarrow> spans s r1 i j \<or> spans s r2 i j"
| "spans s (Group k r) i j \<longleftrightarrow> spans s r i j"

lemma length_takeWhile_iff:
  "k \<le> length (takeWhile p s) \<longleftrightarrow> k \<le> length s \<and> (\<forall>i < k. p (s ! i))"
proof (induction s arbitrary: k)
  case (Cons x s)
  then show ?case by (cases k) (auto simp: less_Suc_eq_0_disj)
qed auto

lemma run_length_iff:
  "k \<le> run_length p hi s \<longleftrightarrow>
     k \<le> length s \<and> (case hi of None \<Rightarrow> True | Some h \<Rightarrow> k \<le> h) \<and> (\<forall>i < k. p (s ! i))"
  by (auto simp: run_length_def length_takeWhile_iff split: option.split)

lemma spans_bounds: "spans s r i j \<Longrightarrow> i \<le> j \<and> j \<le> max i (length s)"
  by (induction r arbitrary: i j) fastforce+

text \<open>The matcher finds exactly the spans of the pattern.\<close>

lemma match_re_spans: "(\<exists>gs'. (j, gs') \<in> set (match_re s r (i, gs))) \<longleftrightarrow> spans s r i j"
proof (induction r arbitrary: i j gs)
  case (Many p lo hi)
  have "(\<exists>gs'. (j, gs') \<in> set (match_re s (Many p lo hi) (i, gs))) \<longleftrightarrow>
      i + lo \<le> j \<and> j - i \<le> run_length p hi (drop i s)"
    by (auto simp: image_iff intro: exI [of _ "j - i"]) 
  also have "\<dots> \<longleftrightarrow> spans s (Many p lo hi) i j"
  proof -
    have "(\<forall>k < j - i. p (drop i s ! k)) \<longleftrightarrow> (\<forall>k \<in> {i..<j}. p (s ! k))" if "j \<le> max i (length s)"
    proof
      assume l: "\<forall>k < j - i. p (drop i s ! k)"
      show "\<forall>k \<in> {i..<j}. p (s ! k)"
      proof
        fix k assume "k \<in> {i..<j}"
        with l [rule_format, of "k - i"] that show "p (s ! k)" by auto
      qed
    qed (use that in auto)
    then show ?thesis by (auto simp: run_length_iff split: option.splits)
  qed
  finally show ?case .
next
  case (Then r1 r2)
  have "(\<exists>gs'. (j, gs') \<in> set (match_re s (Then r1 r2) (i, gs))) \<longleftrightarrow>
      (\<exists>k gs1 gs'. (k, gs1) \<in> set (match_re s r1 (i, gs)) \<and> (j, gs') \<in> set (match_re s r2 (k, gs1)))"
    by auto
  also have "\<dots> \<longleftrightarrow> (\<exists>k. spans s r1 i k \<and> spans s r2 k j)"
    using Then by metis
  also have "\<dots> \<longleftrightarrow> spans s (Then r1 r2) i j"
    using spans_bounds [of s r1 i] by (auto simp: Bex_def)
  finally show ?case .
next
  case (Group k r)
  have "(\<exists>gs'. (j, gs') \<in> set (match_re s (Group k r) (i, gs))) \<longleftrightarrow> (\<exists>gs'. (j, gs') \<in> set (match_re s r (i, gs)))"
    by (auto simp: image_iff Bex_def)
  then show ?case using Group by simp
qed (auto simp: ex_disj_distrib)

lemma re_search_iff: "re_search r s \<noteq> None \<longleftrightarrow> (\<exists>i j. i \<le> length s \<and> spans s r i j)"
proof -
  have "re_search r s = None \<longleftrightarrow> (\<forall>i \<le> length s. match_re s r (i, []) = [])"
    by (auto simp: re_search_def less_Suc_eq_le simp del: upt_Suc)
  also have "\<dots> \<longleftrightarrow> (\<forall>i \<le> length s. \<nexists>j gs. (j, gs) \<in> set (match_re s r (i, [])))"
    by (metis list.set_intros(1) list.set(1) empty_iff neq_Nil_conv surj_pair)
  finally show ?thesis by (auto simp: match_re_spans)
qed

lemma find_in_set: "find P xs = Some x \<Longrightarrow> x \<in> set xs"
  by (auto simp: find_Some_iff)

text \<open>A match at the beginning is the one that is found.\<close>

lemma re_search_first: "match_re s r (0, []) = (j, gs) # ms \<Longrightarrow> re_search r s = Some gs"
  by (simp add: re_search_def first_way_def upt_conv_Cons del: upt_Suc)

end
