(* ===== verification/Basic_Parser.thy ===== *)
theory Basic_Parser
  imports Agent Py_Regex
begin

section \<open>The regular-expression parser\<close>

text \<open>
  \<open>infra/llm/basic.py\<close>: the offline parser that the agent and the Claude parser fall back to, one
  definition per pattern and function. A time of day is its seconds since midnight. The intent
  classes validate their fields: a task title of more than 200 characters is a \<open>ValueError\<close>.
\<close>

subsection \<open>Patterns\<close>

definition RU_MONTHS :: "(ustr \<times> int) list" where
  "RU_MONTHS =
     [([1103, 1085, 1074, 1072, 1088], 1), ([1092, 1077, 1074, 1088, 1072, 1083], 2), ([1084, 1072, 1088, 1090], 3),
      ([1072, 1087, 1088, 1077, 1083], 4), ([1084, 1072], 5), ([1080, 1102, 1085], 6),
      ([1080, 1102, 1083], 7), ([1072, 1074, 1075, 1091, 1089, 1090], 8), ([1089, 1077, 1085, 1090, 1103, 1073, 1088], 9),
      ([1086, 1082, 1090, 1103, 1073, 1088], 10), ([1085, 1086, 1103, 1073, 1088], 11), ([1076, 1077, 1082, 1072, 1073, 1088], 12)]"

definition is_quote :: "nat \<Rightarrow> bool" where
  "is_quote c \<longleftrightarrow> c \<in> {34, 171, 187, 39, 8222, 8220, 8221}"

definition is_dash :: "nat \<Rightarrow> bool" where
  "is_dash c \<longleftrightarrow> c \<in> {45, 8211, 8212}"

definition is_cyrillic :: "nat \<Rightarrow> bool" where
  "is_cyrillic c \<longleftrightarrow> (1072 \<le> lower_cp c \<and> lower_cp c \<le> 1103) \<or> lower_cp c = 1105"

abbreviation char_re :: "nat \<Rightarrow> regex" where
  "char_re x \<equiv> One (\<lambda>c. c = x)"

abbreviation digits_re :: "nat \<Rightarrow> nat \<Rightarrow> nat \<Rightarrow> regex" where
  "digits_re k lo hi \<equiv> Group k (Many is_digit lo (Some hi))"

definition QUOTE :: regex where
  "QUOTE = sequence [One is_quote, Group 1 (Many (\<lambda>c. \<not> is_quote c) 1 None), One is_quote]"

definition ISO :: regex where
  "ISO = sequence [digits_re 1 4 4, char_re 45, digits_re 2 2 2, char_re 45, digits_re 3 2 2]"

definition DM :: regex where
  "DM = sequence [Boundary, digits_re 1 1 2, Many is_space 1 None, Group 2 (Many is_cyrillic 1 None)]"

definition DDMM :: regex where
  "DDMM = sequence [Boundary, digits_re 1 1 2, char_re 46, digits_re 2 1 2,
     Maybe (sequence [char_re 46, digits_re 3 4 4]), Boundary]"

definition RANGE :: regex where
  "RANGE = sequence [digits_re 1 1 2, Many is_space 0 None, One is_dash, Many is_space 0 None, digits_re 2 1 2,
     Many is_space 1 None, Group 3 (Many is_cyrillic 1 None)]"

definition TIME :: regex where
  "TIME = sequence [Boundary, One (\<lambda>c. lower_cp c = 1074 \<or> lower_cp c = 1082), Many is_space 1 None,
     digits_re 1 1 2, char_re 58, digits_re 2 2 2, Boundary]"

text \<open>\<open>int(m[k])\<close>: the groups below are digits.\<close>

definition group_int :: "groups \<Rightarrow> nat \<Rightarrow> int" where
  "group_int gs k = int (digits_value 10 (group_text gs k))"

subsection \<open>Dates, times, names\<close>

definition parse_time :: "ustr \<Rightarrow> time_of_day option" where
  "parse_time text =
     (case re_search TIME text of
        None \<Rightarrow> None
      | Some m \<Rightarrow> (let hour = group_int m 1; minute = group_int m 2
                   in if hour > 23 \<or> minute > 59 then None else Some (hour * 3600 + minute * 60)))"

definition month_num :: "ustr \<Rightarrow> int option" where
  "month_num word = map_option snd (find (\<lambda>(stem, num). startswith (lower word) stem) RU_MONTHS)"

text \<open>A date out of range is a \<open>ValueError\<close>, which the caller's \<open>except\<close> turns into no date at all.\<close>

definition date_or_none :: "date res \<Rightarrow> date option" where
  "date_or_none r = (case r of Inl e \<Rightarrow> None | Inr d \<Rightarrow> Some d)"

definition parse_date :: "ustr \<Rightarrow> date \<Rightarrow> date option" where
  "parse_date text today =
     (case re_search ISO text of
        Some m \<Rightarrow> date_or_none (make_date (group_int m 1) (group_int m 2) (group_int m 3))
      | None \<Rightarrow>
          (case re_search DDMM text of
             Some m \<Rightarrow>
               (let year = (if group_text m 3 \<noteq> [] then group_int m 3 else fst (ymd today))
                in date_or_none (make_date year (group_int m 2) (group_int m 1)))
           | None \<Rightarrow>
               (case re_search DM text of
                  Some m \<Rightarrow>
                    (case month_num (group_text m 2) of
                       Some month \<Rightarrow> date_or_none (make_date (fst (ymd today)) month (group_int m 1))
                     | None \<Rightarrow> None)
                | None \<Rightarrow> None)))"

definition resolve_person :: "ustr \<Rightarrow> chat_context \<Rightarrow> ustr option" where
  "resolve_person text ctx =
     (case find (\<lambda>(alias, canonical). contains (lower text) (lower alias)) (cx_aliases ctx) of
        Some (alias, canonical) \<Rightarrow> Some canonical
      | None \<Rightarrow> find (\<lambda>name. contains (lower text) (lower name)) (cx_known_people ctx))"

definition quoted_title :: "ustr \<Rightarrow> ustr option" where
  "quoted_title text = map_option (\<lambda>m. strip (group_text m 1)) (re_search QUOTE text)"

subsection \<open>Kinds of messages\<close>

definition has_any :: "ustr \<Rightarrow> ustr list \<Rightarrow> bool" where
  "has_any low kws = list_ex (contains low) kws"

definition LOAD_KW :: "ustr list" where
  "LOAD_KW = [ascii ''load'', [1079, 1072, 1075, 1088, 1091, 1079], [1085, 1072, 1075, 1088, 1091, 1079], [1079, 1072, 1075, 1091, 1079, 1082], [1085, 1072, 1075, 1091, 1079, 1082],
     [1089, 1083, 1086, 1090], [1089, 1074, 1086, 1073, 1086, 1076], [1079, 1072, 1085, 1103, 1090], [1076, 1086, 1089, 1090, 1091, 1087]]"

definition TASK_QUERY_KW :: "ustr list" where
  "TASK_QUERY_KW = [[1082, 1072, 1082, 1080, 1077, 32, 1079, 1072, 1076, 1072, 1095], [1095, 1090, 1086, 32, 1087, 1086, 32, 1079, 1072, 1076, 1072, 1095], [1095, 1090, 1086, 32, 1089, 1077, 1081, 1095, 1072, 1089], [1095, 1090, 1086, 32, 1080, 1076, 1105, 1090],
     [1089, 1090, 1072, 1090, 1091, 1089], [1090, 1077, 1082, 1091, 1097]]"

definition CONFIRM_WORDS :: "ustr list" where
  "CONFIRM_WORDS = [[1086, 1082], ascii ''ok'', [1076, 1072], ascii ''yes'', ascii ''confirm'', [1087, 1086, 1076, 1090, 1074, 1077, 1088, 1078, 1076, 1072, 1102]]"

definition DELETE_KW :: "ustr list" where
  "DELETE_KW = [[1091, 1076, 1072, 1083, 1080], [1091, 1076, 1072, 1083, 1080, 1090, 1100], [1091, 1076, 1072, 1083, 1077, 1085, 1080, 1077], [1091, 1073, 1077, 1088, 1080], ascii ''drop'',
     ascii ''delete'']"

definition PROJECT_KW :: "ustr list" where
  "PROJECT_KW = [[1087, 1088, 1086, 1077, 1082, 1090], ascii ''project'', [1085, 1086, 1074, 1099, 1081, 32, 1087, 1088, 1086, 1077, 1082, 1090], ascii ''add'']"

definition LITE_KW :: "ustr list" where
  "LITE_KW = [ascii ''lite'', [1083, 1072, 1081, 1090]]"

definition low_text :: "ustr \<Rightarrow> ustr" where
  "low_text text = strip (dropWhile (\<lambda>c. c = 47) (lower text))"

subsection \<open>parse_sync\<close>

definition vacation_intent_of :: "ustr \<Rightarrow> chat_context \<Rightarrow> intent" where
  "vacation_intent_of text ctx =
     (let ask = ClarifyIntent \<lparr>cl_question = Some [1059, 1082, 1072, 1078, 1080, 32, 1080, 1084, 1103, 32, 1080, 32, 1076, 1072, 1090, 1099, 32, 1086,
      1090, 1087, 1091, 1089, 1082, 1072, 46]\<rparr> in
      case (resolve_person text ctx, re_search RANGE text) of
        (Some person, Some rng) \<Rightarrow>
          if person = [] then ask
          else (case month_num (group_text rng 3) of
                  None \<Rightarrow> ask
                | Some month \<Rightarrow>
                    (case (make_date (fst (ymd (cx_today ctx))) month (group_int rng 1),
                           make_date (fst (ymd (cx_today ctx))) month (group_int rng 2)) of
                       (Inr d_from, Inr d_to) \<Rightarrow>
                         VacationIntent \<lparr>va_person_name = person, va_day_from = d_from, va_day_to = d_to,
                                         va_capacity_h = 0\<rparr>
                     | _ \<Rightarrow> ClarifyIntent \<lparr>cl_question = Some [1059, 1082, 1072, 1078, 1080, 32, 1080, 1084, 1103, 32, 1080, 32, 1082, 1086, 1088, 1088, 1077,
      1082, 1090, 1085, 1099, 1077, 32, 1076, 1072, 1090, 1099, 32, 1086, 1090, 1087, 1091, 1089,
      1082, 1072, 46]\<rparr>))
      | _ \<Rightarrow> ask)"

definition what_if_operation_of :: "ustr \<Rightarrow> what_if_operation" where
  "what_if_operation_of low =
     (if has_any low LITE_KW then SwitchToLite
      else if has_any low [[1095, 1077, 1083, 1086, 1074, 1077, 1082], ascii ''+1''] then AddPerson
      else if has_any low [[1091, 1073, 1077, 1088, 1080], ascii ''drop'', [1091, 1076, 1072, 1083, 1080, 32, 1087, 1088, 1086, 1077, 1082, 1090]] then DropProject
      else ShiftDeadline)"

definition what_if_intent_of :: "ustr \<Rightarrow> chat_context \<Rightarrow> intent" where
  "what_if_intent_of text ctx =
     (let op = what_if_operation_of (lower text) in
      WhatIfIntent
        \<lparr>wi_operation = op, wi_project_title = quoted_title text,
         wi_new_deadline = (if op = ShiftDeadline then parse_date text (cx_today ctx) else None),
         wi_person_name = (if op = AddPerson then resolve_person text ctx else None)\<rparr>)"

definition capture_of :: "ustr \<Rightarrow> chat_context \<Rightarrow> capture_task_intent" where
  "capture_of text ctx =
     \<lparr>ct_task_title = strip text,
      ct_assignee_names = (case resolve_person text ctx of None \<Rightarrow> [] | Some p \<Rightarrow> if p = [] then [] else [p]),
      ct_project_name = None, ct_deadline = parse_date text (cx_today ctx), ct_time_start = parse_time text,
      ct_est_hours = None, ct_required_skills = []\<rparr>"

text \<open>What remains once no keyword has decided: a question, a task, or nothing at all.\<close>

definition default_intent :: "ustr \<Rightarrow> chat_context \<Rightarrow> intent res" where
  "default_intent text ctx =
     (let low = low_text text in
      if low \<noteq> [] \<and> last low = 63
      then Inr (ClarifyIntent \<lparr>cl_question = Some [1069, 1090, 1086, 32, 1074, 1086, 1087, 1088, 1086, 1089, 32, 1086, 32, 1079, 1072, 1075, 1088,
      1091, 1079, 1082, 1077, 63, 32, 1059, 1090, 1086, 1095, 1085, 1080, 58, 32, 171, 1089, 1082,
      1086, 1083, 1100, 1082, 1086, 32, 1089, 1083, 1086, 1090, 1086, 1074, 32, 1091, 32, 1056,
      1072, 1103, 63, 187]\<rparr>)
      else if low \<noteq> []
      then (if capture_fields_ok (capture_of text ctx) then Inr (CaptureTaskIntent (capture_of text ctx))
            else Inl ValueError)
      else Inr (ClarifyIntent \<lparr>cl_question = Some
        [1053, 1077, 32, 1087, 1086, 1085, 1103, 1083, 46, 32, 1053, 1072, 1087, 1080, 1096, 1080, 32, 1079,
      1072, 1076, 1072, 1095, 1091, 32, 1090, 1077, 1082, 1089, 1090, 1086, 1084, 44, 32, 1085,
      1072, 1087, 1088, 1080, 1084, 1077, 1088, 58, 10, 171, 1087, 1086, 1076, 1075, 1086, 1090,
      1086, 1074, 1080, 1090, 1100, 32, 1073, 1088, 1080, 1092, 32, 1087, 1086, 32, 1052, 1058,
      1057, 44, 32, 1040, 1085, 1076, 1088, 1077, 1081, 32, 1079, 1072, 1076, 1072, 1095, 1072, 32,
      1090, 1074, 1086, 1103, 187]\<rparr>))"

text \<open>The tests on keywords, in their order.\<close>

definition asks_load :: "ustr \<Rightarrow> bool" where
  "asks_load text \<longleftrightarrow>
     has_any (low_text text) LOAD_KW \<or> contains text (ascii ''/load'') \<or> has_any (low_text text) TASK_QUERY_KW"

definition asks_vacation :: "ustr \<Rightarrow> bool" where
  "asks_vacation low \<longleftrightarrow> contains low [1086, 1090, 1087, 1091, 1089, 1082] \<or> startswith low (ascii ''vacation'')"

definition asks_what_if :: "ustr \<Rightarrow> bool" where
  "asks_what_if low \<longleftrightarrow> contains low [1095, 1090, 1086, 45, 1077, 1089, 1083, 1080] \<or> contains low [1095, 1090, 1086, 32, 1077, 1089, 1083, 1080] \<or>
     startswith low (ascii ''whatif'')"

definition asks_drop :: "ustr \<Rightarrow> bool" where
  "asks_drop low \<longleftrightarrow> contains low [1087, 1088, 1086, 1077, 1082, 1090] \<and> has_any low DELETE_KW"

definition drop_intent_of :: "ustr \<Rightarrow> intent" where
  "drop_intent_of text =
     WhatIfIntent \<lparr>wi_operation = DropProject, wi_project_title = quoted_title text, wi_new_deadline = None,
                   wi_person_name = None\<rparr>"

definition project_intent_of :: "ustr \<Rightarrow> chat_context \<Rightarrow> ustr \<Rightarrow> intent" where
  "project_intent_of text ctx title =
     AddProjectIntent
       \<lparr>ap_title = title, ap_template_code = (if has_any (low_text text) LITE_KW then Lite else Standard),
        ap_deadline = parse_date text (cx_today ctx), ap_brief_return_date = None, ap_notes = None\<rparr>"

definition parse_sync :: "ustr \<Rightarrow> chat_context \<Rightarrow> intent res" where
  "parse_sync text ctx =
     (if asks_load text then Inr (LoadIntent \<lparr>ld_person_name = resolve_person text ctx, ld_date_range = None\<rparr>)
      else if asks_vacation (low_text text) then Inr (vacation_intent_of text ctx)
      else if asks_what_if (low_text text) then Inr (what_if_intent_of text ctx)
      else if low_text text \<in> set CONFIRM_WORDS then Inr (ConfirmIntent \<lparr>co_plan_version_id = None\<rparr>)
      else if asks_drop (low_text text) then Inr (drop_intent_of text)
      else case (has_any (low_text text) PROJECT_KW, quoted_title text) of
             (True, Some title) \<Rightarrow> Inr (project_intent_of text ctx title)
           | _ \<Rightarrow> default_intent text ctx)"

text \<open>\<open>parse_intents\<close> of the port: always one element.\<close>

definition basic_parse_intents :: "ustr \<Rightarrow> chat_context \<Rightarrow> intent list res" where
  "basic_parse_intents text ctx = bind_res (parse_sync text ctx) (\<lambda>i. Inr [i])"

end
