(* ===== verification/Basic_Parser_Correct.thy ===== *)
theory Basic_Parser_Correct
  imports Basic_Parser
begin

section \<open>What the regular-expression parser returns\<close>

text \<open>
  The parser answers every message of ordinary length; what it extracts is well formed: confirmations
  come from bare confirmation words only, a captured task carries the message and known names, dates
  and times exist. A date in ISO form is read wherever it stands in the message.
\<close>

subsection \<open>Stripped text\<close>

lemma strip_by_Nil_iff: "strip_by P s = [] \<longleftrightarrow> (\<forall>c \<in> set s. P c)"
proof
  assume stripped: "strip_by P s = []"
  have "dropWhile P s = []"
  proof (rule ccontr)
    assume ne: "dropWhile P s \<noteq> []"
    then have "hd (dropWhile P s) \<in> set (dropWhile P s)" by simp
    with stripped have "P (hd (dropWhile P s))" by (simp add: strip_by_def)
    with hd_dropWhile [OF ne] show False by simp
  qed
  then show "\<forall>c \<in> set s. P c" by simp
qed (auto simp: strip_by_def dest: set_dropWhileD)

lemma low_text_needs_text: "low_text text \<noteq> [] \<Longrightarrow> strip text \<noteq> []"
proof
  assume "strip text = []" and low: "low_text text \<noteq> []"
  then have "\<forall>c \<in> set (lower text). is_space c"
    by (simp add: strip_by_Nil_iff lower_def)
  then have "\<forall>c \<in> set (dropWhile (\<lambda>c. c = 47) (lower text)). is_space c"
    by (meson set_dropWhileD)
  with low show False by (simp add: low_text_def strip_by_Nil_iff)
qed

subsection \<open>The outcome\<close>

lemma capture_fields:
  "low_text text \<noteq> [] \<Longrightarrow> length (strip text) \<le> 200 \<Longrightarrow> capture_fields_ok (capture_of text ctx)"
  using low_text_needs_text [of "text"]
  by (auto simp: capture_fields_ok_def capture_of_def Suc_le_eq split: option.split)

lemma parse_sync_kinds:
  "(\<exists>i. parse_sync text ctx = Inr (LoadIntent i)) \<or> parse_sync text ctx = Inr (vacation_intent_of text ctx) \<or>
   (\<exists>i. parse_sync text ctx = Inr (WhatIfIntent i)) \<or> (\<exists>i. parse_sync text ctx = Inr (AddProjectIntent i)) \<or>
   (parse_sync text ctx = Inr (ConfirmIntent \<lparr>co_plan_version_id = None\<rparr>) \<and> low_text text \<in> set CONFIRM_WORDS) \<or>
   parse_sync text ctx = default_intent text ctx"
  by (cases "has_any (low_text text) PROJECT_KW"; cases "quoted_title text")
    (simp_all add: parse_sync_def what_if_intent_of_def drop_intent_of_def project_intent_of_def Let_def)

lemma parse_sync_cases:
  obtains (load) i where "parse_sync text' ctx = Inr (LoadIntent i)"
  | (vacation) "parse_sync text' ctx = Inr (vacation_intent_of text' ctx)"
  | (what_if) i where "parse_sync text' ctx = Inr (WhatIfIntent i)"
  | (confirm) "parse_sync text' ctx = Inr (ConfirmIntent \<lparr>co_plan_version_id = None\<rparr>)" "low_text text' \<in> set CONFIRM_WORDS"
  | (project) i where "parse_sync text' ctx = Inr (AddProjectIntent i)"
  | (default) "parse_sync text' ctx = default_intent text' ctx"
  using parse_sync_kinds [of text' ctx] by blast

lemma parse_sync_total:
  assumes "length (strip text) \<le> 200"
  shows "\<exists>i. parse_sync text ctx = Inr i"
proof (cases rule: parse_sync_cases [of "text" ctx])
  case default
  with capture_fields [OF _ assms] show ?thesis by (auto simp: default_intent_def Let_def)
qed auto

lemma parse_sync_raises: "parse_sync text ctx = Inl e \<Longrightarrow> e = ValueError \<and> 200 < length (strip text)"
  using parse_sync_total [of "text" ctx]
  by (cases rule: parse_sync_cases [of "text" ctx]; cases "length (strip text) \<le> 200")
    (auto simp: default_intent_def Let_def split: if_splits)

subsection \<open>The intents\<close>

lemma resolve_person_known:
  "resolve_person text ctx = Some p \<Longrightarrow> p \<in> snd ` set (cx_aliases ctx) \<union> set (cx_known_people ctx)"
  by (force simp: resolve_person_def dest: find_in_set split: option.splits prod.splits)

lemma group_int_nonneg: "0 \<le> group_int gs k"
  by (simp add: group_int_def)

lemma parse_time_range: "parse_time text = Some t \<Longrightarrow> 0 \<le> t \<and> t < 86400"
  using group_int_nonneg [of _ 1] group_int_nonneg [of _ 2]
  by (force simp: parse_time_def Let_def split: option.splits if_splits)

text \<open>
  A vacation lies in one month of the current year and is for a known person; a captured task has the
  whole message as its title and at most one, known, assignee.
\<close>

definition intent_sound :: "ustr \<Rightarrow> chat_context \<Rightarrow> intent \<Rightarrow> bool" where
  "intent_sound text ctx i =
     (let known = snd ` set (cx_aliases ctx) \<union> set (cx_known_people ctx) in
      case i of
        CaptureTaskIntent c \<Rightarrow>
          capture_fields_ok c \<and> ct_task_title c = strip text \<and> set (ct_assignee_names c) \<subseteq> known \<and>
          length (ct_assignee_names c) \<le> 1 \<and>
          (case ct_time_start c of None \<Rightarrow> True | Some t \<Rightarrow> 0 \<le> t \<and> t < 86400)
      | VacationIntent v \<Rightarrow>
          va_person_name v \<in> known \<and> va_capacity_h v = 0 \<and>
          (\<exists>m k l. make_date (fst (ymd (cx_today ctx))) m k = Inr (va_day_from v) \<and>
            make_date (fst (ymd (cx_today ctx))) m l = Inr (va_day_to v))
      | ConfirmIntent c \<Rightarrow> co_plan_version_id c = None \<and> low_text text \<in> set CONFIRM_WORDS
      | AssignIntent a \<Rightarrow> False
      | _ \<Rightarrow> True)"

lemma capture_sound: "capture_fields_ok (capture_of text ctx) \<Longrightarrow> intent_sound text ctx (CaptureTaskIntent (capture_of text ctx))"
  using resolve_person_known [of "text" ctx] parse_time_range [of "text"]
  by (auto simp: intent_sound_def capture_of_def split: option.splits)

lemma vacation_sound: "intent_sound text ctx (vacation_intent_of text ctx)"
  using resolve_person_known [of "text" ctx]
  by (fastforce simp: intent_sound_def vacation_intent_of_def Let_def split: option.split sum.split)

lemma parse_sync_sound:
  assumes "parse_sync text ctx = Inr i"
  shows "intent_sound text ctx i"
proof (cases rule: parse_sync_cases [of "text" ctx])
  case default
  with assms show ?thesis
    by (auto simp: default_intent_def Let_def capture_sound split: if_splits) (simp_all add: intent_sound_def)
qed (use assms in \<open>auto simp: vacation_sound\<close>, auto simp: intent_sound_def)

subsection \<open>Dates in ISO form\<close>

lemma run_length_stop: "s = [] \<or> \<not> p (hd s) \<Longrightarrow> run_length p (Some h) s = 0"
  by (cases s; cases h) (auto simp: run_length_def)

lemma run_length_full: "list_all p t \<Longrightarrow> run_length p (Some (length t)) (t @ s) = length t"
  by (simp add: run_length_def list_all_iff takeWhile_eq_all_conv [THEN iffD2])

text \<open>One step of a sequence whose head matches in one way.\<close>

lemma match_then: "match_re s r1 (i, gs) = [m] \<Longrightarrow> match_re s (Then r1 r2) (i, gs) = match_re s r2 m"
  by simp

lemma match_digits:
  assumes "drop i s = t @ u" "list_all is_digit t" "length t = n"
  shows "match_re s (digits_re k n n) (i, gs) = [(i + n, (k, t) # gs)]"
  using run_length_full [OF assms(2), of u] assms(3) by (simp add: assms(1))

lemma match_char:
  assumes "drop i s = c # u"
  shows "match_re s (char_re c) (i, gs) = [(i + 1, gs)]"
  by (simp add: assms run_length_def)

lemma drop_more: "drop i s = t @ u \<Longrightarrow> length t = n \<Longrightarrow> drop (i + n) s = u"
  by (metis add.commute append_eq_conv_conj drop_drop)

lemma iso_matches:
  assumes "drop i s = y @ [45] @ m @ [45] @ d @ u"
    and "length y = 4" "length m = 2" "length d = 2" "list_all is_digit y" "list_all is_digit m" "list_all is_digit d"
  shows "match_re s ISO (i, []) = [(i + 4 + 1 + 2 + 1 + 2, [(3, d), (2, m), (1, y)])]"
proof -
  have at: "drop (i + 4) s = 45 # m @ 45 # d @ u" "drop (i + 4 + 1) s = m @ 45 # d @ u"
    "drop (i + 4 + 1 + 2) s = 45 # d @ u" "drop (i + 4 + 1 + 2 + 1) s = d @ u"
    using drop_more [OF assms(1,2)] drop_more [of "i + 4" s "[45]" "m @ 45 # d @ u" 1]
      drop_more [of "i + 4 + 1" s m "45 # d @ u" 2] drop_more [of "i + 4 + 1 + 2" s "[45]" "d @ u" 1] assms(3)
    by simp_all
  show ?thesis
    unfolding ISO_def sequence_def foldr_Cons o_apply foldr_Nil id_apply
    by (simp only: match_then [OF match_digits [OF assms(1,5,2)]] match_then [OF match_char [OF at(1)]]
        match_then [OF match_digits [OF at(2) assms(6,3)]] match_then [OF match_char [OF at(3)]]
        match_then [OF match_digits [OF at(4) assms(7,4)]] match_re.simps(1))
qed

lemma iso_needs_digit:
  assumes "drop i s = c # u" "\<not> is_digit c"
  shows "match_re s ISO (i, []) = []"
  by (simp add: ISO_def sequence_def assms run_length_stop)

text \<open>A date written out is found behind any text without digits, whatever follows.\<close>

lemma search_iso:
  assumes "list_all (\<lambda>c. \<not> is_digit c) p"
    and "s = y @ [45] @ m @ [45] @ d @ u"
    and "length y = 4" "length m = 2" "length d = 2" "list_all is_digit y" "list_all is_digit m" "list_all is_digit d"
  shows "re_search ISO (p @ s) = Some [(3, d), (2, m), (1, y)]"
proof -
  have none: "match_re (p @ s) ISO (i, []) = []" if "i < length p" for i
    using that assms(1) by (intro iso_needs_digit [of i _ "p ! i" "drop (Suc i) p @ s"])
      (simp_all add: Cons_nth_drop_Suc list_all_iff)
  have hit: "match_re (p @ s) ISO (length p, []) = [(length p + 4 + 1 + 2 + 1 + 2, [(3, d), (2, m), (1, y)])]"
    by (rule iso_matches) (simp_all add: assms)
  have "[0..<Suc (length (p @ s))] = [0..<length p] @ length p # [Suc (length p)..<Suc (length (p @ s))]"
    using upt_add_eq_append [of 0 "length p" "Suc (length s)"] upt_conv_Cons [of "length p" "Suc (length (p @ s))"]
    by simp
  then show ?thesis
    by (simp add: re_search_def first_way_def hit none concat_eq_Nil_conv [THEN iffD2] del: upt_Suc)
qed

lemma parse_date_iso:
  assumes "valid_date day" "list_all (\<lambda>c. \<not> is_digit c) p"
  shows "parse_date (p @ isoformat day @ u) today = Some day"
proof -
  obtain y m k where *: "ymd day = (y, m, k)"
    "isoformat day = zfill 4 (nat_dec (nat y)) @ [45] @ zfill 2 (nat_dec (nat m)) @ [45] @ zfill 2 (nat_dec (nat k))"
    "length (zfill 4 (nat_dec (nat y))) = 4" "length (zfill 2 (nat_dec (nat m))) = 2"
    "length (zfill 2 (nat_dec (nat k))) = 2" "0 \<le> y" "0 \<le> m" "0 \<le> k"
    using isoformat_parts [OF assms(1)] .
  have digits: "list_all is_digit (zfill w (nat_dec n))" for w n
    using zfill_digits by (auto simp: list_all_iff)
  have value_of: "digits_value 10 (zfill w (nat_dec n)) = n" for w n
    by (simp add: zfill_def digits_value_zeros digits_value_nat_dec)
  have "re_search ISO (p @ isoformat day @ u) =
      Some [(3, zfill 2 (nat_dec (nat k))), (2, zfill 2 (nat_dec (nat m))), (1, zfill 4 (nat_dec (nat y)))]"
    by (rule search_iso [OF assms(2) _ *(3-5) digits digits digits, where u = u]) (simp add: *(2))
  then show ?thesis
    using make_date_ymd [OF assms(1) *(1)] *(6-8)
    by (simp add: parse_date_def group_int_def group_text_def group_def value_of date_or_none_def)
qed

end
