(* ===== verification/Claude_Parser.thy ===== *)
theory Claude_Parser
  imports Basic_Parser_Correct
begin

section \<open>The parser that asks Claude\<close>

text \<open>
  \<open>infra/llm/claude.py\<close> and \<open>build_user_message\<close> of \<open>infra/llm/prompts.py\<close>. The call
  \<open>messages.create\<close>, with the method's own system prompt, is a parameter from the user message to a
  response or an exception; so is pydantic's \<open>validate_json\<close> from text to intents or an exception. On
  any exception the regular-expression parser answers.
\<close>

definition build_user_message :: "ustr \<Rightarrow> chat_context \<Rightarrow> ustr" where
  "build_user_message text ctx =
     (let orelse = (\<lambda>s. if s = [] then DASH else s) in
      ascii ''today='' @ isoformat (cx_today ctx) @ [10] @
      [1083, 1102, 1076, 1080, 58, 32] @ orelse (join (ascii '', '') (cx_known_people ctx)) @ [10] @
      [1072, 1083, 1080, 1072, 1089, 1099, 58, 32] @
      orelse (join (ascii '', '') (map (\<lambda>(a, c). a @ ascii ''->'' @ c) (cx_aliases ctx))) @ [10] @
      [1087, 1088, 1086, 1077, 1082, 1090, 1099, 58, 32] @ orelse (join (ascii '', '') (cx_known_projects ctx)) @ [10] @
      [1085, 1077, 1076, 1072, 1074, 1085, 1080, 1077, 32, 1089, 1086, 1086, 1073, 1097, 1077, 1085, 1080,
      1103, 58, 10] @ orelse (join [10] (cx_recent_messages ctx)) @ [10] @
      ascii ''---'' @ [10] @ text)"

definition FENCE :: ustr where
  "FENCE = [96, 96, 96]"

definition remove_suffix :: "ustr \<Rightarrow> ustr \<Rightarrow> ustr option" where
  "remove_suffix p s = (if startswith (rev s) (rev p) then Some (take (length s - length p) s) else None)"

definition strip_fences :: "ustr \<Rightarrow> ustr" where
  "strip_fences text =
     (let t = strip text in
      if \<not> startswith t FENCE then t
      else let body = (if 10 \<in> set t then tl (dropWhile (\<lambda>c. c \<noteq> 10) t) else t);
               inner = strip (if startswith body (ascii ''json'') then drop 4 body else body)
           in case remove_suffix FENCE inner of Some u \<Rightarrow> strip u | None \<Rightarrow> inner)"

definition extract_text :: "llm_response \<Rightarrow> ustr" where
  "extract_text resp = concat (map block_text (lr_content resp))"

definition or_fallback :: "'a res \<Rightarrow> 'a res \<Rightarrow> 'a res" where
  "or_fallback r fallback = (case r of Inl e \<Rightarrow> fallback | Inr x \<Rightarrow> Inr x)"

definition ask_claude :: "(ustr \<Rightarrow> llm_response res) \<Rightarrow> (ustr \<Rightarrow> 'a res) \<Rightarrow> ustr \<Rightarrow> chat_context \<Rightarrow> 'a res" where
  "ask_claude create validate text ctx =
     bind_res (create (build_user_message text ctx)) (\<lambda>resp. validate (strip_fences (extract_text resp)))"

definition claude_parse ::
  "(ustr \<Rightarrow> llm_response res) \<Rightarrow> (ustr \<Rightarrow> intent res) \<Rightarrow> sync_parser \<Rightarrow> ustr \<Rightarrow> chat_context \<Rightarrow> intent res" where
  "claude_parse create validate fallback text ctx =
     or_fallback (ask_claude create validate text ctx) (fallback text ctx)"

definition claude_parse_intents ::
  "(ustr \<Rightarrow> llm_response res) \<Rightarrow> (ustr \<Rightarrow> intent list res) \<Rightarrow> sync_parser \<Rightarrow> ustr \<Rightarrow> chat_context
    \<Rightarrow> intent list res" where
  "claude_parse_intents create validate fallback text ctx =
     or_fallback (ask_claude create validate text ctx) (bind_res (fallback text ctx) (\<lambda>i. Inr [i]))"

definition claude_explain_plan :: "(ustr \<Rightarrow> llm_response res) \<Rightarrow> ustr \<Rightarrow> ustr" where
  "claude_explain_plan create plan_summary =
     (case create plan_summary of
        Inl e \<Rightarrow> plan_summary
      | Inr resp \<Rightarrow> if extract_text resp = [] then plan_summary else extract_text resp)"

subsection \<open>Every message is answered\<close>

lemma or_fallback_returns: "fallback = Inr y \<Longrightarrow> \<exists>x. or_fallback r fallback = Inr x"
  by (cases r) (simp_all add: or_fallback_def)

lemma claude_parse_total: "fallback text ctx = Inr i \<Longrightarrow> \<exists>j. claude_parse create validate fallback text ctx = Inr j"
  unfolding claude_parse_def by (rule or_fallback_returns)

lemma claude_parse_intents_total:
  "fallback text ctx = Inr i \<Longrightarrow> \<exists>is. claude_parse_intents create validate fallback text ctx = Inr is"
  unfolding claude_parse_intents_def by (rule or_fallback_returns) simp

lemma agent_run_returns:
  assumes "parser text ctx = Inr i"
  shows "\<exists>r. fst (agent_run model parser env text ctx s) = Inr r"
proof (cases rule: agent_run_cases [of model parser env "text" ctx s])
  case (degraded b w')
  with assms show ?thesis by (simp add: fallback_text_def)
qed auto

text \<open>A summary without content is never shown in place of the plan's own.\<close>

lemma claude_explain_nonempty: "plan_summary \<noteq> [] \<Longrightarrow> claude_explain_plan create plan_summary \<noteq> []"
  by (simp add: claude_explain_plan_def split: sum.split)

lemma strip_fences_plain: "\<not> startswith (strip text) FENCE \<Longrightarrow> strip_fences text = strip text"
  by (simp add: strip_fences_def)

end
