(* ===== verification/Notion_Mapping.thy ===== *)
theory Notion_Mapping
  imports Py_Regex Task_Use_Cases
begin

section \<open>Tasks as Notion properties\<close>

text \<open>
  \<open>infra/notion/mapping.py\<close>: which columns of a Notion database a task fills, from the schema the API
  returns, a dictionary from column names to JSON. A schema of an unexpected shape raises, as the
  dictionary accesses of the source do.
\<close>

subsection \<open>Columns\<close>

definition DATE_RE :: regex where
  "DATE_RE = any_word_ci [[1076, 1072, 1090, 1072], [1076, 1077, 1076, 1083, 1072, 1081, 1085], ascii ''deadline'', [1089, 1088, 1086, 1082], ascii ''due'']"

definition ASSIGNEE_RE :: regex where
  "ASSIGNEE_RE = any_word_ci [ascii ''assign'', [1080, 1089, 1087, 1086, 1083, 1085, 1080, 1090], [1082, 1086, 1084, 1091],
     [1086, 1090, 1074, 1077, 1090, 1089, 1090, 1074, 1077, 1085], ascii ''assignee'']"

definition PROJECT_RE :: regex where
  "PROJECT_RE = any_word_ci [[1087, 1088, 1086, 1077, 1082, 1090], ascii ''project'', [1082, 1083, 1080, 1077, 1085, 1090], [1079, 1072, 1082, 1072, 1079, 1095, 1080, 1082]]"

definition STATUS_RE :: regex where
  "STATUS_RE = any_word_ci [[1089, 1090, 1072, 1090, 1091, 1089], ascii ''status'']"

type_synonym schema = "(ustr, json) dict"

definition has_type :: "ustr list \<Rightarrow> json \<Rightarrow> bool res" where
  "has_type types meta =
     bind_res (json_get ''type'' JNull meta) (\<lambda>t. Inr (case t of JStr s \<Rightarrow> s \<in> set types | _ \<Rightarrow> False))"

definition find_prop :: "schema \<Rightarrow> regex \<Rightarrow> ustr list \<Rightarrow> ustr option res" where
  "find_prop sc pattern types =
     bind_res (map_res (\<lambda>(name, meta). bind_res (has_type types meta)
         (\<lambda>ok. Inr (if ok \<and> re_search pattern name \<noteq> None then [name] else []))) sc) (\<lambda>found.
     let candidates = concat found;
         prefixed = filter (\<lambda>name. re_match pattern name \<noteq> None) candidates
     in Inr (case (if prefixed \<noteq> [] then prefixed else candidates) of [] \<Rightarrow> None | name # names \<Rightarrow> Some name))"

fun first_of_type :: "ustr \<Rightarrow> schema \<Rightarrow> ustr option res" where
  "first_of_type t [] = Inr None"
| "first_of_type t ((name, meta) # sc) =
     bind_res (has_type [t] meta) (\<lambda>ok. if ok then Inr (Some name) else first_of_type t sc)"

definition names_json :: "ustr \<Rightarrow> json" where
  "names_json v = jobj [(''name'', JStr v)]"

definition text_value :: "ustr \<Rightarrow> ustr list \<Rightarrow> json option res" where
  "text_value prop_type vs =
     (if prop_type = ascii ''multi_select'' then Inr (Some (jobj [(''multi_select'', JList (map names_json vs))]))
      else if prop_type = ascii ''select''
      then (case vs of [] \<Rightarrow> Inl IndexError | v # vs' \<Rightarrow> Inr (Some (jobj [(''select'', names_json v)])))
      else if prop_type = ascii ''rich_text''
      then Inr (Some (jobj [(''rich_text'', JList [jobj [(''text'', jobj [(''content'', JStr (join (ascii '', '') vs))])]])]))
      else Inr None)"

text \<open>\<open>meta.get(type, {}).get("options", [])\<close>.\<close>

definition type_options :: "ustr \<Rightarrow> json \<Rightarrow> json list res" where
  "type_options t meta =
     bind_res (json_dict meta) (\<lambda>d.
     bind_res (json_get ''options'' (JList []) (dict_get_default d t (JObj []))) json_list)"

definition option_names :: "ustr \<Rightarrow> json \<Rightarrow> ustr list res" where
  "option_names t meta =
     bind_res (type_options t meta) (map_res (\<lambda>opt. bind_res (json_item ''name'' opt) json_str))"

definition snap_one :: "ustr list \<Rightarrow> bool \<Rightarrow> ustr \<Rightarrow> ustr list" where
  "snap_one options strict v =
     (case find (\<lambda>opt. contains (lower opt) (lower v) \<or> contains (lower v) (lower opt)) options of
        None \<Rightarrow> if strict then [] else [v]
      | Some opt \<Rightarrow> [if opt = [] then v else opt])"

definition snap_to_options :: "ustr \<Rightarrow> json \<Rightarrow> ustr list \<Rightarrow> bool \<Rightarrow> ustr list res" where
  "snap_to_options t meta vs strict =
     bind_res (option_names t meta) (\<lambda>options. Inr (concat (map (snap_one options strict) vs)))"

subsection \<open>build\_properties\<close>

definition put :: "ustr \<Rightarrow> json \<Rightarrow> schema \<Rightarrow> schema" where
  "put = dict_set"

definition title_step :: "schema \<Rightarrow> sink_task \<Rightarrow> schema \<Rightarrow> schema res" where
  "title_step sc task props =
     bind_res (first_of_type (ascii ''title'') sc) (\<lambda>name.
     Inr (case name of
            None \<Rightarrow> props
          | Some n \<Rightarrow> if n = [] then props else put n
              (jobj [(''title'', JList [jobj [(''text'', jobj [(''content'', JStr (st_title task))])]])]) props))"

definition date_start :: "date \<Rightarrow> time_of_day option \<Rightarrow> ustr" where
  "date_start d t = isoformat d @ (case t of None \<Rightarrow> [] | Some s \<Rightarrow> ascii ''T'' @ hour_minute s @ ascii '':00'')"

definition date_column :: "schema \<Rightarrow> ustr option res" where
  "date_column sc =
     bind_res (find_prop sc DATE_RE [ascii ''date'']) (\<lambda>d.
     case d of Some n \<Rightarrow> if n = [] then first_of_type (ascii ''date'') sc else Inr d
     | None \<Rightarrow> first_of_type (ascii ''date'') sc)"

definition date_step :: "schema \<Rightarrow> sink_task \<Rightarrow> schema \<Rightarrow> schema res" where
  "date_step sc task props =
     (case st_deadline task of
        None \<Rightarrow> Inr props
      | Some d \<Rightarrow> bind_res (date_column sc) (\<lambda>name.
          Inr (case name of
                 None \<Rightarrow> props
               | Some n \<Rightarrow> if n = [] then props
                   else put n (jobj [(''date'', jobj [(''start'', JStr (date_start d (st_time_start task)))])]) props)))"

text \<open>A column that was found is filled with what \<open>value\<close> makes of its description and type, if anything.\<close>

definition fill_column :: "schema \<Rightarrow> ustr option \<Rightarrow> (json \<Rightarrow> ustr \<Rightarrow> json option res) \<Rightarrow> schema \<Rightarrow> schema res" where
  "fill_column sc name value props =
     (case name of
        None \<Rightarrow> Inr props
      | Some n \<Rightarrow>
          if n = [] then Inr props
          else bind_res (dict_item sc n) (\<lambda>meta.
               bind_res (bind_res (json_item ''type'' meta) json_str) (\<lambda>t.
               bind_res (value meta t) (\<lambda>v. Inr (case v of None \<Rightarrow> props | Some j \<Rightarrow> put n j props)))))"

text \<open>The assignees and the project: snap to the options of a select column, then render.\<close>

definition column_text :: "bool \<Rightarrow> ustr list \<Rightarrow> json \<Rightarrow> ustr \<Rightarrow> json option res" where
  "column_text strict vs meta t =
     bind_res (if t \<in> set (map ascii [''multi_select'', ''select'']) then snap_to_options t meta vs strict else Inr vs)
       (\<lambda>names. if names = [] then Inr None else text_value t names)"

definition text_step :: "schema \<Rightarrow> regex \<Rightarrow> bool \<Rightarrow> ustr list \<Rightarrow> schema \<Rightarrow> schema res" where
  "text_step sc pattern strict vs props =
     (if vs = [] then Inr props
      else bind_res (find_prop sc pattern (map ascii [''multi_select'', ''select'', ''rich_text''])) (\<lambda>name.
           fill_column sc name (column_text strict vs) props))"

definition first_option :: "json \<Rightarrow> ustr \<Rightarrow> json option res" where
  "first_option meta t =
     bind_res (type_options t meta) (\<lambda>options.
     case options of
       [] \<Rightarrow> Inr None
     | opt # opts \<Rightarrow> bind_res (json_item ''name'' opt) (\<lambda>name. Inr (Some (JObj [(t, jobj [(''name'', name)])]))))"

definition status_step :: "schema \<Rightarrow> schema \<Rightarrow> schema res" where
  "status_step sc props =
     bind_res (find_prop sc STATUS_RE (map ascii [''status'', ''select''])) (\<lambda>name.
     fill_column sc name first_option props)"

definition project_values :: "sink_task \<Rightarrow> ustr list" where
  "project_values task = (case st_project task of None \<Rightarrow> [] | Some p \<Rightarrow> if p = [] then [] else [p])"

definition build_properties :: "schema \<Rightarrow> sink_task \<Rightarrow> bool \<Rightarrow> schema res" where
  "build_properties sc task strict =
     bind_res (title_step sc task []) (\<lambda>props.
     bind_res (date_step sc task props) (\<lambda>props.
     bind_res (text_step sc ASSIGNEE_RE strict (st_assignees task) props) (\<lambda>props.
     bind_res (text_step sc PROJECT_RE strict (project_values task) props) (\<lambda>props.
     status_step sc props))))"

end
