(* ===== verification/Notion_Correct.thy ===== *)
theory Notion_Correct
  imports Notion_Mapping
begin

section \<open>What is written to Notion\<close>

text \<open>
  With \<open>strict\<close> the mapper names existing options only: boards that reject new options accept the page.
  Every column it fills is a column of the schema.
\<close>

text \<open>A property value that names an option \<open>n\<close> of a column of type \<open>t\<close>.\<close>

definition names_option :: "json \<Rightarrow> ustr \<Rightarrow> json \<Rightarrow> bool" where
  "names_option v t n \<longleftrightarrow>
     (\<exists>xs. t = ascii ''multi_select'' \<and> v = JObj [(t, JList xs)] \<and> jobj [(''name'', n)] \<in> set xs) \<or>
     (t = ascii ''select'' \<or> t = ascii ''status'') \<and> v = JObj [(t, jobj [(''name'', n)])]"

definition only_offered :: "schema \<Rightarrow> ustr \<times> json \<Rightarrow> bool" where
  "only_offered sc = (\<lambda>(k, v). \<forall>t n. names_option v t n \<longrightarrow>
     (\<exists>meta opts opt. dict_get sc k = Some meta \<and> type_options t meta = Inr opts \<and> opt \<in> set opts \<and>
        json_item ''name'' opt = Inr n))"

text \<open>No option without a name: Notion has none.\<close>

definition named_options :: "schema \<Rightarrow> bool" where
  "named_options sc \<longleftrightarrow> (\<forall>(k, meta) \<in> set sc. \<forall>t names. option_names t meta = Inr names \<longrightarrow> [] \<notin> set names)"

lemma map_res_members: "map_res f xs = Inr ys \<Longrightarrow> y \<in> set ys \<Longrightarrow> \<exists>x \<in> set xs. f x = Inr y"
  by (induction xs arbitrary: ys) (auto simp: res_simps)

lemma option_name_offered:
  assumes "option_names t meta = Inr names" "n \<in> set names"
  shows "\<exists>opts opt. type_options t meta = Inr opts \<and> opt \<in> set opts \<and> json_item ''name'' opt = Inr (JStr n)"
proof -
  from assms(1) obtain opts where opts: "type_options t meta = Inr opts"
    "map_res (\<lambda>opt. bind_res (json_item ''name'' opt) json_str) opts = Inr names"
    by (auto simp: option_names_def res_simps)
  from map_res_members [OF this(2) assms(2)] obtain opt where
    opt: "opt \<in> set opts" "bind_res (json_item ''name'' opt) json_str = Inr n" by blast
  then obtain j where j: "json_item ''name'' opt = Inr j" "json_str j = Inr n" by (auto simp: res_simps)
  then have "j = JStr n" by (cases j) simp_all
  with opts opt j show ?thesis by blast
qed

lemma snapped_from_options:
  "[] \<notin> set options \<Longrightarrow> n \<in> set (concat (map (snap_one options True) vs)) \<Longrightarrow> n \<in> set options"
  by (fastforce simp: snap_one_def dest: find_in_set split: option.splits if_splits)

lemma set_dict_set: "set (dict_set k v d) \<subseteq> insert (k, v) (set d)"
  by (induction d) (auto simp: dict_set_def)

lemma put_offered:
  assumes "list_all (only_offered sc) props" "only_offered sc (k, v)"
  shows "list_all (only_offered sc) (put k v props)"
  using assms set_dict_set [of k v props] by (auto simp: put_def list_all_iff)

text \<open>Titles, dates and texts name no option; a rendered list names its elements.\<close>

lemma names_option_key: "names_option (JObj [(t', x)]) t n \<Longrightarrow> t = t'"
  by (auto simp: names_option_def)

lemma plain_offered:
  assumes "t' \<notin> set (map ascii [''multi_select'', ''select'', ''status''])"
  shows "only_offered sc (k, JObj [(t', x)])"
  using assms names_option_key [of t' x] by (auto simp: only_offered_def names_option_def)

lemma rendered_names:
  assumes "text_value t vs = Inr (Some v)" "names_option v t' n"
  shows "t' = t \<and> t \<in> set (map ascii [''multi_select'', ''select'']) \<and> (\<exists>u \<in> set vs. n = JStr u)"
  using assms
  by (auto simp: text_value_def names_option_def names_json_def jobj_def split: if_splits list.splits)

lemma fill_column_offered:
  assumes "fill_column sc name value props = Inr props'" "list_all (only_offered sc) props"
    and "\<And>k meta t v. dict_get sc k = Some meta \<Longrightarrow> value meta t = Inr (Some v) \<Longrightarrow> only_offered sc (k, v)"
  shows "list_all (only_offered sc) props'"
proof (cases name)
  case (Some n)
  with assms(1) show ?thesis
    using assms(2) by (auto simp: fill_column_def res_simps dict_item_def intro!: put_offered assms(3)
        split: if_splits option.splits)
qed (use assms(1,2) in \<open>simp add: fill_column_def\<close>)

lemma column_text_offered:
  assumes "named_options sc" "dict_get sc k = Some meta" "column_text True vs meta t = Inr (Some v)"
  shows "only_offered sc (k, v)"
  unfolding only_offered_def
proof (clarify)
  fix t' n assume named: "names_option v t' n"
  from assms(3) obtain names where names:
    "(if t \<in> set (map ascii [''multi_select'', ''select'']) then snap_to_options t meta vs True else Inr vs) = Inr names"
    "text_value t names = Inr (Some v)"
    by (auto simp: column_text_def res_simps simp del: list.map set_simps split: if_splits)
  from rendered_names [OF names(2) named] obtain u where t: "t' = t" "t \<in> set (map ascii [''multi_select'', ''select''])"
    and u: "u \<in> set names" "n = JStr u" by blast
  from names(1) t(2) obtain options where options: "option_names t meta = Inr options"
    "names = concat (map (snap_one options True) vs)"
    by (auto simp: snap_to_options_def res_simps simp del: list.map set_simps)
  have "(k, meta) \<in> set sc" using assms(2) by (auto simp: dict_get_def dest: map_of_SomeD)
  with assms(1) options(1) have "[] \<notin> set options" by (auto simp: named_options_def)
  from snapped_from_options [OF this] u(1) options(2) have "u \<in> set options" by blast
  from option_name_offered [OF options(1) this] assms(2) t(1) u(2)
  show "\<exists>meta opts opt. dict_get sc k = Some meta \<and> type_options t' meta = Inr opts \<and> opt \<in> set opts \<and>
      json_item ''name'' opt = Inr n" by blast
qed

lemma first_option_offered:
  assumes "dict_get sc k = Some meta" "first_option meta t = Inr (Some v)"
  shows "only_offered sc (k, v)"
  unfolding only_offered_def
proof (clarify)
  fix t' n assume named: "names_option v t' n"
  from assms(2) obtain opt opts name where opts: "type_options t meta = Inr (opt # opts)"
    "json_item ''name'' opt = Inr name" "v = JObj [(t, jobj [(''name'', name)])]"
    by (cases "projr (type_options t meta)") (auto simp: first_option_def res_simps)
  with named have "t' = t" "n = name" by (auto simp: names_option_def jobj_def)
  with assms(1) opts show "\<exists>meta opts opt. dict_get sc k = Some meta \<and> type_options t' meta = Inr opts \<and>
      opt \<in> set opts \<and> json_item ''name'' opt = Inr n" by auto
qed

lemma text_step_offered:
  assumes "text_step sc pattern True vs props = Inr props'" "list_all (only_offered sc) props" "named_options sc"
  shows "list_all (only_offered sc) props'"
  using assms fill_column_offered [OF _ assms(2) column_text_offered [OF assms(3)]]
  by (auto simp: text_step_def res_simps split: if_splits)

lemma status_step_offered:
  assumes "status_step sc props = Inr props'" "list_all (only_offered sc) props"
  shows "list_all (only_offered sc) props'"
  using assms fill_column_offered [OF _ assms(2) first_option_offered]
  by (auto simp: status_step_def res_simps)

lemma strict_offered:
  assumes "build_properties sc task True = Inr props" "named_options sc"
  shows "list_all (only_offered sc) props"
proof -
  from assms(1) obtain p1 p2 p3 p4 where steps: "title_step sc task [] = Inr p1" "date_step sc task p1 = Inr p2"
    "text_step sc ASSIGNEE_RE True (st_assignees task) p2 = Inr p3"
    "text_step sc PROJECT_RE True (project_values task) p3 = Inr p4" "status_step sc p4 = Inr props"
    by (auto simp: build_properties_def res_simps)
  have "list_all (only_offered sc) p1"
    using steps(1) by (auto simp: title_step_def res_simps jobj_def plain_offered intro!: put_offered split: option.splits if_splits)
  then have "list_all (only_offered sc) p2"
    using steps(2) by (auto simp: date_step_def res_simps jobj_def plain_offered intro!: put_offered split: option.splits if_splits)
  from status_step_offered [OF steps(5) text_step_offered [OF steps(4) text_step_offered [OF steps(3) this assms(2)] assms(2)]]
  show ?thesis .
qed

end
