(* ===== verification/Notion_Sinks.thy ===== *)
theory Notion_Sinks
  imports Notion_Correct
begin

section \<open>Notion as a sink\<close>

text \<open>
  \<open>infra/notion/client.py\<close> and \<open>infra/notion/project.py\<close>. The HTTP client is the parameter \<open>http\<close>: a
  response or an exception for a request, which may depend on all requests before. A sink object keeps
  a state between calls; a call returns a value or raises and leaves the state either way.
  \<open>raise_for_status\<close> of the client library raises unless the status is a success, 200 to 299. The
  answer's \<open>url\<close> and \<open>id\<close> are text or missing.
\<close>

datatype http_request = HttpGet ustr | HttpPost ustr json | HttpPatch ustr json

record http_response =
  rs_status :: int
  rs_json :: "json res"

type_synonym http = "http_request list \<Rightarrow> http_request \<Rightarrow> http_response res"

type_synonym ('s, 'a) io = "'s \<Rightarrow> 'a res \<times> 's"

definition iret :: "'a \<Rightarrow> ('s, 'a) io" where
  "iret x s = (Inr x, s)"

definition ilift :: "'a res \<Rightarrow> ('s, 'a) io" where
  "ilift r s = (r, s)"

definition ibind :: "('s, 'a) io \<Rightarrow> ('a \<Rightarrow> ('s, 'b) io) \<Rightarrow> ('s, 'b) io" where
  "ibind m f s = (case m s of (Inl e, s') \<Rightarrow> (Inl e, s') | (Inr x, s') \<Rightarrow> f x s')"

definition API :: ustr where
  "API = ascii ''https://api.notion.com/v1''"

definition check_status :: "http_response \<Rightarrow> unit res" where
  "check_status r =
     (if 200 \<le> rs_status r \<and> rs_status r < 300 then Inr () else Inl (OtherError (ascii ''HTTPStatusError'')))"

fun json_text :: "json \<Rightarrow> ustr option" where
  "json_text (JStr s) = Some s"
| "json_text _ = None"

definition answer_text :: "string \<Rightarrow> http_response \<Rightarrow> ustr option res" where
  "answer_text k r = bind_res (bind_res (rs_json r) (json_get k JNull)) (\<lambda>j. Inr (json_text j))"

subsection \<open>NotionTaskSink\<close>

record task_sink_state =
  ts_schema :: "schema option"
  ts_log :: "http_request list"

definition task_http :: "http \<Rightarrow> http_request \<Rightarrow> (task_sink_state, http_response) io" where
  "task_http http req s = (http (ts_log s) req, s\<lparr>ts_log := ts_log s @ [req]\<rparr>)"

definition database_url :: "ustr \<Rightarrow> ustr" where
  "database_url db = API @ ascii ''/databases/'' @ db"

definition pages_url :: ustr where
  "pages_url = API @ ascii ''/pages''"

definition page_body :: "ustr \<Rightarrow> schema \<Rightarrow> json" where
  "page_body db props = jobj [(''parent'', jobj [(''database_id'', JStr db)]), (''properties'', JObj props)]"

definition load_schema :: "http \<Rightarrow> ustr \<Rightarrow> (task_sink_state, schema) io" where
  "load_schema http db s =
     (case ts_schema s of
        Some sc \<Rightarrow> (Inr sc, s)
      | None \<Rightarrow> ibind (task_http http (HttpGet (database_url db))) (\<lambda>r.
          ibind (ilift (bind_res (check_status r) (\<lambda>_.
            bind_res (bind_res (rs_json r) (json_get ''properties'' (JObj []))) json_dict))) (\<lambda>sc s'.
          (Inr sc, s'\<lparr>ts_schema := Some sc\<rparr>))) s)"

definition post_page :: "http \<Rightarrow> ustr \<Rightarrow> schema \<Rightarrow> (task_sink_state, http_response) io" where
  "post_page http db props = task_http http (HttpPost pages_url (page_body db props))"

text \<open>Equality of dictionaries, which the order of the keys does not matter for.\<close>

definition same_props :: "schema \<Rightarrow> schema \<Rightarrow> bool" where
  "same_props p q \<longleftrightarrow> list_all (\<lambda>k. dict_get p k = dict_get q k) (map fst p @ map fst q)"

text \<open>The retries: a candidate like the one before is skipped, an accepted one ends the loop.\<close>

fun try_candidates ::
  "http \<Rightarrow> ustr \<Rightarrow> schema \<Rightarrow> http_response \<Rightarrow> schema list \<Rightarrow> (task_sink_state, http_response) io" where
  "try_candidates http db attempted r [] = iret r"
| "try_candidates http db attempted r (candidate # cs) =
     (if same_props candidate attempted then try_candidates http db attempted r cs
      else ibind (post_page http db candidate) (\<lambda>r'.
           if rs_status r' < 400 then iret r' else try_candidates http db candidate r' cs))"

definition has_key :: "string \<Rightarrow> json \<Rightarrow> bool" where
  "has_key k v = (case v of JObj d \<Rightarrow> dict_has d (ascii k) | _ \<Rightarrow> False)"

definition safe_props :: "schema \<Rightarrow> schema" where
  "safe_props props = filter (\<lambda>(k, v). has_key ''title'' v \<or> has_key ''date'' v) props"

definition push_attempt :: "http \<Rightarrow> ustr \<Rightarrow> sink_task \<Rightarrow> (task_sink_state, ustr option) io" where
  "push_attempt http db task =
     ibind (load_schema http db) (\<lambda>sc.
     ibind (ilift (build_properties sc task False)) (\<lambda>props.
     ibind (post_page http db props) (\<lambda>r.
     ibind (if rs_status r < 400 then iret r
            else ibind (ilift (build_properties sc task True)) (\<lambda>strict.
                 try_candidates http db props r [strict, safe_props props])) (\<lambda>r'.
     ilift (bind_res (check_status r') (\<lambda>_. answer_text ''url'' r'))))))"

text \<open>Any exception is logged, the schema is read again next time and there is no link.\<close>

definition push_task :: "http \<Rightarrow> ustr \<Rightarrow> sink_task \<Rightarrow> task_sink_state \<Rightarrow> ustr option \<times> task_sink_state" where
  "push_task http db task s =
     (case push_attempt http db task s of
        (Inr url, s') \<Rightarrow> (url, s')
      | (Inl e, s') \<Rightarrow> (None, s'\<lparr>ts_schema := None\<rparr>))"

text \<open>The sinks as the use cases see them: the state after the calls so far, and no exception.\<close>

fun replay_push :: "http \<Rightarrow> ustr \<Rightarrow> sink_call list \<Rightarrow> task_sink_state \<Rightarrow> task_sink_state" where
  "replay_push http db [] s = s"
| "replay_push http db (PushTask t # cs) s = replay_push http db cs (snd (push_task http db t s))"
| "replay_push http db (_ # cs) s = replay_push http db cs s"

definition notion_task_sink :: "http \<Rightarrow> ustr \<Rightarrow> task_sink" where
  "notion_task_sink http db =
     \<lparr>sink_is_noop = False,
      sink_push = (\<lambda>calls call. case call of
        PushTask t \<Rightarrow> Inr (fst (push_task http db t
          (replay_push http db calls \<lparr>ts_schema = None, ts_log = []\<rparr>)))
      | _ \<Rightarrow> Inr None)\<rparr>"

definition null_task_sink :: task_sink where
  "null_task_sink = \<lparr>sink_is_noop = True, sink_push = (\<lambda>calls call. Inr None)\<rparr>"

subsection \<open>NotionProjectSink\<close>

definition null_project_sink :: project_sink where
  "null_project_sink =
     \<lparr>ps_create_card = (\<lambda>calls call. Inr None), ps_mark_task_done = (\<lambda>calls call. Inr False),
      ps_archive_card = (\<lambda>calls call. Inr False)\<rparr>"

record card_state =
  cs_is_database :: "bool option"
  cs_title_prop :: ustr
  cs_log :: "http_request list"

definition card_http :: "http \<Rightarrow> http_request \<Rightarrow> (card_state, http_response) io" where
  "card_http http req s = (http (cs_log s) req, s\<lparr>cs_log := cs_log s @ [req]\<rparr>)"

definition rich_text :: "ustr \<Rightarrow> json" where
  "rich_text s = JList [jobj [(''type'', JStr (ascii ''text'')), (''text'', jobj [(''content'', JStr s)])]]"

definition block_of :: "string \<Rightarrow> json \<Rightarrow> json" where
  "block_of t body = jobj [(''object'', JStr (ascii ''block'')), (''type'', JStr (ascii t)), (t, body)]"

definition checklist_blocks :: "ustr list \<Rightarrow> json list" where
  "checklist_blocks task_names =
     map (\<lambda>name. block_of ''to_do'' (jobj [(''rich_text'', rich_text name), (''checked'', JBool False)])) task_names"

definition heading :: "ustr \<Rightarrow> json" where
  "heading s = block_of ''heading_2'' (jobj [(''rich_text'', rich_text s)])"

definition empty_paragraph :: json where
  "empty_paragraph = block_of ''paragraph'' (jobj [(''rich_text'', JList [])])"

definition card_children :: "sink_project \<Rightarrow> json list" where
  "card_children p =
     heading [1063, 1077, 1082, 1083, 1080, 1089, 1090, 32, 1079, 1072, 1076, 1072, 1095] # checklist_blocks (sp_task_names p) @
     [heading [1041, 1088, 1080, 1092], empty_paragraph, heading [1048, 1076, 1077, 1080], empty_paragraph]"

text \<open>The first title property of the database, or \<open>Name\<close>.\<close>

definition database_title :: "http_response \<Rightarrow> ustr res" where
  "database_title r =
     bind_res (bind_res (bind_res (rs_json r) (json_get ''properties'' (JObj []))) json_dict) (\<lambda>props.
     bind_res (first_of_type (ascii ''title'') props) (\<lambda>name.
     Inr (case name of None \<Rightarrow> ascii ''Name'' | Some n \<Rightarrow> n)))"

definition known_parent :: "ustr \<Rightarrow> card_state \<Rightarrow> json \<times> ustr" where
  "known_parent parent s =
     (if cs_is_database s = Some True then (jobj [(''database_id'', JStr parent)], cs_title_prop s)
      else (jobj [(''page_id'', JStr parent)], ascii ''title''))"

definition resolve_parent :: "http \<Rightarrow> ustr \<Rightarrow> (card_state, json \<times> ustr) io" where
  "resolve_parent http parent s =
     (case cs_is_database s of
        Some b \<Rightarrow> (Inr (known_parent parent s), s)
      | None \<Rightarrow> ibind (card_http http (HttpGet (database_url parent))) (\<lambda>r s1.
          let s2 = s1\<lparr>cs_is_database := Some (rs_status r = 200)\<rparr> in
          if rs_status r \<noteq> 200 then (Inr (known_parent parent s2), s2)
          else case database_title r of
                 Inl e \<Rightarrow> (Inl e, s2)
               | Inr t \<Rightarrow> let s3 = s2\<lparr>cs_title_prop := t\<rparr> in (Inr (known_parent parent s3), s3)) s)"

definition card_title :: "sink_project \<Rightarrow> ustr" where
  "card_title p =
     (case sp_deadline p of None \<Rightarrow> sp_title p | Some d \<Rightarrow> sp_title p @ [32, 40, 1076, 1077, 1076, 1083, 1072, 1081, 1085, 32] @ isoformat d @ [41])"

definition card_body :: "sink_project \<Rightarrow> json \<Rightarrow> ustr \<Rightarrow> json" where
  "card_body p parent title_prop =
     jobj [(''parent'', parent),
           (''properties'', JObj [(title_prop, jobj [(''title'', rich_text (card_title p))])]),
           (''children'', JList (card_children p))]"

definition create_card_attempt :: "http \<Rightarrow> ustr \<Rightarrow> sink_project \<Rightarrow> (card_state, ustr option) io" where
  "create_card_attempt http parent p =
     ibind (resolve_parent http parent) (\<lambda>(par, title_prop).
     ibind (card_http http (HttpPost pages_url (card_body p par title_prop))) (\<lambda>r.
     ilift (bind_res (check_status r) (\<lambda>_. answer_text ''id'' r))))"

definition plain_text :: "json list \<Rightarrow> ustr res" where
  "plain_text rich =
     bind_res (map_res (\<lambda>part. bind_res (json_get ''plain_text'' (JStr []) part) json_str) rich) (\<lambda>parts.
     Inr (strip (concat parts)))"

fun find_todo :: "json list \<Rightarrow> ustr \<Rightarrow> json option res" where
  "find_todo [] task_name = Inr None"
| "find_todo (b # bs) task_name =
     bind_res (json_get ''type'' JNull b) (\<lambda>t.
     if t \<noteq> JStr (ascii ''to_do'') then find_todo bs task_name
     else bind_res (bind_res (bind_res (json_item ''to_do'' b) (json_get ''rich_text'' (JList []))) json_list) (\<lambda>rich.
          bind_res (plain_text rich) (\<lambda>s.
          if casefold s = casefold (strip task_name) then Inr (Some b) else find_todo bs task_name)))"

definition block_url :: "ustr \<Rightarrow> ustr" where
  "block_url i = API @ ascii ''/blocks/'' @ i"

definition tick_body :: json where
  "tick_body = jobj [(''to_do'', jobj [(''checked'', JBool True)])]"

definition mark_done_attempt :: "http \<Rightarrow> ustr \<Rightarrow> ustr \<Rightarrow> (card_state, bool) io" where
  "mark_done_attempt http page_id task_name =
     ibind (card_http http (HttpGet (block_url page_id @ ascii ''/children''))) (\<lambda>r.
     ibind (ilift (bind_res (check_status r) (\<lambda>_.
       bind_res (bind_res (bind_res (rs_json r) (json_get ''results'' (JList []))) json_list)
         (\<lambda>blocks. find_todo blocks task_name)))) (\<lambda>found.
     case found of
       None \<Rightarrow> iret False
     | Some b \<Rightarrow>
         ibind (ilift (bind_res (json_item ''id'' b) json_str)) (\<lambda>i.
         ibind (card_http http (HttpPatch (block_url i) tick_body)) (\<lambda>upd.
         ilift (bind_res (check_status upd) (\<lambda>_. Inr True))))))"

definition archive_attempt :: "http \<Rightarrow> ustr \<Rightarrow> (card_state, bool) io" where
  "archive_attempt http page_id =
     ibind (card_http http (HttpPatch (pages_url @ [47] @ page_id) (jobj [(''archived'', JBool True)]))) (\<lambda>r.
     ilift (bind_res (check_status r) (\<lambda>_. Inr True)))"

definition or_logged :: "'a \<Rightarrow> ('s, 'a) io \<Rightarrow> 's \<Rightarrow> 'a \<times> 's" where
  "or_logged dflt m s = (case m s of (Inl e, s') \<Rightarrow> (dflt, s') | (Inr x, s') \<Rightarrow> (x, s'))"

definition create_card :: "http \<Rightarrow> ustr \<Rightarrow> sink_project \<Rightarrow> card_state \<Rightarrow> ustr option \<times> card_state" where
  "create_card http parent p = or_logged None (create_card_attempt http parent p)"

definition mark_task_done_card :: "http \<Rightarrow> ustr \<Rightarrow> ustr \<Rightarrow> card_state \<Rightarrow> bool \<times> card_state" where
  "mark_task_done_card http page_id task_name = or_logged False (mark_done_attempt http page_id task_name)"

definition archive_card :: "http \<Rightarrow> ustr \<Rightarrow> card_state \<Rightarrow> bool \<times> card_state" where
  "archive_card http page_id = or_logged False (archive_attempt http page_id)"

end
