(* ===== verification/Jwt_Port.thy ===== *)
theory Jwt_Port
  imports Plan_Payload Complex_Main
begin

section \<open>Signed session tokens\<close>

text \<open>
  \<open>create_jwt\<close> and \<open>decode_jwt\<close> of \<open>web/auth.py\<close>. PyJWT is the parameter \<open>jwt\<close>: \<open>encode\<close> of claims under a
  secret, and \<open>decode\<close> at a time, None for any \<open>PyJWTError\<close>. \<open>jwt_documented\<close> states what its documentation
  says: an encoded payload is decoded under the same secret until the time in its claim \<open>exp\<close>, and refused
  from then on. \<open>reference_jwt\<close> is a library that does, without any cryptography.
\<close>

type_synonym claims = "(ustr, json) dict"

record jwt =
  jw_encode :: "claims \<Rightarrow> ustr \<Rightarrow> ustr"
  jw_decode :: "ustr \<Rightarrow> ustr \<Rightarrow> rat \<Rightarrow> claims option"

definition JWT_TTL_HOURS :: int where
  "JWT_TTL_HOURS = 12"

text \<open>The library stores \<open>exp\<close> in whole seconds.\<close>

definition create_jwt :: "jwt \<Rightarrow> rat \<Rightarrow> claims \<Rightarrow> ustr \<Rightarrow> ustr" where
  "create_jwt jw now claims secret =
     jw_encode jw (dict_set (ascii ''exp'') (JInt \<lfloor>now + of_int (JWT_TTL_HOURS * 3600)\<rfloor>) claims) secret"

definition decode_jwt :: "jwt \<Rightarrow> rat \<Rightarrow> ustr \<Rightarrow> ustr \<Rightarrow> claims option" where
  "decode_jwt jw now token secret = jw_decode jw token secret now"

subsection \<open>What the documentation says\<close>

fun flat_value :: "json \<Rightarrow> bool" where
  "flat_value (JStr s) = True"
| "flat_value (JInt n) = True"
| "flat_value (JBool b) = True"
| "flat_value _ = False"

definition flat_claims :: "claims \<Rightarrow> bool" where
  "flat_claims c \<longleftrightarrow> list_all (\<lambda>(k, v). flat_value v) c"

definition jwt_documented :: "jwt \<Rightarrow> bool" where
  "jwt_documented jw \<longleftrightarrow>
     (\<forall>c secret now t. flat_claims c \<longrightarrow> dict_get c (ascii ''exp'') = Some (JInt t) \<longrightarrow>
        jw_decode jw (jw_encode jw c secret) secret now = (if now < of_int t then Some c else None))"

lemma flat_dict_set: "flat_claims c \<Longrightarrow> flat_value v \<Longrightarrow> flat_claims (dict_set k v c)"
  by (induction c) (auto simp: flat_claims_def dict_set_def)

text \<open>A token of this server is read back as its claims for twelve hours, not longer.\<close>

lemma decode_created:
  assumes "jwt_documented jw" and "flat_claims c"
  shows "decode_jwt jw now (create_jwt jw t c secret) secret =
    (if now < of_int \<lfloor>t + 43200\<rfloor> then Some (dict_set (ascii ''exp'') (JInt \<lfloor>t + 43200\<rfloor>) c) else None)"
proof -
  have "flat_claims (dict_set (ascii ''exp'') (JInt \<lfloor>t + 43200\<rfloor>) c)" using assms(2) by (rule flat_dict_set) simp
  with assms(1) show ?thesis
    by (simp add: jwt_documented_def decode_jwt_def create_jwt_def JWT_TTL_HOURS_def dict_get_set)
qed

subsection \<open>A library that does\<close>

definition put_text :: "ustr \<Rightarrow> nat list" where
  "put_text s = length s # s"

fun put_value :: "json \<Rightarrow> nat list" where
  "put_value (JStr s) = 0 # put_text s"
| "put_value (JInt n) = [1, nat n, nat (- n)]"
| "put_value (JBool b) = [2, of_bool b]"
| "put_value _ = [3]"

definition put_claims :: "claims \<Rightarrow> nat list" where
  "put_claims c = length c # concat (map (\<lambda>(k, v). put_text k @ put_value v) c)"

fun take_text :: "nat list \<Rightarrow> (ustr \<times> nat list) option" where
  "take_text [] = None"
| "take_text (n # xs) = (if n \<le> length xs then Some (take n xs, drop n xs) else None)"

fun take_value :: "nat list \<Rightarrow> (json \<times> nat list) option" where
  "take_value (0 # xs) = map_option (apfst JStr) (take_text xs)"
| "take_value (Suc 0 # p # m # xs) = Some (JInt (int p - int m), xs)"
| "take_value (Suc (Suc 0) # b # xs) = Some (JBool (b = 1), xs)"
| "take_value _ = None"

fun take_claims :: "nat \<Rightarrow> nat list \<Rightarrow> claims option" where
  "take_claims 0 xs = Some []"
| "take_claims (Suc n) xs =
     (case take_text xs of
        None \<Rightarrow> None
      | Some (k, ys) \<Rightarrow>
          (case take_value ys of
             None \<Rightarrow> None
           | Some (v, zs) \<Rightarrow> map_option (Cons (k, v)) (take_claims n zs)))"

definition reference_jwt :: jwt where
  "reference_jwt =
     \<lparr>jw_encode = (\<lambda>c secret. put_text secret @ put_claims c),
      jw_decode = (\<lambda>token secret now.
        case take_text token of
          Some (s, n # xs) \<Rightarrow>
            (case (if s = secret then take_claims n xs else None) of
               None \<Rightarrow> None
             | Some c \<Rightarrow> (case dict_get c (ascii ''exp'') of
                 Some (JInt t) \<Rightarrow> if now < of_int t then Some c else None
               | _ \<Rightarrow> None))
        | _ \<Rightarrow> None)\<rparr>"

lemma take_put_text [simp]: "take_text (put_text s @ xs) = Some (s, xs)"
  by (simp add: put_text_def)

lemma take_put_value [simp]: "flat_value v \<Longrightarrow> take_value (put_value v @ xs) = Some (v, xs)"
  by (cases v) (simp_all add: numeral_2_eq_2)

lemma take_put_claims:
  "flat_claims c \<Longrightarrow> take_claims (length c) (concat (map (\<lambda>(k, v). put_text k @ put_value v) c)) = Some c"
  by (induction c) (auto simp: flat_claims_def)

lemma reference_jwt_documented: "jwt_documented reference_jwt"
  by (simp add: jwt_documented_def reference_jwt_def put_claims_def take_put_claims)

end
