(* ===== verification/Charts.thy ===== *)
theory Charts
  imports Load_Views Plan_Texts
begin

section \<open>Charts\<close>

text \<open>
  \<open>app/render/heatmap.py\<close> and \<open>app/render/gantt.py\<close>. A figure is its size in inches and the calls made on
  its axes, in order; the pixels matplotlib makes of them, fonts and colours of single elements are not
  modelled. Sizes are exact fractions where Python multiplies floats.
\<close>

datatype draw =
    ImShow "int list list" int int
  | BarH nat int int
  | DrawText rat nat ustr
  | SetXTicks nat
  | SetXTickLabels "ustr list"
  | SetYTicks nat
  | SetYTickLabels "ustr list"
  | SetXLabel ustr
  | InvertYAxis
  | ColorBar ustr int
  | TightLayout

record figure =
  fg_size :: "rat \<times> rat"
  fg_calls :: "draw list"

subsection \<open>render_heatmap\<close>

text \<open>\<open>COLORBAR_LABEL\<close>; the tick at \<open>hours\<close> of a colour bar for \<open>cap\<close> is \<open>f"{hours / cap:.0f}"\<close>.\<close>

definition COLORBAR_LABEL :: ustr where
  "COLORBAR_LABEL = [1088, 1072, 1073, 1086, 1095, 1080, 1077, 32, 1076, 1085, 1080]"

definition tick_text :: "int \<Rightarrow> rat \<Rightarrow> ustr" where
  "tick_text cap hours = int_dec (py_round (hours / of_int cap))"

definition cell_texts :: "int list list \<Rightarrow> draw list" where
  "cell_texts matrix =
     concat (map (\<lambda>(i, row). map (\<lambda>(j, v). DrawText (of_nat j) i (int_dec v)) (List.enumerate 0 row))
       (List.enumerate 0 matrix))"

definition render_heatmap :: "ustr list \<Rightarrow> date list \<Rightarrow> int list list \<Rightarrow> int \<Rightarrow> figure" where
  "render_heatmap labels days matrix capacity =
     \<lparr>fg_size = (max 6 (of_nat (length days) * (3 / 5)), max 2 (of_nat (length labels) * (1 / 2))),
      fg_calls =
        [ImShow matrix 0 (capacity * 2),
         SetXTicks (length days), SetXTickLabels (map fmt_day days),
         SetYTicks (length labels), SetYTickLabels labels] @
        cell_texts matrix @
        [ColorBar COLORBAR_LABEL (max capacity 1), TightLayout]\<rparr>"

text \<open>The last line of \<open>LoadSummaryUseCase.execute\<close>.\<close>

definition heatmap_png :: "heatmap \<Rightarrow> figure" where
  "heatmap_png h = render_heatmap (hm_labels h) (hm_days h) (hm_matrix h) (hm_capacity h)"

subsection \<open>render_gantt\<close>

text \<open>\<open>origin.strftime("%d.%m.%Y")\<close>: the year is not padded.\<close>

definition fmt_full_day :: "date \<Rightarrow> ustr" where
  "fmt_full_day d = (case ymd d of (y, m, k) \<Rightarrow> fmt_day d @ [46] @ nat_dec (nat y))"

definition gantt_bar :: "(assignment \<Rightarrow> ustr) \<Rightarrow> date \<Rightarrow> nat \<times> assignment \<Rightarrow> draw list" where
  "gantt_bar label_for origin = (\<lambda>(i, a).
     let start = a_start_date a - origin;
         len = max (a_end_date a - a_start_date a + 1) 1
     in [BarH i len start, DrawText (of_int start + of_int len / 2) i (label_for a)])"

definition render_gantt :: "assignment list \<Rightarrow> date \<Rightarrow> (assignment \<Rightarrow> ustr) option \<Rightarrow> figure" where
  "render_gantt assignments origin label_for =
     (let label = (case label_for of Some f \<Rightarrow> f | None \<Rightarrow> (\<lambda>a. take 8 (uuid_str (a_task_id a))))
      in \<lparr>fg_size = (8, max 2 (of_nat (length assignments) * (9 / 20))),
          fg_calls =
            concat (map (gantt_bar label origin) (List.enumerate 0 assignments)) @
            [SetYTicks (length assignments), SetYTickLabels (map label assignments), InvertYAxis,
             SetXLabel ([1076, 1085, 1080, 32, 1086, 1090, 32] @ fmt_full_day origin), TightLayout]\<rparr>)"

subsection \<open>What the charts show\<close>

text \<open>The texts of a heat map: one per cell, with its number.\<close>

lemma cell_texts_iff:
  "DrawText x i s \<in> set (cell_texts matrix) \<longleftrightarrow>
     i < length matrix \<and> (\<exists>j < length (matrix ! i). x = of_nat j \<and> s = int_dec (matrix ! i ! j))"
proof -
  have "DrawText x i s \<in> set (cell_texts matrix) \<longleftrightarrow>
      (\<exists>row. (i, row) \<in> set (List.enumerate 0 matrix) \<and>
        (\<exists>j v. (j, v) \<in> set (List.enumerate 0 row) \<and> x = of_nat j \<and> s = int_dec v))"
    by (fastforce simp: cell_texts_def)
  then show ?thesis by (auto simp: in_set_enumerate_eq)
qed

lemma heatmap_texts:
  "DrawText x i s \<in> set (fg_calls (render_heatmap labels days matrix capacity)) \<longleftrightarrow> DrawText x i s \<in> set (cell_texts matrix)"
  by (simp add: render_heatmap_def)

lemma heatmap_cell:
  assumes "p < length people" "j < days"
  shows "DrawText (of_nat j) p s \<in> set (fg_calls (heatmap_png (load_summary people als start days))) \<longleftrightarrow>
    s = int_dec (booked als (p_id (people ! p), start + int j))"
proof -
  let ?m = "hm_matrix (load_summary people als start days)"
  have "length ?m = length people" "length (?m ! p) = days"
    using assms(1) by (simp_all add: load_summary_def Let_def)
  then show ?thesis
    using assms load_summary_cell [OF assms, of als start]
    by (auto simp: heatmap_png_def heatmap_texts cell_texts_iff)
qed

text \<open>The bars of a Gantt chart, in the order of the assignments.\<close>

definition bars :: "figure \<Rightarrow> (nat \<times> int \<times> int) list" where
  "bars fig = concat (map (\<lambda>d. case d of BarH i len start \<Rightarrow> [(i, start, start + len)] | _ \<Rightarrow> []) (fg_calls fig))"

lemma bars_gantt:
  "bars (render_gantt assignments origin label_for) =
     map (\<lambda>(i, a). (i, a_start_date a - origin, max (a_end_date a + 1) (a_start_date a + 1) - origin)) (List.enumerate 0 assignments)"
proof -
  have bar: "concat (map (\<lambda>d. case d of BarH i len start \<Rightarrow> [(i, start, start + len)] | _ \<Rightarrow> []) (gantt_bar f origin p)) =
      [case p of (i, a) \<Rightarrow> (i, a_start_date a - origin, max (a_end_date a + 1) (a_start_date a + 1) - origin)]" for f p
    by (cases p) (simp add: gantt_bar_def Let_def max_def)
  have "concat (map (\<lambda>d. case d of BarH i len start \<Rightarrow> [(i, start, start + len)] | _ \<Rightarrow> []) (concat (map (gantt_bar f origin) ps))) =
      map (\<lambda>(i, a). (i, a_start_date a - origin, max (a_end_date a + 1) (a_start_date a + 1) - origin)) ps" for f ps
    by (induction ps) (simp_all add: bar)
  then show ?thesis by (simp add: bars_def render_gantt_def Let_def)
qed

lemma gantt_labels:
  "SetYTickLabels (map f assignments) \<in> set (fg_calls (render_gantt assignments origin (Some f)))"
  by (simp add: render_gantt_def Let_def)

end
