(* ===== verification/Web_Board.thy ===== *)
theory Web_Board
  imports Agent_Safety Jwt_Port Charts
begin

section \<open>The web board\<close>

text \<open>
  \<open>web/\<close>: the session (\<open>auth.py\<close>, \<open>deps.py\<close>, \<open>routes/auth.py\<close>), the pages and the three forms that
  write (\<open>routes/board.py\<close>, \<open>plan.py\<close>, \<open>team.py\<close>), and how an exception becomes a response
  (\<open>app.py\<close>). Requests are given with their parameters as FastAPI has parsed them; a page is the data
  its template gets. A cookie is written by \<open>we_encode\<close> and read by \<open>we_decode\<close>, at
  the time of the request and under the secret of this server; HMAC-SHA256 over the login data is the parameter \<open>we_hmac\<close>. \<open>StartSession\<close> is the redirect
  to \<open>/plan\<close> with a cookie of these claims, \<open>EndSession\<close> the one to \<open>/login\<close> that deletes it.
\<close>

record web_env =
  we_encode :: "claims \<Rightarrow> ustr"
  we_decode :: "ustr \<Rightarrow> claims option"
  we_hmac :: "ustr \<Rightarrow> ustr \<Rightarrow> ustr"
  we_bot_token :: ustr
  we_admin_ids :: "int list"
  we_debug :: bool
  we_today :: date
  we_now :: rat

datatype web_reply =
    Redirect ustr
  | StartSession claims bool
  | EndSession
  | PlainText ustr int
  | SchedulePage board "person_record list" claims
  | CalendarPage board claims
  | LoadPage board claims
  | TeamPage "person_record list" "(ustr, load_row) dict" claims
  | PlanListPage "project_record list" claims
  | PlanDetailPage uuid "task_record list" claims
  | GanttPng figure
  | AuditPage "audit_record list" claims
  | LoginPage

datatype web_request =
    GetRoot
  | GetLogin
  | GetDevLogin ustr
  | GetTelegramLogin "(ustr, ustr) dict"
  | GetLogout
  | GetSchedule
  | GetCalendar
  | GetLoadBoard
  | GetTeam
  | GetPlans
  | GetPlan uuid
  | GetGantt uuid
  | GetAudit nat nat
  | PostReassign ustr ustr
  | PostEditTask uuid uuid ustr ustr
  | PostVacation ustr ustr ustr int

subsection \<open>Sessions\<close>

definition current_user :: "web_env \<Rightarrow> ustr option \<Rightarrow> claims res" where
  "current_user env cookie =
     (case cookie of
        None \<Rightarrow> Inl (HTTPException 401)
      | Some token \<Rightarrow>
          (case (if token = [] then None else we_decode env token) of
             None \<Rightarrow> Inl (HTTPException 401)
           | Some user \<Rightarrow> if user = [] then Inl (HTTPException 401) else Inr user))"

definition claim :: "string \<Rightarrow> claims \<Rightarrow> json" where
  "claim k user = dict_get_default user (ascii k) JNull"

definition require_admin :: "web_env \<Rightarrow> ustr option \<Rightarrow> claims res" where
  "require_admin env cookie =
     bind_res (current_user env cookie) (\<lambda>user.
     if truthy (claim ''is_admin'' user) then Inr user else Inl (HTTPException 403))"

text \<open>\<open>str()\<close> of a claim that is no text is never a UUID, but for a number of 32 digits.\<close>

definition actor_id_from :: "claims \<Rightarrow> uuid option" where
  "actor_id_from user =
     (case (case dict_get_default user (ascii ''sub'') (JStr []) of
              JStr s \<Rightarrow> uuid_parse s | JInt n \<Rightarrow> uuid_parse (int_dec n) | _ \<Rightarrow> Inl ValueError) of
        Inl e \<Rightarrow> None | Inr i \<Rightarrow> Some i)"

definition AUTH_MAX_AGE :: rat where
  "AUTH_MAX_AGE = 86400"

text \<open>The lines \<open>key=value\<close> of all parameters but the hash, by key.\<close>

definition check_string :: "(ustr, ustr) dict \<Rightarrow> ustr" where
  "check_string data =
     join [10] (map (\<lambda>k. k @ [61] @ dict_get_default data k [])
       (filter (\<lambda>k. k \<noteq> ascii ''hash'') (sort (map fst data))))"

definition auth_fresh :: "rat \<Rightarrow> (ustr, ustr) dict \<Rightarrow> bool" where
  "auth_fresh now data =
     (case dict_get data (ascii ''auth_date'') of
        None \<Rightarrow> False
      | Some s \<Rightarrow> (case py_int s of None \<Rightarrow> False | Some t \<Rightarrow> now - of_int t \<le> AUTH_MAX_AGE))"

text \<open>\<open>hmac.compare_digest\<close> of texts takes ASCII only.\<close>

definition verify_telegram_login :: "web_env \<Rightarrow> (ustr, ustr) dict \<Rightarrow> bool res" where
  "verify_telegram_login env data =
     (case dict_get_default data (ascii ''hash'') [] of
        [] \<Rightarrow> Inr False
      | c # cs \<Rightarrow>
          if list_ex (\<lambda>x. x \<ge> 128) (c # cs) then Inl (OtherError (ascii ''TypeError''))
          else if we_hmac env (we_bot_token env) (check_string data) \<noteq> c # cs then Inr False
          else Inr (auth_fresh (we_now env) data))"

definition LOOPBACK_HOSTS :: "ustr list" where
  "LOOPBACK_HOSTS = map ascii [''127.0.0.1'', ''::1'', ''localhost'']"

definition dev_login :: "web_env \<Rightarrow> ustr \<Rightarrow> web_reply res" where
  "dev_login env client_host =
     (if \<not> we_debug env \<or> client_host \<notin> set LOOPBACK_HOSTS then Inl (HTTPException 404)
      else Inr (StartSession
        [(ascii ''sub'', JStr (ascii ''dev'')), (ascii ''name'', JStr (ascii ''Dev Admin'')),
         (ascii ''tg_id'', JInt 0), (ascii ''is_admin'', JBool True)] (\<not> we_debug env)))"

definition login_claims :: "web_env \<Rightarrow> (ustr, ustr) dict \<Rightarrow> int \<Rightarrow> person_record option \<Rightarrow> claims" where
  "login_claims env data tg_id person =
     (let listed = tg_id \<in> set (we_admin_ids env) in
      case person of
        Some p \<Rightarrow>
          [(ascii ''sub'', JStr (uuid_str (pp_id p))), (ascii ''name'', JStr (pp_name p)), (ascii ''tg_id'', JInt tg_id),
           (ascii ''is_admin'', JBool (pp_is_admin p \<or> listed))]
      | None \<Rightarrow>
          [(ascii ''sub'', JStr (ascii ''tg:'' @ int_dec tg_id)),
           (ascii ''name'', JStr (dict_get_default data (ascii ''first_name'') DASH)), (ascii ''tg_id'', JInt tg_id),
           (ascii ''is_admin'', JBool listed)])"

definition login_callback :: "web_env \<Rightarrow> (ustr, ustr) dict \<Rightarrow> web_reply proc" where
  "login_callback env data =
     bind_proc (lift_res (verify_telegram_login env data)) (\<lambda>valid.
     if \<not> valid then raise (HTTPException 401)
     else bind_proc (lift_res (bind_res (dict_item data (ascii ''id''))
            (\<lambda>s. case py_int s of None \<Rightarrow> Inl ValueError | Some n \<Rightarrow> Inr n))) (\<lambda>tg_id.
          bind_proc (get_person_by_tg_id tg_id) (\<lambda>person.
          ret (StartSession (login_claims env data tg_id person) (\<not> we_debug env)))))"

subsection \<open>Pages\<close>

definition BOARD_DAYS :: nat where
  "BOARD_DAYS = 14"

definition current_board :: "date \<Rightarrow> (board \<times> person_record list) proc" where
  "current_board today =
     bind_proc list_tasks_with_meta (\<lambda>tasks. bind_proc list_people (\<lambda>people.
     ret (build_board tasks people today BOARD_DAYS, people)))"

definition root :: "web_reply proc" where
  "root = ret (Redirect (ascii ''/plan''))"

definition login_page :: "web_reply proc" where
  "login_page = ret LoginPage"

definition logout :: "web_reply proc" where
  "logout = ret EndSession"

definition schedule_page :: "date \<Rightarrow> claims \<Rightarrow> web_reply proc" where
  "schedule_page today user =
     bind_proc (current_board today) (\<lambda>(board, people). ret (SchedulePage board people user))"

definition calendar_page :: "date \<Rightarrow> claims \<Rightarrow> web_reply proc" where
  "calendar_page today user =
     bind_proc (current_board today) (\<lambda>(board, people). ret (CalendarPage board user))"

definition load_board_page :: "date \<Rightarrow> claims \<Rightarrow> web_reply proc" where
  "load_board_page today user =
     bind_proc (current_board today) (\<lambda>(board, people). ret (LoadPage board user))"

definition plan_list :: "claims \<Rightarrow> web_reply proc" where
  "plan_list user = bind_proc list_projects (\<lambda>projects. ret (PlanListPage projects user))"

definition plan_detail :: "uuid \<Rightarrow> claims \<Rightarrow> web_reply proc" where
  "plan_detail project_id user =
     bind_proc (list_project_tasks project_id) (\<lambda>tasks. ret (PlanDetailPage project_id tasks user))"

text \<open>FastAPI refuses a limit outside 1 to 500 and a negative offset before the handler runs.\<close>

definition audit_log :: "nat \<Rightarrow> nat \<Rightarrow> claims \<Rightarrow> web_reply proc" where
  "audit_log limit offset user = bind_proc (list_audit limit offset) (\<lambda>entries. ret (AuditPage entries user))"

definition team_list :: "date \<Rightarrow> claims \<Rightarrow> web_reply proc" where
  "team_list today user =
     bind_proc list_people (\<lambda>people. bind_proc list_tasks_with_meta (\<lambda>tasks.
     ret (TeamPage people (dict_of (map (\<lambda>r. (lr_name r, r))
       (bd_load_rows (build_board tasks people today BOARD_DAYS)))) user)))"

definition gantt_label :: "(uuid, ustr) dict \<Rightarrow> assignment \<Rightarrow> ustr" where
  "gantt_label names a =
     (case dict_get names (a_task_id a) of
        None \<Rightarrow> take 8 (uuid_str (a_task_id a))
      | Some n \<Rightarrow> if n = [] then take 8 (uuid_str (a_task_id a)) else n)"

definition plan_gantt_png :: "uuid \<Rightarrow> web_reply proc" where
  "plan_gantt_png project_id =
     bind_proc (get_committed_plan project_id) (\<lambda>pv.
     bind_proc (case pv of None \<Rightarrow> ret [] | Some v \<Rightarrow>
         bind_proc (lift_res (deserialize_plan (vr_payload v))) (\<lambda>p. ret (pl_assignments p))) (\<lambda>assignments.
     if assignments = [] then raise (HTTPException 404)
     else bind_proc get_task_name_map (\<lambda>names.
          ret (GanttPng (render_gantt assignments (Min (set (map a_start_date assignments)))
            (Some (gantt_label names)))))))"

subsection \<open>Forms\<close>

definition reassign :: "claims \<Rightarrow> ustr \<Rightarrow> ustr \<Rightarrow> web_reply proc" where
  "reassign user task_id person_id =
     (let back = ret (Redirect (ascii ''/schedule'')) in
      if strip person_id = [] then back
      else case (uuid_parse task_id, uuid_parse person_id) of
             (Inr tid, Inr pid) \<Rightarrow>
               bind_proc list_people (\<lambda>people.
               if list_all (\<lambda>p. pp_id p \<noteq> pid) people then raise (HTTPException 404)
               else bind_proc (set_task_assignee tid pid 8) (\<lambda>hit.
                    if \<not> hit then back
                    else bind_proc (reassign_in_plan tid pid) (\<lambda>_.
                         bind_proc (add_audit (actor_id_from user) (ascii ''reassign_task'') (ascii ''task'') (Some tid)
                           (Some (jobj [(''person_id'', JStr person_id)]))) (\<lambda>_. back))))
           | _ \<Rightarrow> raise (HTTPException 400))"

definition form_date :: "ustr \<Rightarrow> date option res" where
  "form_date s = (if s = [] then Inr None else bind_res (fromisoformat s) (\<lambda>d. Inr (Some d)))"

definition edit_task :: "claims \<Rightarrow> uuid \<Rightarrow> ustr \<Rightarrow> ustr \<Rightarrow> web_reply proc" where
  "edit_task user task_id start end =
     bind_proc (lift_res (form_date start)) (\<lambda>start_d.
     bind_proc (lift_res (form_date end)) (\<lambda>end_d.
     bind_proc (update_task_schedule task_id start_d end_d None) (\<lambda>_.
     bind_proc (update_schedule_in_plan task_id start_d end_d) (\<lambda>_.
     bind_proc (add_audit (actor_id_from user) (ascii ''edit_task'') (ascii ''task'') (Some task_id)
       (Some (jobj [(''start'', JStr start), (''end'', JStr end)]))) (\<lambda>_.
     ret (Redirect (ascii ''/plan'')))))))"

definition vacation_refused :: "exn \<Rightarrow> web_reply option" where
  "vacation_refused e =
     (case e of
        InvalidVacationError s \<Rightarrow> Some (PlainText s 400)
      | PersonNotFoundError n \<Rightarrow> Some (PlainText (user_message e) 404)
      | _ \<Rightarrow> None)"

definition add_vacation :: "claims \<Rightarrow> ustr \<Rightarrow> ustr \<Rightarrow> ustr \<Rightarrow> int \<Rightarrow> web_reply proc" where
  "add_vacation user person_name day_from day_to capacity_h =
     bind_proc (lift_res (fromisoformat day_from)) (\<lambda>d_from.
     bind_proc (lift_res (fromisoformat day_to)) (\<lambda>d_to.
     catch
       (bind_proc (set_vacation \<lparr>va_person_name = person_name, va_day_from = d_from, va_day_to = d_to,
           va_capacity_h = capacity_h\<rparr> (actor_id_from user) (truthy (claim ''is_admin'' user))) (\<lambda>_.
        ret (Redirect (ascii ''/team''))))
       (\<lambda>e. case vacation_refused e of Some r \<Rightarrow> ret r | None \<Rightarrow> raise e)))"

subsection \<open>The application\<close>

definition reading :: "web_env \<Rightarrow> ustr option \<Rightarrow> (claims \<Rightarrow> web_reply proc) \<Rightarrow> web_reply proc" where
  "reading env cookie page = bind_proc (lift_res (current_user env cookie)) page"

definition writing :: "web_env \<Rightarrow> ustr option \<Rightarrow> (claims \<Rightarrow> web_reply proc) \<Rightarrow> web_reply proc" where
  "writing env cookie form = bind_proc (lift_res (require_admin env cookie)) form"

fun route :: "web_env \<Rightarrow> ustr option \<Rightarrow> web_request \<Rightarrow> web_reply proc" where
  "route env cookie GetRoot = root"
| "route env cookie GetLogin = login_page"
| "route env cookie (GetDevLogin host) = lift_res (dev_login env host)"
| "route env cookie (GetTelegramLogin data) = login_callback env data"
| "route env cookie GetLogout = logout"
| "route env cookie GetSchedule = reading env cookie (schedule_page (we_today env))"
| "route env cookie GetCalendar = reading env cookie (calendar_page (we_today env))"
| "route env cookie GetLoadBoard = reading env cookie (load_board_page (we_today env))"
| "route env cookie GetTeam = reading env cookie (team_list (we_today env))"
| "route env cookie GetPlans = reading env cookie plan_list"
| "route env cookie (GetPlan project_id) = reading env cookie (plan_detail project_id)"
| "route env cookie (GetGantt project_id) = reading env cookie (\<lambda>user. plan_gantt_png project_id)"
| "route env cookie (GetAudit limit offset) = reading env cookie (audit_log limit offset)"
| "route env cookie (PostReassign task_id person_id) =
     writing env cookie (\<lambda>user. reassign user task_id person_id)"
| "route env cookie (PostEditTask project_id task_id start end) =
     writing env cookie (\<lambda>user. edit_task user task_id start end)"
| "route env cookie (PostVacation name day_from day_to capacity_h) =
     writing env cookie (\<lambda>user. add_vacation user name day_from day_to capacity_h)"

text \<open>
  The exception handlers of the application, the last one for \<open>ValueError\<close> and its subclasses; any other
  exception is answered by the framework, an \<open>HTTPException\<close> with its status.
\<close>

fun is_value_error :: "exn \<Rightarrow> bool" where
  "is_value_error ValueError = True"
| "is_value_error (InvalidProjectError s) = True"
| "is_value_error (InvalidVacationError s) = True"
| "is_value_error (InvalidStatusError s) = True"
| "is_value_error NoPeopleError = True"
| "is_value_error e = False"

definition error_response :: "exn \<Rightarrow> web_reply option" where
  "error_response e =
     (case e of
        PermissionError s \<Rightarrow> Some (PlainText (user_message e) 403)
      | PlanNotFoundError i \<Rightarrow> Some (PlainText (user_message e) 404)
      | PersonNotFoundError n \<Rightarrow> Some (PlainText (user_message e) 404)
      | PlanNotProposedError s \<Rightarrow> Some (PlainText (user_message e) 409)
      | _ \<Rightarrow> if is_value_error e then Some (PlainText [1053, 1077, 1082, 1086, 1088, 1088, 1077, 1082, 1090, 1085, 1099, 1077, 32, 1076, 1072, 1085, 1085,
      1099, 1077, 32, 1074, 32, 1079, 1072, 1087, 1088, 1086, 1089, 1077, 46] 400) else None)"

definition serve :: "web_env \<Rightarrow> ustr option \<Rightarrow> web_request \<Rightarrow> web_reply proc" where
  "serve env cookie request =
     catch (route env cookie request) (\<lambda>e. case error_response e of Some r \<Rightarrow> ret r | None \<Rightarrow> raise e)"

end
