(* ===== verification/Startup.thy ===== *)
theory Startup
  imports Live_Calendar Dispatcher Claude_Parser Notion_Sinks Web_Board
begin

section \<open>Settings and wiring\<close>

text \<open>
  \<open>settings.py\<close>, \<open>main.py\<close>, the wiring of \<open>build_parser\<close> and \<open>build_dispatcher\<close> in \<open>bot/runner.py\<close>, the
  application state of \<open>create_app\<close> and the jobs of \<open>infra/scheduler.py\<close>: how one process is put together
  from its settings. Everything outside of it is a parameter, by the credential it is reached with: the
  Anthropic API (for the agent and for the two prompts of the parser), the Notion API, the calendar
  service, signatures and tokens, pydantic, networkx and the clock.
\<close>

subsection \<open>Settings\<close>

record settings =
  se_database_url :: ustr
  se_redis_url :: ustr
  se_bot_token :: ustr
  se_team_chat_id :: int
  se_admin_ids :: ustr
  se_anthropic_api_key :: ustr
  se_agent_enabled :: bool
  se_webhook_secret :: ustr
  se_jwt_secret :: ustr
  se_notion_token :: ustr
  se_notion_database_id :: ustr
  se_notion_parent_page_id :: ustr
  se_timezone :: ustr
  se_debug :: bool

definition DEFAULT_JWT_SECRET :: ustr where
  "DEFAULT_JWT_SECRET = ascii ''dev-insecure-change-me''"

definition int_res :: "ustr \<Rightarrow> int res" where
  "int_res s = (case py_int s of None \<Rightarrow> Inl ValueError | Some n \<Rightarrow> Inr n)"

definition admin_id_set :: "settings \<Rightarrow> int list res" where
  "admin_id_set st = map_res int_res (filter (\<lambda>x. strip x \<noteq> []) (split_char 44 (se_admin_ids st)))"

definition insecure :: "settings \<Rightarrow> bool" where
  "insecure st \<longleftrightarrow> \<not> se_debug st \<and> se_jwt_secret st = DEFAULT_JWT_SECRET"

definition RuntimeError :: exn where
  "RuntimeError = OtherError (ascii ''RuntimeError'')"

definition ensure_secure_config :: "settings \<Rightarrow> unit res" where
  "ensure_secure_config st = (if insecure st then Inl RuntimeError else Inr ())"

subsection \<open>What the process reaches\<close>

record surroundings =
  su_days :: day_service
  su_networkx :: networkx
  su_agent_model :: "ustr \<Rightarrow> language_model"
  su_create :: "ustr \<Rightarrow> ustr \<Rightarrow> llm_response res"
  su_create_list :: "ustr \<Rightarrow> ustr \<Rightarrow> llm_response res"
  su_validate :: "ustr \<Rightarrow> intent res"
  su_validate_list :: "ustr \<Rightarrow> intent list res"
  su_notion :: "ustr \<Rightarrow> http"
  su_jwt :: jwt
  su_hmac :: "ustr \<Rightarrow> ustr \<Rightarrow> ustr"
  su_username :: ustr
  su_command :: "chat_message \<Rightarrow> ustr option"
  su_repr :: "json \<Rightarrow> ustr"
  su_exc_text :: "exn \<Rightarrow> ustr"
  su_field_int :: "json \<Rightarrow> int res"
  su_field_time :: "json \<Rightarrow> time_of_day res"

subsection \<open>Parsers and sinks\<close>

record intent_parser =
  ip_parse :: "ustr \<Rightarrow> chat_context \<Rightarrow> intent res"
  ip_parse_intents :: "ustr \<Rightarrow> chat_context \<Rightarrow> intent list res"

definition build_parser :: "surroundings \<Rightarrow> settings \<Rightarrow> intent_parser" where
  "build_parser su st =
     (let key = se_anthropic_api_key st in
      if key \<noteq> []
      then \<lparr>ip_parse = claude_parse (su_create su key) (su_validate su) parse_sync,
            ip_parse_intents = claude_parse_intents (su_create_list su key) (su_validate_list su) parse_sync\<rparr>
      else \<lparr>ip_parse = parse_sync, ip_parse_intents = basic_parse_intents\<rparr>)"

definition wired_agent :: "surroundings \<Rightarrow> settings \<Rightarrow> (language_model \<times> sync_parser) option" where
  "wired_agent su st =
     (if se_anthropic_api_key st \<noteq> [] \<and> se_agent_enabled st
      then Some (su_agent_model su (se_anthropic_api_key st), parse_sync) else None)"

definition wired_task_sink :: "surroundings \<Rightarrow> settings \<Rightarrow> task_sink" where
  "wired_task_sink su st =
     (if se_notion_token st \<noteq> [] \<and> se_notion_database_id st \<noteq> []
      then notion_task_sink (su_notion su (se_notion_token st)) (se_notion_database_id st) else null_task_sink)"

text \<open>The project sink as the use cases see it: its state after the calls so far, and no exception.\<close>

definition unresolved_card :: card_state where
  "unresolved_card = \<lparr>cs_is_database = None, cs_title_prop = ascii ''title'', cs_log = []\<rparr>"

fun card_call :: "http \<Rightarrow> ustr \<Rightarrow> sink_call \<Rightarrow> card_state \<Rightarrow> card_state" where
  "card_call http parent (CreateCard p) s = snd (create_card http parent p s)"
| "card_call http parent (TickTask page_id task_name) s = snd (mark_task_done_card http page_id task_name s)"
| "card_call http parent (ArchiveCard page_id) s = snd (archive_card http page_id s)"
| "card_call http parent (PushTask t) s = s"

definition replay_cards :: "http \<Rightarrow> ustr \<Rightarrow> sink_call list \<Rightarrow> card_state" where
  "replay_cards http parent calls = fold (card_call http parent) calls unresolved_card"

definition notion_project_sink :: "http \<Rightarrow> ustr \<Rightarrow> project_sink" where
  "notion_project_sink http parent =
     \<lparr>ps_create_card = (\<lambda>calls call. case call of
        CreateCard p \<Rightarrow> Inr (fst (create_card http parent p (replay_cards http parent calls))) | _ \<Rightarrow> Inr None),
      ps_mark_task_done = (\<lambda>calls call. case call of
        TickTask page_id task_name \<Rightarrow>
          Inr (fst (mark_task_done_card http page_id task_name (replay_cards http parent calls))) | _ \<Rightarrow> Inr False),
      ps_archive_card = (\<lambda>calls call. case call of
        ArchiveCard page_id \<Rightarrow> Inr (fst (archive_card http page_id (replay_cards http parent calls))) | _ \<Rightarrow> Inr False)\<rparr>"

definition wired_project_sink :: "surroundings \<Rightarrow> settings \<Rightarrow> project_sink" where
  "wired_project_sink su st =
     (if se_notion_token st \<noteq> [] \<and> se_notion_parent_page_id st \<noteq> []
      then notion_project_sink (su_notion su (se_notion_token st)) (se_notion_parent_page_id st) else null_project_sink)"

subsection \<open>The dispatcher and the application\<close>

text \<open>The reading of the clock in the services is replaced at every update.\<close>

definition wired_services :: "surroundings \<Rightarrow> settings \<Rightarrow> intent_parser \<Rightarrow> solver option \<Rightarrow> bool \<Rightarrow> date \<Rightarrow> services" where
  "wired_services su st parser slv has_repo today =
     \<lparr>hs_has_repo = has_repo, hs_solver = slv, hs_explain = None,
      hs_confirm = (if has_repo then Some (Some (wired_task_sink su st)) else None),
      hs_task_sink = Some (wired_task_sink su st), hs_project_sink = Some (wired_project_sink su st),
      hs_parse = ip_parse parser, hs_parse_intents = ip_parse_intents parser, hs_agent = wired_agent su st,
      hs_history = True, hs_today = today, hs_repr = su_repr su, hs_exc_text = su_exc_text su,
      hs_field_int = su_field_int su, hs_field_time = su_field_time su\<rparr>"

definition build_dispatcher ::
  "surroundings \<Rightarrow> settings \<Rightarrow> intent_parser \<Rightarrow> bool \<Rightarrow> solver option \<Rightarrow> date \<Rightarrow> deployment res" where
  "build_dispatcher su st parser has_repo slv today =
     bind_res (admin_id_set st) (\<lambda>ids.
     Inr \<lparr>dp_services = wired_services su st parser slv has_repo today, dp_admin_ids = ids,
          dp_team_chat = Some (se_team_chat_id st), dp_username = su_username su, dp_command = su_command su\<rparr>)"

definition create_app :: "surroundings \<Rightarrow> settings \<Rightarrow> (date \<Rightarrow> rat \<Rightarrow> web_env) res" where
  "create_app su st =
     bind_res (admin_id_set st) (\<lambda>ids.
     Inr (\<lambda>today now. \<lparr>we_encode = (\<lambda>claims. create_jwt (su_jwt su) now claims (se_jwt_secret st)),
       we_decode = (\<lambda>token. decode_jwt (su_jwt su) now token (se_jwt_secret st)), we_hmac = su_hmac su, we_bot_token = se_bot_token st,
       we_admin_ids = ids, we_debug = se_debug st, we_today = today, we_now = now\<rparr>))"

text \<open>The menu of \<open>register_bot_commands\<close>.\<close>

definition BOT_COMMANDS :: "(string \<times> ustr) list" where
  "BOT_COMMANDS =
     [(''start'', [1055, 1088, 1080, 1074, 1077, 1090, 32, 1080, 32, 1082, 1088, 1072, 1090, 1082, 1072, 1103, 32,
      1089, 1087, 1088, 1072, 1074, 1082, 1072]),
      (''task'', [1053, 1086, 1074, 1072, 1103, 32, 1079, 1072, 1076, 1072, 1095, 1072, 32, 1080, 1083, 1080, 32,
      1087, 1088, 1086, 1077, 1082, 1090]),
      (''load'', [1047, 1072, 1075, 1088, 1091, 1079, 1082, 1072, 32, 1082, 1086, 1084, 1072, 1085, 1076, 1099, 32,
      1085, 1072, 32, 49, 52, 32, 1076, 1085, 1077, 1081]),
      (''vacation'', [1054, 1092, 1086, 1088, 1084, 1080, 1090, 1100, 32, 1086, 1090, 1087, 1091, 1089, 1082, 32, 47, 32,
      1074, 1099, 1093, 1086, 1076, 1085, 1086, 1081]),
      (''replan'', [1055, 1077, 1088, 1077, 1089, 1095, 1080, 1090, 1072, 1090, 1100, 32, 1087, 1083, 1072, 1085, 32,
      1087, 1086, 32, 1090, 1077, 1082, 1091, 1097, 1080, 1084, 32, 1076, 1072, 1085, 1085, 1099,
      1084])]"

subsection \<open>Jobs\<close>

text \<open>The fields of a cron trigger; the scheduler is not modelled.\<close>

datatype job_action = SendDailySummary | RefreshCalendar

record job =
  jb_action :: job_action
  jb_day_of_week :: "ustr option"
  jb_month :: "int option"
  jb_day :: "int option"
  jb_hour :: "int option"
  jb_minute :: "int option"
  jb_timezone :: ustr
  jb_misfire_grace :: "int option"
  jb_coalesce :: bool

definition register_jobs :: "ustr \<Rightarrow> job list" where
  "register_jobs timezone =
     [\<lparr>jb_action = SendDailySummary, jb_day_of_week = Some (ascii ''mon-fri''), jb_month = None, jb_day = None,
       jb_hour = Some 10, jb_minute = Some 0, jb_timezone = timezone, jb_misfire_grace = Some 3600, jb_coalesce = True\<rparr>,
      \<lparr>jb_action = RefreshCalendar, jb_day_of_week = None, jb_month = Some 1, jb_day = Some 1, jb_hour = None,
       jb_minute = None, jb_timezone = timezone, jb_misfire_grace = None, jb_coalesce = False\<rparr>]"

subsection \<open>main\<close>

record program =
  pg_deployment :: deployment
  pg_web :: "date \<Rightarrow> rat \<Rightarrow> web_env"
  pg_jobs :: "job list"

text \<open>The log line before the wiring reads the administrators already.\<close>

definition main :: "surroundings \<Rightarrow> settings \<Rightarrow> date \<Rightarrow> program res" where
  "main su st today =
     bind_res (ensure_secure_config st) (\<lambda>_.
     bind_res (admin_id_set st) (\<lambda>_.
     let slv = greedy_solver (su_networkx su) (load_calendar (su_days su) today) in
     bind_res (build_dispatcher su st (build_parser su st) True (Some slv) today) (\<lambda>dp.
     bind_res (create_app su st) (\<lambda>app.
     Inr \<lparr>pg_deployment = dp, pg_web = app, pg_jobs = register_jobs (se_timezone st)\<rparr>))))"

definition refresh_calendar :: "surroundings \<Rightarrow> date \<Rightarrow> program \<Rightarrow> program" where
  "refresh_calendar su today pg =
     (let dp = pg_deployment pg in
      pg\<lparr>pg_deployment := dp\<lparr>dp_services := (dp_services dp)
        \<lparr>hs_solver := Some (greedy_solver (su_networkx su) (load_calendar (su_days su) today))\<rparr>\<rparr>\<rparr>)"

text \<open>What the daily summary sends to the team chat: a chart, a line, or nothing when the database fails.\<close>

definition daily_summary :: "date \<Rightarrow> reply option proc" where
  "daily_summary today =
     catch
       (bind_proc (build_load_image today DEFAULT_DAYS None) (\<lambda>png.
        ret (Some (case png of
          Some grid \<Rightarrow> AnswerPhoto grid [1044, 1085, 1077, 1074, 1085, 1072, 1103, 32, 1089, 1074, 1086, 1076, 1082, 1072, 32, 1085, 1072,
      1075, 1088, 1091, 1079, 1082, 1080, 32, 1082, 1086, 1084, 1072, 1085, 1076, 1099, 46]
        | None \<Rightarrow> Answer [1044, 1085, 1077, 1074, 1085, 1072, 1103, 32, 1089, 1074, 1086, 1076, 1082, 1072, 58, 32, 1072,
      1082, 1090, 1080, 1074, 1085, 1099, 1093, 32, 1087, 1083, 1072, 1085, 1086, 1074, 32, 1085,
      1077, 1090, 46]))))
       (\<lambda>e. ret None)"

end
