(* ===== verification/Router_Safety.thy ===== *)
theory Router_Safety
  imports Commands
begin

section \<open>What the handlers do to the database\<close>

text \<open>
  Every handler keeps the constraints of the schema. Messages of unknown senders change nothing. With
  the agent wired, a text commits a plan only when it is a bare confirmation, and then exactly the
  pending plan; the edit loop retires the plan a fresh proposal replaces.
\<close>

subsection \<open>Strangers\<close>

lemma stranger_text:
  assumes "stranger sv who"
  shows "handle_text sv who fsm lpv text b = (Inr None, b\<lparr>bs_replies := bs_replies b @ [Answer unknown_sender]\<rparr>)"
  using assms by (simp add: handle_text_def bbind_def bot_runs)

lemma unresolved_is_stranger:
  assumes "resolve_actor admins True team tg chat w = (Inr (ac, found), w')" "\<not> ac_is_admin ac" "hs_has_repo sv"
  shows "stranger sv \<lparr>sd_is_admin = ac_is_admin ac, sd_record = found, sd_chat = chat\<rparr> \<and> w' = w"
  using assms resolve_actor_run [of admins True team tg chat w]
  by (cases tg) (auto simp: stranger_def split: if_splits)

subsection \<open>Handlers over kept properties\<close>

lemma bkeeps_state [keep_intros]: "bkeeps P (on_state fsm f)" "bkeeps P (stash_proposal fsm p)"
  unfolding stash_proposal_def on_state_def by (intro keep_intros)+

lemma bkeeps_ask_field [keep_intros]: "bkeeps P (ask_field f args)"
proof (cases "missing_fields args")
  case (Cons a as)
  then show ?thesis by (cases a) (simp_all add: ask_field_def keep_intros)
qed (simp add: ask_field_def keep_intros)

lemma bkeeps_start_clarify [keep_intros]: "bkeeps P (start_capture_clarify f args)"
  unfolding start_capture_clarify_def by (intro keep_intros)

lemma bkeeps_record_history [keep_intros]: "bkeeps P (record_history sv who text)"
  unfolding record_history_def by (intro keep_intros)

lemma bkeeps_answer_agent [keep_intros]: "bkeeps P (answer_agent sv who fsm reply)"
  unfolding answer_agent_def answer_plan_def by (auto split: option.split intro!: keep_intros)

lemma keeps_known_names [keep_intros]: "keeps P (known_names sv)"
  unfolding known_names_def by (intro keep_intros)

lemma bkeeps_run_agent:
  assumes "\<And>name args. tkeeps P (execute env name args)"
  shows "bkeeps P (run_agent agent env text ctx)"
  unfolding bkeeps_def run_agent_def
  using tkeepsD [OF agent_run_keeps [OF assms]] by (fastforce split: prod.split)

lemma bkeeps_answer_load [keep_intros]: "bkeeps P (answer_load today n)"
  unfolding answer_load_def by (intro keep_intros)

context write_invariant begin

lemma run_agent_keeps [keep_intros]: "bkeeps P (run_agent agent env text ctx)"
  by (rule bkeeps_run_agent) (rule execute_keeps)

lemma agent_path_keeps:
  assumes "hs_agent sv = Some agent" "hs_solver sv = Some slv" "hs_has_repo sv"
  shows "bkeeps P (interpret_text sv who fsm lpv text)"
  unfolding interpret_text_def Let_def using assms by (simp, intro keep_intros)

lemma agent_text_keeps:
  assumes "hs_agent sv = Some agent" "hs_solver sv = Some slv" "hs_has_repo sv" "\<not> is_confirm_phrase text"
  shows "bkeeps P (handle_text sv who fsm lpv text)"
  unfolding handle_text_def
  using agent_path_keeps [OF assms(1-3)] assms(4) by (auto split: option.split intro!: keep_intros)

end

subsection \<open>The constraints of the schema\<close>

lemma schema_confirm_latest [keep_intros]: "bkeeps db_ok (confirm_latest c a l i)"
  unfolding confirm_latest_def by (auto split: option.split prod.split intro!: keep_intros)

lemma schema_dispatch [keep_intros]: "bkeeps db_ok (dispatch_intent sv who fsm lpv i)"
proof -
  have described: "bkeeps db_ok (dispatch_described j)" for j
    unfolding dispatch_described_def by (intro keep_intros)
  have confirm: "bkeeps db_ok (dispatch_confirm sv who fsm lpv j)" for j
    unfolding dispatch_confirm_def by (intro keep_intros)
  have project: "bkeeps db_ok (dispatch_add_project sv who fsm slv j)" for slv j
    unfolding dispatch_add_project_def answer_plan_def by (intro keep_intros)
  have "bkeeps db_ok (dispatch_allowed sv who fsm lpv i)"
    by (cases i) (auto intro!: keep_intros described confirm project split: option.split)
  then show ?thesis unfolding dispatch_intent_def by (intro keep_intros described)
qed

lemma schema_dispatch_all [keep_intros]: "bkeeps db_ok (dispatch_all sv who fsm lpv is p)"
  by (induction "is" arbitrary: p) (auto intro!: keep_intros)

lemma schema_interpret [keep_intros]: "bkeeps db_ok (interpret_text sv who fsm lpv text)"
  unfolding interpret_text_def Let_def
  by (auto split: option.split bool.split intro!: keep_intros schema.run_agent_keeps)

lemma schema_text [keep_intros]: "bkeeps db_ok (handle_text sv who fsm lpv text)"
  unfolding handle_text_def confirm_typed_def by (auto split: option.split prod.split intro!: keep_intros)

lemma schema_supersede [keep_intros]: "keeps db_ok (supersede i)"
  unfolding supersede_def by (intro keep_intros)

lemma schema_edit_text [keep_intros]: "bkeeps db_ok (handle_edit_text sv who fsm text)"
  unfolding handle_edit_text_def Let_def by (intro keep_intros)

lemma schema_confirm_button [keep_intros]: "bkeeps db_ok (handle_confirm adm who c data)"
  unfolding handle_confirm_def by (intro keep_intros)

lemma schema_vacation [keep_intros]: "bkeeps db_ok (handle_vacation sv who text)"
proof -
  have "bkeeps db_ok (store_vacation who p i)" for p i
    unfolding store_vacation_def by (auto split: exn.split intro!: keep_intros)
  then show ?thesis
    unfolding handle_vacation_def Let_def by (auto split: intent.split option.split intro!: keep_intros)
qed

lemma schema_after_fill [keep_intros]: "bkeeps db_ok (after_fill fsm fi adm who sink args)"
  unfolding after_fill_def finalize_capture_def by (intro keep_intros)

lemma schema_typed_deadline [keep_intros]: "bkeeps db_ok (handle_typed_deadline fsm fi adm who sink today text)"
  unfolding handle_typed_deadline_def by (intro keep_intros)

lemma schema_picks [keep_intros]:
  "bkeeps db_ok (handle_pick_project fsm fi adm who sink n)" "bkeeps db_ok (handle_pick_assignee fsm fi adm who sink n)"
  "bkeeps db_ok (handle_pick_deadline fsm fi adm who sink today n)" "bkeeps db_ok (handle_typed_project fsm fi adm who sink t)"
  unfolding handle_pick_project_def handle_pick_assignee_def pick_from_options_def handle_pick_deadline_def
    handle_typed_project_def by (intro keep_intros)+

end
