(* ===== verification/Message_Safety.thy ===== *)
theory Message_Safety
  imports Router_Safety Claude_Parser
begin

section \<open>What a message can change\<close>

text \<open>
  The two ways a message is interpreted, by the agent and by a parser, under a property of the database
  that every writing repository method keeps; and for a sender without administrator rights, for whom
  both ways only read.
\<close>

subsection \<open>Intents that confirm nothing\<close>

definition confirms :: "intent \<Rightarrow> bool" where
  "confirms i = (case i of ConfirmIntent c \<Rightarrow> True | _ \<Rightarrow> False)"

lemma bkeeps_described [keep_intros]: "bkeeps P (dispatch_described i)"
  unfolding dispatch_described_def by (intro keep_intros)

context write_invariant begin

lemma dispatch_keeps:
  assumes "\<not> confirms i"
  shows "bkeeps P (dispatch_intent sv who fsm lpv i)"
proof -
  have project: "bkeeps P (dispatch_add_project sv who fsm slv j)" for slv j
    unfolding dispatch_add_project_def answer_plan_def by (intro keep_intros)
  have "bkeeps P (dispatch_allowed sv who fsm lpv i)"
    using assms by (cases i) (auto simp: confirms_def intro!: keep_intros project split: option.split)
  then show ?thesis unfolding dispatch_intent_def by (intro keep_intros)
qed

lemma dispatch_all_keeps: "\<forall>i \<in> set is. \<not> confirms i \<Longrightarrow> bkeeps P (dispatch_all sv who fsm lpv is p)"
  by (induction "is" arbitrary: p) (auto intro!: keep_intros dispatch_keeps)

end

subsection \<open>The two ways of reading a message\<close>

lemma dispatched_from: "set (intents_to_dispatch is) \<subseteq> set is"
  by (auto simp: intents_to_dispatch_def Let_def dest: in_set_takeD)

lemma bkeeps_bind_parsed:
  assumes "\<And>is. r = Inr is \<Longrightarrow> bkeeps P (f is)"
  shows "bkeeps P (bbind (run_use_case (lift_res r)) f)"
  using assms by (cases r) (auto simp: bkeeps_def bbind_def run_use_case_def lift_res_def ret_def raise_def)

lemma interpret_keeps:
  assumes agent: "\<And>agent slv ctx.
      bkeeps P (run_agent agent (tool_env_of sv who slv) text ctx :: ('s, agent_reply) bot)"
    and parsed: "\<And>ctx is. hs_parse_intents sv text ctx = Inr is \<Longrightarrow>
      bkeeps P (dispatch_all sv who (fsm :: 's fsm_port option) lpv (intents_to_dispatch is) None)"
  shows "bkeeps P (interpret_text sv who fsm lpv text)"
  unfolding interpret_text_def Let_def
  by (auto split: option.split bool.split intro!: keep_intros agent bkeeps_bind_parsed parsed)

lemma handle_text_keeps:
  assumes "bkeeps P (interpret_text sv who fsm lpv text)" and "\<not> is_confirm_phrase text"
  shows "bkeeps P (handle_text sv who fsm lpv text)"
  unfolding handle_text_def using assms by (auto split: option.split intro!: keep_intros)

subsection \<open>Senders without administrator rights\<close>

lemma dispatch_reads:
  assumes "\<not> sd_is_admin who"
  shows "bkeeps P (dispatch_intent sv who fsm lpv i)"
  unfolding dispatch_intent_def can_execute_def write_kind_iff using assms
  by (cases i) (auto intro!: keep_intros)

lemma dispatch_all_reads: "\<not> sd_is_admin who \<Longrightarrow> bkeeps P (dispatch_all sv who fsm lpv is p)"
  by (induction "is" arbitrary: p) (auto intro!: keep_intros dispatch_reads)

lemma agent_reads: "\<not> sd_is_admin who \<Longrightarrow> bkeeps P (run_agent agent (tool_env_of sv who slv) text ctx)"
  by (intro bkeeps_run_agent execute_readonly) (simp add: tool_env_of_def)

lemma non_admin_reads:
  assumes "\<not> sd_is_admin who" and "\<not> is_confirm_phrase text"
  shows "bkeeps P (handle_text sv who fsm lpv text)"
  by (intro handle_text_keeps interpret_keeps agent_reads dispatch_all_reads assms)

subsection \<open>Texts that are no confirmation\<close>

lemma basic_confirms_only:
  assumes "basic_parse_intents text ctx = Inr is" and "low_text text \<notin> set CONFIRM_WORDS"
  shows "\<forall>i \<in> set is. \<not> confirms i"
proof -
  from assms(1) obtain i where i: "is = [i]" "parse_sync text ctx = Inr i"
    by (auto simp: basic_parse_intents_def res_simps)
  from parse_sync_sound [OF this(2)] assms(2) i(1) show ?thesis
    by (auto simp: intent_sound_def confirms_def split: intent.splits)
qed

context write_invariant begin

lemma plain_text_keeps:
  assumes "hs_parse_intents sv = basic_parse_intents"
    and "\<not> is_confirm_phrase text" "low_text text \<notin> set CONFIRM_WORDS"
  shows "bkeeps P (handle_text sv who fsm lpv text)"
proof (intro handle_text_keeps interpret_keeps run_agent_keeps assms(2))
  fix ctx "is" assume "hs_parse_intents sv text ctx = Inr is"
  with assms(1) have "\<forall>i \<in> set is. \<not> confirms i" using basic_confirms_only [OF _ assms(3)] by simp
  then show "bkeeps P (dispatch_all sv who fsm lpv (intents_to_dispatch is) None)"
    using dispatched_from by (intro dispatch_all_keeps) blast
qed

end

end
