(* ===== verification/Dispatcher_Safety.thy ===== *)
theory Dispatcher_Safety
  imports Dispatcher Message_Safety
begin

section \<open>What an update can change\<close>

text \<open>
  The locale \<open>update_invariant\<close> is \<open>write_invariant\<close> with what the edit loop writes: a property of the
  database in it is kept by every update but a confirmation. It is interpreted for the constraints of
  the schema, which a confirmation keeps as well, and for the committed plans. Updates of people the
  middleware does not recognise keep every property.
\<close>

subsection \<open>The middlewares\<close>

definition sender_of :: "deployment \<Rightarrow> event \<Rightarrow> db \<Rightarrow> sender" where
  "sender_of d e db =
     (let found = (if hs_has_repo (dp_services d) \<and> ev_user e \<noteq> None
                   then map_option person_record_of (get_row pr_tg_user_id (ev_user e) (db_people db)) else None)
      in \<lparr>sd_is_admin = (\<exists>u. ev_user e = Some u \<and> u \<in> set (dp_admin_ids d)) \<or> found \<noteq> None \<or>
            (dp_team_chat d \<noteq> None \<and> ev_chat e = dp_team_chat d),
          sd_record = found, sd_chat = ev_chat e\<rparr>)"

lemma with_actor_run: "with_actor d e handler b = handler (sender_of d e (w_db (bs_world b))) b"
proof -
  have "b\<lparr>bs_world := bs_world b\<rparr> = b" by simp
  then show ?thesis
    by (cases "ev_user e")
      (auto simp: with_actor_def bbind_def run_use_case_def resolve_actor_run sender_of_def Let_def)
qed

lemma bkeeps_boundary: "bkeeps P h \<Longrightarrow> bkeeps P (error_boundary kind h)"
proof -
  assume "bkeeps P h"
  moreover have "bkeeps P (case kind of MessageEvent \<Rightarrow> send (Answer (user_message x)) |
      CallbackEvent \<Rightarrow> send (CallbackAnswer (Some (user_message x)) True) | OtherEvent \<Rightarrow> bret ())" for x
    by (cases kind) (simp_all add: keep_intros)
  ultimately show ?thesis unfolding error_boundary_def by (intro keep_intros)
qed

lemma guarded_keeps:
  assumes "P (w_db (ds_world s))" and "bkeeps P (handler (sender_of d e (w_db (ds_world s))))"
  shows "P (w_db (ds_world (guarded d e kind handler s)))"
proof -
  let ?h = "handler (sender_of d e (w_db (ds_world s)))" and ?b = "enter e s"
  have world: "bs_world ?b = ds_world s" by (simp add: enter_def)
  have "with_actor d e handler ?b = ?h ?b" by (simp add: with_actor_run world)
  then have "error_boundary kind (with_actor d e handler) ?b = error_boundary kind ?h ?b"
    by (simp add: error_boundary_def bcatch_def bbind_def)
  moreover have "P (w_db (bs_world (snd (error_boundary kind ?h ?b))))"
    using bkeeps_boundary [OF assms(2), of kind] assms(1) by (auto simp only: bkeeps_def world)
  ultimately show ?thesis by (simp add: guarded_def leave_def)
qed

text \<open>An update keeps what the handler it reaches keeps for the sender it comes from.\<close>

lemma process_update_keeps:
  assumes "P (w_db (ds_world s))"
    and "\<And>content m h. ev_update e = MessageUpdate content m \<Longrightarrow>
      route_message (dp_command d m) (fp_state fsm (ds_conversations s (conversation_key e))) content m = Some h \<Longrightarrow>
      bkeeps P (run_message d (services_at d e) fsm (sender_of d e (w_db (ds_world s))) h content m)"
    and "\<And>data h. ev_update e = CallbackUpdate data \<Longrightarrow> route_callback data = Some h \<Longrightarrow>
      bkeeps P (run_callback (services_at d e) fsm (sender_of d e (w_db (ds_world s))) h data)"
  shows "P (w_db (ds_world (process_update d fsm e s)))"
proof (cases "ev_update e")
  case (MessageUpdate content m)
  note message = assms(2) [OF this]
  obtain ok th where "throttle_call (ev_user e) (ev_monotonic e) (ds_throttle s) = (ok, th)" by fastforce
  with MessageUpdate show ?thesis
    by (auto simp: process_update_def Let_def assms(1) split: option.split intro!: guarded_keeps [where P = P] message)
next
  case (CallbackUpdate data)
  then show ?thesis
    by (auto simp: process_update_def assms(1) split: option.split intro!: guarded_keeps [where P = P] assms(3))
qed

subsection \<open>Handlers that only read or answer\<close>

lemma bkeeps_replan [keep_intros]: "bkeeps P (handle_replan slv adm today)"
  by (simp add: bkeeps_def readonly_handle_replan)

lemma bkeeps_reading [keep_intros]: "bkeeps P handle_start"
  "bkeeps P (handle_load sv who message)" "bkeeps P (handle_new_project fsm)" "bkeeps P (handle_deadline_text fsm)"
  "bkeeps P (handle_edit fsm adm data)" "bkeeps P (arm_sender has_arm who m)"
  unfolding handle_start_def handle_load_def handle_new_project_def handle_deadline_text_def handle_edit_def arm_sender_def
    Let_def
  by (intro keep_intros)+

text \<open>The text a message hands to \<open>_handle_text\<close>.\<close>

definition said_text :: "message_handler \<Rightarrow> content \<Rightarrow> chat_message \<Rightarrow> ustr option" where
  "said_text h content m =
     (case h of
        OnTask \<Rightarrow> Some (strip (after_space (mg_text m)))
      | OnEditText \<Rightarrow> Some (strip (mg_text m))
      | OnMention \<Rightarrow> Some (if startswith [64] (lower (mg_text m)) then strip (after_space (mg_text m)) else strip (mg_text m))
      | OnVoice \<Rightarrow> (case content of VoiceContent v \<Rightarrow> recognised (vc_stt v) | _ \<Rightarrow> None)
      | _ \<Rightarrow> None)"

lemma text_handlers_keep:
  assumes "\<And>t. said_text h content m = Some t \<Longrightarrow> bkeeps P (handle_text sv who (Some fsm) None t)"
  shows "h = OnTask \<Longrightarrow> bkeeps P (handle_task sv who (Some fsm) (mg_text m))"
    and "h = OnMention \<Longrightarrow> bkeeps P (handle_mention_or_dm sv who (Some fsm) u True m)"
    and "h = OnVoice \<Longrightarrow> content = VoiceContent v \<Longrightarrow> bkeeps P (handle_voice sv who (Some fsm) u True True (Some v) m)"
proof -
  show "h = OnTask \<Longrightarrow> bkeeps P (handle_task sv who (Some fsm) (mg_text m))"
    using assms by (auto simp: handle_task_def said_text_def Let_def intro!: keep_intros)
  show "h = OnMention \<Longrightarrow> bkeeps P (handle_mention_or_dm sv who (Some fsm) u True m)"
    using assms by (auto simp: handle_mention_or_dm_def said_text_def Let_def intro!: keep_intros)
  assume voice: "h = OnVoice" "content = VoiceContent v"
  then have "bkeeps P (handle_text sv who (Some fsm) None t)" if "recognised (vc_stt v) = Some t" for t
    using assms that by (simp add: said_text_def)
  then have "bkeeps P (transcribe_and_handle sv who (Some fsm) v)"
    unfolding transcribe_and_handle_def
    by (cases "vc_stt v") (auto split: option.split intro!: keep_intros)
  then show "bkeeps P (handle_voice sv who (Some fsm) u True True (Some v) m)"
    unfolding handle_voice_def option.case by (intro keep_intros) (auto split: download.split intro!: keep_intros)
qed

subsection \<open>Updates that keep what the tools keep\<close>

locale update_invariant = write_invariant +
  assumes keeps_supersede: "\<And>i. keeps P (supersede i)"
begin

lemma after_fill_keeps [keep_intros]: "bkeeps P (after_fill fsm fi adm who sink args)"
  unfolding after_fill_def finalize_capture_def by (intro keep_intros)

lemma callback_keeps:
  assumes "h = OnConfirm \<Longrightarrow> bkeeps P (handle_confirm (sd_is_admin who) (sd_record who) (hs_confirm sv) data :: ('s, unit) bot)"
  shows "bkeeps P (run_callback sv (fsm :: 's fsm_port) who h data)"
  using assms
  by (cases h) (auto simp: run_callback_def Let_def handle_pick_project_def handle_pick_assignee_def
      pick_from_options_def handle_pick_deadline_def intro!: keep_intros)

lemma vacation_command_keeps: "bkeeps P (handle_vacation sv who text)"
proof -
  have "bkeeps P (store_vacation who p i)" for p i
    unfolding store_vacation_def by (auto split: exn.split intro!: keep_intros)
  then show ?thesis
    unfolding handle_vacation_def Let_def by (auto split: intent.split option.split intro!: keep_intros)
qed

lemma message_keeps:
  assumes text_keeps: "\<And>t lpv. said_text h content m = Some t \<Longrightarrow> h \<noteq> OnEditText \<Longrightarrow>
      bkeeps P (handle_text sv who (Some fsm) lpv t)"
    and edit: "\<And>t lpv. said_text h content m = Some t \<Longrightarrow> h = OnEditText \<Longrightarrow>
      bkeeps P (handle_text (sv\<lparr>hs_agent := None\<rparr>) who (Some fsm) lpv t)"
    and routed: "h = OnVoice \<Longrightarrow> \<exists>v. content = VoiceContent v"
  shows "bkeeps P (run_message d sv fsm who h content m)"
proof (cases h)
  case OnEditText
  with edit have "bkeeps P (handle_text (sv\<lparr>hs_agent := None\<rparr>) who (Some fsm) lpv (strip (mg_text m)))" for lpv
    by (simp add: said_text_def)
  with OnEditText show ?thesis
    by (auto simp: run_message_def handle_edit_text_def Let_def intro!: keep_intros keeps_supersede)
next
  case OnVoice
  with routed text_handlers_keep(3) [OF text_keeps] show ?thesis by (fastforce simp: run_message_def)
qed (use text_handlers_keep(1,2) [OF text_keeps] in
    \<open>auto simp: run_message_def handle_typed_project_def handle_typed_deadline_def
      intro!: keep_intros vacation_command_keeps split: option.split\<close>)

end

lemma routed_voice: "route_message cmd st content m = Some OnVoice \<Longrightarrow> \<exists>v. content = VoiceContent v"
  by (cases content) (auto simp: route_message_def message_routes_def clarify_routes_def task_routes_def on_voice_note_def
      split: if_splits)

interpretation schema_updates: update_invariant db_ok
  by unfold_locales (intro keep_intros)

lemma commits_superseded:
  "map pv_id (filter (\<lambda>v. pv_status v = ascii ''committed'') (map (\<lambda>u. if pv_id u = i \<and> pv_status u = ascii ''proposed''
      then u\<lparr>pv_status := ascii ''superseded''\<rparr> else u) vs)) =
    map pv_id (filter (\<lambda>v. pv_status v = ascii ''committed'') vs)"
  by (induction vs) auto

interpretation committed_updates: update_invariant "\<lambda>d. commits d = C" for C
proof unfold_locales
  have sup: "ascii ''superseded'' \<in> set plan_statuses" by (simp add: plan_statuses_def)
  have "keeps (\<lambda>d. commits d = C) (transition_plan_status i (ascii ''proposed'') (ascii ''superseded''))" for i
    unfolding keeps_def
    by (auto simp: transition_run [OF sup] commits_def committed_rows_def commits_superseded)
  moreover have "keeps (\<lambda>d. commits d = C) (set_project_status i st)" for i st
    unfolding set_project_status_def by (rule keeps_same_plans) auto
  ultimately show "keeps (\<lambda>d. commits d = C) (supersede i)" for i
    unfolding supersede_def by (intro keep_intros)
qed

subsection \<open>Updates of outsiders\<close>

lemma outsider_is_stranger:
  assumes "hs_has_repo (dp_services d)" and "\<not> sd_is_admin (sender_of d e db)"
  shows "stranger (services_at d e) (sender_of d e db)"
  using assms by (auto simp: stranger_def sender_of_def services_at_def Let_def split: if_splits)

lemma unprivileged_after_fill [keep_intros]: "bkeeps P (after_fill fsm fi False who sink args)"
  unfolding after_fill_def finalize_capture_def not_False_eq_True if_True by (intro keep_intros)

lemma stranger_text_keeps: "stranger sv who \<Longrightarrow> bkeeps P (handle_text sv who fsm lpv t)"
  by (simp add: bkeeps_def stranger_text)

lemma stranger_edit_keeps:
  assumes "stranger sv who" shows "bkeeps P (handle_edit_text sv who fsm t)"
proof -
  from assms have "stranger (sv\<lparr>hs_agent := None\<rparr>) who" by (simp add: stranger_def)
  then show ?thesis
    by (simp add: bkeeps_def handle_edit_text_def Let_def bbind_def get_fsm_def stranger_text bret_def)
qed

lemma outsider_message_keeps:
  assumes "stranger sv who" and "h = OnVoice \<Longrightarrow> \<exists>v. content = VoiceContent v"
  shows "bkeeps P (run_message d sv (fsm :: 's fsm_port) who h content m)"
proof -
  have text_keeps: "bkeeps P (handle_text sv who (Some fsm) lpv t)" for lpv t by (rule stranger_text_keeps [OF assms(1)])
  have rights: "\<not> sd_is_admin who" using assms(1) by (simp add: stranger_def)
  have vacation: "bkeeps P (handle_vacation sv who t :: ('s, unit) bot)" for t
    unfolding handle_vacation_def Let_def using assms(1) by (simp add: keep_intros)
  show ?thesis
  proof (cases h)
    case OnVoice
    with assms(2) text_handlers_keep(3) [OF text_keeps] show ?thesis by (fastforce simp: run_message_def)
  qed (use text_handlers_keep(1,2) [OF text_keeps] rights stranger_edit_keeps [OF assms(1)] vacation in
      \<open>auto simp: run_message_def handle_typed_project_def handle_typed_deadline_def
        intro!: keep_intros split: option.split\<close>)
qed

lemma outsider_callback_keeps:
  assumes "\<not> sd_is_admin who" shows "bkeeps P (run_callback sv (fsm :: 's fsm_port) who h data)"
proof -
  have "bkeeps P (handle_confirm False (sd_record who) (hs_confirm sv) data :: ('s, unit) bot)"
    by (simp add: handle_confirm_def keep_intros)
  with assms show ?thesis
    by (cases h) (auto simp: run_callback_def Let_def handle_pick_project_def handle_pick_assignee_def
        pick_from_options_def handle_pick_deadline_def intro!: keep_intros)
qed

lemma outsider_update_keeps:
  assumes "hs_has_repo (dp_services d)" and "\<not> sd_is_admin (sender_of d e (w_db (ds_world s)))"
    and "P (w_db (ds_world s))"
  shows "P (w_db (ds_world (process_update d fsm e s)))"
  by (rule process_update_keeps [where P = P])
    (auto intro: assms(3) outsider_message_keeps outsider_is_stranger [OF assms(1,2)] routed_voice
      outsider_callback_keeps [OF assms(2)])

subsection \<open>All updates\<close>

lemma schema_update:
  assumes "db_ok (w_db (ds_world s))" shows "db_ok (w_db (ds_world (process_update d fsm e s)))"
  by (rule process_update_keeps [where P = db_ok])
    (auto intro: assms schema_updates.callback_keeps schema_updates.message_keeps routed_voice keep_intros)

lemma schema_updates_all:
  "db_ok (w_db (ds_world s)) \<Longrightarrow> db_ok (w_db (ds_world (process_all d fsm es s)))"
  by (induction es arbitrary: s) (auto intro: schema_update)

subsection \<open>Updates that commit\<close>

definition said_confirmation :: "ustr \<Rightarrow> bool" where
  "said_confirmation t \<longleftrightarrow> is_confirm_phrase t \<or> low_text t \<in> set CONFIRM_WORDS"

text \<open>Texts are interpreted by the agent or by the regular-expression parser, not by the Claude parser.\<close>

definition no_bare_model :: "services \<Rightarrow> message_handler \<Rightarrow> bool" where
  "no_bare_model sv h \<longleftrightarrow> hs_parse_intents sv = basic_parse_intents \<or>
     h \<noteq> OnEditText \<and> hs_agent sv \<noteq> None \<and> hs_solver sv \<noteq> None \<and> hs_has_repo sv"

lemma committed_text:
  assumes "no_bare_model sv h" and "\<not> said_confirmation t" and "h \<noteq> OnEditText"
  shows "bkeeps (\<lambda>d. commits d = C) (handle_text sv who fsm lpv t)"
  using assms committed.agent_text_keeps committed.plain_text_keeps
  unfolding no_bare_model_def said_confirmation_def by blast

lemma committed_edit:
  assumes "no_bare_model sv OnEditText" and "\<not> said_confirmation t"
  shows "bkeeps (\<lambda>d. commits d = C) (handle_text (sv\<lparr>hs_agent := None\<rparr>) who fsm lpv t)"
  using assms unfolding no_bare_model_def said_confirmation_def by (intro committed.plain_text_keeps) auto

lemma committed_message:
  assumes "\<And>t. said_text h content m = Some t \<Longrightarrow> no_bare_model sv h \<and> \<not> said_confirmation t"
    and "h = OnVoice \<Longrightarrow> \<exists>v. content = VoiceContent v"
  shows "bkeeps (\<lambda>d. commits d = C) (run_message d sv fsm who h content m)"
  using assms by (intro committed_updates.message_keeps committed_text committed_edit) auto

lemma committed_callback:
  assumes "h = OnConfirm \<Longrightarrow> \<not> sd_is_admin who"
  shows "bkeeps (\<lambda>d. commits d = C) (run_callback sv fsm who h data)"
  using assms by (intro committed_updates.callback_keeps) (simp add: handle_confirm_def keep_intros)

text \<open>
  Plans are committed by confirmations only: when an update changes which plans are committed, someone
  with the rights pressed the confirm button or said one of the confirmation words, typed or spoken, or
  the text was read by neither the agent nor the regular-expression parser.
\<close>

lemma update_commits:
  assumes "commits (w_db (ds_world (process_update d fsm e s))) \<noteq> commits (w_db (ds_world s))"
    and "hs_has_repo (dp_services d)"
  shows "sd_is_admin (sender_of d e (w_db (ds_world s))) \<and>
    (case ev_update e of
       CallbackUpdate data \<Rightarrow> route_callback data = Some OnConfirm
     | MessageUpdate content m \<Rightarrow> \<exists>h t.
         route_message (dp_command d m) (fp_state fsm (ds_conversations s (conversation_key e))) content m = Some h \<and>
         said_text h content m = Some t \<and> (said_confirmation t \<or> \<not> no_bare_model (dp_services d) h))"
    (is "sd_is_admin ?who \<and> ?said")
proof
  let ?P = "\<lambda>x. commits x = commits (w_db (ds_world s))"
  show "sd_is_admin ?who" using assms(1) outsider_update_keeps [OF assms(2), of e s ?P] by blast
  show ?said
  proof (rule ccontr)
    assume other: "\<not> ?said"
    have wired: "no_bare_model (services_at d e) h = no_bare_model (dp_services d) h" for h
      by (simp add: no_bare_model_def services_at_def)
    have "?P (w_db (ds_world (process_update d fsm e s)))"
    proof (rule process_update_keeps [where P = ?P])
      fix content m h
      assume "ev_update e = MessageUpdate content m"
        "route_message (dp_command d m) (fp_state fsm (ds_conversations s (conversation_key e))) content m = Some h"
      then show "bkeeps ?P (run_message d (services_at d e) fsm ?who h content m)"
        using other routed_voice by (intro committed_message) (auto simp: wired)
    next
      fix data h
      assume "ev_update e = CallbackUpdate data" "route_callback data = Some h"
      then show "bkeeps ?P (run_callback (services_at d e) fsm ?who h data)"
        using other by (intro committed_callback) auto
    qed simp
    with assms(1) show False by simp
  qed
qed

end
