(* ===== verification/Web_Correct.thy ===== *)
theory Web_Correct
  imports Web_Board
begin

section \<open>What the web board changes\<close>

text \<open>
  Every page only reads; only an administrator's form writes. The forms keep what the agent's tools
  keep, so the locale \<open>web_invariant\<close> extends \<open>write_invariant\<close> by the two methods only the board calls.
  A session carries administrator rights only for a verified login of an administrator, or for the
  local login of a debug server.
\<close>

subsection \<open>Pages and refused requests\<close>

definition is_form :: "web_request \<Rightarrow> bool" where
  "is_form r = (case r of PostReassign t p \<Rightarrow> True | PostEditTask p t s e \<Rightarrow> True | PostVacation n f t c \<Rightarrow> True | _ \<Rightarrow> False)"

definition pure_proc :: "'a proc \<Rightarrow> bool" where
  "pure_proc m \<longleftrightarrow> (\<forall>w. snd (m w) = w)"

named_theorems pure_intros "procedures that change nothing"

lemma pure_basic [pure_intros]: "pure_proc (ret x)" "pure_proc (raise e)" "pure_proc (lift_res r)" "pure_proc (query f)"
  by (auto simp: pure_proc_def ret_def raise_def lift_res_def query_def split: sum.split)

lemma pure_bind [pure_intros]: "pure_proc m \<Longrightarrow> (\<And>x. pure_proc (f x)) \<Longrightarrow> pure_proc (bind_proc m f)"
  unfolding pure_proc_def bind_proc_def by (auto split: prod.split sum.split) (metis snd_conv)+

lemma pure_catch [pure_intros]: "pure_proc m \<Longrightarrow> (\<And>e. pure_proc (h e)) \<Longrightarrow> pure_proc (catch m h)"
  unfolding pure_proc_def catch_def by (auto split: prod.split sum.split) (metis snd_conv)+

lemma pure_if [pure_intros]: "pure_proc m \<Longrightarrow> pure_proc n \<Longrightarrow> pure_proc (if c then m else n)"
  by simp

lemma pure_option [pure_intros]:
  "pure_proc m \<Longrightarrow> (\<And>x. pure_proc (f x)) \<Longrightarrow> pure_proc (case opt of None \<Rightarrow> m | Some x \<Rightarrow> f x)"
  by (simp split: option.split)

lemma pure_pair [pure_intros]: "(\<And>x y. pure_proc (f x y)) \<Longrightarrow> pure_proc (case z of (x, y) \<Rightarrow> f x y)"
  by (cases z) simp

lemmas query_defs = list_tasks_with_meta_def list_people_def list_projects_def list_project_tasks_def list_audit_def
  get_committed_plan_def get_task_name_map_def get_person_by_tg_id_def

lemmas page_defs = root_def login_page_def logout_def schedule_page_def calendar_page_def load_board_page_def plan_list_def
  plan_detail_def audit_log_def team_list_def plan_gantt_png_def current_board_def

lemma pure_pages:
  assumes "\<not> is_form request"
  shows "pure_proc (route env cookie request)"
  using assms
  by (cases request)
    (auto simp: is_form_def reading_def page_defs login_callback_def query_defs
      intro!: pure_intros)

lemma pure_refused:
  assumes "require_admin env cookie = Inl e" "is_form request"
  shows "pure_proc (route env cookie request)"
proof -
  have "writing env cookie form = raise e" for form
    by (rule ext) (simp add: writing_def assms(1) bind_proc_def lift_res_def raise_def)
  with assms(2) show ?thesis by (cases request) (auto simp: is_form_def intro: pure_intros)
qed

lemma serve_reads:
  assumes "\<not> is_form request \<or> isl (require_admin env cookie)"
  shows "snd (serve env cookie request w) = w"
proof -
  have "pure_proc (route env cookie request)"
    using assms pure_pages pure_refused by (cases "is_form request") (auto simp: isl_def)
  then have "pure_proc (serve env cookie request)" unfolding serve_def by (intro pure_intros)
  then show ?thesis by (simp add: pure_proc_def)
qed

subsection \<open>Forms\<close>

locale web_invariant = write_invariant +
  assumes keeps_reschedule: "\<And>t s e p. keeps P (update_task_schedule t s e p)"
    and keeps_plan_dates: "\<And>t s e. keeps P (update_schedule_in_plan t s e)"
begin

lemma route_keeps: "keeps P (route env cookie request)"
proof (cases "is_form request")
  case False
  from pure_pages [OF this] show ?thesis by (simp add: pure_proc_def keeps_def)
next
  case True
  have "keeps P (reassign user t p)" for user t p
    unfolding reassign_def Let_def by (auto split: sum.split prod.split intro!: keep_intros)
  moreover have "keeps P (edit_task user t s e)" for user t s e
    unfolding edit_task_def by (intro keep_intros keeps_reschedule keeps_plan_dates)
  moreover have "keeps P (add_vacation user n f t c)" for user n f t c
    unfolding add_vacation_def by (intro keep_intros)
  ultimately show ?thesis
    using True by (cases request) (auto simp: is_form_def writing_def intro!: keep_intros)
qed

lemma serve_keeps: "keeps P (serve env cookie request)"
  unfolding serve_def by (intro keep_intros route_keeps)

end

interpretation web_schema: web_invariant db_ok
  by unfold_locales (intro keep_intros)+

interpretation web_committed: web_invariant "\<lambda>d. commits d = C" for C
proof unfold_locales
  show "keeps (\<lambda>d. commits d = C) (update_task_schedule t s e p)" for t s e p
    unfolding update_task_schedule_def by (rule keeps_same_plans) auto
  show "keeps (\<lambda>d. commits d = C) (update_schedule_in_plan t s e)" for t s e
    unfolding update_schedule_in_plan_def
    by (rule keeps_transaction) (auto simp: res_simps commits_def committed_rows_def commits_edit)
qed

subsection \<open>Sessions\<close>

lemma verified_login:
  assumes "verify_telegram_login env data = Inr True"
  obtains h t where "dict_get data (ascii ''hash'') = Some h" "h \<noteq> []"
    "we_hmac env (we_bot_token env) (check_string data) = h"
    "dict_get data (ascii ''auth_date'') = Some t" "auth_fresh (we_now env) data"
  using assms
  by (auto simp: verify_telegram_login_def auth_fresh_def dict_get_default_def split: list.splits option.splits if_splits)

lemma logged_in:
  assumes "login_callback env data w = (Inr (StartSession user secure), w')"
  obtains i tg where "verify_telegram_login env data = Inr True" "dict_get data (ascii ''id'') = Some i"
    "py_int i = Some tg" "user = login_claims env data tg
      (map_option person_record_of (get_row pr_tg_user_id (Some tg) (db_people (w_db w))))"
  using assms
  by (auto simp: login_callback_def bind_proc_def lift_res_def ret_def raise_def get_person_by_tg_id_def query_def
      dict_item_def res_simps split: sum.splits if_splits option.splits)

text \<open>Who may be an administrator: a listed id, or a person of the team who is one.\<close>

definition admin_account :: "web_env \<Rightarrow> db \<Rightarrow> int \<Rightarrow> bool" where
  "admin_account env d tg \<longleftrightarrow>
     tg \<in> set (we_admin_ids env) \<or> (\<exists>p \<in> set (db_people d). pr_tg_user_id p = Some tg \<and> pr_is_admin p)"

lemma login_admin:
  assumes "truthy (claim ''is_admin'' (login_claims env data tg person))"
    and "person = map_option person_record_of (get_row pr_tg_user_id (Some tg) (db_people d))"
  shows "admin_account env d tg"
  using assms
  by (auto simp: login_claims_def claim_def dict_get_default_def dict_get_def admin_account_def person_record_of_def
      Let_def ascii_def dest!: get_row_SomeD split: option.splits)

text \<open>No other request starts a session.\<close>

definition no_session :: "web_reply proc \<Rightarrow> bool" where
  "no_session m \<longleftrightarrow> (\<forall>w user secure. fst (m w) \<noteq> Inr (StartSession user secure))"

named_theorems session_intros "requests that start no session"

lemma no_session_ret [session_intros]:
  "no_session (raise e)" "no_session (ret (Redirect u))" "no_session (ret (PlainText t n))"
  "no_session (ret (SchedulePage board people user))" "no_session (ret (CalendarPage board user))"
  "no_session (ret (LoadPage board user))" "no_session (ret (TeamPage people rows user))"
  "no_session (ret (PlanListPage projects user))" "no_session (ret (PlanDetailPage i tasks user))"
  "no_session (ret (GanttPng fig))" "no_session (ret (AuditPage entries user))"
  "no_session (ret LoginPage)" "no_session (ret EndSession)"
  by (simp_all add: no_session_def ret_def raise_def)

lemma no_session_bind [session_intros]: "(\<And>x. no_session (f x)) \<Longrightarrow> no_session (bind_proc m f)"
  by (auto simp: no_session_def bind_proc_def split: prod.split sum.split)

lemma no_session_catch [session_intros]: "no_session m \<Longrightarrow> (\<And>e. no_session (h e)) \<Longrightarrow> no_session (catch m h)"
  unfolding no_session_def catch_def by (auto split: prod.split sum.split) (metis fst_conv)+

lemma no_session_cases [session_intros]:
  "no_session m \<Longrightarrow> no_session n \<Longrightarrow> no_session (if c then m else n)"
  "no_session m \<Longrightarrow> (\<And>x. no_session (g x)) \<Longrightarrow> no_session (case opt of None \<Rightarrow> m | Some x \<Rightarrow> g x)"
  "(\<And>x y. no_session (k x y)) \<Longrightarrow> no_session (case z of (x, y) \<Rightarrow> k x y)"
  by (auto split: option.split prod.split)

lemma vacation_refused_text: "vacation_refused e = Some r \<Longrightarrow> \<exists>t n. r = PlainText t n"
  by (auto simp: vacation_refused_def split: exn.splits)

lemma no_session_refused [session_intros]:
  "no_session (case vacation_refused e of None \<Rightarrow> raise e | Some r \<Rightarrow> ret r)"
  by (auto split: option.split dest!: vacation_refused_text intro: session_intros)

lemma no_session_forms [session_intros]: "no_session (reassign user t p)"
  unfolding reassign_def Let_def by (auto split: sum.split prod.split intro!: session_intros)

lemma session_requests:
  assumes "route env cookie request w = (Inr (StartSession user secure), w')"
  shows "(\<exists>host. request = GetDevLogin host) \<or> (\<exists>data. request = GetTelegramLogin data)"
proof (rule ccontr)
  assume "\<not> ?thesis"
  then have "no_session (route env cookie request)"
    by (cases request) (auto simp: reading_def writing_def page_defs
        edit_task_def add_vacation_def intro!: session_intros)
  with assms show False unfolding no_session_def by (metis fst_conv)
qed

lemma served_session:
  assumes "serve env cookie request w = (Inr (StartSession user secure), w')"
  shows "route env cookie request w = (Inr (StartSession user secure), w')"
  using assms
  by (auto simp: serve_def catch_def error_response_def ret_def raise_def split: prod.splits sum.splits option.splits exn.splits
      if_splits)

end
