(* ===== verification/Process.thy ===== *)
theory Process
  imports Startup Dispatcher_Safety Web_Correct
begin

section \<open>The running process\<close>

text \<open>
  What \<open>main\<close> runs until it is stopped: the polling of the bot, the web server and the jobs of the
  scheduler share one program and one database. A step is what arrives next, an update, a web request or
  a due job, handled to its end; \<open>reachable\<close> are the states after any number of steps from a launch. The
  storage of conversations outlives the process, so a launch may find any. That asyncio may switch
  between two handlers while one waits is not modelled here.
\<close>

datatype arrival = BotUpdate event | WebRequest "ustr option" web_request date rat | JobDue job_action date

text \<open>The sessions the web server has started: the login, its time, the claims and the cookie it set.\<close>

record issued_session =
  is_request :: web_request
  is_now :: rat
  is_claims :: claims
  is_token :: ustr

record 's process =
  pr_program :: program
  pr_bot :: "'s dispatcher"
  pr_team_chat :: "reply list"
  pr_web_replies :: "web_reply res list"
  pr_sessions :: "issued_session list"

abbreviation process_db :: "'s process \<Rightarrow> db" where
  "process_db p \<equiv> w_db (ds_world (pr_bot p))"

definition launch :: "(int option \<times> int option \<Rightarrow> 's) \<Rightarrow> world \<Rightarrow> program \<Rightarrow> 's process" where
  "launch conversations w pg =
     \<lparr>pr_program = pg,
      pr_bot = \<lparr>ds_throttle = \<lparr>th_min = 1, th_last_seen = []\<rparr>, ds_conversations = conversations, ds_world = w,
        ds_replies = [], ds_history = \<lparr>ch_max_turns = 8, ch_by_chat = []\<rparr>, ds_voice = []\<rparr>,
      pr_team_chat = [], pr_web_replies = [], pr_sessions = []\<rparr>"

definition on_world :: "'a proc \<Rightarrow> 's process \<Rightarrow> 'a res \<times> 's process" where
  "on_world m p = (case m (ds_world (pr_bot p)) of (r, w) \<Rightarrow> (r, p\<lparr>pr_bot := (pr_bot p)\<lparr>ds_world := w\<rparr>\<rparr>))"

definition sessions_of :: "web_env \<Rightarrow> web_request \<Rightarrow> rat \<Rightarrow> web_reply res \<Rightarrow> issued_session list" where
  "sessions_of env request now r =
     (case r of
        Inr (StartSession user secure) \<Rightarrow>
          [\<lparr>is_request = request, is_now = now, is_claims = user, is_token = we_encode env user\<rparr>]
      | _ \<Rightarrow> [])"

definition answer_request :: "ustr option \<Rightarrow> web_request \<Rightarrow> date \<Rightarrow> rat \<Rightarrow> 's process \<Rightarrow> 's process" where
  "answer_request cookie request today now p =
     (let env = pg_web (pr_program p) today now in
      case on_world (serve env cookie request) p of
        (r, p') \<Rightarrow> p'\<lparr>pr_web_replies := pr_web_replies p' @ [r],
                      pr_sessions := pr_sessions p' @ sessions_of env request now r\<rparr>)"

definition send_summary :: "date \<Rightarrow> 's process \<Rightarrow> 's process" where
  "send_summary today p =
     (case on_world (daily_summary today) p of
        (Inr (Some reply), p') \<Rightarrow> p'\<lparr>pr_team_chat := pr_team_chat p' @ [reply]\<rparr>
      | (_, p') \<Rightarrow> p')"

fun process_step :: "surroundings \<Rightarrow> 's fsm_port \<Rightarrow> arrival \<Rightarrow> 's process \<Rightarrow> 's process" where
  "process_step su fsm (BotUpdate e) p =
     p\<lparr>pr_bot := process_update (pg_deployment (pr_program p)) fsm e (pr_bot p)\<rparr>"
| "process_step su fsm (WebRequest cookie request today now) p = answer_request cookie request today now p"
| "process_step su fsm (JobDue SendDailySummary today) p = send_summary today p"
| "process_step su fsm (JobDue RefreshCalendar today) p = p\<lparr>pr_program := refresh_calendar su today (pr_program p)\<rparr>"

inductive reachable :: "surroundings \<Rightarrow> settings \<Rightarrow> 's fsm_port \<Rightarrow> world \<Rightarrow> 's process \<Rightarrow> bool"
  for su :: surroundings and st :: settings and fsm :: "'s fsm_port" and w :: world where
  launched: "main su st today = Inr pg \<Longrightarrow> reachable su st fsm w (launch conversations w pg)"
| arrived: "reachable su st fsm w p \<Longrightarrow> reachable su st fsm w (process_step su fsm ev p)"

subsection \<open>The wiring stays\<close>

definition wired :: "surroundings \<Rightarrow> settings \<Rightarrow> program \<Rightarrow> bool" where
  "wired su st pg \<longleftrightarrow> \<not> insecure st \<and> create_app su st = Inr (pg_web pg) \<and>
     (\<exists>slv today. build_dispatcher su st (build_parser su st) True (Some slv) today = Inr (pg_deployment pg))"

lemma wired_parts:
  assumes "wired su st pg"
  obtains ids slv today where "admin_id_set st = Inr ids"
    "pg_deployment pg = \<lparr>dp_services = wired_services su st (build_parser su st) (Some slv) True today, dp_admin_ids = ids,
       dp_team_chat = Some (se_team_chat_id st), dp_username = su_username su, dp_command = su_command su\<rparr>"
  using assms unfolding wired_def build_dispatcher_def res_simps by (metis sum.inject(2))

lemma main_wired: "main su st today = Inr pg \<Longrightarrow> wired su st pg"
  unfolding main_def wired_def ensure_secure_config_def Let_def res_simps by (cases "insecure st", simp, auto, blast)

lemma main_error:
  "main su st today = Inl e \<Longrightarrow>
    insecure st \<and> e = RuntimeError \<or> \<not> insecure st \<and> admin_id_set st = Inl e"
  by (auto simp: main_def ensure_secure_config_def build_dispatcher_def create_app_def Let_def res_simps split: if_splits)

lemma admin_ids_error: "admin_id_set st = Inl e \<Longrightarrow> e = ValueError"
proof -
  have "map_res int_res xs = Inl e \<Longrightarrow> e = ValueError" for xs
    by (induction xs) (auto simp: int_res_def res_simps split: option.splits)
  then show "admin_id_set st = Inl e \<Longrightarrow> e = ValueError" by (simp add: admin_id_set_def)
qed

lemma refresh_wired:
  assumes "wired su st pg" shows "wired su st (refresh_calendar su today pg)"
proof -
  from wired_parts [OF assms] obtain ids slv day where "admin_id_set st = Inr ids"
    "pg_deployment pg = \<lparr>dp_services = wired_services su st (build_parser su st) (Some slv) True day, dp_admin_ids = ids,
       dp_team_chat = Some (se_team_chat_id st), dp_username = su_username su, dp_command = su_command su\<rparr>" .
  then have "build_dispatcher su st (build_parser su st) True
      (Some (greedy_solver (su_networkx su) (load_calendar (su_days su) today))) day =
      Inr (pg_deployment (refresh_calendar su today pg))"
    by (simp add: refresh_calendar_def build_dispatcher_def wired_services_def Let_def)
  moreover have "pg_web (refresh_calendar su today pg) = pg_web pg" by (simp add: refresh_calendar_def Let_def)
  ultimately show ?thesis using assms unfolding wired_def by auto
qed

lemma requests_parts:
  "pr_program (answer_request cookie request today now p) = pr_program p"
  "process_db (answer_request cookie request today now p) =
    w_db (snd (serve (pg_web (pr_program p) today now) cookie request (ds_world (pr_bot p))))"
  by (simp_all add: answer_request_def on_world_def Let_def split: prod.split)

lemma summary_parts:
  "pr_program (send_summary today p) = pr_program p"
  "process_db (send_summary today p) = w_db (snd (daily_summary today (ds_world (pr_bot p))))"
  by (simp_all add: send_summary_def on_world_def split: prod.split sum.split option.split)

lemma step_program:
  "pr_program (process_step su fsm ev p) =
    (case ev of JobDue RefreshCalendar today \<Rightarrow> refresh_calendar su today (pr_program p) | _ \<Rightarrow> pr_program p)"
  by (cases "(su, fsm, ev, p)" rule: process_step.cases) (auto simp: requests_parts summary_parts)

lemma reachable_wired: "reachable su st fsm w p \<Longrightarrow> wired su st (pr_program p)"
  by (induction rule: reachable.induct)
    (auto simp: launch_def main_wired step_program intro: refresh_wired split: arrival.split job_action.split)

lemma wired_no_bare_model:
  assumes "wired su st pg" and "se_anthropic_api_key st = [] \<or> se_agent_enabled st \<and> h \<noteq> OnEditText"
  shows "no_bare_model (dp_services (pg_deployment pg)) h"
proof -
  from wired_parts [OF assms(1)] obtain slv today where
    "dp_services (pg_deployment pg) = wired_services su st (build_parser su st) (Some slv) True today"
    by (metis deployment.select_convs(1))
  then show ?thesis using assms(2)
    by (auto simp: no_bare_model_def wired_services_def build_parser_def wired_agent_def Let_def)
qed

subsection \<open>What the steps do to the database\<close>

lemma pure_daily_summary: "keeps P (daily_summary today)"
  unfolding daily_summary_def by (intro keep_intros)

lemma step_db:
  "process_db (process_step su fsm ev p) =
    (case ev of
       BotUpdate e \<Rightarrow> w_db (ds_world (process_update (pg_deployment (pr_program p)) fsm e (pr_bot p)))
     | WebRequest cookie request today now \<Rightarrow>
         w_db (snd (serve (pg_web (pr_program p) today now) cookie request (ds_world (pr_bot p))))
     | JobDue action today \<Rightarrow> process_db p)"
proof -
  have same: "w_db (snd (daily_summary today (ds_world (pr_bot p)))) = process_db p" for today
    using pure_daily_summary [of "\<lambda>d. d = process_db p" today] by (simp add: keeps_def)
  then show ?thesis by (cases "(su, fsm, ev, p)" rule: process_step.cases) (auto simp: requests_parts summary_parts)
qed

text \<open>A property that updates and requests keep holds of every reachable database.\<close>

lemma reachable_keeps:
  assumes "reachable su st fsm w p" and "P (w_db w)"
    and "\<And>d e s. P (w_db (ds_world s)) \<Longrightarrow> P (w_db (ds_world (process_update d fsm e s)))"
    and "\<And>env cookie request. keeps P (serve env cookie request)"
  shows "P (process_db p)"
  using assms(1)
proof induction
  case (launched today pg conversations)
  then show ?case using assms(2) by (simp add: launch_def)
next
  case (arrived p ev)
  with assms(3,4) show ?case by (simp add: step_db keeps_def split: arrival.split)
qed

lemma step_commits:
  assumes "commits (process_db (process_step su fsm ev p)) \<noteq> commits (process_db p)"
  obtains e where "ev = BotUpdate e"
    "commits (w_db (ds_world (process_update (pg_deployment (pr_program p)) fsm e (pr_bot p)))) \<noteq> commits (process_db p)"
proof (cases ev)
  case (WebRequest cookie request today now)
  with assms web_committed.serve_keeps [of "commits (process_db p)" "pg_web (pr_program p) today now" cookie request]
  show ?thesis unfolding step_db keeps_def by auto
qed (use assms that in \<open>auto simp: step_db\<close>)

end
