(* ===== verification/Web_Sessions.thy ===== *)
theory Web_Sessions
  imports Process
begin

section \<open>Sessions of the web server\<close>

text \<open>
  Where the cookies of a running process come from: each was set in answer to a login, whose checks held
  in the state the process was in then; and what such a login says of who is behind it.
\<close>

subsection \<open>Logins\<close>

definition verified_admin :: "surroundings \<Rightarrow> settings \<Rightarrow> db \<Rightarrow> web_request \<Rightarrow> rat \<Rightarrow> bool" where
  "verified_admin su st d request now \<longleftrightarrow>
     (case request of
        GetDevLogin host \<Rightarrow> se_debug st \<and> host \<in> set LOOPBACK_HOSTS
      | GetTelegramLogin data \<Rightarrow>
          dict_get data (ascii ''hash'') = Some (su_hmac su (se_bot_token st) (check_string data)) \<and>
          (\<exists>t n. dict_get data (ascii ''auth_date'') = Some t \<and> py_int t = Some n \<and> now - of_int n \<le> AUTH_MAX_AGE) \<and>
          (\<exists>i tg ids. dict_get data (ascii ''id'') = Some i \<and> py_int i = Some tg \<and> admin_id_set st = Inr ids \<and>
            (tg \<in> set ids \<or> (\<exists>p \<in> set (db_people d). pr_tg_user_id p = Some tg \<and> pr_is_admin p)))
      | _ \<Rightarrow> False)"

definition web_env_of :: "surroundings \<Rightarrow> settings \<Rightarrow> int list \<Rightarrow> date \<Rightarrow> rat \<Rightarrow> web_env" where
  "web_env_of su st ids today now =
     \<lparr>we_encode = (\<lambda>c. create_jwt (su_jwt su) now c (se_jwt_secret st)),
      we_decode = (\<lambda>token. decode_jwt (su_jwt su) now token (se_jwt_secret st)), we_hmac = su_hmac su,
      we_bot_token = se_bot_token st, we_admin_ids = ids, we_debug = se_debug st, we_today = today, we_now = now\<rparr>"

lemma wired_web:
  assumes "wired su st pg"
  obtains ids where "admin_id_set st = Inr ids" "pg_web pg = web_env_of su st ids"
proof -
  obtain ids where ids: "admin_id_set st = Inr ids" by (rule wired_parts [OF assms])
  with assms have "pg_web pg = web_env_of su st ids"
    by (simp add: wired_def create_app_def fun_eq_iff web_env_of_def)
  with ids show ?thesis by (rule that)
qed

lemma web_env_of_simps [simp]:
  "we_encode (web_env_of su st ids today now) c = create_jwt (su_jwt su) now c (se_jwt_secret st)"
  "we_decode (web_env_of su st ids today now) t = decode_jwt (su_jwt su) now t (se_jwt_secret st)"
  "we_hmac (web_env_of su st ids today now) = su_hmac su" "we_bot_token (web_env_of su st ids today now) = se_bot_token st"
  "we_admin_ids (web_env_of su st ids today now) = ids" "we_debug (web_env_of su st ids today now) = se_debug st"
  "we_now (web_env_of su st ids today now) = now"
  by (simp_all add: web_env_of_def)

text \<open>What a login that starts a session has checked.\<close>

lemma session_from_login:
  assumes "serve env cookie request w = (Inr (StartSession user secure), w')"
  obtains (dev) host where "request = GetDevLogin host" "we_debug env" "host \<in> set LOOPBACK_HOSTS"
      "user = [(ascii ''sub'', JStr (ascii ''dev'')), (ascii ''name'', JStr (ascii ''Dev Admin'')),
        (ascii ''tg_id'', JInt 0), (ascii ''is_admin'', JBool True)]"
  | (telegram) data i tg where "request = GetTelegramLogin data" "verify_telegram_login env data = Inr True"
      "dict_get data (ascii ''id'') = Some i" "py_int i = Some tg"
      "user = login_claims env data tg (map_option person_record_of (get_row pr_tg_user_id (Some tg) (db_people (w_db w))))"
proof -
  note route = served_session [OF assms]
  from session_requests [OF route] show thesis
  proof
    assume "\<exists>host. request = GetDevLogin host"
    then obtain host where host: "request = GetDevLogin host" by blast
    from route [unfolded host route.simps] have
      "we_debug env" "host \<in> set LOOPBACK_HOSTS"
      "user = [(ascii ''sub'', JStr (ascii ''dev'')), (ascii ''name'', JStr (ascii ''Dev Admin'')),
        (ascii ''tg_id'', JInt 0), (ascii ''is_admin'', JBool True)]"
      by (auto simp: lift_res_def dev_login_def split: if_splits)
    with host show thesis by (rule dev)
  next
    assume "\<exists>data. request = GetTelegramLogin data"
    then obtain data where data: "request = GetTelegramLogin data" by blast
    obtain i tg where "verify_telegram_login env data = Inr True" "dict_get data (ascii ''id'') = Some i" "py_int i = Some tg"
      "user = login_claims env data tg (map_option person_record_of (get_row pr_tg_user_id (Some tg) (db_people (w_db w))))"
      by (rule logged_in [OF route [unfolded data route.simps]])
    then show thesis by (rule telegram [OF data])
  qed
qed

lemma session_flat: "serve env cookie request w = (Inr (StartSession user secure), w') \<Longrightarrow> flat_claims user"
  by (erule session_from_login) (auto simp: flat_claims_def login_claims_def Let_def split: option.split)

lemma session_admin:
  assumes "serve (web_env_of su st ids today now) cookie request w = (Inr (StartSession user secure), w')"
    and "truthy (claim ''is_admin'' user)" and "admin_id_set st = Inr ids"
  shows "verified_admin su st (w_db w) request now"
  using assms(1)
proof (cases rule: session_from_login)
  case (dev host)
  then show ?thesis by (simp add: verified_admin_def)
next
  case (telegram data i tg)
  from login_admin [OF assms(2) [unfolded telegram(5)] refl] have
    "tg \<in> set ids \<or> (\<exists>p \<in> set (db_people (w_db w)). pr_tg_user_id p = Some tg \<and> pr_is_admin p)"
    by (simp add: admin_account_def)
  moreover from verified_login [OF telegram(2)] obtain t where
    "dict_get data (ascii ''hash'') = Some (su_hmac su (se_bot_token st) (check_string data))"
    "dict_get data (ascii ''auth_date'') = Some t" "auth_fresh now data" by (metis web_env_of_simps(3,4,7))
  moreover from this have "\<exists>n. py_int t = Some n \<and> now - of_int n \<le> AUTH_MAX_AGE"
    by (auto simp: auth_fresh_def split: option.splits)
  ultimately show ?thesis using telegram(1,3,4) assms(3) by (auto simp: verified_admin_def)
qed

subsection \<open>The sessions of a run\<close>

definition login_of :: "surroundings \<Rightarrow> settings \<Rightarrow> 's process \<Rightarrow> issued_session \<Rightarrow> bool" where
  "login_of su st q s \<longleftrightarrow>
     (\<exists>ids today cookie secure w'. admin_id_set st = Inr ids \<and>
        serve (web_env_of su st ids today (is_now s)) cookie (is_request s) (ds_world (pr_bot q)) =
          (Inr (StartSession (is_claims s) secure), w') \<and>
        is_token s = create_jwt (su_jwt su) (is_now s) (is_claims s) (se_jwt_secret st))"

lemma sessions_of_serve:
  assumes "s \<in> set (sessions_of env request now r)"
  shows "\<exists>secure. r = Inr (StartSession (is_claims s) secure) \<and> is_request s = request \<and> is_now s = now \<and>
    is_token s = we_encode env (is_claims s)"
  using assms by (auto simp: sessions_of_def split: sum.splits web_reply.splits)

lemma step_sessions:
  "pr_sessions (process_step su fsm ev p) =
    (case ev of
       WebRequest cookie request today now \<Rightarrow> pr_sessions p @
         sessions_of (pg_web (pr_program p) today now) request now
           (fst (serve (pg_web (pr_program p) today now) cookie request (ds_world (pr_bot p))))
     | _ \<Rightarrow> pr_sessions p)"
  by (cases "(su, fsm, ev, p)" rule: process_step.cases)
    (auto simp: answer_request_def send_summary_def on_world_def Let_def split: prod.split sum.split option.split)

lemma sessions_by_login:
  assumes "reachable su st fsm w p" and "s \<in> set (pr_sessions p)"
  shows "\<exists>q. reachable su st fsm w q \<and> login_of su st q s"
  using assms
proof induction
  case (launched today pg conversations)
  then show ?case by (simp add: launch_def)
next
  case (arrived p ev)
  show ?case
  proof (cases "s \<in> set (pr_sessions p)")
    case True
    with arrived.IH show ?thesis .
  next
    case False
    with arrived.prems obtain cookie request today now where ev: "ev = WebRequest cookie request today now"
      and new: "s \<in> set (sessions_of (pg_web (pr_program p) today now) request now
        (fst (serve (pg_web (pr_program p) today now) cookie request (ds_world (pr_bot p)))))"
      by (cases ev) (auto simp: step_sessions simp del: process_step.simps)
    obtain ids where ids: "admin_id_set st = Inr ids" and env: "pg_web (pr_program p) = web_env_of su st ids"
      by (rule wired_web [OF reachable_wired [OF arrived.hyps]])
    from sessions_of_serve [OF new] obtain secure where
      "fst (serve (web_env_of su st ids today (is_now s)) cookie (is_request s) (ds_world (pr_bot p))) =
        Inr (StartSession (is_claims s) secure)"
      "is_token s = create_jwt (su_jwt su) (is_now s) (is_claims s) (se_jwt_secret st)" by (auto simp: env)
    with ids arrived.hyps show ?thesis unfolding login_of_def by (metis prod.collapse)
  qed
qed

text \<open>A request that writes presents a token that is valid now and carries the rights.\<close>

lemma write_presents_token:
  assumes "w_db (snd (serve (web_env_of su st ids today now) cookie request w)) \<noteq> w_db w"
  obtains token user where "is_form request" "cookie = Some token"
    "decode_jwt (su_jwt su) now token (se_jwt_secret st) = Some user" "truthy (claim ''is_admin'' user)"
proof -
  have "is_form request \<and> \<not> isl (require_admin (web_env_of su st ids today now) cookie)"
    using assms serve_reads by metis
  then show thesis
    by (auto simp: require_admin_def current_user_def isl_def res_simps intro: that split: option.splits if_splits)
qed

lemma presented_session:
  assumes "jwt_documented (su_jwt su)" and "login_of su st q s"
    and "decode_jwt (su_jwt su) now (is_token s) (se_jwt_secret st) = Some user" and "truthy (claim ''is_admin'' user)"
  shows "now < is_now s + 43200 \<and> truthy (claim ''is_admin'' (is_claims s)) \<and>
    verified_admin su st (process_db q) (is_request s) (is_now s)"
proof -
  obtain ids today cookie secure w' where ids: "admin_id_set st = Inr ids"
    and served: "serve (web_env_of su st ids today (is_now s)) cookie (is_request s) (ds_world (pr_bot q)) =
      (Inr (StartSession (is_claims s) secure), w')"
    and token: "is_token s = create_jwt (su_jwt su) (is_now s) (is_claims s) (se_jwt_secret st)"
    using assms(2) unfolding login_of_def by blast
  from assms(3) decode_created [OF assms(1) session_flat [OF served], of now "is_now s" "se_jwt_secret st"]
  have now: "now < of_int \<lfloor>is_now s + 43200\<rfloor>"
    and user: "user = dict_set (ascii ''exp'') (JInt \<lfloor>is_now s + 43200\<rfloor>) (is_claims s)"
    by (auto simp: token split: if_splits)
  have "now < is_now s + 43200" using now of_int_floor_le [of "is_now s + 43200"] by linarith
  moreover have rights: "truthy (claim ''is_admin'' (is_claims s))"
    using assms(4) by (simp add: user claim_def dict_get_default_def dict_get_set)
  moreover have "verified_admin su st (process_db q) (is_request s) (is_now s)"
    by (rule session_admin [OF served rights ids])
  ultimately show ?thesis by blast
qed

end
