(* ===== verification/Task_Correct.thy ===== *)
theory Task_Correct
  imports Task_Use_Cases Networkx_Port
begin

section \<open>Correctness of the task use cases\<close>

text \<open>
  What a vacation writes, why capturing a message twice stores one task, and what marking a task
  changes.
\<close>

subsection \<open>Vacations\<close>

definition override_of :: "db \<Rightarrow> uuid \<Rightarrow> date \<Rightarrow> int option" where
  "override_of d pid day =
     map_option do_capacity_h (get_row (\<lambda>r. (do_person_id r, do_day r)) (pid, day) (db_overrides d))"

lemma upsert_run:
  assumes "has_person (w_db w) pid"
  shows "\<exists>w'. upsert_day_override pid day c r w = (Inr (), w') \<and> has_person (w_db w') = has_person (w_db w) \<and>
    (\<forall>q e. override_of (w_db w') q e = (if q = pid \<and> e = day then Some c else override_of (w_db w) q e))"
proof -
  let ?key = "\<lambda>r. (do_person_id r, do_day r)"
  let ?g = "\<lambda>q. if ?key q = (pid, day) then q\<lparr>do_capacity_h := c, do_reason := r\<rparr> else q"
  show ?thesis
  proof (cases "get_row ?key (pid, day) (db_overrides (w_db w))")
    case None
    let ?new = "\<lparr>do_person_id = pid, do_day = day, do_capacity_h = c, do_reason = r\<rparr>"
    have "upsert_day_override pid day c r w =
        (Inr (), w\<lparr>w_db := (w_db w)\<lparr>db_overrides := db_overrides (w_db w) @ [?new]\<rparr>\<rparr>)"
      using None assms by (simp add: upsert_day_override_def transaction_def ensure_def Let_def)
    moreover have "override_of ((w_db w)\<lparr>db_overrides := db_overrides (w_db w) @ [?new]\<rparr>) q e =
        (if q = pid \<and> e = day then Some c else override_of (w_db w) q e)" for q e
      using None by (cases "get_row ?key (q, e) (db_overrides (w_db w))")
        (auto simp: override_of_def get_row_append)
    ultimately show ?thesis by simp
  next
    case (Some row)
    have "upsert_day_override pid day c r w =
        (Inr (), w\<lparr>w_db := (w_db w)\<lparr>db_overrides := map ?g (db_overrides (w_db w))\<rparr>\<rparr>)"
      using Some by (simp add: upsert_day_override_def transaction_def Let_def update_row_def)
    moreover have "override_of ((w_db w)\<lparr>db_overrides := map ?g (db_overrides (w_db w))\<rparr>) q e =
        (if q = pid \<and> e = day then Some c else override_of (w_db w) q e)" for q e
    proof -
      have "get_row ?key (q, e) (map ?g (db_overrides (w_db w))) =
          map_option ?g (get_row ?key (q, e) (db_overrides (w_db w)))"
        by (rule get_row_map) simp
      moreover have "?key u = (q, e)" if "get_row ?key (q, e) (db_overrides (w_db w)) = Some u" for u
        using get_row_SomeD [OF that] by simp
      ultimately show ?thesis using Some
        by (cases "get_row ?key (q, e) (db_overrides (w_db w))") (auto simp: override_of_def)
    qed
    ultimately show ?thesis by simp
  qed
qed

lemma vacation_days_run:
  assumes "has_person (w_db w) pid"
  shows "\<exists>w'. vacation_days pid c day day_to n w = (Inr (n + max 0 (day_to - day + 1)), w') \<and>
    has_person (w_db w') = has_person (w_db w) \<and>
    (\<forall>q e. override_of (w_db w') q e =
      (if q = pid \<and> day \<le> e \<and> e \<le> day_to then Some c else override_of (w_db w) q e))"
  using assms
proof (induction "nat (day_to + 1 - day)" arbitrary: day n w rule: less_induct)
  case less
  show ?case
  proof (cases "day \<le> day_to")
    case False
    then show ?thesis by (subst vacation_days.simps) (auto simp: ret_def)
  next
    case True
    obtain w1 where w1: "upsert_day_override pid day c (Some (ascii ''vacation'')) w = (Inr (), w1)"
      "has_person (w_db w1) = has_person (w_db w)"
      "\<forall>q e. override_of (w_db w1) q e = (if q = pid \<and> e = day then Some c else override_of (w_db w) q e)"
      using upsert_run [OF less.prems] by blast
    have "vacation_days pid c day day_to n w = vacation_days pid c (day + 1) day_to (n + 1) w1"
      using True w1(1) by (subst vacation_days.simps) (simp add: bind_proc_def)
    moreover have split: "day \<le> e \<longleftrightarrow> e = day \<or> day + 1 \<le> e" for e by auto
    ultimately show ?thesis using less.hyps [of "day + 1" w1 "n + 1"] less.prems True w1(2,3)
      by (auto simp: split)
  qed
qed

lemma set_vacation_success:
  assumes "va_day_from i \<le> va_day_to i" "va_day_to i - va_day_from i + 1 \<le> 60"
    and "0 \<le> va_capacity_h i" "va_capacity_h i \<le> 12"
    and "find_person_by_name (w_db w) (va_person_name i) = Some person"
    and "has_person (w_db w) (pp_id person)" "opt_ok (has_person (w_db w)) actor_id"
  shows "\<exists>w'. set_vacation i actor_id True w = (Inr (va_day_to i - va_day_from i + 1), w') \<and>
    (\<forall>q e. override_of (w_db w') q e =
      (if q = pp_id person \<and> va_day_from i \<le> e \<and> e \<le> va_day_to i then Some (va_capacity_h i)
       else override_of (w_db w) q e))"
proof -
  obtain w1 where w1: "vacation_days (pp_id person) (va_capacity_h i) (va_day_from i) (va_day_to i) 0 w =
      (Inr (va_day_to i - va_day_from i + 1), w1)" "has_person (w_db w1) = has_person (w_db w)"
    "\<forall>q e. override_of (w_db w1) q e =
      (if q = pp_id person \<and> va_day_from i \<le> e \<and> e \<le> va_day_to i then Some (va_capacity_h i)
       else override_of (w_db w) q e)"
    using vacation_days_run [OF assms(6), of "va_capacity_h i" "va_day_from i" "va_day_to i" 0] assms(1) by auto
  let ?row = "\<lparr>au_created_at = w_now w1, au_actor_id = actor_id, au_action = ascii ''set_vacation'',
    au_entity_type = ascii ''day_override'', au_entity_id = Some (pp_id person),
    au_payload = Some (jobj [(''from'', JStr (isoformat (va_day_from i))),
      (''to'', JStr (isoformat (va_day_to i))), (''capacity_h'', JInt (va_capacity_h i))])\<rparr>"
  have "set_vacation i actor_id True w = (Inr (va_day_to i - va_day_from i + 1),
      w1\<lparr>w_db := (w_db w1)\<lparr>db_audit := db_audit (w_db w1) @ [?row]\<rparr>\<rparr>)"
    using assms w1(1,2)
    by (simp add: set_vacation_def Let_def MAX_VACATION_DAYS_def MIN_CAPACITY_H_def MAX_CAPACITY_H_def
        bind_proc_def get_person_by_name_def query_def add_audit_def transaction_def ensure_def ret_def)
  moreover have "override_of ((w_db w1)\<lparr>db_audit := db_audit (w_db w1) @ [?row]\<rparr>) = override_of (w_db w1)"
    by (simp add: override_of_def fun_eq_iff)
  ultimately show ?thesis using w1(3) by simp
qed

lemma set_vacation_rejects:
  assumes "\<not> adm \<or> va_day_to i < va_day_from i \<or> 60 < va_day_to i - va_day_from i + 1 \<or>
    va_capacity_h i < 0 \<or> 12 < va_capacity_h i \<or> find_person_by_name (w_db w) (va_person_name i) = None"
  shows "\<exists>e. set_vacation i actor_id adm w = (Inl e, w)"
  using assms
  by (auto simp: set_vacation_def Let_def MAX_VACATION_DAYS_def MIN_CAPACITY_H_def MAX_CAPACITY_H_def raise_def
      bind_proc_def get_person_by_name_def query_def not_le)

subsection \<open>Marking a task\<close>

lemma quiet_tick: "quiet (tick_notion sink t)"
proof (cases sink)
  case (Some s)
  show ?thesis
    unfolding quiet_def
  proof
    fix w
    show "\<exists>x w'. tick_notion sink t w = (Inr x, w') \<and> w_db w' = w_db w"
      by (auto simp: tick_notion_def Some catch_def bind_proc_def list_tasks_with_meta_def query_def ret_def
          get_project_by_title_def call_sink_def split: option.split sum.split)
  qed
qed (simp add: tick_notion_def)

lemma mark_task_done_run:
  assumes "status \<in> set ALLOWED_STATUSES" "opt_ok (has_person (w_db w)) actor_id"
  shows "\<exists>w'. mark_task_done sink t actor_id True status w = (Inr (), w') \<and>
    db_tasks (w_db w') = update_row tk_id t (\<lambda>r. r\<lparr>tk_status := status\<rparr>) (db_tasks (w_db w)) \<and>
    length (db_audit (w_db w')) = Suc (length (db_audit (w_db w)))"
proof -
  define d where "d = (w_db w)\<lparr>db_tasks := update_row tk_id t (\<lambda>r. r\<lparr>tk_status := status\<rparr>) (db_tasks (w_db w)),
    db_audit := db_audit (w_db w) @ [\<lparr>au_created_at = w_now w, au_actor_id = actor_id,
      au_action = ascii ''mark_task'', au_entity_type = ascii ''task'', au_entity_id = Some t,
      au_payload = Some (jobj [(''status'', JStr status)])\<rparr>]\<rparr>"
  have run: "mark_task_done sink t actor_id True status w =
      (if status = ascii ''done'' then tick_notion sink t else ret ()) (w\<lparr>w_db := d\<rparr>)"
    using assms by (simp add: mark_task_done_def set_task_status_def transaction_def bind_proc_def add_audit_def
        ensure_def d_def)
  obtain w' where "(if status = ascii ''done'' then tick_notion sink t else ret ()) (w\<lparr>w_db := d\<rparr>) = (Inr (), w')"
    "w_db w' = d"
  proof (cases "status = ascii ''done''")
    case True
    from quietE [OF quiet_tick [of sink t], of "w\<lparr>w_db := d\<rparr>"] obtain x w' where
      "tick_notion sink t (w\<lparr>w_db := d\<rparr>) = (Inr x, w')" "w_db w' = d" by auto
    with True that show thesis by simp
  qed (auto simp: ret_def)
  with run show ?thesis by (intro exI [of _ w']) (simp add: d_def)
qed

subsection \<open>Capturing\<close>

text \<open>The tables of tasks and projects, and procedures that leave both alone.\<close>

definition same_tables :: "db \<Rightarrow> db \<Rightarrow> bool" where
  "same_tables c d \<longleftrightarrow> db_tasks d = db_tasks c \<and> db_projects d = db_projects c"

lemma same_tables_assign [keep_intros]: "keeps (same_tables c) (assign_task t p h)"
  unfolding assign_task_def Let_def
  by (rule keeps_transaction)
    (auto simp: same_tables_def insert_assignment_def res_simps split: option.splits)

lemma same_tables_audit [keep_intros]: "keeps (same_tables c) (add_audit a x ty i p)"
  unfolding add_audit_def by (rule keeps_transaction) (auto simp: same_tables_def res_simps)

lemma same_tables_assign_one [keep_intros]: "keeps (same_tables c) (assign_one t h n ns)"
  unfolding assign_one_def by (intro keep_intros)

lemma find_append: "find P (xs @ ys) = (case find P xs of None \<Rightarrow> find P ys | Some x \<Rightarrow> Some x)"
  by (induction xs) auto

lemma resolve_project_run:
  assumes "resolve_project n a w = (Inr p, w1)"
  shows "\<exists>q. find (\<lambda>q. lower (pj_title q) = lower (capture_target n)) (db_projects (w_db w1)) = Some q \<and>
    pj_id q = jr_id p \<and> db_tasks (w_db w1) = db_tasks (w_db w)"
proof (cases "find (\<lambda>q. lower (pj_title q) = lower (capture_target n)) (db_projects (w_db w))")
  case (Some q)
  with assms show ?thesis
    by (auto simp: resolve_project_def bind_proc_def get_project_by_title_def query_def ret_def project_record_of_def)
next
  case None
  from None assms show ?thesis
    by (auto simp: resolve_project_def bind_proc_def get_project_by_title_def query_def ret_def find_append
        create_project_def uuid4_def transaction_def insert_project_def ensure_def project_record_of_def
        split: if_splits)
qed

lemma resolve_existing:
  assumes "find (\<lambda>q. lower (pj_title q) = lower (capture_target n)) (db_projects (w_db w)) = Some q"
  shows "resolve_project n a w = (Inr (project_record_of q), w)"
  using assms by (simp add: resolve_project_def bind_proc_def get_project_by_title_def query_def ret_def)

lemma find_duplicate_run:
  "find_duplicate p t w = (Inr (find (same_open_task t) (project_task_records (w_db w) p)), w)"
  by (simp add: find_duplicate_def bind_proc_def list_project_tasks_def query_def ret_def)

text \<open>
  The open task a message duplicates, as the second reading of the message finds it.
\<close>

definition duplicate_of :: "db \<Rightarrow> capture_task_intent \<Rightarrow> task_record option" where
  "duplicate_of d i =
     (case find (\<lambda>q. lower (pj_title q) = lower (capture_target (ct_project_name i))) (db_projects d) of
        None \<Rightarrow> None
      | Some q \<Rightarrow> find (same_open_task (ct_task_title i)) (project_task_records d (pj_id q)))"

lemma duplicate_of_cong: "same_tables c d \<Longrightarrow> duplicate_of d i = duplicate_of c i"
  by (simp add: duplicate_of_def same_tables_def project_task_records_def cong: option.case_cong)

lemma capture_duplicate:
  assumes "duplicate_of (w_db w) i = Some t"
  shows "\<exists>r. capture_task sink i a w = (Inr r, w) \<and> cu_is_duplicate r \<and> cu_task_id r = Some (tr_id t)"
proof -
  obtain q where q: "find (\<lambda>q. lower (pj_title q) = lower (capture_target (ct_project_name i))) (db_projects (w_db w)) = Some q"
    "find (same_open_task (ct_task_title i)) (project_task_records (w_db w) (pj_id q)) = Some t"
    using assms by (auto simp: duplicate_of_def split: option.splits)
  then show ?thesis
    by (simp add: capture_task_def bind_proc_def resolve_existing [OF q(1)] find_duplicate_run ret_def
        project_record_of_def)
qed

lemma find_unique:
  assumes "x \<in> set xs" "P x" "\<And>y. y \<in> set xs \<Longrightarrow> P y \<Longrightarrow> y = x"
  shows "find P xs = Some x"
proof (cases "find P xs")
  case None
  with assms(1,2) show ?thesis by (simp add: find_None_iff)
next
  case (Some y)
  with find_SomeD [OF Some] assms(3) [of y] show ?thesis by simp
qed

lemma same_tables_capture_rest:
  "keeps (same_tables c) (for_each (assign_one t d) ns ms)"
  "keeps (same_tables c) (push_captured sink st)"
  unfolding push_captured_def by (intro keep_intros)+

lemma find_captured:
  assumes "find (same_open_task title) (project_task_records d p) = None"
    and "db_tasks e = db_tasks d @ [captured_row i p title h dl ts sk]"
  shows "\<exists>t. find (same_open_task title) (project_task_records e p) = Some t \<and> tr_id t = i"
proof (intro exI conjI)
  let ?row = "task_record_of (captured_row i p title h dl ts sk)"
  show "find (same_open_task title) (project_task_records e p) = Some ?row"
  proof (rule find_unique)
    show "?row \<in> set (project_task_records e p)"
      using assms(2) by (simp add: project_task_records_def captured_row_def)
    show "same_open_task title ?row"
      by (simp add: same_open_task_def task_record_of_def captured_row_def)
    show "y = ?row" if "y \<in> set (project_task_records e p)" "same_open_task title y" for y
      using that assms by (auto simp: project_task_records_def find_None_iff captured_row_def split: if_splits)
  qed
qed (simp add: task_record_of_def captured_row_def)

lemma capture_task_run:
  assumes "capture_task sink i a w = (Inr r, w1)"
  shows "\<exists>t. duplicate_of (w_db w1) i = Some t \<and> cu_task_id r = Some (tr_id t)"
proof -
  obtain p w2 where p: "resolve_project (ct_project_name i) a w = (Inr p, w2)"
    using assms by (auto simp: capture_task_def proc_simps)
  then obtain q where q: "find (\<lambda>q. lower (pj_title q) = lower (capture_target (ct_project_name i)))
      (db_projects (w_db w2)) = Some q" "pj_id q = jr_id p"
    using resolve_project_run [OF p] by blast
  show ?thesis
  proof (cases "find (same_open_task (ct_task_title i)) (project_task_records (w_db w2) (jr_id p))")
    case (Some t)
    then have "r = \<lparr>cu_task_title = tr_name t, cu_project_title = jr_title p, cu_assignee_names = [],
          cu_deadline_iso = map_option isoformat (tr_end_date t), cu_notion_url = None,
          cu_task_id = Some (tr_id t), cu_duration_hours = tr_duration_hours t, cu_is_duplicate = True\<rparr>"
      "w1 = w2"
      using assms p by (simp_all add: capture_task_def bind_proc_def find_duplicate_run ret_def)
    with Some q show ?thesis by (simp add: duplicate_of_def)
  next
    case None
    define row where "row = (\<lambda>u. captured_row u (jr_id p) (ct_task_title i) (capture_duration (ct_est_hours i))
      (ct_deadline i) (ct_time_start i) (ct_required_skills i))"
    let ?u = "w_uuid w2 (w_next w2)"
    obtain d3 names w4 w5 url where d3: "insert_task (row ?u) (w_db w2) = Inr d3"
      and names: "for_each (assign_one ?u (capture_duration (ct_est_hours i))) (ct_assignee_names i) []
        (w2\<lparr>w_next := Suc (w_next w2), w_db := d3\<rparr>) = (Inr names, w4)"
      and audit: "add_audit (map_option pp_id a) (ascii ''capture_task'') (ascii ''task'') (Some ?u)
        (Some (jobj [(''title'', JStr (ct_task_title i)), (''project'', JStr (jr_title p)),
          (''assignees'', JList (map JStr names))])) w4 = (Inr (), w5)"
      and push: "push_captured sink \<lparr>st_title = ct_task_title i, st_assignees = names,
        st_project = Some (jr_title p), st_deadline = ct_deadline i, st_time_start = ct_time_start i\<rparr> w5 =
        (Inr url, w1)"
      and r: "cu_task_id r = Some ?u"
      using assms p None
      by (auto simp: capture_task_def bind_proc_Inr find_duplicate_run ret_run uuid4_run Let_def create_task_def
          transaction_Inr res_simps row_def)
    have "same_tables d3 (w_db w4)" by (rule keepsD [OF same_tables_capture_rest(1) _ names]) (simp add: same_tables_def)
    then have "same_tables d3 (w_db w5)" by (rule keepsD [OF same_tables_audit _ audit])
    then have same: "same_tables d3 (w_db w1)" by (rule keepsD [OF same_tables_capture_rest(2) _ push])
    have "db_tasks d3 = db_tasks (w_db w2) @ [row ?u]" and projects: "db_projects d3 = db_projects (w_db w2)"
      using d3 by (auto simp: insert_task_def res_simps)
    from find_captured [OF None this(1) [unfolded row_def]] obtain t where
      "find (same_open_task (ct_task_title i)) (project_task_records d3 (jr_id p)) = Some t" "tr_id t = ?u" by blast
    with q projects have "duplicate_of d3 i = Some t" by (simp add: duplicate_of_def)
    with same \<open>tr_id t = ?u\<close> r show ?thesis by (simp add: duplicate_of_cong)
  qed
qed

end
