(* ===== verification/Add_Project_Correct.thy ===== *)
theory Add_Project_Correct
  imports Add_Project
begin

section \<open>Correctness of adding a project\<close>

text \<open>
  The copy of a template has fresh ids and the template's dependency graph; a successful run stores
  exactly the project, its scheduled tasks, one proposed plan version and one audit row; a rejected
  one stores nothing; the Notion card changes neither the outcome nor any other table.
\<close>

subsection \<open>Fresh ids\<close>

lemma next_id_run: "bind_proc uuid4 (\<lambda>i. ret (f i)) w = (Inr (f (w_uuid w (w_next w))), w\<lparr>w_next := Suc (w_next w)\<rparr>)"
  by (simp add: bind_proc_def uuid4_def ret_def)

lemma bind_run: "m w = (Inr x, w1) \<Longrightarrow> bind_proc m f w = f x w1"
  by (simp add: bind_proc_def)

lemma fresh_ids_from:
  assumes "distinct (map ts_ord specs)"
  shows "\<exists>m. for_each (\<lambda>spec d. bind_proc uuid4 (\<lambda>i. ret (dict_set (ts_ord spec) i d))) specs d w =
      (Inr m, w\<lparr>w_next := w_next w + length specs\<rparr>) \<and>
    (\<forall>k < length specs. dict_get m (ts_ord (specs ! k)) = Some (w_uuid w (w_next w + k))) \<and>
    (\<forall>o'. o' \<notin> ts_ord ` set specs \<longrightarrow> dict_get m o' = dict_get d o')"
  using assms
proof (induction specs arbitrary: d w)
  case Nil
  then show ?case by (simp add: ret_def)
next
  case (Cons s specs)
  let ?w = "w\<lparr>w_next := Suc (w_next w)\<rparr>" and ?d = "dict_set (ts_ord s) (w_uuid w (w_next w)) d"
  from Cons.prems have "distinct (map ts_ord specs)" by simp
  from Cons.IH [OF this, of ?d ?w] obtain m where m:
    "for_each (\<lambda>spec d. bind_proc uuid4 (\<lambda>i. ret (dict_set (ts_ord spec) i d))) specs ?d ?w =
      (Inr m, ?w\<lparr>w_next := w_next ?w + length specs\<rparr>)"
    "\<forall>k < length specs. dict_get m (ts_ord (specs ! k)) = Some (w_uuid w (Suc (w_next w) + k))"
    "\<forall>o'. o' \<notin> ts_ord ` set specs \<longrightarrow> dict_get m o' = dict_get ?d o'"
    by auto
  from Cons.prems have "ts_ord s \<notin> ts_ord ` set specs" by simp
  with m(3) have "dict_get m (ts_ord s) = Some (w_uuid w (w_next w))" by (simp add: dict_simps)
  with m show ?case
    by (intro exI [of _ m])
      (auto simp: bind_run [OF next_id_run] less_Suc_eq_0_disj dict_simps)
qed

definition template_ids :: "world \<Rightarrow> template_task_spec list \<Rightarrow> int \<Rightarrow> uuid" where
  "template_ids w specs o' =
     (case find (\<lambda>k. ts_ord (specs ! k) = o') [0..<length specs] of
        None \<Rightarrow> 0 | Some k \<Rightarrow> w_uuid w (w_next w + k))"

lemma template_ids_nth:
  assumes "distinct (map ts_ord specs)" "k < length specs"
  shows "template_ids w specs (ts_ord (specs ! k)) = w_uuid w (w_next w + k)"
proof (cases "find (\<lambda>j. ts_ord (specs ! j) = ts_ord (specs ! k)) [0..<length specs]")
  case None
  with assms(2) show ?thesis by (auto simp: find_None_iff)
next
  case (Some j)
  from find_SomeD [OF Some] assms have "j = k" by (auto simp: distinct_conv_nth)
  with Some show ?thesis by (simp add: template_ids_def)
qed

text \<open>What a spec becomes when the ords are replaced by ids.\<close>

definition task_of_spec :: "uuid \<Rightarrow> (int \<Rightarrow> uuid) \<Rightarrow> template_task_spec \<Rightarrow> task" where
  "task_of_spec pid ids spec =
     (task_default (ids (ts_ord spec)) (ts_name spec) (ts_duration_hours spec) (ts_allowed_person_ids spec))
       \<lparr>t_project_id := Some pid, t_is_splittable := ts_is_splittable spec,
        t_pair_mode := ts_pair_mode spec, t_duration_is_window := ts_duration_is_window spec,
        t_source := ascii ''template''\<rparr>"

definition dep_of_spec :: "(int \<Rightarrow> uuid) \<Rightarrow> template_task_spec \<Rightarrow> nat \<Rightarrow> dependency" where
  "dep_of_spec ids spec i =
     \<lparr>d_task_id = ids (ts_ord spec), d_depends_on_id = ids (ts_depends_on_ords spec ! i),
      d_link_type = (if i < length (ts_link_types spec) then ts_link_types spec ! i else ascii ''FS''),
      d_lag_working_days = (if i < length (ts_dep_lags spec) then ts_dep_lags spec ! i else 0)\<rparr>"

lemma instantiate_template_run:
  fixes w :: world
  assumes ords: "distinct (map ts_ord (pt_tasks tpl))"
    and known: "\<forall>s \<in> set (pt_tasks tpl). set (ts_depends_on_ords s) \<subseteq> ts_ord ` set (pt_tasks tpl)"
  defines "ids \<equiv> template_ids w (pt_tasks tpl)"
  shows "instantiate_template tpl pid w =
    (Inr (map (task_of_spec pid ids) (pt_tasks tpl),
       concat (map (\<lambda>s. map (dep_of_spec ids s) [0..<length (ts_depends_on_ords s)]) (pt_tasks tpl))),
     w\<lparr>w_next := w_next w + length (pt_tasks tpl)\<rparr>)"
proof -
  let ?specs = "pt_tasks tpl"
  obtain m where run: "fresh_task_ids ?specs w = (Inr m, w\<lparr>w_next := w_next w + length ?specs\<rparr>)"
    and m: "\<And>k. k < length ?specs \<Longrightarrow> dict_get m (ts_ord (?specs ! k)) = Some (w_uuid w (w_next w + k))"
    using fresh_ids_from [OF ords, of "[]" w] by (auto simp: fresh_task_ids_def)
  have item: "dict_item m o' = Inr (ids o')" if "o' \<in> ts_ord ` set ?specs" for o'
  proof -
    from that obtain k where "k < length ?specs" "o' = ts_ord (?specs ! k)" by (auto simp: in_set_conv_nth)
    with m template_ids_nth [OF ords, of k w] show ?thesis by (simp add: dict_item_def ids_def)
  qed
  have tasks: "map_res (instantiate_task pid m) ?specs = Inr (map (task_of_spec pid ids) ?specs)"
    by (rule map_res_all_Inr) (simp add: instantiate_task_def item task_of_spec_def)
  have deps: "map_res (instantiate_deps m) ?specs =
      Inr (map (\<lambda>s. map (dep_of_spec ids s) [0..<length (ts_depends_on_ords s)]) ?specs)"
  proof (rule map_res_all_Inr)
    fix s assume s: "s \<in> set ?specs"
    show "instantiate_deps m s = Inr (map (dep_of_spec ids s) [0..<length (ts_depends_on_ords s)])"
      unfolding instantiate_deps_def
    proof (rule map_res_all_Inr)
      fix i assume "i \<in> set [0..<length (ts_depends_on_ords s)]"
      then have "ts_depends_on_ords s ! i \<in> ts_ord ` set ?specs" using known s by (auto simp: subset_iff)
      with s show "instantiate_dep m s i = Inr (dep_of_spec ids s i)"
        by (simp add: instantiate_dep_def item dep_of_spec_def)
    qed
  qed
  show ?thesis
    by (simp add: instantiate_template_def bind_proc_def run tasks deps lift_res_def ret_def)
qed

lemma template_ids_inj:
  assumes "distinct (map ts_ord specs)" "inj_on (w_uuid w) {w_next w..<w_next w + length specs}"
  shows "inj_on (template_ids w specs) (ts_ord ` set specs)"
proof (rule inj_onI)
  fix x y assume "x \<in> ts_ord ` set specs" "y \<in> ts_ord ` set specs"
    and eq: "template_ids w specs x = template_ids w specs y"
  then obtain j k where "j < length specs" "x = ts_ord (specs ! j)" "k < length specs" "y = ts_ord (specs ! k)"
    by (auto simp: in_set_conv_nth)
  with eq template_ids_nth [OF assms(1)] inj_onD [OF assms(2), of "w_next w + j" "w_next w + k"] show "x = y"
    by simp
qed

subsection \<open>What is stored\<close>

lemma insert_task_Inr: "insert_task t d = Inr e \<longleftrightarrow> task_row_ok d t \<and> d\<lparr>db_tasks := db_tasks d @ [t]\<rparr> = e"
  by (simp add: insert_task_def res_simps)

lemma insert_assignment_Inr:
  "insert_assignment a d = Inr e \<Longrightarrow> e = d\<lparr>db_assignments := db_assignments d @ [a]\<rparr>"
  by (auto simp: insert_assignment_def res_simps)

lemma fold_insert_task:
  "fold_res (\<lambda>t. insert_task (g t)) ts d = Inr d' \<Longrightarrow>
    d' = d\<lparr>db_tasks := db_tasks d @ map g ts\<rparr> \<and> distinct (map (tk_id \<circ> g) ts) \<and>
    tk_id ` g ` set ts \<inter> tk_id ` set (db_tasks d) = {}"
proof (induction ts arbitrary: d)
  case (Cons t ts)
  let ?d = "d\<lparr>db_tasks := db_tasks d @ [g t]\<rparr>"
  from Cons.prems have rest: "fold_res (\<lambda>t. insert_task (g t)) ts ?d = Inr d'" and ok: "task_row_ok d (g t)"
    by (auto simp: res_simps insert_task_Inr)
  from Cons.IH [OF rest] ok show ?case by (auto simp: task_row_ok_def image_iff)
qed simp

lemma fold_insert_assignment:
  "fold_res insert_assignment rows d = Inr d' \<Longrightarrow> d' = d\<lparr>db_assignments := db_assignments d @ rows\<rparr>"
proof (induction rows arbitrary: d)
  case (Cons r rows)
  from Cons.prems have "fold_res insert_assignment rows (d\<lparr>db_assignments := db_assignments d @ [r]\<rparr>) = Inr d'"
    by (auto simp: res_simps dest!: insert_assignment_Inr)
  from Cons.IH [OF this] show ?case by simp
qed simp

definition stored_tasks :: "uuid \<Rightarrow> task list \<Rightarrow> plan_result \<Rightarrow> task_row list" where
  "stored_tasks pid tasks pl =
     map (\<lambda>t. planned_row pid (dict_get (assignments_by_task (pl_assignments pl)) (t_id t)) t) tasks"

lemma save_tasks_run:
  assumes "save_project_tasks pid tasks as w = (Inr x, w')"
  shows "w' = w\<lparr>w_db := (w_db w)
      \<lparr>db_tasks := db_tasks (w_db w) @ map (\<lambda>t. planned_row pid (dict_get (assignments_by_task as) (t_id t)) t) tasks,
       db_assignments := db_assignments (w_db w) @ concat (map (planned_assignment_rows as) tasks)\<rparr>\<rparr> \<and>
    distinct (map t_id tasks)"
proof -
  from assms obtain d1 d2 where "fold_res (\<lambda>t. insert_task
      (planned_row pid (dict_get (assignments_by_task as) (t_id t)) t)) tasks (w_db w) = Inr d1"
    and "fold_res insert_assignment (concat (map (planned_assignment_rows as) tasks)) d1 = Inr d2"
    and "w' = w\<lparr>w_db := d2\<rparr>"
    by (auto simp: save_project_tasks_def transaction_Inr res_simps)
  from fold_insert_task [OF this(1)] fold_insert_assignment [OF this(2)] this(3) show ?thesis
    by (auto simp: planned_row_def comp_def)
qed

lemma store_project_run:
  assumes "store_project i aid pid tasks pl w = (Inr (project, pv), w')"
  shows "jr_id project = pid \<and> jr_title project = strip (ap_title i) \<and> vr_id pv = w_uuid w (w_next w) \<and>
    w_next w' = Suc (w_next w) \<and> w_uuid w' = w_uuid w \<and> w_calls w' = w_calls w \<and> distinct (map t_id tasks) \<and>
    db_tasks (w_db w') = db_tasks (w_db w) @ stored_tasks pid tasks pl \<and>
    db_assignments (w_db w') = db_assignments (w_db w) @ concat (map (planned_assignment_rows (pl_assignments pl)) tasks) \<and>
    db_plans (w_db w') = db_plans (w_db w) @ [\<lparr>pv_id = vr_id pv, pv_project_id = pid,
      pv_status = ascii ''proposed'', pv_created_at = w_now w, pv_created_by = aid,
      pv_payload = serialize_plan pl\<rparr>] \<and>
    map pj_id (db_projects (w_db w')) = map pj_id (db_projects (w_db w)) @ [pid] \<and>
    length (db_audit (w_db w')) = Suc (length (db_audit (w_db w))) \<and>
    db_overrides (w_db w') = db_overrides (w_db w) \<and> db_people (w_db w') = db_people (w_db w)"
proof -
  from assms obtain w1 w2 where
    c: "create_project (strip (ap_title i)) (template_code_str (ap_template_code i)) (ap_deadline i)
        (ap_brief_return_date i) aid (ascii ''medium'') (Some pid) w = (Inr project, w1)"
    and s: "save_project_tasks (jr_id project) tasks (pl_assignments pl) w1 = (Inr (), w2)"
    and rest: "bind_proc (save_plan_version (jr_id project) (ascii ''proposed'') (serialize_plan pl) aid) (\<lambda>pv.
     bind_proc (add_audit aid (ascii ''add_project'') (ascii ''project'') (Some (jr_id project))
                  (Some (jobj [(''title'', JStr (strip (ap_title i)))]))) (\<lambda>_.
     ret (project, pv))) w2 = (Inr (project, pv), w')"
    unfolding store_project_def by (auto simp: bind_proc_Inr ret_run)
  have w1: "jr_id project = pid" "jr_title project = strip (ap_title i)" "w_next w1 = w_next w"
    "w_uuid w1 = w_uuid w" "w_now w1 = w_now w" "w_calls w1 = w_calls w" "db_tasks (w_db w1) = db_tasks (w_db w)"
    "db_assignments (w_db w1) = db_assignments (w_db w)" "db_plans (w_db w1) = db_plans (w_db w)"
    "map pj_id (db_projects (w_db w1)) = map pj_id (db_projects (w_db w)) @ [pid]"
    "db_audit (w_db w1) = db_audit (w_db w)" "db_overrides (w_db w1) = db_overrides (w_db w)"
    "db_people (w_db w1) = db_people (w_db w)"
    using c by (auto simp: create_project_def bind_proc_Inr ret_run transaction_Inr insert_project_def res_simps)
  note w2 = save_tasks_run [OF s]
  from rest show ?thesis
    by (auto simp: save_plan_version_def add_audit_def bind_proc_Inr ret_run uuid4_run transaction_Inr
        insert_plan_version_def res_simps w1 w2 stored_tasks_def)
qed

text \<open>The card may set the page of a project row and nothing else; its failures are swallowed.\<close>

definition no_page :: "project_row \<Rightarrow> project_row" where
  "no_page p = p\<lparr>pj_notion_page_id := None\<rparr>"

definition same_but_page :: "db \<Rightarrow> db \<Rightarrow> bool" where
  "same_but_page d d' \<longleftrightarrow>
     (\<exists>ps. d' = d\<lparr>db_projects := ps\<rparr> \<and> map no_page ps = map no_page (db_projects d))"

lemma same_but_page_refl [simp]: "same_but_page d d"
  unfolding same_but_page_def by (rule exI [of _ "db_projects d"]) simp

lemma make_card_run: "\<exists>page w'. make_card sink p c w = (Inr page, w') \<and> same_but_page (w_db w) (w_db w')"
proof (cases sink)
  case (Some s)
  have set_page: "same_but_page d (d\<lparr>db_projects := update_row pj_id p (\<lambda>q. q\<lparr>pj_notion_page_id := g\<rparr>) (db_projects d)\<rparr>)"
    for d g
    unfolding same_but_page_def by (rule exI) (auto simp: update_row_def no_page_def)
  show ?thesis
    by (auto simp: make_card_def Some catch_def bind_proc_def call_sink_def ret_def set_project_notion_page_def
        transaction_def set_page split: sum.split option.split)
qed (simp add: make_card_def ret_def)

lemma insert_project_error: "create_project t c dl br a pri p w = (Inl e, w') \<Longrightarrow> e = IntegrityError"
  by (auto simp: create_project_def bind_proc_Inl transaction_Inl insert_project_def res_simps ret_run uuid4_run
      split: option.splits)

lemma save_tasks_error:
  assumes "save_project_tasks p ts as w = (Inl e, w')"
  shows "e = IntegrityError"
proof -
  have task: "insert_task t d = Inl e' \<Longrightarrow> e' = IntegrityError" for t d and e' :: exn
    by (simp add: insert_task_def res_simps)
  have asg: "insert_assignment a d = Inl e' \<Longrightarrow> e' = IntegrityError" for a d and e' :: exn
    by (simp add: insert_assignment_def res_simps)
  from assms show ?thesis
    by (auto simp: save_project_tasks_def transaction_Inl res_simps dest!: fold_res_error [where P = "\<lambda>_. True"]
        dest: task asg)
qed

lemma store_project_error:
  assumes "store_project i aid pid tasks pl w = (Inl e, w')"
  shows "e = IntegrityError"
  using assms unfolding store_project_def
  by (auto simp: bind_proc_Inl bind_proc_Inr ret_run save_plan_version_def add_audit_def uuid4_run transaction_Inl
      insert_plan_version_def res_simps dest: insert_project_error save_tasks_error)

lemma instantiate_db:
  assumes "instantiate_template tpl pid w = (r, w')"
  shows "w_db w' = w_db w \<and> w_calls w' = w_calls w"
proof -
  have ids: "for_each (\<lambda>spec d. bind_proc uuid4 (\<lambda>i. ret (dict_set (ts_ord spec) i d))) specs d w1 = (r1, w2) \<Longrightarrow>
      w_db w2 = w_db w1 \<and> w_calls w2 = w_calls w1" for specs d and w1 :: world and r1 w2
  proof (induction specs arbitrary: d w1)
    case (Cons s specs)
    then show ?case by (fastforce simp: bind_run [OF next_id_run])
  qed (simp add: ret_def)
  from assms show ?thesis
    by (auto simp: instantiate_template_def bind_proc_def fresh_task_ids_def lift_res_def ret_def
        dest!: ids split: prod.splits sum.splits)
qed

lemma add_project_parts:
  assumes "add_project slv sink i actor people tpl today ex ov w = (Inr r, w')"
  obtains deps earliest w1 w2 pv where
    "instantiate_template tpl (w_uuid w (w_next w)) (w\<lparr>w_next := Suc (w_next w)\<rparr>) = (Inr (ax_tasks r, deps), w1)"
    "sv_plan slv (project_request i people (ax_tasks r) deps today ex ov) = Inr (ax_plan r)"
    "store_project i (map_option pp_id actor) (w_uuid w (w_next w)) (ax_tasks r) (ax_plan r) w1 = (Inr (ax_project r, pv), w2)"
    "vr_id pv = ax_plan_version_id r" "same_but_page (w_db w2) (w_db w')" "project_title_error i tpl today = None"
    "ap_deadline i \<noteq> None \<longrightarrow> ax_earliest_end r = None"
    "ap_deadline i = None \<longrightarrow> (\<exists>e. ax_earliest_end r = Some e \<and>
       sv_presented_earliest_end slv (project_request i people (ax_tasks r) deps today ex ov) today = Inr e)"
proof -
  have ok: "project_title_error i tpl today = None"
    using assms by (auto simp: add_project_def raise_def split: option.splits)
  from assms obtain tasks deps w1 pl earliest project pv w2 page where
    inst: "instantiate_template tpl (w_uuid w (w_next w)) (w\<lparr>w_next := Suc (w_next w)\<rparr>) = (Inr (tasks, deps), w1)"
    and sol: "solve_project slv i (project_request i people tasks deps today ex ov) today = Inr (pl, earliest)"
    and st: "store_project i (map_option pp_id actor) (w_uuid w (w_next w)) tasks pl w1 = (Inr (project, pv), w2)"
    and mc: "make_card sink (jr_id project) \<lparr>sp_title = strip (ap_title i),
        sp_template_code = Some (template_code_str (ap_template_code i)),
        sp_task_names = map t_name tasks, sp_deadline = ap_deadline i\<rparr> w2 = (Inr page, w')"
    and r: "r = \<lparr>ax_project = project, ax_plan_version_id = vr_id pv, ax_plan = pl, ax_tasks = tasks,
               ax_earliest_end = earliest, ax_notion_page_id = page\<rparr>"
    by (auto simp: add_project_def ok bind_proc_Inr ret_run uuid4_run lift_res_run)
  have same: "same_but_page (w_db w2) (w_db w')" using make_card_run mc by (metis prod.inject)
  have sol': "sv_plan slv (project_request i people tasks deps today ex ov) = Inr pl"
    "ap_deadline i \<noteq> None \<longrightarrow> earliest = None"
    "ap_deadline i = None \<longrightarrow> (\<exists>e. earliest = Some e \<and>
       sv_presented_earliest_end slv (project_request i people tasks deps today ex ov) today = Inr e)"
    using sol by (auto simp: solve_project_def res_simps split: sum.splits option.splits)
  show thesis
    by (rule that [of deps w1 pv w2]) (use inst sol' st same ok in \<open>simp_all add: r\<close>)
qed

lemma add_project_fails:
  assumes "add_project slv sink i actor people tpl today ex ov w = (Inl e, w')" "e \<noteq> IntegrityError"
  shows "w_db w' = w_db w \<and> w_calls w' = w_calls w"
proof (cases "project_title_error i tpl today")
  case (Some x)
  with assms show ?thesis by (simp add: add_project_def raise_def)
next
  case None
  have inst: "w_db w1 = w_db w \<and> w_calls w1 = w_calls w"
    if "instantiate_template tpl pid (w\<lparr>w_next := Suc (w_next w)\<rparr>) = (r1, w1)" for pid r1 w1
    using instantiate_db [OF that] by simp
  have store: "store_project i a pid ts pl w1 \<noteq> (Inl e, w2)" for a pid ts pl w1 w2
    using store_project_error assms(2) by blast
  have make_card: "make_card sink p c w1 \<noteq> (Inl e, w2)" for p c w1 w2
    using make_card_run by (metis Inl_Inr_False prod.inject)
  from assms(1) show ?thesis
    by (auto simp: add_project_def None bind_proc_Inl uuid4_run lift_res_run ret_run store make_card dest!: inst)
qed

lemma add_project_success:
  assumes "add_project slv sink i actor people tpl today ex ov w = (Inr r, w')"
  shows "db_tasks (w_db w') = db_tasks (w_db w) @ stored_tasks (jr_id (ax_project r)) (ax_tasks r) (ax_plan r)"
    and "db_assignments (w_db w') = db_assignments (w_db w) @
      concat (map (planned_assignment_rows (pl_assignments (ax_plan r))) (ax_tasks r))"
    and "\<exists>now. db_plans (w_db w') = db_plans (w_db w) @ [\<lparr>pv_id = ax_plan_version_id r,
      pv_project_id = jr_id (ax_project r), pv_status = ascii ''proposed'', pv_created_at = now,
      pv_created_by = map_option pp_id actor, pv_payload = serialize_plan (ax_plan r)\<rparr>]"
    and "map pj_id (db_projects (w_db w')) = map pj_id (db_projects (w_db w)) @ [jr_id (ax_project r)]"
    and "length (db_audit (w_db w')) = Suc (length (db_audit (w_db w)))"
    and "distinct (map t_id (ax_tasks r))"
proof -
  obtain deps earliest w1 w2 pv where
    inst: "instantiate_template tpl (w_uuid w (w_next w)) (w\<lparr>w_next := Suc (w_next w)\<rparr>) = (Inr (ax_tasks r, deps), w1)"
    and st: "store_project i (map_option pp_id actor) (w_uuid w (w_next w)) (ax_tasks r) (ax_plan r) w1 = (Inr (ax_project r, pv), w2)"
    and pv: "vr_id pv = ax_plan_version_id r" and same: "same_but_page (w_db w2) (w_db w')"
    by (rule add_project_parts [OF assms])
  have w1: "w_db w1 = w_db w" using instantiate_db [OF inst] by simp
  note stored = store_project_run [OF st] w1 pv
  obtain ps where ps: "w_db w' = (w_db w2)\<lparr>db_projects := ps\<rparr>"
    and pages: "map no_page ps = map no_page (db_projects (w_db w2))"
    using same unfolding same_but_page_def by blast
  have db: "db_tasks (w_db w') = db_tasks (w_db w2)" "db_assignments (w_db w') = db_assignments (w_db w2)"
    "db_plans (w_db w') = db_plans (w_db w2)" "db_audit (w_db w') = db_audit (w_db w2)"
    by (simp_all add: ps)
  have no_page: "map pj_id qs = map pj_id (map no_page qs)" for qs by (simp add: no_page_def)
  have ids: "map pj_id (db_projects (w_db w')) = map pj_id (db_projects (w_db w2))"
    using pages no_page [of ps] no_page [of "db_projects (w_db w2)"] by (simp add: ps)
  show "db_tasks (w_db w') = db_tasks (w_db w) @ stored_tasks (jr_id (ax_project r)) (ax_tasks r) (ax_plan r)"
    "db_assignments (w_db w') = db_assignments (w_db w) @
      concat (map (planned_assignment_rows (pl_assignments (ax_plan r))) (ax_tasks r))"
    "map pj_id (db_projects (w_db w')) = map pj_id (db_projects (w_db w)) @ [jr_id (ax_project r)]"
    "length (db_audit (w_db w')) = Suc (length (db_audit (w_db w)))" "distinct (map t_id (ax_tasks r))"
    "\<exists>now. db_plans (w_db w') = db_plans (w_db w) @ [\<lparr>pv_id = ax_plan_version_id r,
      pv_project_id = jr_id (ax_project r), pv_status = ascii ''proposed'', pv_created_at = now,
      pv_created_by = map_option pp_id actor, pv_payload = serialize_plan (ax_plan r)\<rparr>]"
    using stored by (simp_all add: db ids)
qed

lemma planned_assignees_nonempty: "planned_assignees t a \<noteq> []"
  by (simp add: planned_assignees_def)

context solver_port
begin

lemma stored_task_scheduled:
  assumes "add_project slv sink i actor people tpl today ex ov w = (Inr r, w')"
    and "t \<in> set (ax_tasks r)"
  shows "\<exists>a \<in> set (pl_assignments (ax_plan r)). a_task_id a = t_id t \<and>
    planned_row (jr_id (ax_project r)) (Some a) t \<in> set (db_tasks (w_db w')) \<and>
    (\<exists>p h. \<lparr>an_task_id = t_id t, an_person_id = p, an_hours = h\<rparr> \<in> set (db_assignments (w_db w')))"
proof -
  obtain deps where plan: "sv_plan slv (project_request i people (ax_tasks r) deps today ex ov) = Inr (ax_plan r)"
    by (rule add_project_parts [OF assms(1)])
  have ids: "distinct (map t_id (ax_tasks r))" by (rule add_project_success [OF assms(1)])
  with planned_once [OF plan] have once: "distinct (map a_task_id (pl_assignments (ax_plan r)))"
    "t_id t \<in> a_task_id ` set (pl_assignments (ax_plan r))"
    using assms(2) by (auto simp: project_request_def)
  then obtain a where a: "a \<in> set (pl_assignments (ax_plan r))" "a_task_id a = t_id t" by auto
  have get: "dict_get (assignments_by_task (pl_assignments (ax_plan r))) (t_id t) = Some a"
    using dict_of_key_get [OF once(1) a(1), of "\<lambda>a. a"] a(2) by (simp add: assignments_by_task_def)
  have "planned_row (jr_id (ax_project r)) (Some a) t \<in> set (db_tasks (w_db w'))"
    using add_project_success(1) [OF assms(1)] assms(2) get by (force simp: stored_tasks_def)
  moreover obtain p h rest where "planned_assignees t a = (p, h) # rest"
    using planned_assignees_nonempty by (metis list.exhaust surj_pair)
  then have "\<lparr>an_task_id = t_id t, an_person_id = p, an_hours = h\<rparr> \<in>
      set (planned_assignment_rows (pl_assignments (ax_plan r)) t)"
    by (simp add: planned_assignment_rows_def get)
  then have "\<lparr>an_task_id = t_id t, an_person_id = p, an_hours = h\<rparr> \<in> set (db_assignments (w_db w'))"
    using add_project_success(2) [OF assms(1)] assms(2) by auto
  ultimately show ?thesis using a by blast
qed

end

lemma add_project_best_effort:
  assumes "add_project slv None i actor people tpl today ex ov w = (Inr r, w1)"
  shows "\<exists>page w2. add_project slv sink i actor people tpl today ex ov w = (Inr (r\<lparr>ax_notion_page_id := page\<rparr>), w2) \<and>
    same_but_page (w_db w1) (w_db w2)"
proof -
  have ok: "project_title_error i tpl today = None"
    using assms by (auto simp: add_project_def raise_def split: option.splits)
  from assms obtain tasks deps v1 pl earliest project pv where
    inst: "instantiate_template tpl (w_uuid w (w_next w)) (w\<lparr>w_next := Suc (w_next w)\<rparr>) = (Inr (tasks, deps), v1)"
    and sol: "solve_project slv i (project_request i people tasks deps today ex ov) today = Inr (pl, earliest)"
    and st: "store_project i (map_option pp_id actor) (w_uuid w (w_next w)) tasks pl v1 = (Inr (project, pv), w1)"
    and r: "r = \<lparr>ax_project = project, ax_plan_version_id = vr_id pv, ax_plan = pl, ax_tasks = tasks,
               ax_earliest_end = earliest, ax_notion_page_id = None\<rparr>"
    by (auto simp: add_project_def ok bind_proc_Inr ret_run uuid4_run lift_res_run make_card_def)
  obtain page w2 where "make_card sink (jr_id project) \<lparr>sp_title = strip (ap_title i),
        sp_template_code = Some (template_code_str (ap_template_code i)),
        sp_task_names = map t_name tasks, sp_deadline = ap_deadline i\<rparr> w1 = (Inr page, w2)"
    "same_but_page (w_db w1) (w_db w2)"
    using make_card_run by blast
  then show ?thesis
    by (intro exI [of _ page] exI [of _ w2])
      (simp add: add_project_def ok bind_proc_def uuid4_run inst lift_res_run sol st ret_run r)
qed

end
