(* ===== verification/App_Properties.thy ===== *)
theory App_Properties
  imports Task_Correct Add_Project_Correct Router_Safety
begin

section \<open>Properties of the use cases\<close>

text \<open>
  What confirming, adding a project, ranking people, vacations and capturing guarantee. The
  witnesses run on \<open>demo_world\<close>: one person, and where a plan is needed the project that
  \<open>demo_template\<close> becomes.
\<close>

subsection \<open>A small database\<close>

definition anna_row :: person_row where
  "anna_row =
     \<lparr>pr_id = 1, pr_tg_user_id = Some 7, pr_name = ascii ''Anna'', pr_role_label = None, pr_capacity_h = 8,
      pr_is_admin = True, pr_is_active = True, pr_is_external = False\<rparr>"

definition template_task :: "uuid \<Rightarrow> int \<Rightarrow> ustr \<Rightarrow> template_task_row" where
  "template_task i n name =
     \<lparr>tt_id = i, tt_template_id = 70, tt_ord = n, tt_name = name, tt_duration_hours = 4, tt_duration_is_window = False,
      tt_is_splittable = False, tt_pair_mode = ascii ''none'', tt_optional_in_lite = False\<rparr>"

definition template_assignee :: "uuid \<Rightarrow> template_assignee_row" where
  "template_assignee i =
     \<lparr>ta_template_task_id = i, ta_person_id = 1, ta_strictness = ascii ''A'', ta_priority = 1\<rparr>"

definition demo_db :: db where
  "demo_db = empty_db
     \<lparr>db_people := [anna_row], db_templates := [\<lparr>te_id = 70, te_code = ascii ''lite'', te_name = ascii ''Lite''\<rparr>],
      db_template_tasks := [template_task 71 1 (ascii ''brief''), template_task 72 2 (ascii ''draft'')],
      db_template_assignees := [template_assignee 71, template_assignee 72],
      db_template_deps := [\<lparr>td_template_task_id = 72, td_depends_on_id = 71, td_link_type = ascii ''FS'',
        td_lag_working_days = 0\<rparr>]\<rparr>"

definition demo_world :: world where
  "demo_world =
     \<lparr>w_db = demo_db, w_uuid = (\<lambda>n. word_of_nat (100 + n)), w_next = 0, w_now = 0, w_calls = []\<rparr>"

definition brief_spec :: template_task_spec where
  "brief_spec =
     \<lparr>ts_ord = 1, ts_name = ascii ''brief'', ts_duration_hours = 4, ts_allowed_person_ids = [1],
      ts_depends_on_ords = [], ts_link_types = [], ts_dep_lags = [], ts_is_splittable = False,
      ts_pair_mode = ascii ''none'', ts_duration_is_window = False\<rparr>"

definition draft_spec :: template_task_spec where
  "draft_spec =
     brief_spec\<lparr>ts_ord := 2, ts_name := ascii ''draft'', ts_depends_on_ords := [1], ts_link_types := [ascii ''FS''],
       ts_dep_lags := [0]\<rparr>"

definition demo_template :: project_template where
  "demo_template = \<lparr>pt_code = ascii ''lite'', pt_tasks = [brief_spec, draft_spec]\<rparr>"

definition demo_intent :: add_project_intent where
  "demo_intent =
     \<lparr>ap_title = ascii ''Alfa'', ap_template_code = Lite, ap_deadline = Some 739785, ap_brief_return_date = None,
      ap_notes = None\<rparr>"

text \<open>The world with other plan versions in it.\<close>

definition with_plans :: "plan_version_row list \<Rightarrow> world \<Rightarrow> world" where
  "with_plans ps w = w\<lparr>w_db := (w_db w)\<lparr>db_plans := ps\<rparr>\<rparr>"

lemma with_plans_simps [simp]:
  "w_db (with_plans ps w) = (w_db w)\<lparr>db_plans := ps\<rparr>" "w_next (with_plans ps w) = w_next w"
  "w_uuid (with_plans ps w) = w_uuid w" "w_now (with_plans ps w) = w_now w"
  by (simp_all add: with_plans_def)

abbreviation demo_add :: "add_project_result proc" where
  "demo_add \<equiv> add_project (greedy_solver reference_networkx (weekend_calendar [])) None demo_intent
     (Some (person_record_of anna_row)) [\<lparr>p_id = 1, p_name = ascii ''Anna'', p_capacity_h = 8\<rparr>] demo_template 739775 [] []"


definition demo_task :: "uuid \<Rightarrow> ustr \<Rightarrow> task" where
  "demo_task i n = (task_default i n 4 [1])\<lparr>t_project_id := Some 100, t_source := ascii ''template''\<rparr>"

definition demo_tasks :: "task list" where
  "demo_tasks = [demo_task 101 (ascii ''brief''), demo_task 102 (ascii ''draft'')]"

definition demo_deps :: "dependency list" where
  "demo_deps = [\<lparr>d_task_id = 102, d_depends_on_id = 101, d_link_type = ascii ''FS'', d_lag_working_days = 0\<rparr>]"

definition demo_assignment :: "uuid \<Rightarrow> date \<Rightarrow> assignment" where
  "demo_assignment i d = \<lparr>a_task_id = i, a_person_id = 1, a_start_date = d, a_end_date = d, a_allocations = [allocation 1 d 4]\<rparr>"

definition stored_plan :: plan_result where
  "stored_plan = \<lparr>pl_assignments = [demo_assignment 101 739775, demo_assignment 102 739776], pl_risks = [],
     pl_end_date = Some 739776\<rparr>"


lemma demo_instance:
  "instantiate_template demo_template 100 ((with_plans ps demo_world)\<lparr>w_next := 1\<rparr>) =
     (Inr (demo_tasks, demo_deps), (with_plans ps demo_world)\<lparr>w_next := 3\<rparr>)"
  by (simp add: demo_template_def brief_spec_def draft_spec_def demo_world_def instantiate_template_def
      fresh_task_ids_def bind_proc_def uuid4_def ret_def lift_res_def instantiate_task_def dict_item_def dict_set_def
      dict_get_def instantiate_deps_def instantiate_dep_def demo_tasks_def demo_deps_def demo_task_def task_default_def
      with_plans_def)

lemma demo_solved: "plan reference_networkx (weekend_calendar [])
    (project_request demo_intent [\<lparr>p_id = 1, p_name = ascii ''Anna'', p_capacity_h = 8\<rparr>] demo_tasks demo_deps
      739775 [] []) = Inr stored_plan"
  by code_simp

abbreviation anna_record :: person_record where
  "anna_record \<equiv> person_record_of anna_row"

lemma demo_stored:
  assumes "103 \<notin> pv_id ` set ps"
  shows "case store_project demo_intent (Some (pp_id anna_record)) 100 demo_tasks stored_plan
      ((with_plans ps demo_world)\<lparr>w_next := 3\<rparr>) of
    (Inl e, w') \<Rightarrow> False | (Inr (project, pv), w') \<Rightarrow> vr_id pv = 103"
  using assms
  by (simp add: store_project_def bind_proc_def create_project_def ret_def transaction_def insert_project_def
      demo_world_def demo_db_def empty_db_def ensure_def has_person_def opt_ok_def template_id_of_def get_row_def
      save_project_tasks_def demo_tasks_def demo_task_def stored_plan_def demo_assignment_def assignments_by_task_def
      insert_task_def task_row_ok_def planned_row_def has_project_def task_default_def dict_of_def dict_set_def
      dict_get_def task_sources_def pair_modes_def planned_assignment_rows_def planned_assignees_def
      hours_by_person_def insert_assignment_def has_task_def anna_row_def save_plan_version_def uuid4_def
      insert_plan_version_def plan_statuses_def add_audit_def dict_get_default_def allocation_def demo_intent_def
      person_record_of_def with_plans_def)

lemma demo_added:
  assumes "103 \<notin> pv_id ` set ps"
  shows "\<exists>r w'. demo_add (with_plans ps demo_world) = (Inr r, w') \<and> ax_plan_version_id r = 103"
proof -
  have w: "w_uuid demo_world (w_next demo_world) = 100" "Suc (w_next demo_world) = 1" by (simp_all add: demo_world_def)
  have ok: "project_title_error demo_intent demo_template 739775 = None"
    by (simp add: project_title_error_def demo_intent_def demo_template_def ascii_def strip_by_def is_space_def)
  have d: "ap_deadline demo_intent = Some 739785" by (simp add: demo_intent_def)
  obtain project pv w' where "store_project demo_intent (Some (pp_id anna_record)) 100 demo_tasks stored_plan
      ((with_plans ps demo_world)\<lparr>w_next := 3\<rparr>) = (Inr (project, pv), w')" "vr_id pv = 103"
    using demo_stored [OF assms] by (auto split: prod.splits sum.splits)
  then show ?thesis
    by (simp add: add_project_def ok bind_proc_def uuid4_def w demo_instance [unfolded One_nat_def] lift_res_def ret_def
        solve_project_def greedy_solver_def demo_solved d make_card_def)
qed

definition plan_row :: "ustr \<Rightarrow> plan_version_row" where
  "plan_row status =
     \<lparr>pv_id = 50, pv_project_id = 60, pv_status = status, pv_created_at = 0, pv_created_by = None,
      pv_payload = serialize_plan stored_plan\<rparr>"

definition plan_world :: "ustr \<Rightarrow> world" where
  "plan_world status = with_plans [plan_row status] demo_world"

lemma plan_world_simps [simp]:
  "db_plans (w_db (plan_world s)) = [plan_row s]" "db_people (w_db (plan_world s)) = [anna_row]"
  "w_db (plan_world s) = (w_db demo_world)\<lparr>db_plans := [plan_row s]\<rparr>"
  "pv_id (plan_row s) = 50" "pv_status (plan_row s) = s" "pv_payload (plan_row s) = serialize_plan stored_plan"
  by (simp_all add: plan_world_def plan_row_def demo_world_def demo_db_def)

lemma demo_plan_dates: "plan_dates_ok stored_plan"
  by (simp add: plan_dates_ok_def stored_plan_def assignment_dates_ok_def demo_assignment_def allocation_def valid_date_def
      max_ordinal_def)

subsection \<open>Confirming\<close>

text \<open>
  C17. However the transactions of the program interleave, a plan version is confirmed at most once
  and its status never goes back: proposed, committed, superseded.
\<close>

theorem confirmed_at_most_once:
  assumes "lifecycle w tr w'" and "distinct (map pv_id (db_plans (w_db w)))"
  shows "length (filter (\<lambda>(ev, took_effect). ev = Confirm i \<and> took_effect) tr) \<le> 1 \<and>
    rank (status_of w i) \<le> rank (status_of w' i)"
  using lifecycle_confirms [OF assms, of i] by (auto split: if_splits)

lemma demo_confirm_event:
  "run_event (Confirm 50) (plan_world (ascii ''proposed'')) = (True, plan_world (ascii ''committed''))"
  "run_event (Confirm 50) (plan_world (ascii ''committed'')) = (False, plan_world (ascii ''committed''))"
  by (simp_all add: effect_def transition_run plan_world_def plan_row_def with_plans_def)

theorem confirmed_at_most_once_witness:
  "length (filter (\<lambda>(ev, took_effect). ev = Confirm 50 \<and> took_effect) [(Confirm 50, True), (Confirm 50, False)]) \<le> 1 \<and>
    rank (status_of (plan_world (ascii ''proposed'')) 50) \<le> rank (status_of (plan_world (ascii ''committed'')) 50)"
proof (rule confirmed_at_most_once)
  have "lifecycle (plan_world (ascii ''proposed'')) ([] @ [(Confirm 50, True)]) (plan_world (ascii ''committed''))"
    by (rule lifecycle_step [OF lifecycle_start]) (rule demo_confirm_event)
  then show "lifecycle (plan_world (ascii ''proposed'')) [(Confirm 50, True), (Confirm 50, False)]
      (plan_world (ascii ''committed''))"
    using lifecycle_step [OF _ demo_confirm_event(2)] by fastforce
qed simp

text \<open>
  C18. \<open>ConfirmPlanUseCase.execute\<close> raises \<open>PlanNotFoundError\<close> or \<open>PlanNotProposedError\<close> and changes
  nothing when the version is unknown or not proposed; otherwise it returns, whatever the mirror does,
  and exactly the version, its project and one audit row have changed.
\<close>

theorem confirm_outcomes:
  assumes "distinct (map pv_id (db_plans (w_db w)))" and "opt_ok (has_person (w_db w)) (map_option pp_id actor)"
  shows "case get_row pv_id i (db_plans (w_db w)) of
      None \<Rightarrow> confirm_plan sink i actor w = (Inl (PlanNotFoundError i), w)
    | Some v \<Rightarrow>
        if pv_status v = ascii ''proposed''
        then \<exists>r w'. confirm_plan sink i actor w = (Inr r, w') \<and>
               0 \<le> cf_mirror_failed r \<and> cf_mirror_failed r \<le> cf_mirror_total r \<and>
               w_db w' = confirmed_db i (pv_project_id v) (map_option pp_id actor) (w_now w) (w_db w)
        else confirm_plan sink i actor w = (Inl (PlanNotProposedError (pv_status v)), w)"
proof (cases "get_row pv_id i (db_plans (w_db w))")
  case None
  then show ?thesis using confirm_missing by simp
next
  case (Some v)
  show ?thesis
  proof (cases "pv_status v = ascii ''proposed''")
    case True
    then obtain r w' where "confirm_plan sink i actor w = (Inr r, w')"
      "0 \<le> cf_mirror_failed r \<and> cf_mirror_failed r \<le> cf_mirror_total r"
      "w_db w' = confirmed_db i (pv_project_id v) (map_option pp_id actor) (w_now w) (w_db w)"
      using confirm_proposed [OF Some True assms(2), of sink] by blast
    then show ?thesis using Some True by auto
  qed (use Some confirm_not_proposed [OF assms(1) Some] in simp)
qed

theorem confirm_outcomes_witness:
  "\<exists>r w'. confirm_plan None 50 None (plan_world (ascii ''proposed'')) = (Inr r, w')"
  using confirm_outcomes [where w = "plan_world (ascii ''proposed'')" and actor = None and i = 50 and sink = None]
  by (fastforce simp: get_row_def opt_ok_def)

subsection \<open>Adding a project\<close>



text \<open>
  C20. A project that cannot be created leaves no trace: unless the database itself refuses a row, a
  raised exception means that no table changed and no card was requested.
\<close>

theorem add_project_failure_leaves_no_trace:
  assumes "add_project slv sink i actor people tpl today ex ov w = (Inl e, w')" and "e \<noteq> IntegrityError"
  shows "w_db w' = w_db w \<and> w_calls w' = w_calls w"
  by (rule add_project_fails [OF assms])

theorem add_project_failure_leaves_no_trace_witness:
  "add_project (greedy_solver reference_networkx (weekend_calendar [])) None (demo_intent\<lparr>ap_title := []\<rparr>) None []
     demo_template 739775 [] [] demo_world = (Inl empty_title, demo_world) \<and> w_db demo_world = w_db demo_world"
proof -
  have run: "add_project (greedy_solver reference_networkx (weekend_calendar [])) None (demo_intent\<lparr>ap_title := []\<rparr>)
      None [] demo_template 739775 [] [] demo_world = (Inl empty_title, demo_world)"
    by (simp add: add_project_def project_title_error_def demo_intent_def strip_by_def raise_def)
  from add_project_failure_leaves_no_trace [OF run] run show ?thesis by (simp add: empty_title_def)
qed

text \<open>
  C21. \<open>instantiate_template\<close> copies a template faithfully: task \<open>k\<close> gets the \<open>k\<close>-th fresh id and the
  fields of its spec, each dependency connects the ids of the ords it names with its link type and lag,
  and different ords get different ids.
\<close>

theorem template_copied:
  assumes "distinct (map ts_ord (pt_tasks tpl))"
    and "\<forall>s \<in> set (pt_tasks tpl). set (ts_depends_on_ords s) \<subseteq> ts_ord ` set (pt_tasks tpl)"
    and "inj_on (w_uuid w) {w_next w..<w_next w + length (pt_tasks tpl)}"
  shows "instantiate_template tpl pid w =
      (Inr (map (task_of_spec pid (template_ids w (pt_tasks tpl))) (pt_tasks tpl),
         concat (map (\<lambda>s. map (dep_of_spec (template_ids w (pt_tasks tpl)) s) [0..<length (ts_depends_on_ords s)])
           (pt_tasks tpl))),
       w\<lparr>w_next := w_next w + length (pt_tasks tpl)\<rparr>) \<and>
    inj_on (template_ids w (pt_tasks tpl)) (ts_ord ` set (pt_tasks tpl))"
  using instantiate_template_run [OF assms(1,2)] template_ids_inj [OF assms(1,3)] by blast

theorem template_copied_witness:
  "inj_on (template_ids demo_world (pt_tasks demo_template)) (ts_ord ` set (pt_tasks demo_template))"
proof -
  have "inj_on (w_uuid demo_world) {w_next demo_world..<w_next demo_world + length (pt_tasks demo_template)}"
    by (simp add: demo_world_def demo_template_def numeral_2_eq_2 atLeast0_lessThan_Suc inj_on_def)
  then show ?thesis
    by (intro template_copied [THEN conjunct2]) (simp_all add: demo_template_def brief_spec_def draft_spec_def)
qed

text \<open>
  C23. A plan read back from its payload is the plan that was stored, and its allocations, which the
  next project is planned around, are all the allocations of its assignments.
\<close>

theorem payload_round_trip:
  assumes "plan_dates_ok p"
  shows "deserialize_plan (serialize_plan p) = Inr p \<and>
    deserialize_allocations (serialize_plan p) = Inr (plan_allocations (pl_assignments p))"
  using deserialize_serialize [OF assms] allocations_of_serialized [of p] assms by (simp add: plan_dates_ok_def)

theorem payload_round_trip_witness:
  "deserialize_plan (serialize_plan stored_plan) = Inr stored_plan"
  using payload_round_trip [OF demo_plan_dates] by blast

subsection \<open>People\<close>


lemma found_person_exists:
  assumes "find_person_by_name d name = Some p"
  shows "has_person d (pp_id p)"
proof -
  from assms obtain chosen r where "dict_get (dict_of (map (\<lambda>p. (pr_name p, p)) (db_people d))) chosen = Some r"
    and p: "p = person_record_of r"
    by (auto simp: find_person_by_name_def Let_def split: option.splits)
  then have "r \<in> set (db_people d)"
    by (auto dest!: dict_of_key_get_SomeD)
  then show ?thesis by (auto simp: p has_person_def person_record_of_def)
qed

text \<open>
  C25. \<open>SetVacationUseCase.execute\<close>: a refused request (no administrator, reversed or too long range,
  capacity out of bounds, unknown person) raises and changes nothing; an accepted one sets the capacity
  of exactly that person on exactly the days of the range and returns their number.
\<close>

theorem vacation_outcomes:
  assumes "opt_ok (has_person (w_db w)) actor_id"
  shows "if adm \<and> va_day_from i \<le> va_day_to i \<and> va_day_to i - va_day_from i + 1 \<le> 60 \<and>
       0 \<le> va_capacity_h i \<and> va_capacity_h i \<le> 12 \<and> find_person_by_name (w_db w) (va_person_name i) \<noteq> None
     then \<exists>w'. set_vacation i actor_id adm w = (Inr (va_day_to i - va_day_from i + 1), w') \<and>
       (\<forall>q e. override_of (w_db w') q e =
         (if Some q = map_option pp_id (find_person_by_name (w_db w) (va_person_name i)) \<and>
             va_day_from i \<le> e \<and> e \<le> va_day_to i
          then Some (va_capacity_h i) else override_of (w_db w) q e))
     else \<exists>e. set_vacation i actor_id adm w = (Inl e, w)"
proof (cases "find_person_by_name (w_db w) (va_person_name i)")
  case None
  then show ?thesis using set_vacation_rejects by auto
next
  case (Some person)
  then show ?thesis
    using set_vacation_success [OF _ _ _ _ Some found_person_exists [OF Some] assms]
      set_vacation_rejects [of adm i w actor_id] by (auto simp: not_le)
qed

theorem vacation_outcomes_witness:
  "\<exists>e. set_vacation \<lparr>va_person_name = ascii ''Anna'', va_day_from = 739776, va_day_to = 739775, va_capacity_h = 0\<rparr>
     (Some 1) True demo_world = (Inl e, demo_world)"
  using vacation_outcomes [of demo_world "Some 1"
      True "\<lparr>va_person_name = ascii ''Anna'', va_day_from = 739776, va_day_to = 739775, va_capacity_h = 0\<rparr>"]
  by (simp add: opt_ok_def has_person_def demo_world_def demo_db_def anna_row_def)

subsection \<open>Capturing\<close>

text \<open>
  C26. Capturing is idempotent: the same message again, by whomever and with whatever sink, finds the
  stored task, reports it as a duplicate and changes nothing.
\<close>

theorem capture_idempotent:
  assumes "capture_task sink i a w = (Inr r, w1)"
  shows "\<exists>r2. capture_task sink2 i a2 w1 = (Inr r2, w1) \<and> cu_is_duplicate r2 \<and> cu_task_id r2 = cu_task_id r"
  using capture_task_run [OF assms] capture_duplicate by metis

definition demo_capture :: capture_task_intent where
  "demo_capture =
     \<lparr>ct_task_title = ascii ''call'', ct_assignee_names = [], ct_project_name = None, ct_deadline = None,
      ct_time_start = None, ct_est_hours = None, ct_required_skills = []\<rparr>"

lemma demo_captured: "\<exists>r w1. capture_task None demo_capture None demo_world = (Inr r, w1)"
proof -
  have "\<not> isl (fst (capture_task None demo_capture None demo_world))" by code_simp
  then show ?thesis by (metis isl_def prod.collapse sum.exhaust)
qed

theorem capture_idempotent_witness:
  "\<exists>r w1 r2. capture_task None demo_capture None demo_world = (Inr r, w1) \<and>
     capture_task None demo_capture (Some (person_record_of anna_row)) w1 = (Inr r2, w1) \<and> cu_is_duplicate r2"
  using demo_captured capture_idempotent by metis

end
