(* ===== verification/Bot_Properties.thy ===== *)
theory Bot_Properties
  imports App_Properties Message_Safety Charts
begin

section \<open>Properties of the bot\<close>

text \<open>
  What the handlers guarantee whatever the language model, the parser and the user send: which messages
  can change the database, which can commit a plan, and what the dialogues do on the way. The witnesses
  run on \<open>chat_of\<close> worlds of \<open>App_Properties\<close> with the in-memory storage.
\<close>

definition chat_of :: "world \<Rightarrow> memory_fsm bot_state" where
  "chat_of w =
     \<lparr>bs_world = w, bs_fsm = (None, []), bs_replies = [], bs_history = \<lparr>ch_max_turns = 6, ch_by_chat = []\<rparr>,
      bs_voice = []\<rparr>"

definition silent_model :: language_model where
  "silent_model messages = Inr \<lparr>lr_stop_reason = Some (ascii ''end_turn''), lr_content = []\<rparr>"

definition demo_services :: services where
  "demo_services =
     \<lparr>hs_has_repo = True, hs_solver = Some (greedy_solver reference_networkx (weekend_calendar [])), hs_explain = None,
      hs_confirm = Some None, hs_task_sink = None, hs_project_sink = None,
      hs_parse = (\<lambda>text ctx. Inr (LoadIntent \<lparr>ld_person_name = None, ld_date_range = None\<rparr>)),
      hs_parse_intents = (\<lambda>text ctx. Inr []),
      hs_agent = Some (silent_model, \<lambda>text ctx. Inl ValueError), hs_history = False, hs_today = 739775,
      hs_repr = (\<lambda>j. []), hs_exc_text = (\<lambda>e. []), hs_field_int = json_int, hs_field_time = json_int\<rparr>"

definition anna_sender :: sender where
  "anna_sender = \<lparr>sd_is_admin = True, sd_record = Some (person_record_of anna_row), sd_chat = None\<rparr>"

subsection \<open>The agent\<close>

text \<open>
  The agent never commits a plan: whatever the language model answers and whichever tools it calls
  with whatever arguments, the committed plan versions after the run are those before it.
\<close>

lemma agent_never_commits:
  "commits (w_db (snd (snd (agent_run model parser env text ctx s)))) = commits (w_db (snd s))"
proof -
  have "tkeeps (\<lambda>d. commits d = commits (w_db (snd s))) (agent_run model parser env text ctx)"
    by (intro agent_run_keeps committed.execute_keeps)
  then show ?thesis by (auto simp only: tkeeps_def)
qed


subsection \<open>Messages\<close>

text \<open>
  C15. A bare confirmation of a known sender commits exactly the pending plan when it is still proposed,
  ends the dialogue and starts no other plan: the version is committed, its project follows and the
  stored conversation is cleared.
\<close>

theorem typed_confirmation_commits:
  assumes "\<not> stranger sv who" and "hs_confirm sv = Some sink" and "is_confirm_phrase text"
    and "dict_get (snd (bs_fsm b)) (ascii ''pending_pv_id'') = Some (FText (uuid_str target))"
    and "get_row pv_id target (db_plans (w_db (bs_world b))) = Some v" and "pv_status v = ascii ''proposed''"
    and "opt_ok (has_person (w_db (bs_world b))) (map_option pp_id (sd_record who))"
  shows "\<exists>b'. handle_text sv who (Some memory_storage) lpv text b = (Inr None, b') \<and> bs_fsm b' = (None, []) \<and>
    w_db (bs_world b') = confirmed_db target (pv_project_id v) (map_option pp_id (sd_record who))
      (w_now (bs_world b)) (w_db (bs_world b))"
proof -
  obtain r w' where run: "confirm_plan sink target (sd_record who) (bs_world b) = (Inr r, w')"
    and db: "w_db w' = confirmed_db target (pv_project_id v) (map_option pp_id (sd_record who))
      (w_now (bs_world b)) (w_db (bs_world b))"
    using confirm_proposed [OF assms(5-7)] by blast
  have "pending_plan (Some memory_storage) (bs_fsm b) = Some target"
    by (simp add: pending_plan_def memory_storage_def assms(4))
  then have "handle_text sv who (Some memory_storage) lpv text b = confirm_typed sink who memory_storage target b"
    using assms(1-3) by (simp add: handle_text_def bbind_def get_fsm_def opt_or_def)
  then show ?thesis
    by (simp add: confirm_typed_def bbind_def bcatch_def run_use_case_def run bot_runs memory_storage_def db)
qed

definition pending_chat :: "memory_fsm bot_state" where
  "pending_chat = (chat_of (plan_world (ascii ''proposed'')))
     \<lparr>bs_fsm := (Some PLAN_EDIT_WAITING, [(ascii ''pending_pv_id'', FText (uuid_str 50))])\<rparr>"

lemma demo_sender_known: "\<not> stranger demo_services anna_sender" "hs_confirm demo_services = Some None"
  "opt_ok (has_person (w_db (bs_world pending_chat))) (map_option pp_id (sd_record anna_sender))"
  by (simp_all add: stranger_def demo_services_def anna_sender_def opt_ok_def has_person_def pending_chat_def
      chat_of_def demo_world_def demo_db_def person_record_of_def)

theorem typed_confirmation_commits_witness:
  "\<exists>b'. handle_text demo_services anna_sender (Some memory_storage) None (ascii ''OK!'') pending_chat = (Inr None, b') \<and>
    bs_fsm b' = (None, [])"
proof -
  have phrase: "is_confirm_phrase (ascii ''OK!'')"
    by (simp add: is_confirm_phrase_def strip_by_def rstrip_by_def casefold_def lower_def lower_cp_def is_space_def
      CONFIRM_PHRASES_def ascii_def)
  have row: "get_row pv_id 50 (db_plans (w_db (bs_world pending_chat))) = Some (plan_row (ascii ''proposed''))"
    by (simp add: pending_chat_def chat_of_def get_row_def)
  show ?thesis
    using typed_confirmation_commits [OF demo_sender_known(1,2) phrase _ row _ demo_sender_known(3), of None]
    by (auto simp: pending_chat_def)
qed

text \<open>
  C16. The edit loop: when an edit yields a fresh proposal, the plan it replaces becomes superseded and its
  project cancelled if it was still proposed, nothing else in the database changes, and the loop waits
  for the next edit of the fresh plan.
\<close>

theorem edit_retires_old_plan:
  assumes "strip message \<noteq> []" and "hs_has_repo sv"
    and "dict_get (snd (bs_fsm b)) (ascii ''pending_pv_id'') = Some (FText (uuid_str old))"
    and "handle_text (sv\<lparr>hs_agent := None\<rparr>) who (Some memory_storage) (Some old) (strip message) b = (Inr (Some fresh), b1)"
    and "fresh \<noteq> old" and "distinct (map pv_id (db_plans (w_db (bs_world b1))))"
    and "get_row pv_id old (db_plans (w_db (bs_world b1))) = Some v"
  shows "\<exists>b'. handle_edit_text sv who memory_storage message b = (Inr (), b') \<and>
    w_db (bs_world b') = (if pv_status v = ascii ''proposed''
      then (w_db (bs_world b1))
        \<lparr>db_plans := update_row pv_id old (\<lambda>u. u\<lparr>pv_status := ascii ''superseded''\<rparr>) (db_plans (w_db (bs_world b1))),
         db_projects := update_row pj_id (pv_project_id v) (\<lambda>p. p\<lparr>pj_status := ascii ''cancelled''\<rparr>)
           (db_projects (w_db (bs_world b1)))\<rparr>
      else w_db (bs_world b1)) \<and>
    fst (bs_fsm b') = Some PLAN_EDIT_WAITING \<and>
    dict_get (snd (bs_fsm b')) (ascii ''pending_pv_id'') = Some (FText (uuid_str fresh))"
proof -
  let ?d = "w_db (bs_world b1)"
  have sup: "ascii ''superseded'' \<in> set plan_statuses" by (simp add: plan_statuses_def)
  have uniq: "u = v" if "u \<in> set (db_plans ?d)" "pv_id u = old" for u
    using get_row_SomeD [OF assms(7)] assms(6) that by (metis distinct_map inj_onD)
  have v: "v \<in> set (db_plans ?d)" "pv_id v = old" using get_row_SomeD [OF assms(7)] by auto
  have rows: "map (\<lambda>u. if pv_id u = old \<and> pv_status u = ascii ''proposed'' then u\<lparr>pv_status := ascii ''superseded''\<rparr> else u)
      (db_plans ?d) = (if pv_status v = ascii ''proposed''
        then update_row pv_id old (\<lambda>u. u\<lparr>pv_status := ascii ''superseded''\<rparr>) (db_plans ?d) else db_plans ?d)"
    using uniq by (auto simp: update_row_def intro!: map_cong map_idI)
  have hit: "(\<exists>u \<in> set (db_plans ?d). pv_id u = old \<and> pv_status u = ascii ''proposed'') \<longleftrightarrow> pv_status v = ascii ''proposed''"
    using uniq v by blast
  obtain w' where sup_run: "supersede old (bs_world b1) = (Inr (), w')" and db: "w_db w' = (if pv_status v = ascii ''proposed''
      then ?d\<lparr>db_plans := update_row pv_id old (\<lambda>u. u\<lparr>pv_status := ascii ''superseded''\<rparr>) (db_plans ?d),
         db_projects := update_row pj_id (pv_project_id v) (\<lambda>p. p\<lparr>pj_status := ascii ''cancelled''\<rparr>) (db_projects ?d)\<rparr>
      else ?d)"
    using assms(7)
    by (cases "pv_status v = ascii ''proposed''") (simp_all add: supersede_def bind_proc_def get_plan_version_def query_def transition_run [OF sup] rows hit
        plan_record_of_def set_project_status_def transaction_def ret_def)
  have "pending_plan (Some memory_storage) (bs_fsm b) = Some old"
    by (simp add: pending_plan_def memory_storage_def assms(3))
  with assms(1,2,4,5) sup_run show ?thesis
    by (simp add: handle_edit_text_def Let_def bbind_def get_fsm_def run_use_case_def on_fsm_def memory_storage_def
        dict_simps db)
qed

definition edit_services :: services where
  "edit_services = demo_services\<lparr>hs_agent := None, hs_parse_intents := (\<lambda>text ctx. Inr [AddProjectIntent demo_intent])\<rparr>"

lemma demo_template_stored: "project_template_of (demo_db\<lparr>db_plans := ps\<rparr>) (ascii ''lite'') = Some demo_template"
  by (simp add: project_template_of_def demo_db_def empty_db_def get_row_def template_task_def template_spec_def
      template_assignees_def template_assignee_def template_deps_def demo_template_def brief_spec_def draft_spec_def
      Let_def map_filter_simps dict_simps)

lemma demo_reply:
  "\<exists>said links w' row. build_add_project_reply demo_intent (greedy_solver reference_networkx (weekend_calendar []))
      (Some anna_record) 739775 None None (plan_world (ascii ''proposed'')) = (Inr (said, Some 103, links), w') \<and>
    db_plans (w_db w') = [plan_row (ascii ''proposed''), row] \<and> pv_id row = 103"
proof -
  obtain r w' where run: "demo_add (plan_world (ascii ''proposed'')) = (Inr r, w')" and i: "ax_plan_version_id r = 103"
    using demo_added [of "[plan_row (ascii ''proposed'')]"] by (auto simp: plan_world_def)
  have code: "template_code_str (ap_template_code demo_intent) = ascii ''lite''" by (simp add: demo_intent_def)
  have people: "get_solver_people (plan_world s) = (Inr [\<lparr>p_id = 1, p_name = ascii ''Anna'', p_capacity_h = 8\<rparr>], plan_world s)"
    for s by (simp add: get_solver_people_def query_def demo_world_def demo_db_def anna_row_def)
  have none: "list_existing (plan_world (ascii ''proposed'')) = (Inr [], plan_world (ascii ''proposed''))"
    by (simp add: list_existing_def bind_proc_def list_committed_plans_def query_def committed_rows_def lift_res_def ret_def)
  have db: "w_db demo_world = demo_db" by (simp add: demo_world_def)
  from add_project_success(3) [OF run] i show ?thesis
    by (auto simp: build_add_project_reply_def bind_proc_def get_project_template_def query_def code demo_template_stored db people none
        catch_def run ret_def)
qed

lemma demo_edit: "\<exists>b1. handle_text edit_services anna_sender (Some memory_storage) (Some 50) (ascii ''again'')
    pending_chat = (Inr (Some 103), b1) \<and>
    get_row pv_id 50 (db_plans (w_db (bs_world b1))) = Some (plan_row (ascii ''proposed'')) \<and>
    distinct (map pv_id (db_plans (w_db (bs_world b1))))"
proof -
  obtain said links w' row where reply: "build_add_project_reply demo_intent
      (greedy_solver reference_networkx (weekend_calendar [])) (Some anna_record) 739775 None None
      (plan_world (ascii ''proposed'')) = (Inr (said, Some 103, links), w')"
    "db_plans (w_db w') = [plan_row (ascii ''proposed''), row]" "pv_id row = 103"
    using demo_reply by blast
  have phrase: "\<not> is_confirm_phrase (ascii ''again'')"
    by (simp add: is_confirm_phrase_def strip_by_def rstrip_by_def casefold_def lower_def lower_cp_def is_space_def
        CONFIRM_PHRASES_def ascii_def)
  have pending: "pending_plan (Some memory_storage) (bs_fsm pending_chat) = Some 50"
    by (simp add: pending_plan_def memory_storage_def pending_chat_def dict_simps)
  have world: "bs_world pending_chat = plan_world (ascii ''proposed'')" by (simp add: pending_chat_def chat_of_def)
  show ?thesis
    using reply phrase pending
    by (simp add: handle_text_def stranger_def edit_services_def demo_services_def anna_sender_def bbind_def get_fsm_def
        opt_or_def interpret_text_def run_use_case_def known_names_def bind_proc_def list_people_def list_projects_def
        query_def ret_def get_bot_def record_history_def bret_def world lift_res_def intents_to_dispatch_def
        dispatch_intent_def dispatch_add_project_def answer_plan_def send_def stash_proposal_def on_state_def on_fsm_def
        get_row_def)
qed

theorem edit_retires_old_plan_witness:
  "\<exists>b'. handle_edit_text edit_services anna_sender memory_storage (ascii ''again'') pending_chat = (Inr (), b') \<and>
    status_of (bs_world b') 50 = Some (ascii ''superseded'') \<and> fst (bs_fsm b') = Some PLAN_EDIT_WAITING"
proof -
  have said: "strip (ascii ''again'') = ascii ''again''" "ascii ''again'' \<noteq> []"
    by (simp_all add: strip_by_def is_space_def ascii_def)
  have sv: "edit_services\<lparr>hs_agent := None\<rparr> = edit_services" "hs_has_repo edit_services"
    by (simp_all add: edit_services_def demo_services_def)
  have pending: "dict_get (snd (bs_fsm pending_chat)) (ascii ''pending_pv_id'') = Some (FText (uuid_str 50))"
    by (simp add: pending_chat_def dict_simps)
  obtain b1 where run: "handle_text edit_services anna_sender (Some memory_storage) (Some 50) (ascii ''again'')
      pending_chat = (Inr (Some 103), b1)"
    and row: "get_row pv_id 50 (db_plans (w_db (bs_world b1))) = Some (plan_row (ascii ''proposed''))"
    and ids: "distinct (map pv_id (db_plans (w_db (bs_world b1))))"
    using demo_edit by blast
  have *: "get_row pv_id 50 (update_row pv_id 50 f rows) = map_option f (get_row pv_id 50 rows)"
    if "\<And>r. pv_id (f r) = pv_id r" for f and rows
    using that by (induction rows) (auto simp: get_row_def update_row_def)
  show ?thesis
    using edit_retires_old_plan [of "ascii ''again''" edit_services pending_chat 50 anna_sender 103 b1] said sv pending
      run row ids by (fastforce simp: status_of_def *)
qed

lemma demo_db_ok: "db_ok demo_db"
  by (simp add: table_oks demo_db_def empty_db_def)

subsection \<open>Dialogues\<close>




subsection \<open>Load\<close>



subsection \<open>Throttling\<close>

text \<open>
  C30. The throttle lets no user through twice within its interval: the times at which messages of one
  user are accepted lie at least \<open>min_interval\<close> apart, however the messages of all users interleave.
\<close>

theorem throttle_spaces_messages:
  assumes "0 \<le> th_min th"
  shows "sorted_wrt (\<lambda>s t. th_min th \<le> t - s) (accepted_times u evs th)"
  using throttle_accepted [OF assms] by blast

theorem throttle_spaces_messages_witness:
  "sorted_wrt (\<lambda>s t. (1::rat) \<le> t - s) (accepted_times 7 [(Some 7, 0), (Some 7, 1 / 2), (Some 7, 2)]
     \<lparr>th_min = 1, th_last_seen = []\<rparr>)"
  using throttle_spaces_messages [of "\<lparr>th_min = 1, th_last_seen = []\<rparr>"] by simp

end
