(* ===== verification/Notion_Ladder.thy ===== *)
theory Notion_Ladder
  imports Notion_Sinks
begin

section \<open>How a page is pushed to Notion\<close>

text \<open>
  A page that Notion refuses is posted again with fewer properties, at most twice: first with the
  options the board has, then with title and date only. Only a refused page is tried again, and a link
  comes from an accepted one.
\<close>

definition posts :: "ustr \<Rightarrow> schema list \<Rightarrow> http_request list" where
  "posts db ps = map (\<lambda>p. HttpPost pages_url (page_body db p)) ps"

text \<open>Every request but the last one was answered with a status of 400 or more.\<close>

fun climbs :: "http \<Rightarrow> http_request list \<Rightarrow> http_request list \<Rightarrow> bool" where
  "climbs http sent (q # q' # qs) \<longleftrightarrow>
     (\<exists>r. http sent q = Inr r \<and> 400 \<le> rs_status r) \<and> climbs http (sent @ [q]) (q' # qs)"
| "climbs http sent qs \<longleftrightarrow> True"

lemma climbs_Cons: "climbs http sent (q # qs) \<longleftrightarrow>
    qs = [] \<or> (\<exists>r. http sent q = Inr r \<and> 400 \<le> rs_status r) \<and> climbs http (sent @ [q]) qs"
  by (cases qs) simp_all

text \<open>What a sequence of posts leaves behind, and the answer \<open>x\<close> the last one got.\<close>

definition pushed ::
  "http \<Rightarrow> ustr \<Rightarrow> task_sink_state \<Rightarrow> schema list \<Rightarrow> http_response res \<Rightarrow> task_sink_state \<Rightarrow> bool" where
  "pushed http db s ps x s' \<longleftrightarrow>
     s' = s\<lparr>ts_log := ts_log s @ posts db ps\<rparr> \<and> climbs http (ts_log s) (posts db ps) \<and> ps \<noteq> [] \<and>
     http (ts_log s @ posts db (butlast ps)) (HttpPost pages_url (page_body db (last ps))) = x"

lemma pushed_one: "post_page http db p s = (x, s') \<longleftrightarrow> pushed http db s [p] x s'"
  by (auto simp: post_page_def task_http_def pushed_def posts_def)

lemma pushed_more:
  assumes "pushed http db s [p] (Inr r) s1" "400 \<le> rs_status r" "pushed http db s1 ps x s'"
  shows "pushed http db s (p # ps) x s'"
  using assms by (auto simp: pushed_def posts_def climbs_Cons)

lemma try_candidates_pushed:
  assumes "try_candidates http db attempted r cs s = (x, s')" and "400 \<le> rs_status r"
  shows "(x, s') = (Inr r, s) \<or> (\<exists>ps. pushed http db s ps x s' \<and> set ps \<subseteq> set cs \<and> length ps \<le> length cs)"
  using assms
proof (induction cs arbitrary: attempted r s)
  case Nil
  then show ?case by (simp add: iret_def)
next
  case (Cons c cs)
  show ?case
  proof (cases "same_props c attempted")
    case True
    with Cons.IH [of attempted r s] Cons.prems have
      "(x, s') = (Inr r, s) \<or> (\<exists>ps. pushed http db s ps x s' \<and> set ps \<subseteq> set cs \<and> length ps \<le> length cs)" by simp
    then show ?thesis by (fastforce intro: le_SucI)
  next
    case False
    obtain y s1 where post: "post_page http db c s = (y, s1)" by fastforce
    then have one: "pushed http db s [c] y s1" by (simp add: pushed_one)
    show ?thesis
    proof (cases "\<exists>r1. y = Inr r1 \<and> 400 \<le> rs_status r1")
      case False
      then have "(x, s') = (y, s1)"
        using Cons.prems(1) \<open>\<not> same_props c attempted\<close> post
        by (cases y) (auto simp: ibind_def iret_def split: if_splits)
      with one show ?thesis by (intro disjI2 exI [of _ "[c]"]) simp
    next
      case True
      then obtain r1 where r1: "y = Inr r1" "400 \<le> rs_status r1" by blast
      then have "try_candidates http db c r1 cs s1 = (x, s')"
        using Cons.prems(1) \<open>\<not> same_props c attempted\<close> post by (simp add: ibind_def)
      from Cons.IH [OF this r1(2)] show ?thesis
      proof
        assume "(x, s') = (Inr r1, s1)"
        with one r1 show ?thesis by (intro disjI2 exI [of _ "[c]"]) simp
      next
        assume "\<exists>ps. pushed http db s1 ps x s' \<and> set ps \<subseteq> set cs \<and> length ps \<le> length cs"
        then obtain ps where "pushed http db s1 ps x s'" "set ps \<subseteq> set cs" "length ps \<le> length cs" by blast
        with pushed_more [OF one [unfolded r1(1)] r1(2)] show ?thesis by (intro disjI2 exI [of _ "c # ps"]) auto
      qed
    qed
  qed
qed

lemma safe_offered: "list_all (only_offered sc) (safe_props props)"
  by (auto simp: list_all_iff safe_props_def only_offered_def names_option_def has_key_def dict_has_def dict_get_def
      ascii_def)

text \<open>
  One push, when the schema is known: the posts \<open>ps\<close>, and when it ends with a link \<open>url\<close> the answer to the
  last one.
\<close>

definition push_ok :: "http \<Rightarrow> ustr \<Rightarrow> schema \<Rightarrow> task_sink_state \<Rightarrow> schema list \<Rightarrow> ustr option res \<Rightarrow> bool" where
  "push_ok http db sc s ps x \<longleftrightarrow>
     climbs http (ts_log s) (posts db ps) \<and> length ps \<le> 3 \<and> list_all (list_all (only_offered sc)) (tl ps) \<and>
     (\<forall>url. x = Inr url \<longrightarrow> ps \<noteq> [] \<and>
       (\<exists>r. http (ts_log s @ posts db (butlast ps)) (HttpPost pages_url (page_body db (last ps))) = Inr r \<and>
         200 \<le> rs_status r \<and> rs_status r < 300 \<and> answer_text ''url'' r = Inr url))"

lemma push_ok_answer:
  assumes "pushed http db s ps y s'" "length ps \<le> 3" "list_all (list_all (only_offered sc)) (tl ps)"
    and "x = bind_res y (\<lambda>r. bind_res (check_status r) (\<lambda>_. answer_text ''url'' r))"
  shows "s' = s\<lparr>ts_log := ts_log s @ posts db ps\<rparr> \<and> push_ok http db sc s ps x"
  using assms by (auto simp: pushed_def push_ok_def res_simps check_status_def split: if_splits)

lemma push_attempt_ok:
  assumes run: "push_attempt http db task s = (x, s')" and known: "ts_schema s = Some sc" "named_options sc"
  shows "\<exists>ps. s' = s\<lparr>ts_log := ts_log s @ posts db ps\<rparr> \<and> push_ok http db sc s ps x"
proof (cases "build_properties sc task False")
  case (Inl e)
  then have "(x, s') = (Inl e, s)" using run known by (simp add: push_attempt_def load_schema_def ibind_def ilift_def)
  then show ?thesis by (intro exI [of _ "[]"]) (simp add: push_ok_def posts_def)
next
  case (Inr props)
  obtain y s1 where post: "post_page http db props s = (y, s1)" by fastforce
  then have one: "pushed http db s [props] y s1" by (simp add: pushed_one)
  show ?thesis
  proof (cases "\<exists>r. y = Inr r \<and> 400 \<le> rs_status r")
    case False
    then have "s' = s1 \<and> x = bind_res y (\<lambda>r. bind_res (check_status r) (\<lambda>_. answer_text ''url'' r))"
      using run known Inr post
      by (cases y) (auto simp: push_attempt_def load_schema_def ibind_def ilift_def iret_def)
    with push_ok_answer [OF one, of sc x] show ?thesis by auto
  next
    case True
    then obtain r where r: "y = Inr r" "400 \<le> rs_status r" by blast
    show ?thesis
    proof (cases "build_properties sc task True")
      case (Inl e)
      then have "s' = s1 \<and> x = Inl e"
        using run known Inr post r by (simp add: push_attempt_def load_schema_def ibind_def ilift_def)
      with one show ?thesis by (intro exI [of _ "[props]"]) (auto simp: pushed_def push_ok_def)
    next
      case strict: (Inr props')
      obtain z s2 where tries: "try_candidates http db props r [props', safe_props props] s1 = (z, s2)" by fastforce
      then have x: "s' = s2 \<and> x = bind_res z (\<lambda>r. bind_res (check_status r) (\<lambda>_. answer_text ''url'' r))"
        using run known Inr post r strict
        by (cases z) (auto simp: push_attempt_def load_schema_def ibind_def ilift_def simp del: try_candidates.simps)
      have offered: "list_all (only_offered sc) props'" "list_all (only_offered sc) (safe_props props)"
        using strict_offered [OF strict known(2)] safe_offered by auto
      from try_candidates_pushed [OF tries r(2)] show ?thesis
      proof
        assume "(z, s2) = (Inr r, s1)"
        with one r x push_ok_answer [OF one, of sc x] show ?thesis by auto
      next
        assume "\<exists>ps. pushed http db s1 ps z s2 \<and> set ps \<subseteq> set [props', safe_props props] \<and>
            length ps \<le> length [props', safe_props props]"
        then obtain ps where ps: "pushed http db s1 ps z s2" "set ps \<subseteq> {props', safe_props props}" "length ps \<le> 2"
          by auto
        then have "list_all (list_all (only_offered sc)) ps" using offered by (auto simp: list_all_iff)
        with push_ok_answer [OF pushed_more [OF one [unfolded r(1)] r(2) ps(1)], of sc x] ps(3) x
        show ?thesis by auto
      qed
    qed
  qed
qed

end
