(* ===== verification/Speech.thy ===== *)
theory Speech
  imports Task_Router
begin

section \<open>Speech recognition\<close>

text \<open>
  \<open>infra/stt/faster_whisper.py\<close>: a model of the library that is loaded on the first use and kept, and a
  transcription that answers \<open>None\<close> on every failure. The library is a parameter: what building a model
  of a size gives or raises, and the texts of the segments it hears, which it yields lazily and may stop
  with an exception. The work runs on threads; \<open>load_step\<close> interleaves them.
\<close>

record ('m, 'a) whisper =
  wl_model :: "ustr \<Rightarrow> 'm res"
  wl_transcribe :: "'m \<Rightarrow> 'a \<Rightarrow> ustr \<Rightarrow> ustr option \<Rightarrow> ustr list res"

record 'm recogniser =
  rg_model_size :: ustr
  rg_initial_prompt :: "ustr option"
  rg_model :: "'m option"

definition MODEL_SIZE :: ustr where
  "MODEL_SIZE = ascii ''small''"

definition INITIAL_PROMPT :: ustr where
  "INITIAL_PROMPT =
     [1055, 1083, 1072, 1085, 1080, 1088, 1086, 1074, 1072, 1085, 1080, 1077, 32, 1079, 1072, 1076,
      1072, 1095, 32, 1082, 1086, 1084, 1072, 1085, 1076, 1099, 32, 1087, 1088, 1077, 1089, 1077,
      1081, 1083, 1072, 46, 32, 1048, 1084, 1077, 1085, 1072, 58, 32, 1040, 1085, 1076, 1088, 1077,
      1081, 44, 32, 1056, 1072, 1081, 44, 32, 1040, 1081, 1075, 1091, 1083, 1100, 44, 32, 1051,
      1105, 1096, 1072, 44, 32, 1050, 1072, 1090, 1103, 44, 32, 1044, 1080, 1084, 1072, 46, 32,
      1058, 1077, 1088, 1084, 1080, 1085, 1099, 58, 32, 1073, 1088, 1080, 1092, 44, 32, 1088, 1077,
      1089, 1105, 1088, 1095, 44, 32, 1050, 1055, 44, 32, 1076, 1077, 1076, 1083, 1072, 1081, 1085,
      44, 32, 1086, 1092, 1092, 1077, 1088, 44, 32, 1083, 1080, 1076, 44, 32, 1087, 1088, 1077,
      1089, 1077, 1081, 1083, 44, 32, 1052, 1058, 1057, 44, 32, 1052, 1077, 1075, 1072, 1092, 1086,
      1085, 46]"

text \<open>\<open>FasterWhisperSTT()\<close>.\<close>

definition faster_whisper_stt :: "'m recogniser" where
  "faster_whisper_stt = \<lparr>rg_model_size = MODEL_SIZE, rg_initial_prompt = Some INITIAL_PROMPT, rg_model = None\<rparr>"

definition load_model :: "('m, 'a) whisper \<Rightarrow> 'm recogniser \<Rightarrow> 'm res \<times> 'm recogniser" where
  "load_model lib s =
     (case rg_model s of
        Some m \<Rightarrow> (Inr m, s)
      | None \<Rightarrow> (case wl_model lib (rg_model_size s) of
                   Inl e \<Rightarrow> (Inl e, s)
                 | Inr m \<Rightarrow> (Inr m, s\<lparr>rg_model := Some m\<rparr>)))"

definition transcribe_sync :: "('m, 'a) whisper \<Rightarrow> 'a \<Rightarrow> 'm recogniser \<Rightarrow> ustr res \<times> 'm recogniser" where
  "transcribe_sync lib audio s =
     (case load_model lib s of
        (Inl e, s') \<Rightarrow> (Inl e, s')
      | (Inr m, s') \<Rightarrow>
          (bind_res (wl_transcribe lib m audio (ascii ''ru'') (rg_initial_prompt s')) (\<lambda>segments.
             Inr (strip (concat segments))), s'))"

definition warmup :: "('m, 'a) whisper \<Rightarrow> 'm recogniser \<Rightarrow> 'm recogniser" where
  "warmup lib s = snd (load_model lib s)"

definition transcribe :: "('m, 'a) whisper \<Rightarrow> 'a \<Rightarrow> 'm recogniser \<Rightarrow> ustr option \<times> 'm recogniser" where
  "transcribe lib audio s =
     (case transcribe_sync lib audio s of (Inl e, s') \<Rightarrow> (None, s') | (Inr t, s') \<Rightarrow> (Some t, s'))"

text \<open>
  \<open>asyncio.wait_for(stt.transcribe(...), _STT_TIMEOUT_S)\<close> in \<open>handle_voice\<close>: the answer counts when it
  comes in time; the thread goes on either way.
\<close>

definition hear :: "('m, 'a) whisper \<Rightarrow> bool \<Rightarrow> 'a \<Rightarrow> 'm recogniser \<Rightarrow> transcription \<times> 'm recogniser" where
  "hear lib in_time audio s =
     (case transcribe lib audio s of (t, s') \<Rightarrow> (if in_time then Transcript t else TimedOut, s'))"

subsection \<open>What is heard\<close>

definition spoken_text :: "('m, 'a) whisper \<Rightarrow> bool \<Rightarrow> 'a \<Rightarrow> 'm recogniser \<Rightarrow> ustr option" where
  "spoken_text lib in_time audio s =
     (case (case rg_model s of Some m \<Rightarrow> Inr m | None \<Rightarrow> wl_model lib (rg_model_size s)) of
        Inl e \<Rightarrow> None
      | Inr m \<Rightarrow>
          (case wl_transcribe lib m audio (ascii ''ru'') (rg_initial_prompt s) of
             Inl e \<Rightarrow> None
           | Inr segments \<Rightarrow> if in_time \<and> strip (concat segments) \<noteq> [] then Some (strip (concat segments)) else None))"

lemma hear_recognised: "recognised (fst (hear lib in_time audio s)) = spoken_text lib in_time audio s"
  by (auto simp: hear_def transcribe_def transcribe_sync_def load_model_def spoken_text_def recognised_def
      split: option.splits sum.splits)

lemma hear_answers: "fst (hear lib in_time audio s) \<noteq> SttRaised e"
  by (simp add: hear_def split: prod.split)

lemma answered_voice:
  assumes "\<And>e. vc_stt v \<noteq> SttRaised e"
  obtains apology where "transcribe_and_handle sv who fsm v =
    bbind (send (Answer [127897, 32, 1056, 1072, 1089, 1087, 1086, 1079, 1085, 1072, 1102, 8230])) (\<lambda>_.
    bbind (send DeleteAck) (\<lambda>_.
    case recognised (vc_stt v) of
      None \<Rightarrow> send (Answer apology)
    | Some text \<Rightarrow> bbind (handle_text sv who fsm None text) (\<lambda>_. bret ())))"
  using assms [of "case vc_stt v of SttRaised e \<Rightarrow> e | _ \<Rightarrow> ValueError"]
  by (cases "vc_stt v") (simp_all add: transcribe_and_handle_def)

lemma voice_as_text:
  assumes heard: "vc_stt v = fst (hear lib in_time audio s)"
  obtains apology where "transcribe_and_handle sv who fsm v =
    bbind (send (Answer [127897, 32, 1056, 1072, 1089, 1087, 1086, 1079, 1085, 1072, 1102, 8230])) (\<lambda>_.
    bbind (send DeleteAck) (\<lambda>_.
    case spoken_text lib in_time audio s of
      None \<Rightarrow> send (Answer apology)
    | Some text \<Rightarrow> bbind (handle_text sv who fsm None text) (\<lambda>_. bret ())))"
  by (rule answered_voice [of v sv who fsm]) (use heard that in \<open>simp_all add: hear_answers hear_recognised\<close>)

subsection \<open>Threads\<close>

text \<open>
  The model of a recogniser when warm-up and several voice messages load it at once. A thread finds the
  model or finds it missing and builds one; \<open>self._model = ...\<close> and \<open>return self._model\<close> are two steps.
  Building may raise, and may give another model each time: a step has its own library.
\<close>

datatype 'm thread = Starting | Building | Stored | Loaded 'm | Raised exn

inductive load_step ::
  "('m, 'a) whisper set \<Rightarrow> 'm recogniser \<times> (nat \<Rightarrow> 'm thread) \<Rightarrow> 'm recogniser \<times> (nat \<Rightarrow> 'm thread) \<Rightarrow> bool"
  for libs :: "('m, 'a) whisper set" where
  present: "ph t = Starting \<Longrightarrow> rg_model s = Some m \<Longrightarrow> load_step libs (s, ph) (s, ph(t := Loaded m))"
| missing: "ph t = Starting \<Longrightarrow> rg_model s = None \<Longrightarrow> load_step libs (s, ph) (s, ph(t := Building))"
| built: "ph t = Building \<Longrightarrow> lib \<in> libs \<Longrightarrow> wl_model lib (rg_model_size s) = Inr m \<Longrightarrow>
    load_step libs (s, ph) (s\<lparr>rg_model := Some m\<rparr>, ph(t := Stored))"
| failed: "ph t = Building \<Longrightarrow> lib \<in> libs \<Longrightarrow> wl_model lib (rg_model_size s) = Inl e \<Longrightarrow>
    load_step libs (s, ph) (s, ph(t := Raised e))"
| returned: "ph t = Stored \<Longrightarrow> rg_model s = Some m \<Longrightarrow> load_step libs (s, ph) (s, ph(t := Loaded m))"

definition genuine :: "('m, 'a) whisper set \<Rightarrow> ustr \<Rightarrow> 'm \<Rightarrow> bool" where
  "genuine libs sz m \<longleftrightarrow> (\<exists>lib \<in> libs. wl_model lib sz = Inr m)"

fun loads_ok :: "('m, 'a) whisper set \<Rightarrow> ustr \<Rightarrow> 'm recogniser \<times> (nat \<Rightarrow> 'm thread) \<Rightarrow> bool" where
  "loads_ok libs sz (s, ph) \<longleftrightarrow> rg_model_size s = sz \<and> (\<forall>m. rg_model s = Some m \<longrightarrow> genuine libs sz m) \<and>
     (\<forall>t. (ph t = Stored \<longrightarrow> rg_model s \<noteq> None) \<and> (\<forall>m. ph t = Loaded m \<longrightarrow> genuine libs sz m))"

lemma loads_ok_step: "load_step libs c c' \<Longrightarrow> loads_ok libs sz c \<Longrightarrow> loads_ok libs sz c'"
  by (induction rule: load_step.induct) (auto simp: genuine_def)

lemma loads_ok_steps: "(load_step libs)\<^sup>*\<^sup>* c c' \<Longrightarrow> loads_ok libs sz c \<Longrightarrow> loads_ok libs sz c'"
  by (induction rule: rtranclp_induct) (blast intro: loads_ok_step)+

lemma loads_genuine:
  assumes "(load_step libs)\<^sup>*\<^sup>* (faster_whisper_stt, \<lambda>_. Starting) (s, ph)"
  shows "(ph t = Loaded m \<longrightarrow> genuine libs MODEL_SIZE m) \<and> (ph t = Stored \<longrightarrow> rg_model s \<noteq> None)"
  using loads_ok_steps [OF assms, of MODEL_SIZE] by (simp add: faster_whisper_stt_def)

text \<open>A thread that is alone runs \<open>load_model\<close>.\<close>

lemma load_alone:
  assumes "ph t = Starting" "lib \<in> libs"
  shows "(load_step libs)\<^sup>*\<^sup>* (s, ph) (snd (load_model lib s),
    ph(t := (case fst (load_model lib s) of Inl e \<Rightarrow> Raised e | Inr m \<Rightarrow> Loaded m)))"
proof (cases "rg_model s")
  case (Some m)
  then show ?thesis using load_step.present [of ph t, OF assms(1)] by (auto simp: load_model_def)
next
  case None
  then have look: "load_step libs (s, ph) (s, ph(t := Building))" by (rule load_step.missing [of ph t, OF assms(1)])
  show ?thesis
  proof (cases "wl_model lib (rg_model_size s)")
    case (Inl e)
    have "load_step libs (s, ph(t := Building)) (s, (ph(t := Building))(t := Raised e))"
      by (rule load_step.failed [OF _ assms(2) Inl]) simp
    with look None Inl show ?thesis by (simp add: load_model_def)
  next
    case (Inr m)
    let ?s = "s\<lparr>rg_model := Some m\<rparr>"
    have "load_step libs (s, ph(t := Building)) (?s, (ph(t := Building))(t := Stored))"
      by (rule load_step.built [OF _ assms(2) Inr]) simp
    moreover have "load_step libs (?s, ph(t := Stored)) (?s, (ph(t := Stored))(t := Loaded m))"
      by (rule load_step.returned) simp_all
    ultimately show ?thesis
      using look None Inr by (simp add: load_model_def)
  qed
qed

end
