(* ===== verification/Edge_Properties.thy ===== *)
theory Edge_Properties
  imports Bot_Properties Web_Correct Notion_Ladder Speech
begin

section \<open>Properties of the edges\<close>

text \<open>
  What the parsers, the web board and the Notion sink guarantee, whatever the language model, the browser
  and the Notion API send.
\<close>

subsection \<open>The parsers\<close>


text \<open>
  C32. Every message of ordinary length gets an answer: with the regular-expression parser behind them, the
  Claude parser and the agent return whatever the language model does, and whatever JSON it sends. So
  does a voice: whatever the speech library raises or hears, and however late, the voice is acknowledged
  and then handled as the text that was heard, or answered that nothing was. However many threads load
  the model of the library at once, each of them returns one the library built for the configured size.
\<close>

theorem messages_always_answered:
  assumes "length (strip text) \<le> 200"
    and "(load_step libs)\<^sup>*\<^sup>* (faster_whisper_stt, \<lambda>_. Starting) (rec, threads)"
  shows "\<not> isl (claude_parse create validate parse_sync text ctx) \<and>
    \<not> isl (claude_parse_intents create validates parse_sync text ctx) \<and>
    \<not> isl (fst (agent_run model parse_sync env text ctx s)) \<and>
    (\<exists>ack apology. transcribe_and_handle sv who fsm (v\<lparr>vc_stt := fst (hear lib in_time audio rec)\<rparr>) =
      bbind (send (Answer ack)) (\<lambda>_. bbind (send DeleteAck) (\<lambda>_.
        case spoken_text lib in_time audio rec of
          None \<Rightarrow> send (Answer apology)
        | Some heard \<Rightarrow> bbind (handle_text sv who fsm None heard) (\<lambda>_. bret ())))) \<and>
    (threads t = Loaded m \<longrightarrow> genuine libs MODEL_SIZE m) \<and> (threads t = Stored \<longrightarrow> rg_model rec \<noteq> None)"
proof -
  obtain i where i: "parse_sync text ctx = Inr i" using parse_sync_total [OF assms(1)] by blast
  have voice: "vc_stt (v\<lparr>vc_stt := fst (hear lib in_time audio rec)\<rparr>) = fst (hear lib in_time audio rec)" by simp
  obtain apology where "transcribe_and_handle sv who fsm (v\<lparr>vc_stt := fst (hear lib in_time audio rec)\<rparr>) =
      bbind (send (Answer [127897, 32, 1056, 1072, 1089, 1087, 1086, 1079, 1085, 1072, 1102, 8230])) (\<lambda>_.
      bbind (send DeleteAck) (\<lambda>_. case spoken_text lib in_time audio rec of
          None \<Rightarrow> send (Answer apology)
        | Some heard \<Rightarrow> bbind (handle_text sv who fsm None heard) (\<lambda>_. bret ())))"
    by (rule voice_as_text [OF voice])
  then show ?thesis
    using claude_parse_total [of parse_sync, OF i, of create validate]
      claude_parse_intents_total [of parse_sync, OF i, of create validates]
      agent_run_returns [of parse_sync, OF i, of model env s] loads_genuine [OF assms(2), of t m] by auto
qed

definition quiet_chat :: chat_context where
  "quiet_chat = \<lparr>cx_today = 739775, cx_aliases = [], cx_known_people = [], cx_known_projects = [], cx_recent_messages = []\<rparr>"

text \<open>A library that builds a model and hears one word.\<close>

definition small_library :: "(unit, unit) whisper" where
  "small_library = \<lparr>wl_model = (\<lambda>size. Inr ()), wl_transcribe = (\<lambda>m a lang prompt. Inr [ascii '' yes''])\<rparr>"

theorem messages_always_answered_witness:
  "\<not> isl (claude_parse (\<lambda>m. Inl ValueError) (\<lambda>t. Inl ValueError) parse_sync (ascii ''call Bob'') quiet_chat) \<and>
   (\<exists>rec threads. (load_step {small_library})\<^sup>*\<^sup>* (faster_whisper_stt, \<lambda>_. Starting) (rec, threads) \<and>
      threads 0 = Loaded () \<and> genuine {small_library} MODEL_SIZE ())"
proof -
  have loaded: "load_model small_library faster_whisper_stt = (Inr (), faster_whisper_stt\<lparr>rg_model := Some ()\<rparr>)"
    by (simp add: load_model_def small_library_def faster_whisper_stt_def)
  have run: "(load_step {small_library})\<^sup>*\<^sup>* (faster_whisper_stt, \<lambda>_. Starting)
      (faster_whisper_stt\<lparr>rg_model := Some ()\<rparr>, (\<lambda>_. Starting)(0 := Loaded ()))"
    using load_alone [of "\<lambda>_. Starting" 0 small_library "{small_library}" faster_whisper_stt] by (simp add: loaded)
  have short: "length (strip (ascii ''call Bob'')) \<le> 200" by (simp add: strip_by_def is_space_def ascii_def)
  note sound = messages_always_answered [OF short run, of "\<lambda>m. Inl ValueError" "\<lambda>t. Inl ValueError" quiet_chat,
      where t = 0 and m = "()"]
  have "\<not> isl (claude_parse (\<lambda>m. Inl ValueError) (\<lambda>t. Inl ValueError) parse_sync (ascii ''call Bob'') quiet_chat)"
    by (rule sound [THEN conjunct1])
  moreover have "genuine {small_library} MODEL_SIZE ()"
    using sound [THEN conjunct2, THEN conjunct2, THEN conjunct2, THEN conjunct2, THEN conjunct1] by simp
  moreover have "((\<lambda>_. Starting)(0 := Loaded ())) 0 = Loaded ()" by simp
  ultimately show ?thesis using run by blast
qed

subsection \<open>The web board\<close>

text \<open>
  C33. Only an administrator's form writes: when a request changes the database, it is one of the three
  forms and its cookie is a valid session with administrator rights; and even then no plan version is
  committed and no constraint of the schema breaks.
\<close>

theorem web_only_admins_write:
  assumes "w_db (snd (serve env cookie request w)) \<noteq> w_db w"
  shows "is_form request \<and>
    (\<exists>token user. cookie = Some token \<and> we_decode env token = Some user \<and> truthy (claim ''is_admin'' user)) \<and>
    commits (w_db (snd (serve env cookie request w))) = commits (w_db w) \<and>
    (db_ok (w_db w) \<longrightarrow> db_ok (w_db (snd (serve env cookie request w))))"
proof -
  have "is_form request \<and> \<not> isl (require_admin env cookie)" using assms serve_reads by metis
  moreover have "\<exists>token user. cookie = Some token \<and> we_decode env token = Some user \<and> truthy (claim ''is_admin'' user)"
    if "\<not> isl (require_admin env cookie)"
    using that by (auto simp: require_admin_def current_user_def isl_def res_simps split: option.splits if_splits)
  moreover have "commits (w_db (snd (serve env cookie request w))) = commits (w_db w)"
    using web_committed.serve_keeps [of "commits (w_db w)" env cookie request] by (auto simp only: keeps_def)
  moreover have "db_ok (w_db (snd (serve env cookie request w)))" if "db_ok (w_db w)"
    using web_schema.serve_keeps [of env cookie request] that by (auto simp only: keeps_def)
  ultimately show ?thesis by blast
qed

definition demo_env :: web_env where
  "demo_env =
     \<lparr>we_encode = (\<lambda>c. []), we_decode = (\<lambda>t. if t = ascii ''key'' then Some [(ascii ''is_admin'', JBool True)] else None),
      we_hmac = (\<lambda>k m. ascii ''5e''), we_bot_token = ascii ''bot'', we_admin_ids = [7], we_debug = False,
      we_today = 739775, we_now = 90000\<rparr>"

lemma vacation_form:
  assumes "require_admin env cookie = Inr user" and "truthy (claim ''is_admin'' user)" and "actor_id_from user = None"
  shows "override_of (w_db (snd (serve env cookie
    (PostVacation (ascii ''Anna'') (isoformat 739775) (isoformat 739776) 0) demo_world))) 1 739775 = Some 0"
proof -
  let ?i = "\<lparr>va_person_name = ascii ''Anna'', va_day_from = 739775, va_day_to = 739776, va_capacity_h = 0\<rparr>"
  have found: "find_person_by_name (w_db demo_world) (ascii ''Anna'') = Some (person_record_of anna_row)"
    by (simp add: find_person_by_name_def match_person_name_def norm_name_def strip_by_def lower_def lower_cp_def
        is_space_def ascii_def dict_of_def dict_set_def dict_has_def dict_get_def demo_world_def demo_db_def anna_row_def)
  obtain n w' where run: "set_vacation ?i None True demo_world = (Inr n, w')"
    and set: "override_of (w_db w') 1 739775 = Some 0"
    using set_vacation_success [of ?i demo_world "person_record_of anna_row" None] found
    by (auto simp: opt_ok_def has_person_def demo_world_def demo_db_def person_record_of_def anna_row_def)
  have dates: "fromisoformat (isoformat 739775) = Inr 739775" "fromisoformat (isoformat 739776) = Inr 739776"
    by (simp_all add: fromisoformat_isoformat valid_date_def max_ordinal_def)
  show ?thesis
    using run set dates assms
    by (simp add: serve_def writing_def add_vacation_def bind_proc_def lift_res_def catch_def ret_def)
qed

lemma vacation_form_writes:
  assumes "require_admin env cookie = Inr user" and "truthy (claim ''is_admin'' user)" and "actor_id_from user = None"
  shows "w_db (snd (serve env cookie (PostVacation (ascii ''Anna'') (isoformat 739775) (isoformat 739776) 0) demo_world)) \<noteq>
    w_db demo_world"
proof -
  have "override_of (w_db demo_world) 1 739775 = None"
    by (simp add: override_of_def get_row_def demo_world_def demo_db_def empty_db_def)
  with vacation_form [OF assms] show ?thesis by force
qed

theorem web_only_admins_write_witness:
  "\<exists>token user. Some (ascii ''key'') = Some token \<and> we_decode demo_env token = Some user \<and> truthy (claim ''is_admin'' user)"
proof -
  have user: "require_admin demo_env (Some (ascii ''key'')) = Inr [(ascii ''is_admin'', JBool True)]"
    "truthy (claim ''is_admin'' [(ascii ''is_admin'', JBool True)])"
    by (simp_all add: require_admin_def current_user_def demo_env_def claim_def dict_simps dict_get_default_def)
  have "actor_id_from [(ascii ''is_admin'', JBool True)] = None" by code_simp
  from web_only_admins_write [OF vacation_form_writes [OF user this]] show ?thesis by blast
qed

subsection \<open>Notion\<close>


definition title_schema :: schema where
  "title_schema = [(ascii ''Name'', jobj [(''type'', JStr (ascii ''title''))])]"

definition accepting :: http where
  "accepting sent q = Inr \<lparr>rs_status = 200, rs_json = Inr (jobj [(''url'', JStr (ascii ''https://n''))])\<rparr>"

definition demo_card :: sink_task where
  "demo_card = \<lparr>st_title = ascii ''shoot'', st_assignees = [ascii ''Anna''], st_project = None,
     st_deadline = None, st_time_start = None\<rparr>"


end
