(* ===== verification/Dispatch_Properties.thy ===== *)
theory Dispatch_Properties
  imports Bot_Properties Dispatcher_Safety
begin

section \<open>Properties of the dispatcher\<close>

text \<open>
  What an update does under the middlewares and the routes of \<open>build_dispatcher\<close>: which handler a command
  reaches, and that updates of outsiders change nothing.
\<close>

definition demo_deployment :: deployment where
  "demo_deployment =
     \<lparr>dp_services = demo_services, dp_admin_ids = [1], dp_team_chat = None, dp_username = ascii ''planbot'',
      dp_command = (\<lambda>m. None)\<rparr>"

definition idle :: "world \<Rightarrow> memory_fsm dispatcher" where
  "idle w =
     \<lparr>ds_throttle = \<lparr>th_min = 1, th_last_seen = []\<rparr>, ds_conversations = (\<lambda>_. (None, [])), ds_world = w,
      ds_replies = [], ds_history = \<lparr>ch_max_turns = 6, ch_by_chat = []\<rparr>, ds_voice = []\<rparr>"

definition confirm_pressed :: "int \<Rightarrow> event" where
  "confirm_pressed user =
     \<lparr>ev_user = Some user, ev_chat = Some 9, ev_monotonic = 0, ev_today = 739775,
      ev_update = CallbackUpdate (ascii ''confirm:'' @ uuid_str 50)\<rparr>"

lemma demo_wiring [simp]:
  "dp_services demo_deployment = demo_services" "hs_has_repo demo_services" "dp_admin_ids demo_deployment = [1]"
  "dp_team_chat demo_deployment = None" "ev_user (confirm_pressed u) = Some u" "ev_chat (confirm_pressed u) = Some 9"
  "ev_update (confirm_pressed u) = CallbackUpdate (ascii ''confirm:'' @ uuid_str 50)" "ds_world (idle w) = w"
  by (simp_all add: demo_deployment_def demo_services_def confirm_pressed_def idle_def)

lemma demo_team: "get_row pr_tg_user_id (Some 7) (db_people (w_db demo_world)) = Some anna_row"
  "get_row pr_tg_user_id (Some 5) (db_people (w_db demo_world)) = None"
  by (simp_all add: get_row_def anna_row_def demo_world_def demo_db_def)

lemma routed_confirm: "route_callback (ascii ''confirm:'' @ s) = Some OnConfirm"
  by (simp add: route_callback_def callback_routes_def startswith_def ascii_def)

subsection \<open>Rights\<close>

text \<open>
  C13. Updates of people the middleware does not recognise change nothing: whoever is neither listed as an
  administrator, nor a member of the team, nor writes in the team chat can send any text, voice or
  command and press any button, and no table changes.
\<close>

theorem outsiders_change_nothing:
  assumes "hs_has_repo (dp_services d)" and "\<forall>u. ev_user e = Some u \<longrightarrow> u \<notin> set (dp_admin_ids d)"
    and "\<forall>u. ev_user e = Some u \<longrightarrow> get_row pr_tg_user_id (Some u) (db_people (w_db (ds_world s))) = None"
    and "dp_team_chat d = None \<or> ev_chat e \<noteq> dp_team_chat d"
  shows "w_db (ds_world (process_update d fsm e s)) = w_db (ds_world s)"
proof -
  have "\<not> sd_is_admin (sender_of d e (w_db (ds_world s)))"
    using assms by (cases "ev_user e") (auto simp: sender_of_def Let_def)
  from outsider_update_keeps [OF assms(1) this, of "\<lambda>x. x = w_db (ds_world s)"] show ?thesis by simp
qed

theorem outsiders_change_nothing_witness:
  "w_db (ds_world (process_update demo_deployment memory_storage (confirm_pressed 5) (idle (plan_world (ascii ''proposed''))))) =
    w_db (plan_world (ascii ''proposed''))"
  using outsiders_change_nothing [of demo_deployment "confirm_pressed 5" "idle (plan_world (ascii ''proposed''))" memory_storage]
  by (simp add: demo_team)

subsection \<open>Routes\<close>

text \<open>
  C14. Which handler a typed command reaches: its own, as long as no conversation is open. While the
  dialogue waits for a project name or a date every command but \<open>/start\<close> is taken for the answer, and
  while the edit loop waits every command but \<open>/start\<close> and \<open>/task\<close> is taken for the edit.
\<close>

theorem commands_routed:
  assumes "startswith (mg_text m) (ascii ''/'')"
  shows "route_message (Some (ascii c)) st TextContent m =
    (if c = ''start'' then Some OnStart
     else if st = Some WAITING_PROJECT_NAME then Some OnTypedProject
     else if st = Some WAITING_DEADLINE_TEXT then Some OnTypedDeadline
     else if c = ''task'' then Some OnTask
     else if st = Some PLAN_EDIT_WAITING then Some OnEditText
     else map_of [(''load'', OnLoad), (''vacation'', OnVacation), (''replan'', OnReplan)] c)"
proof -
  have "mg_text m \<noteq> []" using assms by (auto simp: startswith_def ascii_def)
  then show ?thesis using assms
    by (auto simp: route_message_def message_routes_def clarify_routes_def task_routes_def on_command_def in_state_def
        has_text_def on_voice_note_def on_plain_text_def inj_eq [OF inj_ascii])
qed

theorem commands_routed_witness:
  "route_message (Some (ascii ''vacation'')) (Some WAITING_PROJECT_NAME) TextContent
     \<lparr>mg_text = ascii ''/vacation Anna'', mg_has_chat = True, mg_private = True, mg_has_bot = True, mg_user = Some 7,
      mg_reply_to_bot = False, mg_now = 0\<rparr> = Some OnTypedProject"
  using commands_routed [of "\<lparr>mg_text = ascii ''/vacation Anna'', mg_has_chat = True, mg_private = True,
      mg_has_bot = True, mg_user = Some 7, mg_reply_to_bot = False, mg_now = 0\<rparr>" "''vacation''" "Some WAITING_PROJECT_NAME"]
  by (simp add: startswith_def ascii_def)

end
