(* ===== verification/Process_Properties.thy ===== *)
theory Process_Properties
  imports Web_Sessions Edge_Properties Dispatch_Properties
begin

section \<open>Properties of the running process\<close>

text \<open>
  What the settings have to be for the process to start and how it is wired then, and what holds of every
  state it reaches, whatever updates, web requests and jobs arrive in which order. The witnesses launch
  the process without keys, with one administrator, over the database of one proposed plan.
\<close>

definition bad_admin_id :: "ustr \<Rightarrow> bool" where
  "bad_admin_id x \<longleftrightarrow> strip x \<noteq> [] \<and> py_int x = None"

lemma admin_ids_outcome:
  "case admin_id_set st of
     Inl e \<Rightarrow> e = ValueError \<and> list_ex bad_admin_id (split_char 44 (se_admin_ids st))
   | Inr ids \<Rightarrow> \<not> list_ex bad_admin_id (split_char 44 (se_admin_ids st)) \<and>
       map Some ids = map py_int (filter (\<lambda>x. strip x \<noteq> []) (split_char 44 (se_admin_ids st)))"
proof -
  have "case map_res int_res (filter (\<lambda>x. strip x \<noteq> []) xs) of
      Inl e \<Rightarrow> e = ValueError \<and> list_ex bad_admin_id xs
    | Inr ids \<Rightarrow> \<not> list_ex bad_admin_id xs \<and> map Some ids = map py_int (filter (\<lambda>x. strip x \<noteq> []) xs)" for xs
    by (induction xs) (auto simp: int_res_def bad_admin_id_def [abs_def] split: option.splits sum.splits)
  then show ?thesis by (simp add: admin_id_set_def)
qed

lemma menu_routed:
  "map (\<lambda>(c, description). route_message (Some (ascii c)) None TextContent (m\<lparr>mg_text := 47 # ascii c\<rparr>)) BOT_COMMANDS =
    map Some [OnStart, OnTask, OnLoad, OnVacation, OnReplan]"
  by (simp add: BOT_COMMANDS_def route_message_def message_routes_def clarify_routes_def task_routes_def on_command_def
      in_state_def has_text_def on_voice_note_def on_plain_text_def startswith_def ascii_def)


subsection \<open>A process without keys\<close>

definition bare_settings :: settings where
  "bare_settings =
     \<lparr>se_database_url = [], se_redis_url = [], se_bot_token = ascii ''bot'', se_team_chat_id = 3,
      se_admin_ids = [], se_anthropic_api_key = [], se_agent_enabled = True, se_webhook_secret = [],
      se_jwt_secret = ascii ''s'', se_notion_token = [], se_notion_database_id = [], se_notion_parent_page_id = [],
      se_timezone = ascii ''Europe/Moscow'', se_debug = False\<rparr>"

definition bare_surroundings :: surroundings where
  "bare_surroundings =
     \<lparr>su_days = (\<lambda>year. Inl (OtherError [])), su_networkx = reference_networkx,
      su_agent_model = (\<lambda>key. silent_model), su_create = (\<lambda>key message. Inl (OtherError [])),
      su_create_list = (\<lambda>key message. Inl (OtherError [])), su_validate = (\<lambda>t. Inl ValueError),
      su_validate_list = (\<lambda>t. Inl ValueError), su_notion = (\<lambda>token log request. Inl (OtherError [])),
      su_jwt = reference_jwt, su_hmac = (\<lambda>key message. []), su_username = ascii ''planbot'',
      su_command = (\<lambda>m. None), su_repr = (\<lambda>j. []), su_exc_text = (\<lambda>e. []), su_field_int = json_int,
      su_field_time = json_int\<rparr>"

lemma bare_start: "\<exists>pg. main bare_surroundings bare_settings 739775 = Inr pg"
  by (simp add: main_def ensure_secure_config_def insecure_def DEFAULT_JWT_SECRET_def bare_settings_def admin_id_set_def
      build_dispatcher_def create_app_def Let_def ascii_def strip_by_def)

lemma bare_reachable:
  obtains p where "reachable bare_surroundings bare_settings memory_storage w p" "ds_world (pr_bot p) = w"
    "ds_conversations (pr_bot p) = (\<lambda>_. (None, []))"
  using bare_start reachable.launched [of bare_surroundings bare_settings 739775 _ memory_storage w "\<lambda>_. (None, [])"]
  by (auto simp: launch_def)

subsection \<open>What every run keeps\<close>



text \<open>
  C10. In a running process plans are committed by confirmations only. When a step changes which plans are
  committed, it is an update of the bot, neither a web request nor a job; its sender has the rights of an
  administrator; and the confirm button was pressed, or a confirmation word was typed or spoken, whatever
  the language model answers and whichever tools it calls. Only a text that the Claude parser reads
  alone may commit by another reading: with a key, an edit of a plan, or any text with the agent off.
\<close>

theorem process_commits_confirmed:
  assumes "reachable su st fsm w p"
    and "commits (process_db (process_step su fsm ev p)) \<noteq> commits (process_db p)"
  shows "\<exists>e. ev = BotUpdate e \<and> sd_is_admin (sender_of (pg_deployment (pr_program p)) e (process_db p)) \<and>
    (case ev_update e of
       CallbackUpdate data \<Rightarrow> route_callback data = Some OnConfirm
     | MessageUpdate content m \<Rightarrow> \<exists>h t.
         route_message (su_command su m) (fp_state fsm (ds_conversations (pr_bot p) (conversation_key e))) content m = Some h \<and>
         said_text h content m = Some t \<and>
         (said_confirmation t \<or> se_anthropic_api_key st \<noteq> [] \<and> (h = OnEditText \<or> \<not> se_agent_enabled st)))"
proof -
  obtain e where ev: "ev = BotUpdate e" and changed:
    "commits (w_db (ds_world (process_update (pg_deployment (pr_program p)) fsm e (pr_bot p)))) \<noteq> commits (process_db p)"
    by (rule step_commits [OF assms(2)])
  note wired = reachable_wired [OF assms(1)]
  obtain ids slv day where parts: "pg_deployment (pr_program p) =
      \<lparr>dp_services = wired_services su st (build_parser su st) (Some slv) True day, dp_admin_ids = ids,
       dp_team_chat = Some (se_team_chat_id st), dp_username = su_username su, dp_command = su_command su\<rparr>"
    by (rule wired_parts [OF wired])
  have "hs_has_repo (dp_services (pg_deployment (pr_program p)))" by (simp add: parts wired_services_def)
  from update_commits [OF changed this] wired_no_bare_model [OF wired] ev show ?thesis
    by (fastforce simp: parts split: update.splits)
qed

lemma confirm_button_commits:
  assumes "hs_has_repo (dp_services d)" "hs_confirm (dp_services d) = Some sink"
    and "ds_world s = plan_world (ascii ''proposed'')"
  shows "commits (w_db (ds_world (process_update d fsm (confirm_pressed 7) s))) = [50]"
proof -
  let ?e = "confirm_pressed 7"
  let ?who = "sender_of d ?e (w_db (ds_world s))"
  have who: "sd_is_admin ?who" "sd_record ?who = Some (person_record_of anna_row)"
    using assms(1,3) by (simp_all add: sender_of_def Let_def demo_team)
  have row: "get_row pv_id 50 (db_plans (w_db (ds_world s))) = Some (plan_row (ascii ''proposed''))"
    using assms(3) by (simp add: get_row_def)
  have actor: "opt_ok (has_person (w_db (ds_world s))) (map_option pp_id (sd_record ?who))"
    unfolding who using assms(3) by (simp add: opt_ok_def has_person_def person_record_of_def demo_world_def demo_db_def)
  obtain r w' where run: "confirm_plan sink 50 (sd_record ?who) (ds_world s) = (Inr r, w')"
    and db: "w_db w' = confirmed_db 50 (pv_project_id (plan_row (ascii ''proposed''))) (map_option pp_id (sd_record ?who))
      (w_now (ds_world s)) (w_db (ds_world s))"
    using confirm_proposed [OF row _ actor, of sink] by auto
  have target: "uuid_parse (after_colon (ascii ''confirm:'' @ uuid_str 50)) = Inr 50"
    by (simp add: after_colon_def ascii_def)
  have "process_update d fsm ?e s = guarded d ?e CallbackEvent
      (\<lambda>who. run_callback (services_at d ?e) fsm who OnConfirm (ascii ''confirm:'' @ uuid_str 50)) s"
    by (simp add: process_update_def routed_confirm)
  moreover have "hs_confirm (services_at d ?e) = Some sink" using assms(2) by (simp add: services_at_def)
  ultimately show ?thesis
    using who run target db assms(3)
    by (auto simp: guarded_def error_boundary_def bcatch_def bbind_def with_actor_run enter_def run_callback_def
        handle_confirm_def run_use_case_def lift_res_def ret_def bret_def send_def leave_def commits_def committed_rows_def
        confirmed_db_def)
qed

theorem process_commits_confirmed_witness:
  "\<exists>p. reachable bare_surroundings bare_settings memory_storage (plan_world (ascii ''proposed'')) p \<and>
    sd_is_admin (sender_of (pg_deployment (pr_program p)) (confirm_pressed 7) (process_db p))"
proof -
  obtain p where p: "reachable bare_surroundings bare_settings memory_storage (plan_world (ascii ''proposed'')) p"
    and w: "ds_world (pr_bot p) = plan_world (ascii ''proposed'')" by (rule bare_reachable)
  obtain ids slv day where parts: "pg_deployment (pr_program p) =
      \<lparr>dp_services = wired_services bare_surroundings bare_settings (build_parser bare_surroundings bare_settings) (Some slv)
         True day, dp_admin_ids = ids, dp_team_chat = Some (se_team_chat_id bare_settings),
       dp_username = su_username bare_surroundings, dp_command = su_command bare_surroundings\<rparr>"
    by (rule wired_parts [OF reachable_wired [OF p]])
  have "commits (process_db p) = []" by (simp add: w commits_def committed_rows_def)
  moreover have "commits (process_db (process_step bare_surroundings memory_storage (BotUpdate (confirm_pressed 7)) p)) = [50]"
    using confirm_button_commits [OF _ _ w] by (simp add: parts wired_services_def)
  ultimately show ?thesis
    using process_commits_confirmed [OF p, of "BotUpdate (confirm_pressed 7)"] p by auto
qed

subsection \<open>The web server\<close>


definition debug_settings :: settings where
  "debug_settings = bare_settings\<lparr>se_debug := True\<rparr>"

definition dev_claims :: claims where
  "dev_claims = [(ascii ''sub'', JStr (ascii ''dev'')), (ascii ''name'', JStr (ascii ''Dev Admin'')),
     (ascii ''tg_id'', JInt 0), (ascii ''is_admin'', JBool True)]"

abbreviation dev_token :: ustr where
  "dev_token \<equiv> create_jwt reference_jwt 0 dev_claims (se_jwt_secret debug_settings)"

abbreviation vacation_posted :: arrival where
  "vacation_posted \<equiv> WebRequest (Some dev_token)
     (PostVacation (ascii ''Anna'') (isoformat 739775) (isoformat 739776) 0) 739775 60"

lemma debug_start: "\<exists>pg. main bare_surroundings debug_settings 739775 = Inr pg"
  by (simp add: main_def ensure_secure_config_def insecure_def bare_settings_def debug_settings_def admin_id_set_def
      build_dispatcher_def create_app_def Let_def ascii_def strip_by_def)

lemma dev_session: "decode_jwt reference_jwt 60 dev_token (se_jwt_secret debug_settings) =
    Some (dict_set (ascii ''exp'') (JInt 43200) dev_claims)"
proof -
  have "flat_claims dev_claims" by (simp add: flat_claims_def dev_claims_def)
  from decode_created [OF reference_jwt_documented this, of 60 0 "se_jwt_secret debug_settings"] show ?thesis by simp
qed

lemma dev_logged_in:
  obtains p where "reachable bare_surroundings debug_settings memory_storage demo_world p" "ds_world (pr_bot p) = demo_world"
    "is_token ` set (pr_sessions p) = {dev_token}"
proof -
  obtain pg where pg: "main bare_surroundings debug_settings 739775 = Inr pg" using debug_start by blast
  let ?p = "launch (\<lambda>_. (None, [])) demo_world pg :: memory_fsm process"
  let ?ev = "WebRequest None (GetDevLogin (ascii ''localhost'')) 739775 0"
  note start = reachable.launched [OF pg, of memory_storage demo_world "\<lambda>_. (None, [])"]
  obtain ids where web: "pg_web pg = web_env_of bare_surroundings debug_settings ids" by (rule wired_web [OF main_wired [OF pg]])
  have "serve (web_env_of bare_surroundings debug_settings ids 739775 0) None (GetDevLogin (ascii ''localhost'')) demo_world =
      (Inr (StartSession dev_claims False), demo_world)"
    by (simp add: serve_def catch_def lift_res_def dev_login_def LOOPBACK_HOSTS_def dev_claims_def debug_settings_def)
  then have run: "ds_world (pr_bot (process_step bare_surroundings memory_storage ?ev ?p)) = demo_world"
    "pr_sessions (process_step bare_surroundings memory_storage ?ev ?p) =
      [\<lparr>is_request = GetDevLogin (ascii ''localhost''), is_now = 0, is_claims = dev_claims, is_token = dev_token\<rparr>]"
    by (simp_all add: answer_request_def on_world_def launch_def web Let_def sessions_of_def bare_surroundings_def)
  have "is_token ` set (pr_sessions (process_step bare_surroundings memory_storage ?ev ?p)) = {dev_token}"
    unfolding run(2) by simp
  from that [OF reachable.arrived [OF start] run(1) this] show thesis .
qed


end
