(* ===== verification/Migrations.thy ===== *)
theory Migrations
  imports "HOL-Library.Multiset"
begin

section \<open>The migrations of the database\<close>

text \<open>
  \<open>alembic/versions/\<close>: the data definition statements of each revision, up and down, and what they do to
  a schema; and the schema the mapped classes of \<open>infra/db/models.py\<close> declare. A statement the database
  would refuse makes the migration fail. The rows themselves are not modelled: the one update of
  revision 0007 only needs its table and columns to exist.
\<close>

subsection \<open>Schemas\<close>

datatype sql_type = UuidType | IntegerType | BigIntegerType | TextType | VarChar nat | BooleanType | DateType | TimeType
  | TimestampType | JsonType

record column =
  cn_type :: sql_type
  cn_null :: bool
  cn_default :: "string option"
  cn_unique :: bool
  cn_ref :: "string option"

type_synonym columns = "(string \<times> column) list"

text \<open>A check \<open>column IN (values)\<close>; every foreign key refers to the column \<open>id\<close>.\<close>

type_synonym check = "string \<times> string list"

record sql_table =
  sq_columns :: columns
  sq_key :: "string list"
  sq_checks :: "(string \<times> check) list"

type_synonym sql_schema = "(string \<times> sql_table) list"

definition col :: "sql_type \<Rightarrow> column" where
  "col t = \<lparr>cn_type = t, cn_null = True, cn_default = None, cn_unique = False, cn_ref = None\<rparr>"

definition required :: "column \<Rightarrow> column" where
  "required c = c\<lparr>cn_null := False\<rparr>"

definition server_default :: "string \<Rightarrow> column \<Rightarrow> column" where
  "server_default v c = c\<lparr>cn_default := Some v\<rparr>"

definition uniquely :: "column \<Rightarrow> column" where
  "uniquely c = c\<lparr>cn_unique := True\<rparr>"

definition refers :: "string \<Rightarrow> column \<Rightarrow> column" where
  "refers t c = c\<lparr>cn_ref := Some t\<rparr>"

definition key_col :: column where
  "key_col = required (col UuidType)"

definition flag :: "string \<Rightarrow> column" where
  "flag v = server_default v (required (col BooleanType))"

subsection \<open>Statements\<close>

datatype ddl =
    CreateTable string columns "string list" "(string \<times> check) list"
  | DropTable string
  | AddColumn string string column
  | DropColumn string string
  | AlterType string string sql_type
  | CreateCheck string string check
  | DropCheck string string
  | UpdateRows string "string list"

definition has_column :: "sql_schema \<Rightarrow> string \<Rightarrow> string \<Rightarrow> bool" where
  "has_column s t c = (case map_of s t of None \<Rightarrow> False | Some tab \<Rightarrow> c \<in> set (map fst (sq_columns tab)))"

definition on_table :: "string \<Rightarrow> (sql_table \<Rightarrow> sql_table option) \<Rightarrow> sql_schema \<Rightarrow> sql_schema option" where
  "on_table t f s =
     (case map_of s t of
        None \<Rightarrow> None
      | Some tab \<Rightarrow> map_option (\<lambda>tab'. map (\<lambda>(n, x). if n = t then (n, tab') else (n, x)) s) (f tab))"

definition refs_exist :: "sql_schema \<Rightarrow> columns \<Rightarrow> bool" where
  "refs_exist s cs =
     list_all (\<lambda>(n, c). case cn_ref c of None \<Rightarrow> True | Some t \<Rightarrow> has_column s t ''id'') cs"

definition referred :: "sql_schema \<Rightarrow> string \<Rightarrow> bool" where
  "referred s t = list_ex (\<lambda>(n, tab). n \<noteq> t \<and> list_ex (\<lambda>(m, c). cn_ref c = Some t) (sq_columns tab)) s"

text \<open>A dropped column takes its checks with it.\<close>

fun run_ddl :: "ddl \<Rightarrow> sql_schema \<Rightarrow> sql_schema option" where
  "run_ddl (CreateTable t cs key checks) s =
     (if map_of s t \<noteq> None \<or> \<not> refs_exist s cs then None
      else Some (s @ [(t, \<lparr>sq_columns = cs, sq_key = key, sq_checks = checks\<rparr>)]))"
| "run_ddl (DropTable t) s =
     (if map_of s t = None \<or> referred s t then None else Some (filter (\<lambda>(n, tab). n \<noteq> t) s))"
| "run_ddl (AddColumn t c d) s =
     (if \<not> refs_exist s [(c, d)] then None
      else on_table t (\<lambda>tab. if c \<in> set (map fst (sq_columns tab)) then None
        else Some (tab\<lparr>sq_columns := sq_columns tab @ [(c, d)]\<rparr>)) s)"
| "run_ddl (DropColumn t c) s =
     on_table t (\<lambda>tab. if c \<notin> set (map fst (sq_columns tab)) then None
       else Some (tab\<lparr>sq_columns := filter (\<lambda>(n, d). n \<noteq> c) (sq_columns tab),
                      sq_checks := filter (\<lambda>(n, ck). fst ck \<noteq> c) (sq_checks tab)\<rparr>)) s"
| "run_ddl (AlterType t c ty) s =
     on_table t (\<lambda>tab. if c \<notin> set (map fst (sq_columns tab)) then None
       else Some (tab\<lparr>sq_columns := map (\<lambda>(n, d). if n = c then (n, d\<lparr>cn_type := ty\<rparr>) else (n, d)) (sq_columns tab)\<rparr>)) s"
| "run_ddl (CreateCheck name t ck) s =
     on_table t (\<lambda>tab. if name \<in> set (map fst (sq_checks tab)) \<or> fst ck \<notin> set (map fst (sq_columns tab)) then None
       else Some (tab\<lparr>sq_checks := sq_checks tab @ [(name, ck)]\<rparr>)) s"
| "run_ddl (DropCheck name t) s =
     on_table t (\<lambda>tab. if name \<notin> set (map fst (sq_checks tab)) then None
       else Some (tab\<lparr>sq_checks := filter (\<lambda>(n, ck). n \<noteq> name) (sq_checks tab)\<rparr>)) s"
| "run_ddl (UpdateRows t cs) s = (if list_all (has_column s t) cs then Some s else None)"

fun run_all :: "ddl list \<Rightarrow> sql_schema \<Rightarrow> sql_schema option" where
  "run_all [] s = Some s"
| "run_all (d # ds) s = (case run_ddl d s of None \<Rightarrow> None | Some s' \<Rightarrow> run_all ds s')"

subsection \<open>Revisions\<close>

record revision =
  rv_id :: string
  rv_down :: "string option"
  rv_upgrade :: "ddl list"
  rv_downgrade :: "ddl list"

definition create_people :: ddl where
  "create_people = CreateTable ''people''
     [(''id'', key_col), (''tg_user_id'', uniquely (col IntegerType)), (''name'', required (col TextType)),
      (''role_label'', col TextType), (''capacity_h'', server_default ''8'' (required (col IntegerType))),
      (''is_admin'', flag ''false''), (''is_active'', flag ''true''), (''is_external'', flag ''false'')]
     [''id''] []"

definition create_templates :: ddl where
  "create_templates = CreateTable ''templates''
     [(''id'', key_col), (''code'', uniquely (required (col TextType))), (''name'', required (col TextType))]
     [''id''] []"

definition create_template_tasks :: ddl where
  "create_template_tasks = CreateTable ''template_tasks''
     [(''id'', key_col), (''template_id'', refers ''templates'' (required (col UuidType))),
      (''ord'', required (col IntegerType)), (''name'', required (col TextType)),
      (''duration_hours'', required (col IntegerType)), (''duration_is_window'', flag ''false''),
      (''is_splittable'', flag ''false''), (''allow_two_assignees'', flag ''false''),
      (''optional_in_lite'', flag ''false'')]
     [''id''] []"

definition create_template_task_assignees :: ddl where
  "create_template_task_assignees = CreateTable ''template_task_assignees''
     [(''template_task_id'', refers ''template_tasks'' key_col), (''person_id'', refers ''people'' key_col),
      (''strictness'', required (col (VarChar 1)))]
     [''template_task_id'', ''person_id''] [(''ck_strictness'', (''strictness'', [''A'', ''B'', ''C'']))]"

definition create_template_dependencies :: ddl where
  "create_template_dependencies = CreateTable ''template_dependencies''
     [(''template_task_id'', refers ''template_tasks'' key_col), (''depends_on_id'', refers ''template_tasks'' key_col),
      (''link_type'', required (col (VarChar 2)))]
     [''template_task_id'', ''depends_on_id''] [(''ck_link_type_template'', (''link_type'', [''FS'', ''SS'']))]"

definition create_projects :: ddl where
  "create_projects = CreateTable ''projects''
     [(''id'', key_col), (''title'', required (col TextType)), (''template_id'', refers ''templates'' (col UuidType)),
      (''brief_return_date'', col DateType), (''deadline'', col DateType),
      (''status'', server_default ''planning'' (required (col TextType))),
      (''created_at'', server_default ''now()'' (col TimestampType)), (''created_by'', refers ''people'' (col UuidType))]
     [''id''] []"

definition create_tasks :: ddl where
  "create_tasks = CreateTable ''tasks''
     [(''id'', key_col), (''project_id'', refers ''projects'' (required (col UuidType))),
      (''template_task_id'', refers ''template_tasks'' (col UuidType)), (''name'', required (col TextType)),
      (''duration_hours'', required (col IntegerType)), (''start_date'', col DateType), (''end_date'', col DateType),
      (''status'', server_default ''not_done'' (required (col TextType))), (''is_preliminary'', flag ''false''),
      (''is_splittable'', flag ''false''), (''allow_two_assignees'', flag ''false'')]
     [''id''] []"

definition create_assignments :: ddl where
  "create_assignments = CreateTable ''assignments''
     [(''task_id'', refers ''tasks'' key_col), (''person_id'', refers ''people'' key_col),
      (''hours'', required (col IntegerType))]
     [''task_id'', ''person_id''] []"

definition create_dependencies :: ddl where
  "create_dependencies = CreateTable ''dependencies''
     [(''task_id'', refers ''tasks'' key_col), (''depends_on_id'', refers ''tasks'' key_col),
      (''link_type'', required (col (VarChar 2)))]
     [''task_id'', ''depends_on_id''] [(''ck_link_type_dep'', (''link_type'', [''FS'', ''SS'']))]"

definition create_day_overrides :: ddl where
  "create_day_overrides = CreateTable ''day_overrides''
     [(''person_id'', refers ''people'' key_col), (''day'', required (col DateType)),
      (''capacity_h'', required (col IntegerType)), (''reason'', col TextType)]
     [''person_id'', ''day''] []"

definition create_plan_versions :: ddl where
  "create_plan_versions = CreateTable ''plan_versions''
     [(''id'', key_col), (''project_id'', refers ''projects'' (required (col UuidType))),
      (''status'', required (col TextType)), (''created_at'', server_default ''now()'' (col TimestampType)),
      (''created_by'', refers ''people'' (col UuidType)), (''payload'', required (col JsonType))]
     [''id''] []"

definition create_audit_log :: ddl where
  "create_audit_log = CreateTable ''audit_log''
     [(''id'', key_col), (''created_at'', required (server_default ''now()'' (col TimestampType))),
      (''actor_id'', refers ''people'' (col UuidType)), (''action'', required (col TextType)),
      (''entity_type'', required (col TextType)), (''entity_id'', col UuidType), (''payload'', col JsonType)]
     [''id''] []"

definition rev_0001 :: revision where
  "rev_0001 =
     \<lparr>rv_id = ''0001'', rv_down = None,
      rv_upgrade =
        [create_people, create_templates, create_template_tasks, create_template_task_assignees,
         create_template_dependencies, create_projects, create_tasks, create_assignments, create_dependencies,
         create_day_overrides, create_plan_versions, create_audit_log],
      rv_downgrade = map DropTable
        [''audit_log'', ''plan_versions'', ''day_overrides'', ''dependencies'', ''assignments'', ''tasks'', ''projects'',
         ''template_dependencies'', ''template_task_assignees'', ''template_tasks'', ''templates'', ''people'']\<rparr>"

definition rev_capability :: revision where
  "rev_capability =
     \<lparr>rv_id = ''25365964fe62'', rv_down = Some ''0001'',
      rv_upgrade =
        [CreateTable ''roles''
           [(''id'', key_col), (''name'', uniquely (required (col TextType))), (''description'', col TextType)] [''id''] [],
         CreateTable ''skills''
           [(''id'', key_col), (''name'', uniquely (required (col TextType))), (''description'', col TextType)] [''id''] [],
         CreateTable ''person_roles''
           [(''person_id'', refers ''people'' key_col), (''role_id'', refers ''roles'' key_col)] [''person_id'', ''role_id''] [],
         CreateTable ''role_skills''
           [(''role_id'', refers ''roles'' key_col), (''skill_id'', refers ''skills'' key_col)] [''role_id'', ''skill_id''] []],
      rv_downgrade = map DropTable [''role_skills'', ''person_roles'', ''skills'', ''roles'']\<rparr>"

definition rev_0003 :: revision where
  "rev_0003 =
     \<lparr>rv_id = ''0003'', rv_down = Some ''25365964fe62'',
      rv_upgrade = [AddColumn ''projects'' ''priority'' (server_default ''medium'' (required (col TextType)))],
      rv_downgrade = [DropColumn ''projects'' ''priority'']\<rparr>"

definition rev_0004 :: revision where
  "rev_0004 =
     \<lparr>rv_id = ''0004'', rv_down = Some ''0003'',
      rv_upgrade =
        [AddColumn ''tasks'' ''source'' (server_default ''bot_formed'' (required (col TextType))),
         CreateCheck ''ck_task_source'' ''tasks'' (''source'', [''bot_formed'', ''template'']),
         CreateTable ''task_history''
           [(''id'', key_col), (''person_id'', refers ''people'' (required (col UuidType))),
            (''task_name'', required (col TextType)), (''project_title'', col TextType),
            (''completed_at'', required (server_default ''now()'' (col TimestampType))), (''skills'', col JsonType)]
           [''id''] [],
         CreateCheck ''ck_plan_version_status'' ''plan_versions'' (''status'', [''proposed'', ''committed''])],
      rv_downgrade =
        [DropCheck ''ck_plan_version_status'' ''plan_versions'', DropTable ''task_history'',
         DropCheck ''ck_task_source'' ''tasks'', DropColumn ''tasks'' ''source'']\<rparr>"

definition rev_0005 :: revision where
  "rev_0005 =
     \<lparr>rv_id = ''0005'', rv_down = Some ''0004'',
      rv_upgrade = [AddColumn ''tasks'' ''required_skills'' (server_default ''[]'' (required (col JsonType)))],
      rv_downgrade = [DropColumn ''tasks'' ''required_skills'']\<rparr>"

definition rev_0006 :: revision where
  "rev_0006 =
     \<lparr>rv_id = ''0006'', rv_down = Some ''0005'',
      rv_upgrade =
        [DropCheck ''ck_plan_version_status'' ''plan_versions'',
         CreateCheck ''ck_plan_version_status'' ''plan_versions'' (''status'', [''proposed'', ''committed'', ''superseded''])],
      rv_downgrade =
        [DropCheck ''ck_plan_version_status'' ''plan_versions'',
         CreateCheck ''ck_plan_version_status'' ''plan_versions'' (''status'', [''proposed'', ''committed''])]\<rparr>"

definition pair_check :: "string \<Rightarrow> string" where
  "pair_check t = ''ck_pair_mode_'' @ (if t = ''template_tasks'' then ''template'' else ''task'')"

definition lag_column :: column where
  "lag_column = server_default ''0'' (required (col IntegerType))"

definition rev_0007 :: revision where
  "rev_0007 =
     \<lparr>rv_id = ''0007'', rv_down = Some ''0006'',
      rv_upgrade =
        concat (map (\<lambda>t.
          [AddColumn t ''pair_mode'' (server_default ''none'' (required (col (VarChar 8)))),
           UpdateRows t [''pair_mode'', ''allow_two_assignees''],
           CreateCheck (pair_check t) t (''pair_mode'', [''none'', ''optional'', ''required''])])
          [''template_tasks'', ''tasks'']) @
        [AddColumn ''tasks'' ''duration_is_window'' (flag ''false''),
         AddColumn ''template_task_assignees'' ''priority'' lag_column] @
        map (\<lambda>t. AddColumn t ''lag_working_days'' lag_column) [''template_dependencies'', ''dependencies''],
      rv_downgrade =
        map (\<lambda>t. DropColumn t ''lag_working_days'') [''template_dependencies'', ''dependencies''] @
        [DropColumn ''template_task_assignees'' ''priority'', DropColumn ''tasks'' ''duration_is_window''] @
        concat (map (\<lambda>t. [DropCheck (pair_check t) t, DropColumn t ''pair_mode'']) [''template_tasks'', ''tasks''])\<rparr>"

definition rev_0008 :: revision where
  "rev_0008 =
     \<lparr>rv_id = ''0008'', rv_down = Some ''0007'',
      rv_upgrade = [AddColumn ''projects'' ''notion_page_id'' (col TextType)],
      rv_downgrade = [DropColumn ''projects'' ''notion_page_id'']\<rparr>"

definition rev_0009 :: revision where
  "rev_0009 =
     \<lparr>rv_id = ''0009'', rv_down = Some ''0008'',
      rv_upgrade = [AlterType ''people'' ''tg_user_id'' BigIntegerType],
      rv_downgrade = [AlterType ''people'' ''tg_user_id'' IntegerType]\<rparr>"

definition rev_0010 :: revision where
  "rev_0010 =
     \<lparr>rv_id = ''0010'', rv_down = Some ''0009'',
      rv_upgrade = [AddColumn ''tasks'' ''time_start'' (col TimeType)],
      rv_downgrade = [DropColumn ''tasks'' ''time_start'']\<rparr>"

text \<open>The scripts in the order of their files, and the order in which Alembic runs them.\<close>

definition scripts :: "revision list" where
  "scripts = [rev_0001, rev_0003, rev_0004, rev_0005, rev_0006, rev_0007, rev_0008, rev_0009, rev_0010, rev_capability]"

function run_order :: "string option \<Rightarrow> revision list \<Rightarrow> revision list" where
  "run_order at revs =
     (case find (\<lambda>r. rv_down r = at) revs of
        None \<Rightarrow> []
      | Some r \<Rightarrow> r # run_order (Some (rv_id r)) (remove1 r revs))"
  by pat_completeness auto
termination
proof (relation "measure (\<lambda>(at, revs). length revs)")
  fix at revs r assume "find (\<lambda>r. rv_down r = at) revs = Some r"
  then have "r \<in> set revs" by (auto simp: find_Some_iff)
  then show "((Some (rv_id r), remove1 r revs), at, revs) \<in> measure (\<lambda>(at, revs). length revs)"
    using length_pos_if_in_set [of r revs] by (simp add: length_remove1)
qed simp

declare run_order.simps [simp del]

definition history :: "revision list" where
  "history = run_order None scripts"

fun migrate :: "revision list \<Rightarrow> sql_schema \<Rightarrow> sql_schema option" where
  "migrate [] s = Some s"
| "migrate (r # rs) s = (case run_all (rv_upgrade r) s of None \<Rightarrow> None | Some s' \<Rightarrow> migrate rs s')"

subsection \<open>The mapped classes\<close>

text \<open>
  A column of a class without \<open>None\<close> in its type is not nullable; the defaults that only the program
  fills in are left out.
\<close>

definition lag_field :: column where
  "lag_field = server_default ''0'' (required (col IntegerType))"

definition orm_schema :: sql_schema where
  "orm_schema =
     [(''people'', \<lparr>sq_columns = [(''id'', key_col), (''tg_user_id'', uniquely (col BigIntegerType)),
         (''name'', required (col TextType)), (''role_label'', col TextType), (''capacity_h'', required (col IntegerType)),
         (''is_admin'', required (col BooleanType)), (''is_active'', required (col BooleanType)),
         (''is_external'', required (col BooleanType))],
       sq_key = [''id''], sq_checks = []\<rparr>),
      (''roles'', \<lparr>sq_columns = [(''id'', key_col), (''name'', uniquely (required (col TextType))), (''description'', col TextType)],
       sq_key = [''id''], sq_checks = []\<rparr>),
      (''skills'', \<lparr>sq_columns = [(''id'', key_col), (''name'', uniquely (required (col TextType))), (''description'', col TextType)],
       sq_key = [''id''], sq_checks = []\<rparr>),
      (''role_skills'', \<lparr>sq_columns = [(''role_id'', refers ''roles'' key_col), (''skill_id'', refers ''skills'' key_col)],
       sq_key = [''role_id'', ''skill_id''], sq_checks = []\<rparr>),
      (''person_roles'', \<lparr>sq_columns = [(''person_id'', refers ''people'' key_col), (''role_id'', refers ''roles'' key_col)],
       sq_key = [''person_id'', ''role_id''], sq_checks = []\<rparr>),
      (''templates'', \<lparr>sq_columns = [(''id'', key_col), (''code'', uniquely (required (col TextType))), (''name'', required (col TextType))],
       sq_key = [''id''], sq_checks = []\<rparr>),
      (''template_tasks'', \<lparr>sq_columns = [(''id'', key_col), (''template_id'', refers ''templates'' (required (col UuidType))),
         (''ord'', required (col IntegerType)), (''name'', required (col TextType)), (''duration_hours'', required (col IntegerType)),
         (''duration_is_window'', required (col BooleanType)), (''is_splittable'', required (col BooleanType)),
         (''allow_two_assignees'', required (col BooleanType)),
         (''pair_mode'', server_default ''none'' (required (col (VarChar 8)))), (''optional_in_lite'', required (col BooleanType))],
       sq_key = [''id''], sq_checks = [(''ck_pair_mode_template'', (''pair_mode'', [''none'', ''optional'', ''required'']))]\<rparr>),
      (''template_task_assignees'', \<lparr>sq_columns = [(''template_task_id'', refers ''template_tasks'' key_col),
         (''person_id'', refers ''people'' key_col), (''strictness'', required (col (VarChar 1))), (''priority'', lag_field)],
       sq_key = [''template_task_id'', ''person_id''], sq_checks = [(''ck_strictness'', (''strictness'', [''A'', ''B'', ''C'']))]\<rparr>),
      (''template_dependencies'', \<lparr>sq_columns = [(''template_task_id'', refers ''template_tasks'' key_col),
         (''depends_on_id'', refers ''template_tasks'' key_col), (''link_type'', required (col (VarChar 2))),
         (''lag_working_days'', lag_field)],
       sq_key = [''template_task_id'', ''depends_on_id''],
       sq_checks = [(''ck_link_type_template'', (''link_type'', [''FS'', ''SS'']))]\<rparr>),
      (''projects'', \<lparr>sq_columns = [(''id'', key_col), (''title'', required (col TextType)),
         (''template_id'', refers ''templates'' (col UuidType)), (''brief_return_date'', col DateType), (''deadline'', col DateType),
         (''priority'', required (col TextType)), (''status'', required (col TextType)), (''notion_page_id'', col TextType),
         (''created_at'', server_default ''now()'' (required (col TimestampType))), (''created_by'', refers ''people'' (col UuidType))],
       sq_key = [''id''], sq_checks = []\<rparr>),
      (''tasks'', \<lparr>sq_columns = [(''id'', key_col), (''project_id'', refers ''projects'' (required (col UuidType))),
         (''template_task_id'', refers ''template_tasks'' (col UuidType)), (''name'', required (col TextType)),
         (''duration_hours'', required (col IntegerType)), (''start_date'', col DateType), (''end_date'', col DateType),
         (''time_start'', col TimeType), (''status'', required (col TextType)), (''source'', required (col TextType)),
         (''required_skills'', server_default ''[]'' (required (col JsonType))), (''is_preliminary'', required (col BooleanType)),
         (''is_splittable'', required (col BooleanType)), (''duration_is_window'', flag ''false''),
         (''allow_two_assignees'', required (col BooleanType)),
         (''pair_mode'', server_default ''none'' (required (col (VarChar 8))))],
       sq_key = [''id''], sq_checks = [(''ck_task_source'', (''source'', [''bot_formed'', ''template''])),
         (''ck_pair_mode_task'', (''pair_mode'', [''none'', ''optional'', ''required'']))]\<rparr>),
      (''assignments'', \<lparr>sq_columns = [(''task_id'', refers ''tasks'' key_col), (''person_id'', refers ''people'' key_col),
         (''hours'', required (col IntegerType))],
       sq_key = [''task_id'', ''person_id''], sq_checks = []\<rparr>),
      (''dependencies'', \<lparr>sq_columns = [(''task_id'', refers ''tasks'' key_col), (''depends_on_id'', refers ''tasks'' key_col),
         (''link_type'', required (col (VarChar 2))), (''lag_working_days'', lag_field)],
       sq_key = [''task_id'', ''depends_on_id''], sq_checks = [(''ck_link_type_dep'', (''link_type'', [''FS'', ''SS'']))]\<rparr>),
      (''day_overrides'', \<lparr>sq_columns = [(''person_id'', refers ''people'' key_col), (''day'', required (col DateType)),
         (''capacity_h'', required (col IntegerType)), (''reason'', col TextType)],
       sq_key = [''person_id'', ''day''], sq_checks = []\<rparr>),
      (''plan_versions'', \<lparr>sq_columns = [(''id'', key_col), (''project_id'', refers ''projects'' (required (col UuidType))),
         (''status'', required (col TextType)), (''created_at'', server_default ''now()'' (required (col TimestampType))),
         (''created_by'', refers ''people'' (col UuidType)), (''payload'', required (col JsonType))],
       sq_key = [''id''], sq_checks = []\<rparr>),
      (''audit_log'', \<lparr>sq_columns = [(''id'', key_col), (''created_at'', server_default ''now()'' (required (col TimestampType))),
         (''actor_id'', refers ''people'' (col UuidType)), (''action'', required (col TextType)),
         (''entity_type'', required (col TextType)), (''entity_id'', col UuidType), (''payload'', col JsonType)],
       sq_key = [''id''], sq_checks = []\<rparr>),
      (''task_history'', \<lparr>sq_columns = [(''id'', key_col), (''person_id'', refers ''people'' (required (col UuidType))),
         (''task_name'', required (col TextType)), (''project_title'', col TextType),
         (''completed_at'', server_default ''now()'' (required (col TimestampType))), (''skills'', col JsonType)],
       sq_key = [''id''], sq_checks = []\<rparr>)]"

subsection \<open>Comparing schemas\<close>

text \<open>
  Where a database differs from what the classes declare. A server default that only the database has is
  no difference: the program always names the column.
\<close>

datatype difference =
    MissingTable string
  | ExtraTable string
  | KeyDiffers string
  | MissingColumn string string
  | ExtraColumn string string
  | TypeDiffers string string
  | NullDiffers string string
  | UniqueDiffers string string
  | RefDiffers string string
  | DefaultDiffers string string
  | MissingCheck string string
  | ExtraCheck string string

definition column_drift :: "string \<Rightarrow> string \<Rightarrow> column \<Rightarrow> column \<Rightarrow> difference list" where
  "column_drift t n c d =
     (if cn_type c \<noteq> cn_type d then [TypeDiffers t n] else []) @
     (if cn_null c \<noteq> cn_null d then [NullDiffers t n] else []) @
     (if cn_unique c \<noteq> cn_unique d then [UniqueDiffers t n] else []) @
     (if cn_ref c \<noteq> cn_ref d then [RefDiffers t n] else []) @
     (if cn_default c \<noteq> None \<and> cn_default c \<noteq> cn_default d then [DefaultDiffers t n] else [])"

definition table_drift :: "string \<Rightarrow> sql_table \<Rightarrow> sql_table \<Rightarrow> difference list" where
  "table_drift t tab tab' =
     (if sq_key tab \<noteq> sq_key tab' then [KeyDiffers t] else []) @
     concat (map (\<lambda>(n, c). case map_of (sq_columns tab') n of None \<Rightarrow> [MissingColumn t n] | Some d \<Rightarrow> column_drift t n c d)
       (sq_columns tab)) @
     concat (map (\<lambda>(n, d). if map_of (sq_columns tab) n = None then [ExtraColumn t n] else []) (sq_columns tab')) @
     concat (map (\<lambda>(n, ck). if map_of (sq_checks tab') n = Some ck then [] else [MissingCheck t n]) (sq_checks tab)) @
     concat (map (\<lambda>(n, ck). if map_of (sq_checks tab) n = Some ck then [] else [ExtraCheck t n]) (sq_checks tab'))"

definition drift :: "sql_schema \<Rightarrow> sql_schema \<Rightarrow> difference list" where
  "drift declared s =
     concat (map (\<lambda>(t, tab). case map_of s t of None \<Rightarrow> [MissingTable t] | Some tab' \<Rightarrow> table_drift t tab tab') declared) @
     concat (map (\<lambda>(t, tab). if map_of declared t = None then [ExtraTable t] else []) s)"

definition allowed_values :: "sql_schema \<Rightarrow> string \<Rightarrow> string \<Rightarrow> string list option" where
  "allowed_values s t c =
     (case map_of s t of
        None \<Rightarrow> None
      | Some tab \<Rightarrow> map_option (\<lambda>(n, ck). snd ck) (find (\<lambda>(n, ck). fst ck = c) (sq_checks tab)))"

text \<open>Each revision can be undone: its downgrade leads back to the schema before it.\<close>

fun undoes :: "revision list \<Rightarrow> sql_schema \<Rightarrow> bool" where
  "undoes [] s \<longleftrightarrow> True"
| "undoes (r # rs) s \<longleftrightarrow>
     (case run_all (rv_upgrade r) s of
        None \<Rightarrow> False
      | Some s' \<Rightarrow> run_all (rv_downgrade r) s' = Some s \<and> undoes rs s')"

lemma history_order:
  "map rv_id history = [''0001'', ''25365964fe62'', ''0003'', ''0004'', ''0005'', ''0006'', ''0007'', ''0008'', ''0009'', ''0010'']"
  by code_simp

lemma history_all: "mset history = mset scripts"
proof -
  have run: "history = [rev_0001, rev_capability, rev_0003, rev_0004, rev_0005, rev_0006, rev_0007, rev_0008, rev_0009, rev_0010]"
    by code_simp
  show ?thesis unfolding run scripts_def by (simp add: add_mset_commute)
qed

lemma history_undone: "undoes history []"
  by code_simp

lemma head_drift:
  "map_option (\<lambda>s. (drift orm_schema s, map (\<lambda>(t, c). allowed_values s t c)
       [(''plan_versions'', ''status''), (''tasks'', ''source''), (''tasks'', ''pair_mode''),
        (''template_tasks'', ''pair_mode''), (''dependencies'', ''link_type''), (''template_dependencies'', ''link_type'')]))
     (migrate history []) =
   Some ([NullDiffers ''projects'' ''created_at'', NullDiffers ''plan_versions'' ''created_at'',
          ExtraCheck ''plan_versions'' ''ck_plan_version_status''],
     [Some [''proposed'', ''committed'', ''superseded''], Some [''bot_formed'', ''template''],
      Some [''none'', ''optional'', ''required''], Some [''none'', ''optional'', ''required''],
      Some [''FS'', ''SS''], Some [''FS'', ''SS'']])"
  by code_simp

text \<open>What fits a column of whole numbers: Telegram's ids need 64 bits.\<close>

definition fits :: "sql_type \<Rightarrow> int \<Rightarrow> bool" where
  "fits t n = (case t of IntegerType \<Rightarrow> - (2 ^ 31) \<le> n \<and> n < 2 ^ 31 | BigIntegerType \<Rightarrow> - (2 ^ 63) \<le> n \<and> n < 2 ^ 63 | _ \<Rightarrow> False)"

definition type_of_column :: "sql_schema \<Rightarrow> string \<Rightarrow> string \<Rightarrow> sql_type option" where
  "type_of_column s t c = (case map_of s t of None \<Rightarrow> None | Some tab \<Rightarrow> map_option cn_type (map_of (sq_columns tab) c))"

lemma telegram_ids:
  "map (\<lambda>k. case migrate (take k history) [] of None \<Rightarrow> None | Some s \<Rightarrow> type_of_column s ''people'' ''tg_user_id'') [8, 9, 10] =
     [Some IntegerType, Some BigIntegerType, Some BigIntegerType]"
  by code_simp

end
