(* ===== verification/Migration_Env.thy ===== *)
theory Migration_Env
  imports Migrations Planner_Prelude
begin

section \<open>The migration environment\<close>

text \<open>
  \<open>alembic/env.py\<close>: the address of the database and the two ways to run the migrations. Alembic keeps the
  options of \<open>alembic.ini\<close> in a \<open>configparser.ConfigParser\<close> of the standard library, whose values
  interpolate \<open>%(name)s\<close>: setting an option checks its percent signs, and reading it expands them. The
  other options are a parameter, already expanded. A database is its revision and its schema.
\<close>

subsection \<open>Options\<close>

text \<open>\<open>BasicInterpolation.before_set\<close>: what is left of the percent signs without \<open>%%\<close> and \<open>%(name)s\<close>.\<close>

fun drop_doubled :: "ustr \<Rightarrow> ustr" where
  "drop_doubled (c # d # s) = (if c = 37 \<and> d = 37 then drop_doubled s else c # drop_doubled (d # s))"
| "drop_doubled s = s"

text \<open>The name of a key \<open>%(name)s\<close> at the start of a text, and what follows it.\<close>

definition key_at :: "ustr \<Rightarrow> (ustr \<times> ustr) option" where
  "key_at s =
     (case s of
        c # d # r \<Rightarrow>
          (let name = takeWhile (\<lambda>x. x \<noteq> 41) r; rest = dropWhile (\<lambda>x. x \<noteq> 41) r
           in if c = 37 \<and> d = 40 \<and> name \<noteq> [] \<and> take 2 rest = [41, 115] then Some (name, drop 2 rest) else None)
      | _ \<Rightarrow> None)"

lemma key_at_shorter: "key_at s = Some (name, rest) \<Longrightarrow> length rest < length s"
  using length_dropWhile_le [of "\<lambda>x. x \<noteq> 41" "tl (tl s)"]
  by (auto simp: key_at_def Let_def split: list.splits if_splits)

function drop_keys :: "ustr \<Rightarrow> ustr" where
  "drop_keys s = (case key_at s of Some (name, rest) \<Rightarrow> drop_keys rest
     | None \<Rightarrow> (case s of [] \<Rightarrow> [] | c # r \<Rightarrow> c # drop_keys r))"
  by pat_completeness auto
termination by (relation "measure length") (auto dest: key_at_shorter)

declare drop_keys.simps [simp del]

definition set_main_option :: "ustr \<Rightarrow> ustr res" where
  "set_main_option v = (if 37 \<in> set (drop_keys (drop_doubled v)) then Inl ValueError else Inr v)"

text \<open>\<open>BasicInterpolation.before_get\<close>.\<close>

function expand :: "(ustr \<Rightarrow> ustr option) \<Rightarrow> ustr \<Rightarrow> ustr res" where
  "expand option s =
     (case s of
        [] \<Rightarrow> Inr []
      | c # r \<Rightarrow>
          if c \<noteq> 37 then bind_res (expand option r) (\<lambda>t. Inr (c # t))
          else if take 1 r = [37] then bind_res (expand option (tl r)) (\<lambda>t. Inr (37 # t))
          else case key_at s of
                 None \<Rightarrow> Inl (OtherError (ascii ''InterpolationSyntaxError''))
               | Some (name, rest) \<Rightarrow>
                   (case option name of
                      None \<Rightarrow> Inl (OtherError (ascii ''InterpolationMissingOptionError''))
                    | Some v \<Rightarrow> bind_res (expand option rest) (\<lambda>t. Inr (v @ t))))"
  by pat_completeness auto
termination by (relation "measure (length \<circ> snd)") (auto dest: key_at_shorter)

declare expand.simps [simp del]

subsection \<open>env.py\<close>

record migration_setup =
  ms_options :: "ustr \<Rightarrow> ustr option"
  ms_ini_url :: ustr
  ms_database_url :: "ustr option"
  ms_offline :: bool

definition main_url :: "migration_setup \<Rightarrow> ustr res" where
  "main_url ms =
     bind_res (case ms_database_url ms of
                 Some u \<Rightarrow> if u = [] then Inr (ms_ini_url ms) else set_main_option u
               | None \<Rightarrow> Inr (ms_ini_url ms))
       (expand (ms_options ms))"

record database =
  dt_revision :: "string option"
  dt_schema :: sql_schema

type_synonym servers = "ustr \<Rightarrow> database"

text \<open>
  \<open>context.run_migrations()\<close> to the head: the revisions after the one of the database, in the order of
  their links; online they run in one transaction, which a failing statement undoes. Offline they
  become a script for a database at the base, and no database is touched.
\<close>

definition head_revision :: "string option \<Rightarrow> string option" where
  "head_revision at = last (at # map (Some \<circ> rv_id) (run_order at scripts))"

definition do_run_migrations :: "database \<Rightarrow> database res" where
  "do_run_migrations d =
     (case migrate (run_order (dt_revision d) scripts) (dt_schema d) of
        None \<Rightarrow> Inl (OtherError (ascii ''ProgrammingError''))
      | Some s \<Rightarrow> Inr \<lparr>dt_revision = head_revision (dt_revision d), dt_schema = s\<rparr>)"

definition run_migrations_online :: "ustr \<Rightarrow> servers \<Rightarrow> unit res \<times> servers" where
  "run_migrations_online url sv =
     (case do_run_migrations (sv url) of Inl e \<Rightarrow> (Inl e, sv) | Inr d \<Rightarrow> (Inr (), sv(url := d)))"

definition run_migrations_offline :: "ddl list" where
  "run_migrations_offline = concat (map rv_upgrade (run_order None scripts))"

definition env_py :: "migration_setup \<Rightarrow> servers \<Rightarrow> ddl list res \<times> servers" where
  "env_py ms sv =
     (case main_url ms of
        Inl e \<Rightarrow> (Inl e, sv)
      | Inr url \<Rightarrow>
          if ms_offline ms then (Inr run_migrations_offline, sv)
          else case run_migrations_online url sv of (Inl e, sv') \<Rightarrow> (Inl e, sv') | (Inr u, sv') \<Rightarrow> (Inr [], sv'))"

subsection \<open>Which database\<close>

lemma drop_doubled_plain: "37 \<notin> set u \<Longrightarrow> drop_doubled u = u"
  by (induction u rule: drop_doubled.induct) auto

lemma key_at_plain: "37 \<notin> set u \<Longrightarrow> key_at u = None"
  by (auto simp: key_at_def Let_def split: list.split)

lemma drop_keys_plain: "37 \<notin> set u \<Longrightarrow> drop_keys u = u"
proof (induction u)
  case (Cons c u)
  then show ?case by (subst drop_keys.simps) (simp add: key_at_plain)
qed (simp add: drop_keys.simps key_at_def)

lemma expand_plain: "37 \<notin> set u \<Longrightarrow> expand f u = Inr u"
proof (induction u)
  case (Cons c u)
  then show ?case by (subst expand.simps) simp
qed (simp add: expand.simps)

text \<open>An address without percent signs is the one that is migrated.\<close>

lemma main_url_plain:
  "ms_database_url ms = Some u \<Longrightarrow> u \<noteq> [] \<Longrightarrow> 37 \<notin> set u \<Longrightarrow> main_url ms = Inr u"
  by (simp add: main_url_def set_main_option_def drop_doubled_plain drop_keys_plain expand_plain)

text \<open>One with an escaped character, which the engine of the program takes, is refused.\<close>

lemma escaped_password_refused:
  "main_url \<lparr>ms_options = f, ms_ini_url = u, ms_database_url = Some (ascii ''postgresql://planner:p%40ss@db/planner''),
     ms_offline = b\<rparr> = Inl ValueError"
proof -
  have "37 \<in> set (drop_keys (drop_doubled (ascii ''postgresql://planner:p%40ss@db/planner'')))" by code_simp
  then show ?thesis by (simp add: main_url_def set_main_option_def)
qed

subsection \<open>From every revision to the head\<close>

lemma migrate_append: "migrate (xs @ ys) s = (case migrate xs s of None \<Rightarrow> None | Some t \<Rightarrow> migrate ys t)"
  by (induction xs arbitrary: s) (auto split: option.split)

text \<open>A database at the \<open>k\<close>-th revision of the history.\<close>

definition revision_at :: "nat \<Rightarrow> string option" where
  "revision_at k = last (None # map (Some \<circ> rv_id) (take k history))"

definition at_revision :: "nat \<Rightarrow> database" where
  "at_revision k = \<lparr>dt_revision = revision_at k, dt_schema = the (migrate (take k history) [])\<rparr>"

lemma history_length: "length history = 10"
  by code_simp

lemma remaining: "run_order (revision_at k) scripts = drop k history"
proof -
  have small: "list_all (\<lambda>k. run_order (revision_at k) scripts = drop k history) [0..<11]" by code_simp
  show ?thesis
  proof (cases "k < 11")
    case True
    with small show ?thesis by (simp add: list_all_iff)
  next
    case False
    then have "take k history = take 10 history" "drop k history = drop 10 history" by (simp_all add: history_length)
    moreover have "run_order (revision_at 10) scripts = drop 10 history" using small by (simp add: list_all_iff)
    ultimately show ?thesis by (simp add: revision_at_def)
  qed
qed

lemma run_to_head: "do_run_migrations (at_revision k) = Inr (at_revision 10)"
proof -
  obtain head where head: "migrate history [] = Some head" using head_drift by (cases "migrate history []") auto
  then obtain s where s: "migrate (take k history) [] = Some s" "migrate (drop k history) s = Some head"
    using migrate_append [of "take k history" "drop k history" "[]"] by (auto split: option.splits)
  have "head_revision (revision_at k) = revision_at 10"
  proof (cases "drop k history = []")
    case True
    then have "take k history = take 10 history" by (simp add: history_length)
    then have "revision_at k = revision_at 10" by (simp add: revision_at_def)
    with True show ?thesis by (simp add: head_revision_def remaining history_length)
  next
    case False
    then have "last (drop k history) = last history" "history \<noteq> []" by auto
    with False show ?thesis
      unfolding head_revision_def remaining by (simp add: revision_at_def history_length last_map)
  qed
  with s head show ?thesis by (simp add: do_run_migrations_def at_revision_def remaining history_length)
qed

lemma env_upgrades:
  "case main_url ms of
     Inl e \<Rightarrow> env_py ms sv = (Inl e, sv)
   | Inr url \<Rightarrow> env_py ms (sv(url := at_revision k)) =
       (if ms_offline ms then (Inr run_migrations_offline, sv(url := at_revision k))
        else (Inr [], sv(url := at_revision (length history))))"
  by (simp add: env_py_def run_migrations_online_def run_to_head history_length split: sum.split)

end
