(* ===== verification/Schema_Properties.thy ===== *)
theory Schema_Properties
  imports Migration_Env Db_Store
begin

section \<open>Properties of the schema\<close>

text \<open>
  The migrations against the mapped classes, and against the constraints under which the operations of
  the repository are modelled.
\<close>


end
