(* ===== verification/Seed_Data.thy ===== *)
theory Seed_Data
  imports Tool_Box
begin

section \<open>Seed data\<close>

text \<open>
  \<open>seed/load_seed.py\<close>: team, templates and capabilities read from parsed YAML files into the database, all
  in one transaction. A file is a value of \<open>json\<close>. Objects of the ORM session are rows written at once;
  a flush checks the constraints of the tables the script writes. Ids come from \<open>uuid4\<close> as in the
  models. A field of an unexpected type raises \<open>malformed\<close>.
\<close>

subsection \<open>Sessions\<close>

definition session_write :: "(db \<Rightarrow> db) \<Rightarrow> unit proc" where
  "session_write f w = (Inr (), w\<lparr>w_db := f (w_db w)\<rparr>)"

definition template_tables_ok :: "db \<Rightarrow> bool" where
  "template_tables_ok d \<longleftrightarrow>
     distinct (map te_id (db_templates d)) \<and> distinct (map te_code (db_templates d)) \<and>
     distinct (map tt_id (db_template_tasks d)) \<and>
     (\<forall>t \<in> set (db_template_tasks d). tt_template_id t \<in> set (map te_id (db_templates d)) \<and>
        tt_pair_mode t \<in> set pair_modes) \<and>
     distinct (map (\<lambda>a. (ta_template_task_id a, ta_person_id a)) (db_template_assignees d)) \<and>
     (\<forall>a \<in> set (db_template_assignees d). ta_template_task_id a \<in> set (map tt_id (db_template_tasks d)) \<and>
        has_person d (ta_person_id a) \<and> ta_strictness a \<in> set (map ascii [''A'', ''B'', ''C''])) \<and>
     distinct (map (\<lambda>r. (td_template_task_id r, td_depends_on_id r)) (db_template_deps d)) \<and>
     (\<forall>r \<in> set (db_template_deps d). td_template_task_id r \<in> set (map tt_id (db_template_tasks d)) \<and>
        td_depends_on_id r \<in> set (map tt_id (db_template_tasks d)) \<and> td_link_type r \<in> set link_types)"

definition capability_tables_ok :: "db \<Rightarrow> bool" where
  "capability_tables_ok d \<longleftrightarrow>
     distinct (map ro_id (db_roles d)) \<and> distinct (map ro_name (db_roles d)) \<and>
     distinct (map sk_id (db_skills d)) \<and> distinct (map sk_name (db_skills d)) \<and>
     distinct (map (\<lambda>r. (rs_role_id r, rs_skill_id r)) (db_role_skills d)) \<and>
     (\<forall>r \<in> set (db_role_skills d). rs_role_id r \<in> set (map ro_id (db_roles d)) \<and>
        rs_skill_id r \<in> set (map sk_id (db_skills d))) \<and>
     distinct (map (\<lambda>r. (pe_person_id r, pe_role_id r)) (db_person_roles d)) \<and>
     (\<forall>r \<in> set (db_person_roles d). has_person d (pe_person_id r) \<and> pe_role_id r \<in> set (map ro_id (db_roles d)))"

definition seed_tables_ok :: "db \<Rightarrow> bool" where
  "seed_tables_ok d \<longleftrightarrow> distinct (map pr_id (db_people d)) \<and> template_tables_ok d \<and> capability_tables_ok d"

definition session_flush :: "unit proc" where
  "session_flush w = (ensure (seed_tables_ok (w_db w)) (), w)"

text \<open>\<open>async with session_factory() as session, session.begin()\<close>\<close>

definition session_begin :: "'a proc \<Rightarrow> 'a proc" where
  "session_begin m w = (case m w of (Inl e, w') \<Rightarrow> (Inl e, w'\<lparr>w_db := w_db w\<rparr>) | (Inr x, w') \<Rightarrow> (Inr x, w'))"

subsection \<open>Entries\<close>

fun json_bool :: "json \<Rightarrow> bool res" where
  "json_bool (JBool b) = Inr b"
| "json_bool _ = Inl malformed"

text \<open>\<open>int(x)\<close>\<close>

fun int_of_json :: "json \<Rightarrow> int res" where
  "int_of_json (JInt n) = Inr n"
| "int_of_json (JBool b) = Inr (if b then 1 else 0)"
| "int_of_json (JStr s) = (case py_int s of None \<Rightarrow> Inl ValueError | Some n \<Rightarrow> Inr n)"
| "int_of_json _ = Inl malformed"

text \<open>A text column that may be null.\<close>

fun json_opt_text :: "json \<Rightarrow> ustr option res" where
  "json_opt_text JNull = Inr None"
| "json_opt_text (JStr s) = Inr (Some s)"
| "json_opt_text _ = Inl malformed"

definition text_item :: "string \<Rightarrow> json \<Rightarrow> ustr res" where
  "text_item k e = bind_res (json_item k e) json_str"

definition int_item :: "string \<Rightarrow> json \<Rightarrow> int res" where
  "int_item k e = bind_res (json_item k e) json_int"

definition int_get :: "string \<Rightarrow> int \<Rightarrow> json \<Rightarrow> int res" where
  "int_get k dflt e = bind_res (json_get k (JInt dflt) e) json_int"

definition flag :: "string \<Rightarrow> bool \<Rightarrow> json \<Rightarrow> bool res" where
  "flag k dflt e = bind_res (json_get k (JBool dflt) e) json_bool"

definition entries_of :: "string \<Rightarrow> json \<Rightarrow> json list res" where
  "entries_of k e = bind_res (json_get k (JList []) e) json_list"

definition seed_pair_mode :: "json \<Rightarrow> ustr res" where
  "seed_pair_mode e =
     bind_res (json_get ''pair_mode'' JNull e) (\<lambda>mode.
     bind_res (json_get ''allow_two_assignees'' JNull e) (\<lambda>two.
     case mode of
       JStr s \<Rightarrow> Inr (if s \<in> set pair_modes then s else if truthy two then ascii ''optional'' else ascii ''none'')
     | _ \<Rightarrow> Inr (if truthy two then ascii ''optional'' else ascii ''none'')))"

definition dep_fields :: "json \<Rightarrow> (int \<times> ustr \<times> int) res" where
  "dep_fields dep =
     (case dep of
        JObj d \<Rightarrow>
          bind_res (bind_res (json_item ''ord'' dep) int_of_json) (\<lambda>n.
          bind_res (bind_res (json_get ''link'' (JStr (ascii ''FS'')) dep) json_str) (\<lambda>link.
          bind_res (bind_res (json_get ''lag_days'' (JInt 0) dep) int_of_json) (\<lambda>lag.
          Inr (n, link, lag))))
      | _ \<Rightarrow> bind_res (int_of_json dep) (\<lambda>n. Inr (n, ascii ''FS'', 0)))"

subsection \<open>The team\<close>

definition seed_person :: "json \<Rightarrow> (uuid \<Rightarrow> person_row) res" where
  "seed_person e =
     bind_res (text_item ''name'' e) (\<lambda>name.
     bind_res (bind_res (json_get ''role_label'' JNull e) json_opt_text) (\<lambda>label.
     bind_res (int_get ''capacity_h'' 8 e) (\<lambda>hours.
     bind_res (flag ''is_admin'' False e) (\<lambda>adm.
     bind_res (flag ''is_active'' True e) (\<lambda>active.
     bind_res (flag ''is_external'' False e) (\<lambda>external.
     Inr (\<lambda>i. \<lparr>pr_id = i, pr_tg_user_id = None, pr_name = name, pr_role_label = label, pr_capacity_h = hours,
       pr_is_admin = adm, pr_is_active = active, pr_is_external = external\<rparr>)))))))"

type_synonym people_map = "(ustr, person_row) dict"

definition add_member :: "json \<Rightarrow> people_map \<Rightarrow> people_map proc" where
  "add_member e existing =
     bind_proc (lift_res (text_item ''name'' e)) (\<lambda>name.
     if dict_get existing name \<noteq> None then ret existing
     else bind_proc (lift_res (seed_person e)) (\<lambda>person.
          bind_proc uuid4 (\<lambda>i.
          bind_proc (session_write (\<lambda>d. d\<lparr>db_people := db_people d @ [person i]\<rparr>)) (\<lambda>_.
          ret (dict_set name (person i) existing)))))"

definition load_team :: "json \<Rightarrow> people_map proc" where
  "load_team raw =
     bind_proc (query (\<lambda>d. dict_of (map (\<lambda>p. (pr_name p, p)) (db_people d)))) (\<lambda>existing.
     bind_proc (lift_res (bind_res (json_item ''people'' raw) json_list)) (\<lambda>entries.
     bind_proc (for_each add_member entries existing) (\<lambda>people.
     bind_proc session_flush (\<lambda>_. ret people))))"

subsection \<open>Templates\<close>

definition upsert_template :: "ustr \<Rightarrow> ustr \<Rightarrow> uuid proc" where
  "upsert_template code name =
     bind_proc (query (\<lambda>d. get_row te_code code (db_templates d))) (\<lambda>found.
     case found of
       None \<Rightarrow> bind_proc uuid4 (\<lambda>i.
         bind_proc (session_write (\<lambda>d. d\<lparr>db_templates := db_templates d @ [\<lparr>te_id = i, te_code = code, te_name = name\<rparr>]\<rparr>)) (\<lambda>_.
         bind_proc session_flush (\<lambda>_. ret i)))
     | Some t \<Rightarrow>
         bind_proc (session_write (\<lambda>d. d\<lparr>db_templates := update_row te_id (te_id t) (\<lambda>r. r\<lparr>te_name := name\<rparr>) (db_templates d)\<rparr>)) (\<lambda>_.
         ret (te_id t)))"

definition task_ids :: "uuid \<Rightarrow> db \<Rightarrow> uuid list" where
  "task_ids tid d = map tt_id (filter (\<lambda>t. tt_template_id t = tid) (db_template_tasks d))"

definition drop_children :: "uuid \<Rightarrow> unit proc" where
  "drop_children tid =
     bind_proc (query (task_ids tid)) (\<lambda>ids.
     if ids = [] then ret ()
     else bind_proc (session_write (\<lambda>d. d\<lparr>db_template_deps := filter (\<lambda>r. td_template_task_id r \<notin> set ids) (db_template_deps d)\<rparr>)) (\<lambda>_.
          bind_proc (session_write (\<lambda>d. d\<lparr>db_template_assignees :=
            filter (\<lambda>a. ta_template_task_id a \<notin> set ids) (db_template_assignees d)\<rparr>)) (\<lambda>_.
          bind_proc (session_write (\<lambda>d. d\<lparr>db_template_tasks :=
            filter (\<lambda>t. tt_template_id t \<noteq> tid) (db_template_tasks d)\<rparr>)) (\<lambda>_.
          session_flush))))"

definition seed_task :: "json \<Rightarrow> (uuid \<Rightarrow> uuid \<Rightarrow> template_task_row) res" where
  "seed_task e =
     bind_res (seed_pair_mode e) (\<lambda>mode.
     bind_res (int_item ''ord'' e) (\<lambda>n.
     bind_res (text_item ''name'' e) (\<lambda>name.
     bind_res (int_item ''duration_hours'' e) (\<lambda>hours.
     bind_res (flag ''duration_is_window'' False e) (\<lambda>window.
     bind_res (flag ''is_splittable'' False e) (\<lambda>split.
     bind_res (flag ''optional_in_lite'' False e) (\<lambda>lite.
     Inr (\<lambda>tid i. \<lparr>tt_id = i, tt_template_id = tid, tt_ord = n, tt_name = name, tt_duration_hours = hours,
       tt_duration_is_window = window, tt_is_splittable = split, tt_pair_mode = mode, tt_optional_in_lite = lite\<rparr>))))))))"

type_synonym ord_map = "(int, uuid) dict"

definition add_template_task :: "uuid \<Rightarrow> json \<Rightarrow> ord_map \<Rightarrow> ord_map proc" where
  "add_template_task tid e ord_to_task =
     bind_proc (lift_res (seed_task e)) (\<lambda>task.
     bind_proc uuid4 (\<lambda>i.
     bind_proc (session_write (\<lambda>d. d\<lparr>db_template_tasks := db_template_tasks d @ [task tid i]\<rparr>)) (\<lambda>_.
     ret (dict_set (tt_ord (task tid i)) i ord_to_task))))"

definition add_assignee :: "people_map \<Rightarrow> uuid \<Rightarrow> nat \<times> json \<Rightarrow> unit \<Rightarrow> unit proc" where
  "add_assignee people task = (\<lambda>(idx, asgn) _.
     bind_proc (lift_res (text_item ''name'' asgn)) (\<lambda>name.
     case dict_get people name of
       None \<Rightarrow> raise ValueError
     | Some person \<Rightarrow>
         bind_proc (lift_res (text_item ''strictness'' asgn)) (\<lambda>strictness.
         bind_proc (lift_res (int_get ''priority'' (int idx) asgn)) (\<lambda>priority.
         session_write (\<lambda>d. d\<lparr>db_template_assignees := db_template_assignees d @
           [\<lparr>ta_template_task_id = task, ta_person_id = pr_id person, ta_strictness = strictness, ta_priority = priority\<rparr>]\<rparr>)))))"

definition add_dependency :: "ord_map \<Rightarrow> uuid \<Rightarrow> json \<Rightarrow> unit \<Rightarrow> unit proc" where
  "add_dependency ord_to_task task dep _ =
     bind_proc (lift_res (dep_fields dep)) (\<lambda>(dep_ord, link, lag).
     case dict_get ord_to_task dep_ord of
       None \<Rightarrow> raise ValueError
     | Some dep_task \<Rightarrow> session_write (\<lambda>d. d\<lparr>db_template_deps := db_template_deps d @
         [\<lparr>td_template_task_id = task, td_depends_on_id = dep_task, td_link_type = link, td_lag_working_days = lag\<rparr>]\<rparr>))"

definition link_task :: "people_map \<Rightarrow> ord_map \<Rightarrow> json \<Rightarrow> unit \<Rightarrow> unit proc" where
  "link_task people ord_to_task e _ =
     bind_proc (lift_res (bind_res (int_item ''ord'' e) (dict_item ord_to_task))) (\<lambda>task.
     bind_proc (lift_res (entries_of ''assignees'' e)) (\<lambda>assignees.
     bind_proc (for_each (add_assignee people task) (List.enumerate 0 assignees) ()) (\<lambda>_.
     bind_proc (lift_res (entries_of ''depends_on'' e)) (\<lambda>deps.
     for_each (add_dependency ord_to_task task) deps ()))))"

definition load_template :: "ustr \<Rightarrow> ustr \<Rightarrow> json \<Rightarrow> people_map \<Rightarrow> unit proc" where
  "load_template code name raw people =
     bind_proc (upsert_template code name) (\<lambda>tid.
     bind_proc (drop_children tid) (\<lambda>_.
     bind_proc (lift_res (bind_res (json_item ''tasks'' raw) json_list)) (\<lambda>entries.
     bind_proc (for_each (add_template_task tid) entries []) (\<lambda>ord_to_task.
     bind_proc session_flush (\<lambda>_.
     bind_proc (for_each (link_task people ord_to_task) entries ()) (\<lambda>_.
     session_flush))))))"

subsection \<open>Capabilities\<close>

record capability_maps =
  cm_skills :: "(ustr, uuid) dict"
  cm_roles :: "(ustr, uuid) dict"
  cm_role_skills :: "(uuid \<times> uuid) list"

definition skill_id :: "json \<Rightarrow> capability_maps \<Rightarrow> (uuid \<times> capability_maps) proc" where
  "skill_id sk maps =
     bind_proc (lift_res (text_item ''name'' sk)) (\<lambda>name.
     case dict_get (cm_skills maps) name of
       Some i \<Rightarrow> ret (i, maps)
     | None \<Rightarrow>
         bind_proc (lift_res (bind_res (json_get ''description'' JNull sk) json_opt_text)) (\<lambda>description.
         bind_proc uuid4 (\<lambda>i.
         bind_proc (session_write (\<lambda>d. d\<lparr>db_skills := db_skills d @
           [\<lparr>sk_id = i, sk_name = name, sk_description = description\<rparr>]\<rparr>)) (\<lambda>_.
         bind_proc session_flush (\<lambda>_. ret (i, maps\<lparr>cm_skills := dict_set name i (cm_skills maps)\<rparr>))))))"

definition add_role_skill :: "uuid \<Rightarrow> json \<Rightarrow> capability_maps \<Rightarrow> capability_maps proc" where
  "add_role_skill role sk maps =
     bind_proc (skill_id sk maps) (\<lambda>(skill, maps').
     if (role, skill) \<in> set (cm_role_skills maps') then ret maps'
     else bind_proc (session_write (\<lambda>d. d\<lparr>db_role_skills := db_role_skills d @
            [\<lparr>rs_role_id = role, rs_skill_id = skill\<rparr>]\<rparr>)) (\<lambda>_.
          ret (maps'\<lparr>cm_role_skills := cm_role_skills maps' @ [(role, skill)]\<rparr>)))"

definition role_id :: "json \<Rightarrow> capability_maps \<Rightarrow> (uuid \<times> capability_maps) proc" where
  "role_id e maps =
     bind_proc (lift_res (text_item ''name'' e)) (\<lambda>name.
     bind_proc (lift_res (bind_res (json_get ''description'' JNull e) json_opt_text)) (\<lambda>description.
     case dict_get (cm_roles maps) name of
       None \<Rightarrow> bind_proc uuid4 (\<lambda>i.
         bind_proc (session_write (\<lambda>d. d\<lparr>db_roles := db_roles d @
           [\<lparr>ro_id = i, ro_name = name, ro_description = description\<rparr>]\<rparr>)) (\<lambda>_.
         ret (i, maps\<lparr>cm_roles := dict_set name i (cm_roles maps)\<rparr>)))
     | Some i \<Rightarrow>
         bind_proc (session_write (\<lambda>d. d\<lparr>db_roles := update_row ro_id i (\<lambda>r. r\<lparr>ro_description := description\<rparr>) (db_roles d)\<rparr>)) (\<lambda>_.
         ret (i, maps))))"

definition add_role :: "json \<Rightarrow> capability_maps \<Rightarrow> capability_maps proc" where
  "add_role e maps =
     bind_proc (role_id e maps) (\<lambda>(role, maps').
     bind_proc session_flush (\<lambda>_.
     bind_proc (lift_res (entries_of ''skills'' e)) (\<lambda>skills.
     for_each (add_role_skill role) skills maps')))"

definition link_person :: "(ustr, uuid) dict \<Rightarrow> person_row \<Rightarrow> (uuid \<times> uuid) list \<Rightarrow> (uuid \<times> uuid) list proc" where
  "link_person roles person linked =
     (case pr_role_label person of
        None \<Rightarrow> ret linked
      | Some label \<Rightarrow>
          (case (if label = [] then None else dict_get roles label) of
             None \<Rightarrow> ret linked
           | Some role \<Rightarrow>
               if (pr_id person, role) \<in> set linked then ret linked
               else bind_proc (session_write (\<lambda>d. d\<lparr>db_person_roles := db_person_roles d @
                      [\<lparr>pe_person_id = pr_id person, pe_role_id = role\<rparr>]\<rparr>)) (\<lambda>_.
                    ret (linked @ [(pr_id person, role)]))))"

definition load_capability :: "json \<Rightarrow> people_map \<Rightarrow> unit proc" where
  "load_capability raw people =
     bind_proc (query (\<lambda>d.
       (\<lparr>cm_skills = dict_of (map (\<lambda>s. (sk_name s, sk_id s)) (db_skills d)),
         cm_roles = dict_of (map (\<lambda>r. (ro_name r, ro_id r)) (db_roles d)),
         cm_role_skills = map (\<lambda>r. (rs_role_id r, rs_skill_id r)) (db_role_skills d)\<rparr>,
        map (\<lambda>r. (pe_person_id r, pe_role_id r)) (db_person_roles d)))) (\<lambda>(maps, linked).
     bind_proc (lift_res (bind_res (json_item ''roles'' raw) json_list)) (\<lambda>entries.
     bind_proc (for_each add_role entries maps) (\<lambda>maps'.
     bind_proc (for_each (link_person (cm_roles maps')) (dict_values people) linked) (\<lambda>_.
     session_flush))))"

subsection \<open>The script\<close>

record seed_files =
  sf_team :: json
  sf_standard :: json
  sf_lite :: json
  sf_capability :: json

definition seed_main :: "seed_files \<Rightarrow> unit proc" where
  "seed_main files = session_begin
     (bind_proc (load_team (sf_team files)) (\<lambda>people.
      bind_proc (load_template (ascii ''standard'') [1057, 1090, 1072, 1085, 1076, 1072, 1088, 1090, 1085, 1099, 1081, 32, 1096, 1072, 1073, 1083, 1086,
      1085] (sf_standard files) people) (\<lambda>_.
      bind_proc (load_template (ascii ''lite'') [1051, 1072, 1081, 1090, 32, 1096, 1072, 1073, 1083, 1086, 1085] (sf_lite files) people) (\<lambda>_.
      load_capability (sf_capability files) people))))"

end
