(* ===== verification/Seed_Correct.thy ===== *)
theory Seed_Correct
  imports Seed_Data Repo_Invariant
begin

section \<open>What the seed script stores\<close>

text \<open>
  The script changes no table of projects and plans and only adds people. A template is read back as its
  file says: \<open>seed_spec\<close> is what an entry of the file means.
\<close>

lemma session_write_run [proc_simps]: "session_write f w = (Inr (), w\<lparr>w_db := f (w_db w)\<rparr>)"
  by (simp add: session_write_def)

lemma session_flush_Inr [proc_simps]: "session_flush w = (Inr u, w') \<longleftrightarrow> seed_tables_ok (w_db w) \<and> w' = w"
  by (auto simp: session_flush_def ensure_def)

subsection \<open>Tables a step leaves alone\<close>

lemma keeps_write: "(\<And>d. P d \<Longrightarrow> P (f d)) \<Longrightarrow> keeps P (session_write f)"
  by (simp add: keeps_def session_write_def)

lemma keeps_flush [keep_intros]: "keeps P session_flush"
  by (simp add: keeps_def session_flush_def)

definition template_step :: "db \<Rightarrow> db \<Rightarrow> bool" where
  "template_step d0 d \<longleftrightarrow> (\<exists>te tt ta td. set (map te_id (db_templates d0)) \<subseteq> set (map te_id te) \<and>
     d = d0\<lparr>db_templates := te, db_template_tasks := tt, db_template_assignees := ta, db_template_deps := td\<rparr>)"

definition capability_step :: "db \<Rightarrow> db \<Rightarrow> bool" where
  "capability_step d0 d \<longleftrightarrow>
     (\<exists>ro sk rs pe. d = d0\<lparr>db_roles := ro, db_skills := sk, db_role_skills := rs, db_person_roles := pe\<rparr>)"

lemma template_step_iff:
  "template_step d0 d \<longleftrightarrow> set (map te_id (db_templates d0)) \<subseteq> set (map te_id (db_templates d)) \<and>
     d\<lparr>db_templates := [], db_template_tasks := [], db_template_assignees := [], db_template_deps := []\<rparr> =
     d0\<lparr>db_templates := [], db_template_tasks := [], db_template_assignees := [], db_template_deps := []\<rparr>"
  unfolding template_step_def by (cases d; cases d0) auto

lemma capability_step_iff:
  "capability_step d0 d \<longleftrightarrow> d\<lparr>db_roles := [], db_skills := [], db_role_skills := [], db_person_roles := []\<rparr> =
     d0\<lparr>db_roles := [], db_skills := [], db_role_skills := [], db_person_roles := []\<rparr>"
  unfolding capability_step_def by (cases d; cases d0) auto

lemma load_template_step: "keeps (template_step d0) (load_template code name raw people)"
proof -
  have upsert: "keeps (template_step d0) (upsert_template code name)"
    unfolding upsert_template_def
    by (intro keep_intros keeps_write) (auto simp: template_step_iff update_row_def)
  have drop: "keeps (template_step d0) (drop_children tid)" for tid
    unfolding drop_children_def by (intro keep_intros keeps_write) (auto simp: template_step_iff)
  have add: "keeps (template_step d0) (add_template_task tid e m)" for tid e m
    unfolding add_template_task_def by (intro keep_intros keeps_write) (auto simp: template_step_iff)
  have assignee: "keeps (template_step d0) (add_assignee people t p u)" for t p u
    by (cases p) (auto simp: add_assignee_def template_step_iff intro!: keep_intros keeps_write)
  have dep: "keeps (template_step d0) (add_dependency m t e u)" for m t e u
    unfolding add_dependency_def by (intro keep_intros keeps_write) (auto simp: template_step_iff)
  have "keeps (template_step d0) (link_task people m e u)" for m e u
    unfolding link_task_def by (intro keep_intros assignee dep)
  then show ?thesis unfolding load_template_def by (intro keep_intros upsert drop add)
qed

lemma load_capability_step: "keeps (capability_step d0) (load_capability raw people)"
proof -
  have skill: "keeps (capability_step d0) (add_role_skill r e m)" for r e m
    unfolding add_role_skill_def skill_id_def by (intro keep_intros keeps_write) (auto simp: capability_step_iff)
  have "keeps (capability_step d0) (role_id e m)" for e m
    unfolding role_id_def by (intro keep_intros keeps_write) (auto simp: capability_step_iff)
  then have role: "keeps (capability_step d0) (add_role e m)" for e m
    unfolding add_role_def by (intro keep_intros skill)
  have "keeps (capability_step d0) (link_person roles p l)" for roles p l
    unfolding link_person_def by (intro keep_intros keeps_write) (auto simp: capability_step_iff)
  then show ?thesis unfolding load_capability_def by (intro keep_intros role)
qed

subsection \<open>The team\<close>

definition people_of :: "db \<Rightarrow> people_map" where
  "people_of d = dict_of (map (\<lambda>p. (pr_name p, p)) (db_people d))"

lemma people_of_add:
  "people_of (d\<lparr>db_people := db_people d @ [p]\<rparr>) = dict_set (pr_name p) p (people_of d)"
  by (simp add: people_of_def dict_of_def)

lemma people_of_None: "dict_get (people_of d) n = None \<longleftrightarrow> n \<notin> pr_name ` set (db_people d)"
  by (simp add: people_of_def dict_of_get_None image_image)

lemma seed_person_name: "seed_person e = Inr mk \<Longrightarrow> text_item ''name'' e = Inr (pr_name (mk i)) \<and> pr_id (mk i) = i"
  by (auto simp: seed_person_def res_simps)

definition newcomers :: "db \<Rightarrow> db \<Rightarrow> bool" where
  "newcomers d d' \<longleftrightarrow> (\<exists>new. d' = d\<lparr>db_people := db_people d @ new\<rparr> \<and>
     distinct (map pr_name new) \<and> (\<forall>p \<in> set new. pr_name p \<notin> pr_name ` set (db_people d)))"

lemma newcomers_refl: "newcomers d d"
  by (auto simp: newcomers_def intro: exI [of _ "[]"])

lemma newcomers_trans:
  assumes "newcomers d1 d2" and "newcomers d2 d3" shows "newcomers d1 d3"
proof -
  obtain a b where a: "d2 = d1\<lparr>db_people := db_people d1 @ a\<rparr>" "distinct (map pr_name a)"
    "\<forall>p \<in> set a. pr_name p \<notin> pr_name ` set (db_people d1)"
    and b: "d3 = d2\<lparr>db_people := db_people d2 @ b\<rparr>" "distinct (map pr_name b)"
    "\<forall>p \<in> set b. pr_name p \<notin> pr_name ` set (db_people d2)"
    using assms by (auto simp: newcomers_def)
  have "pr_name p \<noteq> pr_name q" if "p \<in> set a" "q \<in> set b" for p q
  proof -
    have "pr_name q \<notin> pr_name ` set a" using bspec [OF b(3) that(2)] by (simp add: a(1) image_Un)
    with that(1) show ?thesis by (metis imageI)
  qed
  then show ?thesis unfolding newcomers_def
    by (intro exI [of _ "a @ b"]) (use a b in \<open>auto simp: image_Un disjoint_iff\<close>)
qed

lemma add_member_run:
  assumes "add_member e (people_of (w_db w)) w = (Inr m, w')"
  shows "m = people_of (w_db w') \<and> newcomers (w_db w) (w_db w')"
proof -
  obtain name where name: "text_item ''name'' e = Inr name"
    using assms by (auto simp: add_member_def proc_simps)
  show ?thesis
  proof (cases "dict_get (people_of (w_db w)) name = None")
    case False
    with assms name show ?thesis by (auto simp: add_member_def proc_simps newcomers_refl)
  next
    case True
    then obtain mk i where mk: "seed_person e = Inr mk" "m = dict_set name (mk i) (people_of (w_db w))"
      "w_db w' = (w_db w)\<lparr>db_people := db_people (w_db w) @ [mk i]\<rparr>"
      using assms name by (auto simp: add_member_def proc_simps)
    have "pr_name (mk i) = name" using seed_person_name [OF mk(1), of i] name by simp
    with True mk show ?thesis
      by (auto simp: people_of_add newcomers_def people_of_None intro!: exI [of _ "[mk i]"])
  qed
qed

lemma load_team_run:
  assumes "load_team raw w = (Inr m, w')"
  shows "m = people_of (w_db w') \<and> newcomers (w_db w) (w_db w') \<and> seed_tables_ok (w_db w')"
proof -
  have loop: "for_each add_member es (people_of (w_db v)) v = (Inr m, v') \<Longrightarrow>
      m = people_of (w_db v') \<and> newcomers (w_db v) (w_db v')" for es v v'
  proof (induction es arbitrary: v)
    case (Cons e es)
    then obtain m1 v1 where step: "add_member e (people_of (w_db v)) v = (Inr m1, v1)"
      and rest: "for_each add_member es m1 v1 = (Inr m, v')" by (auto simp: proc_simps)
    from add_member_run [OF step] Cons.IH [of v1] rest show ?case by (auto intro: newcomers_trans)
  qed (auto simp: proc_simps newcomers_refl)
  from assms show ?thesis
    by (auto simp: load_team_def proc_simps people_of_def [symmetric] dest!: loop)
qed

subsection \<open>What an entry of a template file means\<close>

definition read_assignee :: "people_map \<Rightarrow> nat \<times> json \<Rightarrow> (uuid \<times> ustr \<times> int) res" where
  "read_assignee people = (\<lambda>(idx, asgn).
     bind_res (text_item ''name'' asgn) (\<lambda>name.
     case dict_get people name of
       None \<Rightarrow> Inl ValueError
     | Some person \<Rightarrow>
         bind_res (text_item ''strictness'' asgn) (\<lambda>strictness.
         bind_res (int_get ''priority'' (int idx) asgn) (\<lambda>priority. Inr (pr_id person, strictness, priority)))))"

definition read_links :: "people_map \<Rightarrow> json \<Rightarrow> (int \<times> (uuid \<times> ustr \<times> int) list \<times> (int \<times> ustr \<times> int) list) res" where
  "read_links people e =
     bind_res (int_item ''ord'' e) (\<lambda>n.
     bind_res (bind_res (entries_of ''assignees'' e) (\<lambda>as. map_res (read_assignee people) (List.enumerate 0 as))) (\<lambda>as.
     bind_res (bind_res (entries_of ''depends_on'' e) (map_res dep_fields)) (\<lambda>ds. Inr (n, as, ds))))"

definition seed_spec :: "people_map \<Rightarrow> json \<Rightarrow> template_task_spec res" where
  "seed_spec people e =
     bind_res (seed_task e) (\<lambda>task.
     bind_res (read_links people e) (\<lambda>(n, as, ds).
     Inr \<lparr>ts_ord = n, ts_name = tt_name (task 0 0), ts_duration_hours = tt_duration_hours (task 0 0),
          ts_allowed_person_ids = map fst (sort_key (\<lambda>(p, s, q). (q, s)) as),
          ts_depends_on_ords = map fst ds, ts_link_types = map (fst \<circ> snd) ds, ts_dep_lags = map (snd \<circ> snd) ds,
          ts_is_splittable = tt_is_splittable (task 0 0), ts_pair_mode = tt_pair_mode (task 0 0),
          ts_duration_is_window = tt_duration_is_window (task 0 0)\<rparr>))"

lemma read_links_ord: "read_links people e = Inr l \<Longrightarrow> int_item ''ord'' e = Inr (fst l)"
  by (cases l) (auto simp: read_links_def res_simps)

lemma seed_task_row:
  assumes "seed_task e = Inr task"
  shows "tt_id (task t i) = i" "tt_template_id (task t i) = t" "int_item ''ord'' e = Inr (tt_ord (task t i))"
    "tt_name (task t i) = tt_name (task 0 0)" "tt_duration_hours (task t i) = tt_duration_hours (task 0 0)"
    "tt_is_splittable (task t i) = tt_is_splittable (task 0 0)" "tt_pair_mode (task t i) = tt_pair_mode (task 0 0)"
    "tt_duration_is_window (task t i) = tt_duration_is_window (task 0 0)"
  using assms by (auto simp: seed_task_def res_simps)

subsection \<open>Loading one template\<close>

definition assignee_rows :: "uuid \<Rightarrow> (uuid \<times> ustr \<times> int) list \<Rightarrow> template_assignee_row list" where
  "assignee_rows t as = map (\<lambda>(p, s, q).
     \<lparr>ta_template_task_id = t, ta_person_id = p, ta_strictness = s, ta_priority = q\<rparr>) as"

definition dep_rows :: "ord_map \<Rightarrow> uuid \<Rightarrow> (int \<times> ustr \<times> int) list \<Rightarrow> template_dependency_row list" where
  "dep_rows m t ds = map (\<lambda>(n, l, g).
     \<lparr>td_template_task_id = t, td_depends_on_id = the (dict_get m n), td_link_type = l, td_lag_working_days = g\<rparr>) ds"

lemma add_assignee_run:
  "add_assignee people t p u w = (Inr v, w') \<Longrightarrow> \<exists>a. read_assignee people p = Inr a \<and>
     w' = w\<lparr>w_db := (w_db w)\<lparr>db_template_assignees := db_template_assignees (w_db w) @ assignee_rows t [a]\<rparr>\<rparr>"
proof -
  assume run: "add_assignee people t p u w = (Inr v, w')"
  obtain idx e where p: "p = (idx, e)" by (cases p)
  with run obtain name where name: "text_item ''name'' e = Inr name" by (auto simp: add_assignee_def proc_simps)
  with run p obtain person where "dict_get people name = Some person"
    by (cases "dict_get people name") (auto simp: add_assignee_def proc_simps)
  with run p name show ?thesis by (auto simp: add_assignee_def read_assignee_def assignee_rows_def proc_simps)
qed

lemma add_assignees_run:
  "for_each (add_assignee people t) ps u w = (Inr v, w') \<Longrightarrow> \<exists>as. map_res (read_assignee people) ps = Inr as \<and>
     w' = w\<lparr>w_db := (w_db w)\<lparr>db_template_assignees := db_template_assignees (w_db w) @ assignee_rows t as\<rparr>\<rparr>"
proof (induction ps arbitrary: u w)
  case (Cons p ps)
  then obtain u1 w1 where "add_assignee people t p u w = (Inr u1, w1)"
    and "for_each (add_assignee people t) ps u1 w1 = (Inr v, w')" by (auto simp: proc_simps)
  with Cons.IH [of u1 w1] add_assignee_run [of people t p u w u1 w1] show ?case
    by (auto simp: res_simps assignee_rows_def)
qed (auto simp: proc_simps assignee_rows_def)

lemma add_dependency_run:
  "add_dependency m t e u w = (Inr v, w') \<Longrightarrow> \<exists>x. dep_fields e = Inr x \<and> dict_get m (fst x) \<noteq> None \<and>
     w' = w\<lparr>w_db := (w_db w)\<lparr>db_template_deps := db_template_deps (w_db w) @ dep_rows m t [x]\<rparr>\<rparr>"
  by (auto simp: add_dependency_def dep_rows_def proc_simps split: option.splits)

lemma add_dependencies_run:
  "for_each (add_dependency m t) es u w = (Inr v, w') \<Longrightarrow> \<exists>ds. map_res dep_fields es = Inr ds \<and>
     (\<forall>x \<in> set ds. dict_get m (fst x) \<noteq> None) \<and>
     w' = w\<lparr>w_db := (w_db w)\<lparr>db_template_deps := db_template_deps (w_db w) @ dep_rows m t ds\<rparr>\<rparr>"
proof (induction es arbitrary: u w)
  case (Cons e es)
  then obtain u1 w1 where "add_dependency m t e u w = (Inr u1, w1)"
    and "for_each (add_dependency m t) es u1 w1 = (Inr v, w')" by (auto simp: proc_simps)
  with Cons.IH [of u1 w1] add_dependency_run [of m t e u w u1 w1] show ?case
    by (auto simp: res_simps dep_rows_def)
qed (auto simp: proc_simps dep_rows_def)

definition linked :: "ord_map \<Rightarrow> (int \<times> (uuid \<times> ustr \<times> int) list \<times> (int \<times> ustr \<times> int) list) list \<Rightarrow> db \<Rightarrow> db" where
  "linked m ls d = d
     \<lparr>db_template_assignees := db_template_assignees d @ concat (map (\<lambda>(n, as, ds). assignee_rows (the (dict_get m n)) as) ls),
      db_template_deps := db_template_deps d @ concat (map (\<lambda>(n, as, ds). dep_rows m (the (dict_get m n)) ds) ls)\<rparr>"

lemma link_task_run:
  assumes "link_task people m e u w = (Inr v, w')"
  shows "\<exists>n as ds. read_links people e = Inr (n, as, ds) \<and> dict_get m n \<noteq> None \<and> (\<forall>x \<in> set ds. dict_get m (fst x) \<noteq> None) \<and>
    w' = w\<lparr>w_db := linked m [(n, as, ds)] (w_db w)\<rparr>"
  using assms
  by (fastforce simp: link_task_def read_links_def linked_def proc_simps res_simps dest!: add_assignees_run add_dependencies_run)

lemma link_tasks_run:
  "for_each (link_task people m) es u w = (Inr v, w') \<Longrightarrow> \<exists>ls. map_res (read_links people) es = Inr ls \<and>
     (\<forall>(n, as, ds) \<in> set ls. dict_get m n \<noteq> None \<and> (\<forall>x \<in> set ds. dict_get m (fst x) \<noteq> None)) \<and> w' = w\<lparr>w_db := linked m ls (w_db w)\<rparr>"
proof (induction es arbitrary: u w)
  case (Cons e es)
  then obtain u1 w1 where step: "link_task people m e u w = (Inr u1, w1)"
    and rest: "for_each (link_task people m) es u1 w1 = (Inr v, w')" by (auto simp: proc_simps)
  from link_task_run [OF step] Cons.IH [OF rest] show ?case
    by (auto simp: res_simps linked_def)
qed (auto simp: proc_simps linked_def)

definition stores_entry :: "uuid \<Rightarrow> json \<Rightarrow> template_task_row \<Rightarrow> bool" where
  "stores_entry tid e r \<longleftrightarrow> (\<exists>task. seed_task e = Inr task \<and> r = task tid (tt_id r))"

lemma add_template_task_run:
  "add_template_task tid e m w = (Inr m', w') \<Longrightarrow> \<exists>r. stores_entry tid e r \<and>
     w_db w' = (w_db w)\<lparr>db_template_tasks := db_template_tasks (w_db w) @ [r]\<rparr> \<and> m' = dict_set (tt_ord r) (tt_id r) m"
proof -
  assume run: "add_template_task tid e m w = (Inr m', w')"
  then obtain task where task: "seed_task e = Inr task" by (auto simp: add_template_task_def proc_simps)
  let ?r = "task tid (w_uuid w (w_next w))"
  have "stores_entry tid e ?r" using task by (simp add: stores_entry_def seed_task_row)
  with run task show ?thesis by (intro exI [of _ ?r]) (auto simp: add_template_task_def proc_simps seed_task_row)
qed

lemma add_tasks_run:
  "for_each (add_template_task tid) es m w = (Inr m', w') \<Longrightarrow> \<exists>rows. list_all2 (stores_entry tid) es rows \<and>
     w_db w' = (w_db w)\<lparr>db_template_tasks := db_template_tasks (w_db w) @ rows\<rparr> \<and>
     m' = fold (\<lambda>r. dict_set (tt_ord r) (tt_id r)) rows m"
proof (induction es arbitrary: m w)
  case (Cons e es)
  then obtain m1 w1 where step: "add_template_task tid e m w = (Inr m1, w1)"
    and rest: "for_each (add_template_task tid) es m1 w1 = (Inr m', w')" by (auto simp: proc_simps)
  obtain r where "stores_entry tid e r" "m1 = dict_set (tt_ord r) (tt_id r) m"
    "w_db w1 = (w_db w)\<lparr>db_template_tasks := db_template_tasks (w_db w) @ [r]\<rparr>"
    using add_template_task_run [OF step] by blast
  moreover obtain rows where "list_all2 (stores_entry tid) es rows"
    "w_db w' = (w_db w1)\<lparr>db_template_tasks := db_template_tasks (w_db w1) @ rows\<rparr>"
    "m' = fold (\<lambda>r. dict_set (tt_ord r) (tt_id r)) rows m1"
    using Cons.IH [OF rest] by blast
  ultimately show ?case by (intro exI [of _ "r # rows"]) simp
qed (auto simp: proc_simps)

subsection \<open>Reading a template back\<close>

lemma insort_key_map: "insort_key g (f x) (map f xs) = map f (insort_key (\<lambda>x. g (f x)) x xs)"
  by (induction xs) auto

lemma sort_key_map: "sort_key g (map f xs) = map f (sort_key (\<lambda>x. g (f x)) xs)"
  by (induction xs) (simp_all add: insort_key_map)

lemma filter_concat_key:
  assumes "distinct (map key xs)" and "\<And>x r. x \<in> set xs \<Longrightarrow> r \<in> set (f x) \<Longrightarrow> own r = key x" and "x \<in> set xs"
  shows "filter (\<lambda>r. own r = key x) (concat (map f xs)) = f x"
  using assms
proof (induction xs)
  case (Cons y ys)
  have all: "filter (\<lambda>r. own r = key y) (f y) = f y" using Cons.prems(2) [of y] by simp
  have none: "filter (\<lambda>r. own r = k) (concat (map f zs)) = []" if "k \<notin> key ` set zs" "set zs \<subseteq> set (y # ys)" for k zs
    using that Cons.prems(2) by (fastforce simp: filter_empty_conv)
  show ?case
  proof (cases "x = y")
    case True
    with Cons.prems(1) all none [of "key x" ys] show ?thesis by (auto simp: subset_insertI)
  next
    case False
    with Cons.prems(1,3) have "key x \<noteq> key y" "x \<in> set ys" by (auto simp: image_iff)
    with Cons.IH Cons.prems(1,2) none [of "key x" "[y]"] show ?thesis by auto
  qed
qed simp

lemma deps_back:
  assumes "\<forall>x \<in> set ds. \<exists>i. dict_get m (fst x) = Some i \<and> dict_get ido i = Some (fst x)"
  shows "List.map_filter (\<lambda>r. map_option (\<lambda>n. (n, td_link_type r, td_lag_working_days r)) (dict_get ido (td_depends_on_id r)))
    (dep_rows m t ds) = ds"
  using assms by (induction ds) (auto simp: dep_rows_def map_filter_simps)

lemma assignees_back:
  "map ta_person_id (sort_key (\<lambda>r. (ta_priority r, ta_strictness r)) (assignee_rows t as)) =
    map fst (sort_key (\<lambda>(p, s, q). (q, s)) as)"
  by (simp add: assignee_rows_def sort_key_map case_prod_beta' comp_def)

lemma read_back_entry:
  assumes "stores_entry tid e r" and "read_links people e = Inr (n, as, ds)"
    and "filter (\<lambda>a. ta_template_task_id a = tt_id r) (db_template_assignees d) = assignee_rows (tt_id r) as"
    and "filter (\<lambda>a. td_template_task_id a = tt_id r) (db_template_deps d) = dep_rows m (tt_id r) ds"
    and "\<forall>x \<in> set ds. \<exists>i. dict_get m (fst x) = Some i \<and> dict_get ido i = Some (fst x)"
  shows "seed_spec people e = Inr (template_spec d ido r)"
proof -
  obtain task where task: "seed_task e = Inr task" "r = task tid (tt_id r)" using assms(1) by (auto simp: stores_entry_def)
  note row = seed_task_row(3-8) [OF task(1), of tid "tt_id r", folded task(2)]
  have "n = tt_ord r" using assms(2) row(1) by (auto simp: read_links_def res_simps)
  moreover have "template_deps d ido (tt_id r) = ds" by (simp add: template_deps_def assms(4) deps_back [OF assms(5)])
  moreover have "template_assignees d (tt_id r) = map fst (sort_key (\<lambda>(p, s, q). (q, s)) as)"
    by (simp add: template_assignees_def assms(3) assignees_back)
  ultimately show ?thesis using task(1) assms(2) row(2-)
    by (simp add: seed_spec_def template_spec_def Let_def)
qed

definition all_assignees where
  "all_assignees m ls = concat (map (\<lambda>(n, as, ds). assignee_rows (the (dict_get m n)) as) ls)"

definition all_deps where
  "all_deps m ls = concat (map (\<lambda>(n, as, ds). dep_rows m (the (dict_get m n)) ds) ls)"

lemma template_read_back:
  assumes te: "get_row te_code code (db_templates d) = Some te"
    and rows: "filter (\<lambda>t. tt_template_id t = te_id te) (db_template_tasks d) = rows"
    and ids: "distinct (map tt_id rows)" and ords: "distinct (map tt_ord rows)"
    and entries: "list_all2 (stores_entry (te_id te)) es rows"
    and links: "map_res (read_links people) es = Inr ls"
    and m: "m = dict_of (map (\<lambda>r. (tt_ord r, tt_id r)) rows)"
    and targets: "\<forall>(n, as, ds) \<in> set ls. dict_get m n \<noteq> None \<and> (\<forall>x \<in> set ds. dict_get m (fst x) \<noteq> None)"
    and as: "\<And>r. r \<in> set rows \<Longrightarrow> filter (\<lambda>a. ta_template_task_id a = tt_id r) (db_template_assignees d) =
      filter (\<lambda>a. ta_template_task_id a = tt_id r) (all_assignees m ls)"
    and ds: "\<And>r. r \<in> set rows \<Longrightarrow> filter (\<lambda>a. td_template_task_id a = tt_id r) (db_template_deps d) =
      filter (\<lambda>a. td_template_task_id a = tt_id r) (all_deps m ls)"
  shows "\<exists>specs. map_res (seed_spec people) es = Inr specs \<and>
    project_template_of d code = Some \<lparr>pt_code = code, pt_tasks = sort_key ts_ord specs\<rparr>"
proof -
  define ido where "ido = dict_of (map (\<lambda>tt. (tt_id tt, tt_ord tt)) (sort_key tt_ord rows))"
  have m_get: "dict_get m (tt_ord r) = Some (tt_id r)" if "r \<in> set rows" for r
    unfolding m using dict_of_key_get [OF ords that, of tt_id] by simp
  have ido_get: "dict_get ido (tt_id r) = Some (tt_ord r)" if "r \<in> set rows" for r
  proof -
    have "distinct (map tt_id (sort_key tt_ord rows))" using ids by (simp add: distinct_map)
    from dict_of_key_get [OF this, of r tt_ord] that show ?thesis by (simp add: ido_def)
  qed
  have len: "length es = length rows" "length ls = length rows"
    using list_all2_lengthD [OF entries] list_all2_lengthD [OF links [unfolded map_res_Inr]] by simp_all
  have link: "read_links people (es ! k) = Inr (ls ! k)" if "k < length rows" for k
    using links that len by (auto simp: map_res_Inr list_all2_conv_all_nth)
  have entry: "stores_entry (te_id te) (es ! k) (rows ! k)" if "k < length rows" for k
    using entries that by (auto simp: list_all2_conv_all_nth)
  have owner: "the (dict_get m (fst (ls ! k))) = tt_id (rows ! k)" if k: "k < length rows" for k
  proof -
    obtain task where "seed_task (es ! k) = Inr task" "rows ! k = task (te_id te) (tt_id (rows ! k))"
      using entry [OF k] by (auto simp: stores_entry_def)
    then have "int_item ''ord'' (es ! k) = Inr (tt_ord (rows ! k))" by (metis seed_task_row(3))
    with link [OF k] have "fst (ls ! k) = tt_ord (rows ! k)" using read_links_ord by fastforce
    with m_get k show ?thesis by simp
  qed
  then have "map (\<lambda>l. the (dict_get m (fst l))) ls = map tt_id rows" using len by (simp add: list_eq_iff_nth_eq)
  with ids have own: "distinct (map (\<lambda>l. the (dict_get m (fst l))) ls)" by simp
  have spec: "seed_spec people (es ! k) = Inr (template_spec d ido (rows ! k))" if k: "k < length rows" for k
  proof -
    obtain n as' ds' where l: "ls ! k = (n, as', ds')" by (cases "ls ! k")
    have mem: "ls ! k \<in> set ls" "rows ! k \<in> set rows" using k len by simp_all
    have "filter (\<lambda>a. ta_template_task_id a = the (dict_get m (fst (ls ! k)))) (all_assignees m ls) =
        (\<lambda>(n, as, ds). assignee_rows (the (dict_get m n)) as) (ls ! k)"
      unfolding all_assignees_def by (rule filter_concat_key [OF own _ mem(1)]) (auto simp: assignee_rows_def)
    then have as_back: "filter (\<lambda>a. ta_template_task_id a = tt_id (rows ! k)) (all_assignees m ls) = assignee_rows (tt_id (rows ! k)) as'"
      using owner [OF k] by (simp add: l)
    have "filter (\<lambda>a. td_template_task_id a = the (dict_get m (fst (ls ! k)))) (all_deps m ls) =
        (\<lambda>(n, as, ds). dep_rows m (the (dict_get m n)) ds) (ls ! k)"
      unfolding all_deps_def by (rule filter_concat_key [OF own _ mem(1)]) (auto simp: dep_rows_def)
    then have ds_back: "filter (\<lambda>a. td_template_task_id a = tt_id (rows ! k)) (all_deps m ls) = dep_rows m (tt_id (rows ! k)) ds'"
      using owner [OF k] by (simp add: l)
    have "\<forall>x \<in> set ds'. \<exists>i. dict_get m (fst x) = Some i \<and> dict_get ido i = Some (fst x)"
    proof
      fix x assume "x \<in> set ds'"
      with targets mem(1) l obtain i where i: "dict_get m (fst x) = Some i" by fastforce
      then obtain r where "r \<in> set rows" "tt_ord r = fst x" "tt_id r = i"
        unfolding m by (auto dest!: dict_of_key_get_SomeD)
      with i ido_get show "\<exists>i. dict_get m (fst x) = Some i \<and> dict_get ido i = Some (fst x)" by metis
    qed
    then show ?thesis
      using read_back_entry [OF entry [OF k], of people n as' ds' d m ido] link [OF k] l as [OF mem(2)] ds [OF mem(2)] as_back ds_back by simp
  qed
  have "map_res (seed_spec people) es = Inr (map (template_spec d ido) rows)"
    using len spec by (simp add: map_res_Inr list_all2_conv_all_nth)
  moreover have "project_template_of d code = Some \<lparr>pt_code = code, pt_tasks = sort_key ts_ord (map (template_spec d ido) rows)\<rparr>"
    by (simp add: project_template_of_def te rows ido_def [symmetric] sort_key_map template_spec_def Let_def)
  ultimately show ?thesis by blast
qed

subsection \<open>The steps of loading a template\<close>

lemma get_row_appended:
  "get_row key k (xs @ ys) = (case get_row key k xs of None \<Rightarrow> get_row key k ys | Some r \<Rightarrow> Some r)"
  by (induction xs) (auto simp: get_row_def)

lemma get_row_update:
  assumes "\<And>r. key (f r) = key r"
  shows "get_row key k (update_row key' i f rows) = map_option (\<lambda>r. if key' r = i then f r else r) (get_row key k rows)"
  using assms by (induction rows) (auto simp: get_row_def update_row_def)

lemma renamed_templates:
  "map te_id (update_row te_id i (\<lambda>r. r\<lparr>te_name := name\<rparr>) rows) = map te_id rows"
  "map te_code (update_row te_id i (\<lambda>r. r\<lparr>te_name := name\<rparr>) rows) = map te_code rows"
  by (auto simp: update_row_def)

lemma upsert_template_run:
  assumes run: "upsert_template code name w = (Inr tid, w')" and ok: "seed_tables_ok (w_db w)"
  shows "seed_tables_ok (w_db w')" "\<exists>te. get_row te_code code (db_templates (w_db w')) = Some te \<and> te_id te = tid"
    "\<exists>ts. w_db w' = (w_db w)\<lparr>db_templates := ts\<rparr>"
    "other \<noteq> code \<Longrightarrow> map_option te_id (get_row te_code other (db_templates (w_db w'))) =
      map_option te_id (get_row te_code other (db_templates (w_db w)))"
proof -
  have "seed_tables_ok (w_db w') \<and> (\<exists>te. get_row te_code code (db_templates (w_db w')) = Some te \<and> te_id te = tid) \<and>
    (\<exists>ts. w_db w' = (w_db w)\<lparr>db_templates := ts\<rparr>) \<and>
    (other \<noteq> code \<longrightarrow> map_option te_id (get_row te_code other (db_templates (w_db w'))) =
      map_option te_id (get_row te_code other (db_templates (w_db w))))"
  proof (cases "get_row te_code code (db_templates (w_db w))")
    case None
    then have "get_row te_code c (db_templates (w_db w) @ [\<lparr>te_id = i, te_code = code, te_name = name\<rparr>]) =
        (if c = code then Some \<lparr>te_id = i, te_code = code, te_name = name\<rparr> else get_row te_code c (db_templates (w_db w)))" for i c
      by (auto simp: get_row_appended split: option.split) (simp_all add: get_row_def)
    with run None show ?thesis by (auto simp: upsert_template_def proc_simps)
  next
    case (Some t)
    then have w': "w_db w' = (w_db w)\<lparr>db_templates := update_row te_id (te_id t) (\<lambda>r. r\<lparr>te_name := name\<rparr>) (db_templates (w_db w))\<rparr>"
      and tid: "tid = te_id t" using run by (auto simp: upsert_template_def proc_simps)
    have "seed_tables_ok (w_db w')" using ok
      unfolding w' seed_tables_ok_def template_tables_ok_def capability_tables_ok_def
      by (simp add: renamed_templates has_person_def flip: set_map)
    with w' tid Some show ?thesis by (auto simp: get_row_update option.map_comp comp_def intro!: map_option_cong)
  qed
  then show "seed_tables_ok (w_db w')" "\<exists>te. get_row te_code code (db_templates (w_db w')) = Some te \<and> te_id te = tid"
    "\<exists>ts. w_db w' = (w_db w)\<lparr>db_templates := ts\<rparr>"
    "other \<noteq> code \<Longrightarrow> map_option te_id (get_row te_code other (db_templates (w_db w'))) =
      map_option te_id (get_row te_code other (db_templates (w_db w)))" by blast+
qed

lemma drop_run:
  assumes "drop_children tid w = (Inr u, w')" and "seed_tables_ok (w_db w)"
  shows "seed_tables_ok (w_db w')" "filter (\<lambda>t. tt_template_id t = tid) (db_template_tasks (w_db w')) = []"
    "db_templates (w_db w') = db_templates (w_db w)"
  using assms by (auto simp: drop_children_def proc_simps task_ids_def filter_empty_conv split: if_splits)

lemma old_children:
  assumes "template_tables_ok d" and "distinct (map tt_id (db_template_tasks d @ rows))" and "r \<in> set rows"
  shows "filter (\<lambda>a. ta_template_task_id a = tt_id r) (db_template_assignees d) = []"
    "filter (\<lambda>a. td_template_task_id a = tt_id r) (db_template_deps d) = []"
proof -
  have "tt_id r \<notin> set (map tt_id (db_template_tasks d))" using assms(2,3) by auto
  with assms(1) show "filter (\<lambda>a. ta_template_task_id a = tt_id r) (db_template_assignees d) = []"
    "filter (\<lambda>a. td_template_task_id a = tt_id r) (db_template_deps d) = []"
    unfolding template_tables_ok_def filter_empty_conv by metis+
qed

lemma stored_rows:
  assumes "list_all2 (stores_entry tid) es rows"
  shows "map_res (int_item ''ord'') es = Inr (map tt_ord rows)" "\<forall>r \<in> set rows. tt_template_id r = tid"
  using assms
proof (induction rule: list_all2_induct)
  case (Cons e es r rows)
  then obtain task where task: "seed_task e = Inr task" "r = task tid (tt_id r)" by (auto simp: stores_entry_def)
  note row = seed_task_row(2,3) [OF task(1), of tid "tt_id r", folded task(2)]
  { case 1 from row Cons show ?case by simp }
  { case 2 from row Cons show ?case by simp }
qed auto

lemma load_template_steps:
  assumes run: "load_template code name raw people w = (Inr u, w')" and ok: "seed_tables_ok (w_db w)"
  obtains tid w1 w2 es rows m ls where "upsert_template code name w = (Inr tid, w1)" "drop_children tid w1 = (Inr (), w2)"
    "bind_res (json_item ''tasks'' raw) json_list = Inr es" "list_all2 (stores_entry tid) es rows"
    "m = dict_of (map (\<lambda>r. (tt_ord r, tt_id r)) rows)" "map_res (read_links people) es = Inr ls"
    "\<forall>(n, as, ds) \<in> set ls. dict_get m n \<noteq> None \<and> (\<forall>x \<in> set ds. dict_get m (fst x) \<noteq> None)"
    "w_db w' = linked m ls ((w_db w2)\<lparr>db_template_tasks := db_template_tasks (w_db w2) @ rows\<rparr>)"
    "seed_tables_ok (w_db w')" "seed_tables_ok (w_db w1)" "seed_tables_ok (w_db w2)"
    "distinct (map tt_id (db_template_tasks (w_db w2) @ rows))"
proof -
  obtain tid w1 w2 es m w3 w4 where upsert: "upsert_template code name w = (Inr tid, w1)"
    and drop: "drop_children tid w1 = (Inr (), w2)" and es: "bind_res (json_item ''tasks'' raw) json_list = Inr es"
    and add: "for_each (add_template_task tid) es [] w2 = (Inr m, w3)"
    and link: "for_each (link_task people m) es () w3 = (Inr (), w4)" and last: "seed_tables_ok (w_db w4)" "w' = w4"
    using run by (auto simp: load_template_def proc_simps)
  note ok1 = upsert_template_run(1) [OF upsert ok]
  obtain rows where rows: "list_all2 (stores_entry tid) es rows"
    "w_db w3 = (w_db w2)\<lparr>db_template_tasks := db_template_tasks (w_db w2) @ rows\<rparr>"
    "m = fold (\<lambda>r. dict_set (tt_ord r) (tt_id r)) rows []"
    using add_tasks_run [OF add] by blast
  obtain ls where ls: "map_res (read_links people) es = Inr ls"
    "\<forall>(n, as, ds) \<in> set ls. dict_get m n \<noteq> None \<and> (\<forall>x \<in> set ds. dict_get m (fst x) \<noteq> None)" "w_db w4 = linked m ls (w_db w3)"
    using link_tasks_run [OF link] by auto
  have "m = dict_of (map (\<lambda>r. (tt_ord r, tt_id r)) rows)" by (simp add: rows(3) dict_of_def fold_map comp_def)
  moreover have "db_template_tasks (w_db w4) = db_template_tasks (w_db w2) @ rows" by (simp add: ls(3) linked_def rows(2))
  then have "distinct (map tt_id (db_template_tasks (w_db w2) @ rows))"
    using last(1) by (simp add: seed_tables_ok_def template_tables_ok_def)
  ultimately show thesis
    using that [OF upsert drop es rows(1) _ ls(1,2)] ls(3) rows(2) last ok1 drop_run(1) [OF drop ok1] by simp
qed

lemma load_template_run:
  assumes run: "load_template code name raw people w = (Inr u, w')" and ok: "seed_tables_ok (w_db w)"
    and es: "bind_res (json_item ''tasks'' raw) json_list = Inr es"
    and ords: "map_res (int_item ''ord'') es = Inr ns" "distinct ns"
  shows "\<exists>specs. map_res (seed_spec people) es = Inr specs \<and>
    project_template_of (w_db w') code = Some \<lparr>pt_code = code, pt_tasks = sort_key ts_ord specs\<rparr>"
proof -
  obtain tid w1 w2 es1 rows m ls where upsert: "upsert_template code name w = (Inr tid, w1)"
    and drop: "drop_children tid w1 = (Inr (), w2)" and es1: "bind_res (json_item ''tasks'' raw) json_list = Inr es1"
    and rows: "list_all2 (stores_entry tid) es1 rows" and m: "m = dict_of (map (\<lambda>r. (tt_ord r, tt_id r)) rows)"
    and ls: "map_res (read_links people) es1 = Inr ls"
      "\<forall>(n, as, ds) \<in> set ls. dict_get m n \<noteq> None \<and> (\<forall>x \<in> set ds. dict_get m (fst x) \<noteq> None)"
    and db: "w_db w' = linked m ls ((w_db w2)\<lparr>db_template_tasks := db_template_tasks (w_db w2) @ rows\<rparr>)"
    and "seed_tables_ok (w_db w')" and ok1: "seed_tables_ok (w_db w1)" and ok2: "seed_tables_ok (w_db w2)"
    and ids: "distinct (map tt_id (db_template_tasks (w_db w2) @ rows))"
    by (rule load_template_steps [OF run ok])
  from es es1 have "es1 = es" by simp
  note rows = rows [unfolded this] and ls = ls [unfolded this]
  obtain te where te: "get_row te_code code (db_templates (w_db w1)) = Some te" "te_id te = tid"
    using upsert_template_run(2) [OF upsert ok] by blast
  have old: "template_tables_ok (w_db w2)" using ok2 by (simp add: seed_tables_ok_def)
  have te4: "get_row te_code code (db_templates (w_db w')) = Some te"
    using te(1) drop_run(3) [OF drop ok1] by (simp add: db linked_def)
  have own: "filter (\<lambda>t. tt_template_id t = te_id te) (db_template_tasks (w_db w')) = rows"
    using drop_run(2) [OF drop ok1] stored_rows(2) [OF rows(1)] by (simp add: db linked_def te(2))
  have distinct_ords: "distinct (map tt_ord rows)" using stored_rows(1) [OF rows(1)] ords by simp
  show ?thesis
    by (rule template_read_back [OF te4 own _ distinct_ords _ ls(1) m ls(2)])
      (use ids rows(1) te(2) old_children [OF old ids] in \<open>simp_all add: db linked_def all_assignees_def all_deps_def\<close>)
qed

subsection \<open>Loading leaves the other templates alone\<close>

definition same_template :: "uuid \<Rightarrow> db \<Rightarrow> db \<Rightarrow> bool" where
  "same_template t d d' \<longleftrightarrow>
     filter (\<lambda>r. tt_template_id r = t) (db_template_tasks d') = filter (\<lambda>r. tt_template_id r = t) (db_template_tasks d) \<and>
     (\<forall>r \<in> set (db_template_tasks d). tt_template_id r = t \<longrightarrow>
        filter (\<lambda>a. ta_template_task_id a = tt_id r) (db_template_assignees d') =
          filter (\<lambda>a. ta_template_task_id a = tt_id r) (db_template_assignees d) \<and>
        filter (\<lambda>a. td_template_task_id a = tt_id r) (db_template_deps d') =
          filter (\<lambda>a. td_template_task_id a = tt_id r) (db_template_deps d))"

lemma same_template_read:
  assumes te: "get_row te_code code (db_templates d) = Some te"
    and te': "map_option te_id (get_row te_code code (db_templates d')) = Some (te_id te)"
    and same: "same_template (te_id te) d d'"
  shows "project_template_of d' code = project_template_of d code"
proof -
  have spec: "template_spec d' ido r = template_spec d ido r"
    if "r \<in> set (db_template_tasks d)" "tt_template_id r = te_id te" for ido r
  proof -
    note children = same [unfolded same_template_def, THEN conjunct2, THEN bspec, OF that(1), THEN mp, OF that(2)]
    have "template_deps d' ido (tt_id r) = template_deps d ido (tt_id r)"
      "template_assignees d' (tt_id r) = template_assignees d (tt_id r)"
      using children by (simp_all add: template_deps_def template_assignees_def)
    then show ?thesis by (simp add: template_spec_def)
  qed
  from te' obtain te1 where "get_row te_code code (db_templates d') = Some te1" "te_id te1 = te_id te" by auto
  with te same spec show ?thesis
    by (auto simp: project_template_of_def same_template_def Let_def)
qed

lemma drop_same:
  assumes "drop_children tid w = (Inr u, w')" and "seed_tables_ok (w_db w)" and "t \<noteq> tid"
  shows "same_template t (w_db w) (w_db w')"
proof -
  have "tt_id r \<notin> set (task_ids tid (w_db w))" if "r \<in> set (db_template_tasks (w_db w))" "tt_template_id r = t" for r
    using assms(2,3) that inj_onD [of tt_id "set (db_template_tasks (w_db w))"]
    by (auto simp: seed_tables_ok_def template_tables_ok_def task_ids_def distinct_map)
  with assms(1,3) show ?thesis
    by (auto simp: drop_children_def proc_simps same_template_def intro!: filter_cong split: if_splits)
qed

lemma same_template_trans: "same_template t d1 d2 \<Longrightarrow> same_template t d2 d3 \<Longrightarrow> same_template t d1 d3"
proof -
  assume *: "same_template t d1 d2" "same_template t d2 d3"
  have "r \<in> set (db_template_tasks d2)" if "r \<in> set (db_template_tasks d1)" "tt_template_id r = t" for r
  proof -
    have "r \<in> set (filter (\<lambda>r. tt_template_id r = t) (db_template_tasks d2))"
      using *(1) that by (simp add: same_template_def)
    then show ?thesis by simp
  qed
  with * show ?thesis by (simp add: same_template_def)
qed

lemma owners_stored:
  "dict_get (dict_of (map (\<lambda>r. (tt_ord r, tt_id r)) rows)) n \<noteq> None \<Longrightarrow>
    the (dict_get (dict_of (map (\<lambda>r. (tt_ord r, tt_id r)) rows)) n) \<in> tt_id ` set rows"
  using dict_of_key_get_SomeD [of tt_ord tt_id rows n] by fastforce

lemma linked_same:
  assumes ids: "distinct (map tt_id (db_template_tasks d @ rows))" and owners: "\<forall>(n, as, ds) \<in> set ls. the (dict_get m n) \<in> tt_id ` set rows"
    and rows: "\<forall>r \<in> set rows. tt_template_id r = tid" and other: "t \<noteq> tid"
  shows "same_template t d (linked m ls (d\<lparr>db_template_tasks := db_template_tasks d @ rows\<rparr>))"
proof -
  have "the (dict_get m n) \<noteq> tt_id r" if "(n, as, ds) \<in> set ls" "r \<in> set (db_template_tasks d)" for n as ds r
    using owners ids that by fastforce
  then have "filter (\<lambda>a. ta_template_task_id a = tt_id r) (all_assignees m ls) = []"
    "filter (\<lambda>a. td_template_task_id a = tt_id r) (all_deps m ls) = []" if "r \<in> set (db_template_tasks d)" for r
    using that by (force simp: filter_empty_conv all_assignees_def assignee_rows_def all_deps_def dep_rows_def)+
  moreover have "filter (\<lambda>r. tt_template_id r = t) rows = []" using rows other by (auto simp: filter_empty_conv)
  ultimately show ?thesis by (simp add: same_template_def linked_def all_assignees_def all_deps_def)
qed

lemma load_template_other:
  assumes run: "load_template code name raw people w = (Inr u, w')" and ok: "seed_tables_ok (w_db w)"
    and other: "code' \<noteq> code" and te: "get_row te_code code' (db_templates (w_db w)) = Some te"
  shows "project_template_of (w_db w') code' = project_template_of (w_db w) code'"
proof -
  obtain tid w1 w2 es1 rows m ls where upsert: "upsert_template code name w = (Inr tid, w1)"
    and drop: "drop_children tid w1 = (Inr (), w2)" and es1: "bind_res (json_item ''tasks'' raw) json_list = Inr es1"
    and rows: "list_all2 (stores_entry tid) es1 rows" and m: "m = dict_of (map (\<lambda>r. (tt_ord r, tt_id r)) rows)"
    and ls: "map_res (read_links people) es1 = Inr ls"
      "\<forall>(n, as, ds) \<in> set ls. dict_get m n \<noteq> None \<and> (\<forall>x \<in> set ds. dict_get m (fst x) \<noteq> None)"
    and db: "w_db w' = linked m ls ((w_db w2)\<lparr>db_template_tasks := db_template_tasks (w_db w2) @ rows\<rparr>)"
    and "seed_tables_ok (w_db w')" and ok1: "seed_tables_ok (w_db w1)" and ok2: "seed_tables_ok (w_db w2)"
    and ids: "distinct (map tt_id (db_template_tasks (w_db w2) @ rows))"
    by (rule load_template_steps [OF run ok])
  obtain te0 where te0: "get_row te_code code (db_templates (w_db w1)) = Some te0" "te_id te0 = tid"
    using upsert_template_run(2) [OF upsert ok] by blast
  obtain te1 where te1: "get_row te_code code' (db_templates (w_db w1)) = Some te1" "te_id te1 = te_id te"
    using upsert_template_run(4) [OF upsert ok other] te by auto
  have "te0 \<in> set (db_templates (w_db w1))" "te_code te0 = code" "te1 \<in> set (db_templates (w_db w1))" "te_code te1 = code'"
    using get_row_SomeD [OF te0(1)] get_row_SomeD [OF te1(1)] by simp_all
  then have tid: "te_id te \<noteq> tid"
    using ok1 other te0(2) te1(2) by (auto simp: seed_tables_ok_def template_tables_ok_def distinct_map dest: inj_onD)
  have "same_template (te_id te) (w_db w) (w_db w1)"
    using upsert_template_run(3) [OF upsert ok] by (auto simp: same_template_def)
  moreover have "same_template (te_id te) (w_db w1) (w_db w2)" by (rule drop_same [OF drop ok1 tid])
  moreover have "same_template (te_id te) (w_db w2) (w_db w')"
    unfolding db
  proof (rule linked_same [OF ids _ stored_rows(2) [OF rows] tid])
    show "\<forall>(n, as, ds) \<in> set ls. the (dict_get m n) \<in> tt_id ` set rows"
      using ls(2) owners_stored [of rows] unfolding m by fastforce
  qed
  ultimately have same: "same_template (te_id te) (w_db w) (w_db w')" by (blast intro: same_template_trans)
  have "db_templates (w_db w') = db_templates (w_db w1)" using drop_run(3) [OF drop ok1] by (simp add: db linked_def)
  with te1 show ?thesis by (intro same_template_read [OF te _ same]) simp
qed

subsection \<open>The whole script\<close>

lemma load_template_ok: "load_template code name raw people w = (Inr u, w') \<Longrightarrow> seed_tables_ok (w_db w')"
  by (auto simp: load_template_def proc_simps)

lemma load_capability_ok: "load_capability raw people w = (Inr u, w') \<Longrightarrow> seed_tables_ok (w_db w')"
  by (auto simp: load_capability_def proc_simps split: prod.splits)

lemma template_after_capability:
  assumes "capability_step d d'" shows "project_template_of d' code = project_template_of d code" "people_of d' = people_of d"
proof -
  have *: "template_spec d' ido r = template_spec d ido r" for ido r
    using assms by (auto simp: capability_step_def template_spec_def template_deps_def template_assignees_def)
  show "project_template_of d' code = project_template_of d code"
    using assms by (auto simp: project_template_of_def * [abs_def] capability_step_def)
  show "people_of d' = people_of d" using assms by (auto simp: people_of_def capability_step_def)
qed

lemma template_step_people: "template_step d d' \<Longrightarrow> people_of d' = people_of d"
  by (auto simp: people_of_def template_step_def)

lemma seed_main_steps:
  assumes "seed_main files w = (Inr u, w')"
  obtains w1 w2 w3 name1 name2 where "load_team (sf_team files) w = (Inr (people_of (w_db w1)), w1)"
    "load_template (ascii ''standard'') name1 (sf_standard files) (people_of (w_db w1)) w1 = (Inr (), w2)"
    "load_template (ascii ''lite'') name2 (sf_lite files) (people_of (w_db w1)) w2 = (Inr (), w3)"
    "load_capability (sf_capability files) (people_of (w_db w1)) w3 = (Inr (), w')"
proof -
  from assms obtain people w1 w2 w3 name1 name2 where steps: "load_team (sf_team files) w = (Inr people, w1)"
    "load_template (ascii ''standard'') name1 (sf_standard files) people w1 = (Inr (), w2)"
    "load_template (ascii ''lite'') name2 (sf_lite files) people w2 = (Inr (), w3)"
    "load_capability (sf_capability files) people w3 = (Inr (), w')"
    by (auto simp: seed_main_def session_begin_def proc_simps split: prod.splits sum.splits)
  with load_team_run [OF steps(1)] that show thesis by metis
qed

end
