(* ===== verification/Seed_Properties.thy ===== *)
theory Seed_Properties
  imports Seed_Correct
begin

section \<open>Properties of the seed script\<close>

text \<open>
  What \<open>seed/load_seed.py\<close> leaves in the database, for every team, template and capability file. The
  witness loads two tasks for one person.
\<close>

definition seeded :: "db \<Rightarrow> db \<Rightarrow> bool" where
  "seeded d d' \<longleftrightarrow>
     (\<exists>new. db_people d' = db_people d @ new \<and> distinct (map pr_name new) \<and>
        (\<forall>p \<in> set new. pr_name p \<notin> pr_name ` set (db_people d))) \<and>
     db_projects d' = db_projects d \<and> db_tasks d' = db_tasks d \<and> db_assignments d' = db_assignments d \<and>
     db_dependencies d' = db_dependencies d \<and> db_overrides d' = db_overrides d \<and> db_plans d' = db_plans d \<and>
     db_audit d' = db_audit d \<and> set (map te_id (db_templates d)) \<subseteq> set (map te_id (db_templates d')) \<and> seed_tables_ok d'"

lemma seeded_db_ok: "seeded d d' \<Longrightarrow> db_ok d \<Longrightarrow> db_ok d'"
proof -
  assume "seeded d d'"
  then obtain new where new: "db_people d' = db_people d @ new" and ids: "distinct (map pr_id (db_people d'))"
    and same: "db_projects d' = db_projects d" "db_tasks d' = db_tasks d" "db_assignments d' = db_assignments d"
      "db_dependencies d' = db_dependencies d" "db_overrides d' = db_overrides d" "db_plans d' = db_plans d" "db_audit d' = db_audit d"
    and templates: "set (map te_id (db_templates d)) \<subseteq> set (map te_id (db_templates d'))"
    by (auto simp: seeded_def seed_tables_ok_def)
  have person: "has_person d i \<Longrightarrow> has_person d' i" for i by (auto simp: has_person_def new)
  then have "opt_ok (has_person d) x \<Longrightarrow> opt_ok (has_person d') x" for x by (auto simp: opt_ok_def split: option.splits)
  moreover have "opt_ok (\<lambda>i. i \<in> set (map te_id (db_templates d))) x \<Longrightarrow>
      opt_ok (\<lambda>i. i \<in> set (map te_id (db_templates d'))) x" for x
    using templates by (auto simp: opt_ok_def split: option.splits)
  moreover assume "db_ok d"
  ultimately show "db_ok d'" using person ids
    unfolding db_ok_def projects_ok_def tasks_ok_def assignments_ok_def overrides_ok_def plans_ok_def audit_ok_def
      has_project_def has_task_def same by blast
qed

definition numbered_entries :: "json \<Rightarrow> json list \<Rightarrow> bool" where
  "numbered_entries raw es \<longleftrightarrow> bind_res (json_item ''tasks'' raw) json_list = Inr es \<and>
     (case map_res (int_item ''ord'') es of Inl e \<Rightarrow> False | Inr ns \<Rightarrow> distinct ns)"

definition reads_back :: "db \<Rightarrow> ustr \<Rightarrow> json list \<Rightarrow> bool" where
  "reads_back d code es \<longleftrightarrow> (\<exists>specs. map_res (seed_spec (people_of d)) es = Inr specs \<and>
     project_template_of d code = Some \<lparr>pt_code = code, pt_tasks = sort_key ts_ord specs\<rparr>)"

lemma seed_main_run:
  assumes run: "seed_main files w = (Inr u, w')"
  shows "seeded (w_db w) (w_db w')"
    "numbered_entries (sf_standard files) es \<Longrightarrow> reads_back (w_db w') (ascii ''standard'') es"
    "numbered_entries (sf_lite files) es \<Longrightarrow> reads_back (w_db w') (ascii ''lite'') es"
proof -
  obtain w1 w2 w3 name1 name2 where team: "load_team (sf_team files) w = (Inr (people_of (w_db w1)), w1)"
    and standard: "load_template (ascii ''standard'') name1 (sf_standard files) (people_of (w_db w1)) w1 = (Inr (), w2)"
    and lite: "load_template (ascii ''lite'') name2 (sf_lite files) (people_of (w_db w1)) w2 = (Inr (), w3)"
    and skills: "load_capability (sf_capability files) (people_of (w_db w1)) w3 = (Inr (), w')"
    by (rule seed_main_steps [OF run])
  note ok1 = load_team_run [OF team, THEN conjunct2, THEN conjunct2]
  note ok2 = load_template_ok [OF standard]
  have s1: "template_step (w_db w1) (w_db w2)"
    by (rule keepsD [OF load_template_step _ standard]) (simp add: template_step_iff)
  have s2: "template_step (w_db w2) (w_db w3)"
    by (rule keepsD [OF load_template_step _ lite]) (simp add: template_step_iff)
  have s3: "capability_step (w_db w3) (w_db w')"
    by (rule keepsD [OF load_capability_step _ skills]) (simp add: capability_step_iff)
  have people: "people_of (w_db w') = people_of (w_db w1)"
    using template_step_people [OF s1] template_step_people [OF s2] template_after_capability(2) [OF s3] by simp
  have new: "newcomers (w_db w) (w_db w1)" using load_team_run [OF team] by blast
  have "set (map te_id (db_templates (w_db w1))) \<subseteq> set (map te_id (db_templates (w_db w3)))"
    using s1 s2 unfolding template_step_iff by (blast intro: order_trans)
  with new s1 s2 s3 load_capability_ok [OF skills] show "seeded (w_db w) (w_db w')"
    by (auto simp: newcomers_def template_step_def capability_step_def seeded_def simp del: set_map)
  show "reads_back (w_db w') (ascii ''lite'') es" if "numbered_entries (sf_lite files) es"
    using load_template_run [OF lite ok2] that people template_after_capability(1) [OF s3]
    by (auto simp: numbered_entries_def reads_back_def split: sum.splits)
  show "reads_back (w_db w') (ascii ''standard'') es" if entries: "numbered_entries (sf_standard files) es"
  proof -
    obtain specs where specs: "map_res (seed_spec (people_of (w_db w1))) es = Inr specs"
      "project_template_of (w_db w2) (ascii ''standard'') = Some \<lparr>pt_code = ascii ''standard'', pt_tasks = sort_key ts_ord specs\<rparr>"
      using load_template_run [OF standard ok1] entries by (auto simp: numbered_entries_def split: sum.splits)
    then obtain te where "get_row te_code (ascii ''standard'') (db_templates (w_db w2)) = Some te"
      by (auto simp: project_template_of_def)
    from load_template_other [OF lite ok2 _ this] specs people template_after_capability(1) [OF s3]
    show ?thesis by (simp add: reads_back_def)
  qed
qed

text \<open>
  C37. The seed script is all or nothing: when it raises (an unknown assignee or dependency, a malformed
  field, a violated constraint) the database is as before. When it succeeds it only adds people, with
  new names, and touches no project, plan or task; the constraints hold; and the bot reads back both
  templates exactly as their files describe them: every task in the order of its number with its hours,
  flags and pair mode, its executors by priority and strictness, and its dependencies with type and lag.
\<close>

theorem seed_loads_files:
  "case seed_main files w of
     (Inl e, w') \<Rightarrow> w_db w' = w_db w
   | (Inr u, w') \<Rightarrow> seeded (w_db w) (w_db w') \<and> (db_ok (w_db w) \<longrightarrow> db_ok (w_db w')) \<and>
       (\<forall>es. numbered_entries (sf_standard files) es \<longrightarrow> reads_back (w_db w') (ascii ''standard'') es) \<and>
       (\<forall>es. numbered_entries (sf_lite files) es \<longrightarrow> reads_back (w_db w') (ascii ''lite'') es)"
proof (cases "seed_main files w")
  case (Pair r w')
  then show ?thesis
  proof (cases r)
    case (Inl e)
    with Pair show ?thesis by (auto simp: seed_main_def session_begin_def split: prod.splits sum.splits)
  next
    case (Inr u)
    with Pair seed_main_run [of files w u w'] seeded_db_ok show ?thesis by auto
  qed
qed

definition fresh_world :: world where
  "fresh_world =
     \<lparr>w_db = empty_db, w_uuid = (\<lambda>n. word_of_nat (Suc n)), w_next = 0, w_now = 0, w_calls = []\<rparr>"

definition small_person :: json where
  "small_person = jobj [(''name'', JStr (ascii ''Anna''))]"

definition small_assignee :: json where
  "small_assignee = jobj [(''name'', JStr (ascii ''Anna'')), (''strictness'', JStr (ascii ''A''))]"

definition small_task :: "int \<Rightarrow> json list \<Rightarrow> json" where
  "small_task n deps = jobj [(''ord'', JInt n), (''name'', JStr (ascii ''brief'')), (''duration_hours'', JInt 8),
     (''depends_on'', JList deps), (''assignees'', JList [small_assignee])]"

definition small_files :: seed_files where
  "small_files =
     \<lparr>sf_team = jobj [(''people'', JList [small_person])],
      sf_standard = jobj [(''tasks'', JList [small_task 1 [], small_task 2 [JInt 1]])],
      sf_lite = jobj [(''tasks'', JList [])], sf_capability = jobj [(''roles'', JList [])]\<rparr>"

lemma small_items:
  "text_item ''name'' small_person = Inr (ascii ''Anna'')"
  "seed_person small_person = Inr (\<lambda>i. \<lparr>pr_id = i, pr_tg_user_id = None, pr_name = ascii ''Anna'',
     pr_role_label = None, pr_capacity_h = 8, pr_is_admin = False, pr_is_active = True, pr_is_external = False\<rparr>)"
  "text_item ''name'' small_assignee = Inr (ascii ''Anna'')" "text_item ''strictness'' small_assignee = Inr (ascii ''A'')"
  "int_get ''priority'' i small_assignee = Inr i"
  "seed_task (small_task n deps) = Inr (\<lambda>t i. \<lparr>tt_id = i, tt_template_id = t, tt_ord = n, tt_name = ascii ''brief'',
     tt_duration_hours = 8, tt_duration_is_window = False, tt_is_splittable = False, tt_pair_mode = ascii ''none'',
     tt_optional_in_lite = False\<rparr>)"
  "int_item ''ord'' (small_task n deps) = Inr n" "entries_of ''assignees'' (small_task n deps) = Inr [small_assignee]"
  "entries_of ''depends_on'' (small_task n deps) = Inr deps" "dep_fields (JInt n) = Inr (n, ascii ''FS'', 0)"
  by (simp_all add: seed_person_def seed_task_def seed_pair_mode_def small_task_def small_person_def small_assignee_def
      text_item_def int_item_def int_get_def flag_def entries_of_def json_item_def json_get_def jobj_def dict_item_def
      dict_get_default_def dict_get_def dep_fields_def)

lemma small_raw:
  "bind_res (json_item ''people'' (sf_team small_files)) json_list = Inr [small_person]"
  "bind_res (json_item ''tasks'' (sf_standard small_files)) json_list = Inr [small_task 1 [], small_task 2 [JInt 1]]"
  "bind_res (json_item ''tasks'' (sf_lite small_files)) json_list = Inr []"
  "bind_res (json_item ''roles'' (sf_capability small_files)) json_list = Inr []"
  by (simp_all add: small_files_def json_item_def jobj_def dict_item_def dict_get_def)

lemma small_run: "fst (seed_main small_files fresh_world) = Inr ()"
  by (simp add: seed_main_def session_begin_def load_team_def bind_proc_def query_run lift_res_run
      session_write_run session_flush_def ensure_def load_template_def upsert_template_def drop_children_def
      add_member_def add_template_task_def link_task_def add_assignee_def add_dependency_def load_capability_def
      link_person_def fresh_world_def empty_db_def small_items small_raw uuid4_run ret_run raise_run
      dict_get_def dict_of_def dict_set_def dict_values_def dict_item_def
      task_ids_def get_row_def seed_tables_ok_def template_tables_ok_def capability_tables_ok_def has_person_def
      pair_modes_def link_types_def)

theorem seed_loads_files_witness:
  "reads_back (w_db (snd (seed_main small_files fresh_world))) (ascii ''standard'') [small_task 1 [], small_task 2 [JInt 1]]"
proof -
  obtain w' where run: "seed_main small_files fresh_world = (Inr (), w')" using small_run by (metis prod.collapse)
  have "numbered_entries (sf_standard small_files) [small_task 1 [], small_task 2 [JInt 1]]"
    by (simp add: numbered_entries_def small_items small_raw)
  with seed_loads_files [of fresh_world small_files] run show ?thesis by simp
qed

end
