(* ===== verification/Shipped_Templates.thy ===== *)
theory Shipped_Templates
  imports Seed_Correct Add_Project_Correct Critical_Path
begin

section \<open>The templates shipped with the program\<close>

text \<open>
  The entries of \<open>src/seed/tasks_standard.yaml\<close> and \<open>tasks_lite.yaml\<close>, and what every project planned from
  them relies on: numbers without repetition, dependencies on smaller numbers only, and hours for what
  can be split. A template like this is always planned.
\<close>

definition standard_yaml :: "json list" where
  "standard_yaml = [
      jobj [(''ord'', JInt 1), (''name'', JStr [1047, 1072, 1087, 1086, 1083, 1085, 1077, 1085, 1080, 1077, 32,
        1073, 1088, 1080, 1092, 1072]), (''duration_hours'', JInt 8), (''is_splittable'', JBool False),
        (''pair_mode'', JStr (ascii ''none'')), (''optional_in_lite'', JBool False), (''depends_on'', JList []),
        (''assignees'', JList [jobj [(''name'', JStr [1040, 1085, 1076, 1088, 1077, 1081]), (''strictness'', JStr
        (ascii ''A'')), (''priority'', JInt 0)], jobj [(''name'', JStr [1056, 1072, 1081]), (''strictness'', JStr
        (ascii ''A'')), (''priority'', JInt 1)]])],
      jobj [(''ord'', JInt 2), (''name'', JStr [1056, 1077, 1089, 1077, 1088, 1095, 32, 1072, 1091, 1076, 1080,
        1090, 1086, 1088, 1080, 1080, 32, 1080, 32, 1084, 1077, 1093, 1072, 1085, 1080, 1082]), (''duration_hours'',
        JInt 8), (''is_splittable'', JBool True), (''pair_mode'', JStr (ascii ''optional'')), (''optional_in_lite'',
        JBool False), (''depends_on'', JList [JInt 1]), (''assignees'', JList [jobj [(''name'', JStr [1058, 1086,
        1085, 1103]), (''strictness'', JStr (ascii ''A'')), (''priority'', JInt 0)], jobj [(''name'', JStr [1040,
        1083, 1080, 1089, 1072]), (''strictness'', JStr (ascii ''B'')), (''priority'', JInt 1)]])],
      jobj [(''ord'', JInt 3), (''name'', JStr [1055, 1086, 1076, 1075, 1086, 1090, 1086, 1074, 1082, 1072, 32,
        1076, 1088, 1072, 1092, 1090, 1072, 32, 1080, 1076, 1077, 1081]), (''duration_hours'', JInt 8),
        (''is_splittable'', JBool True), (''pair_mode'', JStr (ascii ''optional'')), (''optional_in_lite'', JBool
        False), (''depends_on'', JList [JInt 2]), (''assignees'', JList [jobj [(''name'', JStr [1058, 1086, 1085,
        1103]), (''strictness'', JStr (ascii ''A'')), (''priority'', JInt 0)], jobj [(''name'', JStr [1040, 1083,
        1080, 1089, 1072]), (''strictness'', JStr (ascii ''B'')), (''priority'', JInt 1)]])],
      jobj [(''ord'', JInt 4), (''name'', JStr [1055, 1088, 1086, 1074, 1077, 1088, 1082, 1072, 32, 1080, 1076,
        1077, 1081, 32, 1080, 32, 1084, 1077, 1093, 1072, 1085, 1080, 1082]), (''duration_hours'', JInt 8),
        (''is_splittable'', JBool False), (''pair_mode'', JStr (ascii ''optional'')), (''optional_in_lite'', JBool
        False), (''depends_on'', JList [JInt 3]), (''assignees'', JList [jobj [(''name'', JStr [1040, 1081, 1075,
        1091, 1083, 1100]), (''strictness'', JStr (ascii ''A'')), (''priority'', JInt 0)], jobj [(''name'', JStr
        [1040, 1085, 1076, 1088, 1077, 1081]), (''strictness'', JStr (ascii ''B'')), (''priority'', JInt 1)], jobj
        [(''name'', JStr [1051, 1105, 1096, 1072]), (''strictness'', JStr (ascii ''C'')), (''priority'', JInt 2)]])],
      jobj [(''ord'', JInt 5), (''name'', JStr [1055, 1086, 1076, 1073, 1086, 1088, 32, 1082, 1077, 1081, 1089,
        1086, 1074, 45, 1088, 1077, 1092, 1077, 1088, 1077, 1085, 1089, 1086, 1074]), (''duration_hours'', JInt 8),
        (''is_splittable'', JBool False), (''pair_mode'', JStr (ascii ''none'')), (''optional_in_lite'', JBool
        True), (''depends_on'', JList []), (''assignees'', JList [jobj [(''name'', JStr [1040, 1085, 1076, 1088,
        1077, 1081]), (''strictness'', JStr (ascii ''A'')), (''priority'', JInt 0)]])],
      jobj [(''ord'', JInt 6), (''name'', JStr [1042, 1085, 1077, 1089, 1077, 1085, 1080, 1077, 32, 1087, 1088,
        1072, 1074, 1086, 1082]), (''duration_hours'', JInt 8), (''is_splittable'', JBool False), (''pair_mode'',
        JStr (ascii ''optional'')), (''optional_in_lite'', JBool False), (''depends_on'', JList [JInt 4]),
        (''assignees'', JList [jobj [(''name'', JStr [1058, 1086, 1085, 1103]), (''strictness'', JStr (ascii
        ''A'')), (''priority'', JInt 0)], jobj [(''name'', JStr [1040, 1083, 1080, 1089, 1072]), (''strictness'',
        JStr (ascii ''B'')), (''priority'', JInt 1)]])],
      jobj [(''ord'', JInt 7), (''name'', JStr [1055, 1086, 1076, 1088, 1086, 1073, 1085, 1086, 1077, 32, 1086,
        1087, 1080, 1089, 1072, 1085, 1080, 1077, 32, 1080, 1076, 1077, 1081]), (''duration_hours'', JInt 8),
        (''is_splittable'', JBool True), (''pair_mode'', JStr (ascii ''optional'')), (''optional_in_lite'', JBool
        False), (''depends_on'', JList [JInt 6]), (''assignees'', JList [jobj [(''name'', JStr [1058, 1086, 1085,
        1103]), (''strictness'', JStr (ascii ''A'')), (''priority'', JInt 0)], jobj [(''name'', JStr [1040, 1083,
        1080, 1089, 1072]), (''strictness'', JStr (ascii ''B'')), (''priority'', JInt 1)]])],
      jobj [(''ord'', JInt 8), (''name'', JStr [1055, 1088, 1086, 1074, 1077, 1088, 1082, 1072, 32, 1084, 1077,
        1090, 1088, 1080, 1082, 32, 1074, 32, 1086, 1087, 1080, 1089, 1072, 1085, 1080, 1103, 1093]),
        (''duration_hours'', JInt 8), (''is_splittable'', JBool False), (''pair_mode'', JStr (ascii ''none'')),
        (''optional_in_lite'', JBool False), (''depends_on'', JList [JInt 7]), (''assignees'', JList [jobj
        [(''name'', JStr [1040, 1081, 1075, 1091, 1083, 1100]), (''strictness'', JStr (ascii ''A'')), (''priority'',
        JInt 0)]])],
      jobj [(''ord'', JInt 9), (''name'', JStr [1055, 1086, 1076, 1075, 1086, 1090, 1086, 1074, 1082, 1072, 32,
        1087, 1088, 1086, 1090, 1086, 1090, 1080, 1087, 1086, 1074]), (''duration_hours'', JInt 8),
        (''is_splittable'', JBool True), (''pair_mode'', JStr (ascii ''none'')), (''optional_in_lite'', JBool True),
        (''depends_on'', JList [JInt 7]), (''assignees'', JList [jobj [(''name'', JStr [1058, 1086, 1085, 1103]),
        (''strictness'', JStr (ascii ''A'')), (''priority'', JInt 0)]])],
      jobj [(''ord'', JInt 10), (''name'', JStr [1056, 1072, 1089, 1095, 1105, 1090, 32, 1052, 1055, 32, 1080, 32,
        1073, 1083, 1086, 1082, 32, 1087, 1088, 1086, 1084, 1086]), (''duration_hours'', JInt 16),
        (''is_splittable'', JBool True), (''pair_mode'', JStr (ascii ''none'')), (''optional_in_lite'', JBool
        False), (''depends_on'', JList [JInt 7]), (''assignees'', JList [jobj [(''name'', JStr [1040, 1081, 1075,
        1091, 1083, 1100]), (''strictness'', JStr (ascii ''A'')), (''priority'', JInt 0)]])],
      jobj [(''ord'', JInt 11), (''name'', JStr [1042, 1099, 1095, 1080, 1090, 1082, 1072, 32, 1090, 1077, 1082,
        1089, 1090, 1072, 32, 43, 32, 1089, 1073, 1086, 1088, 1082, 1072, 32, 1087, 1088, 1077, 1079, 1077, 1085,
        1090, 1072, 1094, 1080, 1080]), (''duration_hours'', JInt 8), (''is_splittable'', JBool False),
        (''pair_mode'', JStr (ascii ''none'')), (''optional_in_lite'', JBool True), (''depends_on'', JList [JInt
        7]), (''assignees'', JList [jobj [(''name'', JStr [1040, 1083, 1080, 1089, 1072]), (''strictness'', JStr
        (ascii ''A'')), (''priority'', JInt 0)]])],
      jobj [(''ord'', JInt 12), (''name'', JStr [1044, 1080, 1079, 1072, 1081, 1085, 32, 1087, 1088, 1077, 1079,
        1077, 1085, 1090, 1072, 1094, 1080, 1080]), (''duration_hours'', JInt 16), (''is_splittable'', JBool False),
        (''duration_is_window'', JBool True), (''pair_mode'', JStr (ascii ''none'')), (''optional_in_lite'', JBool
        True), (''depends_on'', JList [JInt 11]), (''assignees'', JList [jobj [(''name'', JStr [1044, 1080, 1079,
        1072, 1081, 1085]), (''strictness'', JStr (ascii ''A'')), (''priority'', JInt 0)]])],
      jobj [(''ord'', JInt 13), (''name'', JStr [1055, 1086, 1089, 1090, 1072, 1085, 1086, 1074, 1082, 1072, 32,
        1079, 1072, 1076, 1072, 1095, 1080, 32, 1085, 1072, 32, 1086, 1094, 1077, 1085, 1082, 1091]),
        (''duration_hours'', JInt 8), (''is_splittable'', JBool False), (''pair_mode'', JStr (ascii ''none'')),
        (''optional_in_lite'', JBool False), (''depends_on'', JList [JInt 7]), (''assignees'', JList [jobj
        [(''name'', JStr [1040, 1081, 1075, 1091, 1083, 1100]), (''strictness'', JStr (ascii ''A'')), (''priority'',
        JInt 0)]])],
      jobj [(''ord'', JInt 14), (''name'', JStr [1054, 1094, 1077, 1085, 1082, 1072, 32, 1088, 1072, 1079, 1088,
        1072, 1073, 1086, 1090, 1082, 1080]), (''duration_hours'', JInt 8), (''is_splittable'', JBool False),
        (''pair_mode'', JStr (ascii ''none'')), (''optional_in_lite'', JBool False), (''depends_on'', JList [JInt
        13]), (''assignees'', JList [jobj [(''name'', JStr [1051, 1105, 1096, 1072]), (''strictness'', JStr (ascii
        ''A'')), (''priority'', JInt 0)]])],
      jobj [(''ord'', JInt 15), (''name'', JStr [1054, 1094, 1077, 1085, 1082, 1072, 32, 1089, 1090, 1086, 1080,
        1084, 1086, 1089, 1090, 1080]), (''duration_hours'', JInt 8), (''is_splittable'', JBool False),
        (''pair_mode'', JStr (ascii ''none'')), (''optional_in_lite'', JBool False), (''depends_on'', JList [JInt
        14]), (''assignees'', JList [jobj [(''name'', JStr [1040, 1085, 1076, 1088, 1077, 1081]), (''strictness'',
        JStr (ascii ''A'')), (''priority'', JInt 0)]])],
      jobj [(''ord'', JInt 16), (''name'', JStr [1042, 1099, 1095, 1080, 1090, 1082, 1072, 32, 1089, 32, 1040,
        1083, 1080, 1089, 1086, 1081]), (''duration_hours'', JInt 8), (''is_splittable'', JBool False),
        (''pair_mode'', JStr (ascii ''required'')), (''optional_in_lite'', JBool False), (''depends_on'', JList
        [JInt 12]), (''assignees'', JList [jobj [(''name'', JStr [1058, 1086, 1085, 1103]), (''strictness'', JStr
        (ascii ''A'')), (''priority'', JInt 0)], jobj [(''name'', JStr [1040, 1083, 1080, 1089, 1072]),
        (''strictness'', JStr (ascii ''A'')), (''priority'', JInt 1)]])],
      jobj [(''ord'', JInt 17), (''name'', JStr [1054, 1090, 1087, 1088, 1072, 1074, 1082, 1072, 32, 1082, 1083,
        1080, 1077, 1085, 1090, 1091]), (''duration_hours'', JInt 8), (''is_splittable'', JBool False),
        (''pair_mode'', JStr (ascii ''none'')), (''optional_in_lite'', JBool False), (''depends_on'', JList [JInt
        16]), (''assignees'', JList [jobj [(''name'', JStr [1040, 1085, 1076, 1088, 1077, 1081]), (''strictness'',
        JStr (ascii ''A'')), (''priority'', JInt 0)], jobj [(''name'', JStr [1056, 1072, 1081]), (''strictness'',
        JStr (ascii ''A'')), (''priority'', JInt 1)]])],
      jobj [(''ord'', JInt 18), (''name'', JStr [1054, 1073, 1088, 1072, 1090, 1085, 1072, 1103, 32, 1089, 1074,
        1103, 1079, 1100, 32, 1086, 1090, 32, 1082, 1083, 1080, 1077, 1085, 1090, 1086, 1074]), (''duration_hours'',
        JInt 8), (''is_splittable'', JBool False), (''pair_mode'', JStr (ascii ''none'')), (''optional_in_lite'',
        JBool False), (''depends_on'', JList [jobj [(''ord'', JInt 17), (''lag_days'', JInt 5)]]), (''assignees'',
        JList [jobj [(''name'', JStr [1040, 1085, 1076, 1088, 1077, 1081]), (''strictness'', JStr (ascii ''A'')),
        (''priority'', JInt 0)], jobj [(''name'', JStr [1056, 1072, 1081]), (''strictness'', JStr (ascii ''A'')),
        (''priority'', JInt 1)]])]]"

definition lite_yaml :: "json list" where
  "lite_yaml = [
      jobj [(''ord'', JInt 1), (''name'', JStr [1047, 1072, 1087, 1086, 1083, 1085, 1077, 1085, 1080, 1077, 32,
        1073, 1088, 1080, 1092, 1072]), (''duration_hours'', JInt 8), (''is_splittable'', JBool False),
        (''pair_mode'', JStr (ascii ''none'')), (''optional_in_lite'', JBool False), (''depends_on'', JList []),
        (''assignees'', JList [jobj [(''name'', JStr [1040, 1085, 1076, 1088, 1077, 1081]), (''strictness'', JStr
        (ascii ''A'')), (''priority'', JInt 0)], jobj [(''name'', JStr [1056, 1072, 1081]), (''strictness'', JStr
        (ascii ''A'')), (''priority'', JInt 1)]])],
      jobj [(''ord'', JInt 2), (''name'', JStr [1056, 1077, 1089, 1077, 1088, 1095, 32, 1072, 1091, 1076, 1080,
        1090, 1086, 1088, 1080, 1080, 32, 1080, 32, 1084, 1077, 1093, 1072, 1085, 1080, 1082]), (''duration_hours'',
        JInt 8), (''is_splittable'', JBool True), (''pair_mode'', JStr (ascii ''optional'')), (''optional_in_lite'',
        JBool False), (''depends_on'', JList [JInt 1]), (''assignees'', JList [jobj [(''name'', JStr [1058, 1086,
        1085, 1103]), (''strictness'', JStr (ascii ''A'')), (''priority'', JInt 0)], jobj [(''name'', JStr [1040,
        1083, 1080, 1089, 1072]), (''strictness'', JStr (ascii ''B'')), (''priority'', JInt 1)]])],
      jobj [(''ord'', JInt 3), (''name'', JStr [1055, 1086, 1076, 1075, 1086, 1090, 1086, 1074, 1082, 1072, 32,
        1076, 1088, 1072, 1092, 1090, 1072, 32, 1080, 1076, 1077, 1081]), (''duration_hours'', JInt 8),
        (''is_splittable'', JBool True), (''pair_mode'', JStr (ascii ''optional'')), (''optional_in_lite'', JBool
        False), (''depends_on'', JList [JInt 2]), (''assignees'', JList [jobj [(''name'', JStr [1058, 1086, 1085,
        1103]), (''strictness'', JStr (ascii ''A'')), (''priority'', JInt 0)], jobj [(''name'', JStr [1040, 1083,
        1080, 1089, 1072]), (''strictness'', JStr (ascii ''B'')), (''priority'', JInt 1)]])],
      jobj [(''ord'', JInt 4), (''name'', JStr [1055, 1088, 1086, 1074, 1077, 1088, 1082, 1072, 32, 1080, 1076,
        1077, 1081, 32, 1080, 32, 1084, 1077, 1093, 1072, 1085, 1080, 1082]), (''duration_hours'', JInt 8),
        (''is_splittable'', JBool False), (''pair_mode'', JStr (ascii ''optional'')), (''optional_in_lite'', JBool
        False), (''depends_on'', JList [JInt 3]), (''assignees'', JList [jobj [(''name'', JStr [1040, 1081, 1075,
        1091, 1083, 1100]), (''strictness'', JStr (ascii ''A'')), (''priority'', JInt 0)], jobj [(''name'', JStr
        [1040, 1085, 1076, 1088, 1077, 1081]), (''strictness'', JStr (ascii ''B'')), (''priority'', JInt 1)], jobj
        [(''name'', JStr [1051, 1105, 1096, 1072]), (''strictness'', JStr (ascii ''C'')), (''priority'', JInt 2)]])],
      jobj [(''ord'', JInt 6), (''name'', JStr [1042, 1085, 1077, 1089, 1077, 1085, 1080, 1077, 32, 1087, 1088,
        1072, 1074, 1086, 1082]), (''duration_hours'', JInt 8), (''is_splittable'', JBool False), (''pair_mode'',
        JStr (ascii ''optional'')), (''optional_in_lite'', JBool False), (''depends_on'', JList [JInt 4]),
        (''assignees'', JList [jobj [(''name'', JStr [1058, 1086, 1085, 1103]), (''strictness'', JStr (ascii
        ''A'')), (''priority'', JInt 0)], jobj [(''name'', JStr [1040, 1083, 1080, 1089, 1072]), (''strictness'',
        JStr (ascii ''B'')), (''priority'', JInt 1)]])],
      jobj [(''ord'', JInt 7), (''name'', JStr [1055, 1086, 1076, 1088, 1086, 1073, 1085, 1086, 1077, 32, 1086,
        1087, 1080, 1089, 1072, 1085, 1080, 1077, 32, 1080, 1076, 1077, 1081]), (''duration_hours'', JInt 8),
        (''is_splittable'', JBool True), (''pair_mode'', JStr (ascii ''optional'')), (''optional_in_lite'', JBool
        False), (''depends_on'', JList [JInt 6]), (''assignees'', JList [jobj [(''name'', JStr [1058, 1086, 1085,
        1103]), (''strictness'', JStr (ascii ''A'')), (''priority'', JInt 0)], jobj [(''name'', JStr [1040, 1083,
        1080, 1089, 1072]), (''strictness'', JStr (ascii ''B'')), (''priority'', JInt 1)]])],
      jobj [(''ord'', JInt 8), (''name'', JStr [1055, 1088, 1086, 1074, 1077, 1088, 1082, 1072, 32, 1084, 1077,
        1090, 1088, 1080, 1082, 32, 1074, 32, 1086, 1087, 1080, 1089, 1072, 1085, 1080, 1103, 1093]),
        (''duration_hours'', JInt 8), (''is_splittable'', JBool False), (''pair_mode'', JStr (ascii ''none'')),
        (''optional_in_lite'', JBool False), (''depends_on'', JList [JInt 7]), (''assignees'', JList [jobj
        [(''name'', JStr [1040, 1081, 1075, 1091, 1083, 1100]), (''strictness'', JStr (ascii ''A'')), (''priority'',
        JInt 0)]])],
      jobj [(''ord'', JInt 10), (''name'', JStr [1056, 1072, 1089, 1095, 1105, 1090, 32, 1052, 1055, 32, 1080, 32,
        1073, 1083, 1086, 1082, 32, 1087, 1088, 1086, 1084, 1086]), (''duration_hours'', JInt 16),
        (''is_splittable'', JBool True), (''pair_mode'', JStr (ascii ''none'')), (''optional_in_lite'', JBool
        False), (''depends_on'', JList [JInt 7]), (''assignees'', JList [jobj [(''name'', JStr [1040, 1081, 1075,
        1091, 1083, 1100]), (''strictness'', JStr (ascii ''A'')), (''priority'', JInt 0)]])],
      jobj [(''ord'', JInt 13), (''name'', JStr [1055, 1086, 1089, 1090, 1072, 1085, 1086, 1074, 1082, 1072, 32,
        1079, 1072, 1076, 1072, 1095, 1080, 32, 1085, 1072, 32, 1086, 1094, 1077, 1085, 1082, 1091]),
        (''duration_hours'', JInt 8), (''is_splittable'', JBool False), (''pair_mode'', JStr (ascii ''none'')),
        (''optional_in_lite'', JBool False), (''depends_on'', JList [JInt 7]), (''assignees'', JList [jobj
        [(''name'', JStr [1040, 1081, 1075, 1091, 1083, 1100]), (''strictness'', JStr (ascii ''A'')), (''priority'',
        JInt 0)]])],
      jobj [(''ord'', JInt 14), (''name'', JStr [1054, 1094, 1077, 1085, 1082, 1072, 32, 1088, 1072, 1079, 1088,
        1072, 1073, 1086, 1090, 1082, 1080]), (''duration_hours'', JInt 8), (''is_splittable'', JBool False),
        (''pair_mode'', JStr (ascii ''none'')), (''optional_in_lite'', JBool False), (''depends_on'', JList [JInt
        13]), (''assignees'', JList [jobj [(''name'', JStr [1051, 1105, 1096, 1072]), (''strictness'', JStr (ascii
        ''A'')), (''priority'', JInt 0)]])],
      jobj [(''ord'', JInt 15), (''name'', JStr [1054, 1094, 1077, 1085, 1082, 1072, 32, 1089, 1090, 1086, 1080,
        1084, 1086, 1089, 1090, 1080]), (''duration_hours'', JInt 8), (''is_splittable'', JBool False),
        (''pair_mode'', JStr (ascii ''none'')), (''optional_in_lite'', JBool False), (''depends_on'', JList [JInt
        14]), (''assignees'', JList [jobj [(''name'', JStr [1040, 1085, 1076, 1088, 1077, 1081]), (''strictness'',
        JStr (ascii ''A'')), (''priority'', JInt 0)]])],
      jobj [(''ord'', JInt 16), (''name'', JStr [1042, 1099, 1095, 1080, 1090, 1082, 1072, 32, 1089, 32, 1040,
        1083, 1080, 1089, 1086, 1081]), (''duration_hours'', JInt 8), (''is_splittable'', JBool False),
        (''pair_mode'', JStr (ascii ''required'')), (''optional_in_lite'', JBool False), (''depends_on'', JList []),
        (''assignees'', JList [jobj [(''name'', JStr [1058, 1086, 1085, 1103]), (''strictness'', JStr (ascii
        ''A'')), (''priority'', JInt 0)], jobj [(''name'', JStr [1040, 1083, 1080, 1089, 1072]), (''strictness'',
        JStr (ascii ''A'')), (''priority'', JInt 1)]])],
      jobj [(''ord'', JInt 17), (''name'', JStr [1054, 1090, 1087, 1088, 1072, 1074, 1082, 1072, 32, 1082, 1083,
        1080, 1077, 1085, 1090, 1091]), (''duration_hours'', JInt 8), (''is_splittable'', JBool False),
        (''pair_mode'', JStr (ascii ''none'')), (''optional_in_lite'', JBool False), (''depends_on'', JList [JInt
        16]), (''assignees'', JList [jobj [(''name'', JStr [1040, 1085, 1076, 1088, 1077, 1081]), (''strictness'',
        JStr (ascii ''A'')), (''priority'', JInt 0)], jobj [(''name'', JStr [1056, 1072, 1081]), (''strictness'',
        JStr (ascii ''A'')), (''priority'', JInt 1)]])],
      jobj [(''ord'', JInt 18), (''name'', JStr [1054, 1073, 1088, 1072, 1090, 1085, 1072, 1103, 32, 1089, 1074,
        1103, 1079, 1100, 32, 1086, 1090, 32, 1082, 1083, 1080, 1077, 1085, 1090, 1086, 1074]), (''duration_hours'',
        JInt 8), (''is_splittable'', JBool False), (''pair_mode'', JStr (ascii ''none'')), (''optional_in_lite'',
        JBool False), (''depends_on'', JList [jobj [(''ord'', JInt 17), (''lag_days'', JInt 5)]]), (''assignees'',
        JList [jobj [(''name'', JStr [1040, 1085, 1076, 1088, 1077, 1081]), (''strictness'', JStr (ascii ''A'')),
        (''priority'', JInt 0)], jobj [(''name'', JStr [1056, 1072, 1081]), (''strictness'', JStr (ascii ''A'')),
        (''priority'', JInt 1)]])],
      jobj [(''ord'', JInt 19), (''name'', JStr [1057, 1073, 1086, 1088, 1082, 1072, 32, 1080, 1076, 1077, 1080,
        32, 1074, 32, 1053, 1086, 1091, 1096, 1085]), (''duration_hours'', JInt 8), (''is_splittable'', JBool
        False), (''pair_mode'', JStr (ascii ''none'')), (''optional_in_lite'', JBool False), (''depends_on'', JList
        [JInt 8]), (''assignees'', JList [jobj [(''name'', JStr [1040, 1083, 1080, 1089, 1072]), (''strictness'',
        JStr (ascii ''A'')), (''priority'', JInt 0)]])]]"

subsection \<open>Templates that can be planned\<close>

definition well_numbered :: "(int \<times> int list \<times> int \<times> bool) list \<Rightarrow> bool" where
  "well_numbered rows \<longleftrightarrow> distinct (map fst rows) \<and>
     list_all (\<lambda>(n, ds, hours, split). list_all (\<lambda>d. d < n \<and> d \<in> fst ` set rows) ds \<and> (split \<longrightarrow> 0 < hours)) rows"

definition row_of_spec :: "template_task_spec \<Rightarrow> int \<times> int list \<times> int \<times> bool" where
  "row_of_spec s = (ts_ord s, ts_depends_on_ords s, ts_duration_hours s, ts_is_splittable s)"

definition row_of_entry :: "json \<Rightarrow> (int \<times> int list \<times> int \<times> bool) res" where
  "row_of_entry e =
     bind_res (int_item ''ord'' e) (\<lambda>n.
     bind_res (bind_res (entries_of ''depends_on'' e) (map_res dep_fields)) (\<lambda>ds.
     bind_res (int_item ''duration_hours'' e) (\<lambda>hours.
     bind_res (flag ''is_splittable'' False e) (\<lambda>split.
     Inr (n, map fst ds, hours, split)))))"

lemma spec_row: "seed_spec people e = Inr s \<Longrightarrow> row_of_entry e = Inr (row_of_spec s)"
  by (auto simp: seed_spec_def seed_task_def read_links_def row_of_entry_def row_of_spec_def res_simps)

lemma spec_rows:
  "map_res (seed_spec people) es = Inr specs \<Longrightarrow> map_res row_of_entry es = Inr (map row_of_spec specs)"
proof (induction es arbitrary: specs)
  case (Cons e es)
  then obtain s ss where "seed_spec people e = Inr s" "map_res (seed_spec people) es = Inr ss" "specs = s # ss"
    by (auto simp: res_simps)
  with Cons.IH [of ss] spec_row [of people e s] show ?case by simp
qed simp

lemma well_numbered_iff:
  "well_numbered (map row_of_spec specs) \<longleftrightarrow> distinct (map ts_ord specs) \<and>
    (\<forall>s \<in> set specs. (\<forall>d \<in> set (ts_depends_on_ords s). d < ts_ord s \<and> d \<in> ts_ord ` set specs) \<and>
      (ts_is_splittable s \<longrightarrow> 0 < ts_duration_hours s))"
proof -
  have "fst \<circ> row_of_spec = ts_ord" by (simp add: fun_eq_iff row_of_spec_def)
  moreover have "fst ` set (map row_of_spec specs) = ts_ord ` set specs"
    by (simp add: image_image row_of_spec_def)
  ultimately show ?thesis
    unfolding well_numbered_def list_all_iff map_map by (simp add: row_of_spec_def)
qed

lemma well_numbered_sorted: "well_numbered (map row_of_spec (sort_key f specs)) \<longleftrightarrow> well_numbered (map row_of_spec specs)"
  by (simp add: well_numbered_iff distinct_map)

text \<open>The request a template gives: its dependencies go up in the numbers, so they have no cycle.\<close>

lemma acyclic_image: "(\<And>d. d \<in> D \<Longrightarrow> num (p d) < (num (q d) :: int)) \<Longrightarrow> acyclic ((\<lambda>d. (p d, q d)) ` D)"
  by (rule acyclicI_order [where f = "\<lambda>v. - num v"]) auto

lemma plannable:
  assumes "networkx_documented nx" "distinct (map t_id (rq_tasks req))" "rq_people req \<noteq> []"
    and "acyclic (graph_edges (plan_graph req))" "\<And>t. t \<in> set (rq_tasks req) \<Longrightarrow> \<not> unplaceable req t"
  shows "\<exists>pl. plan nx cal req = Inr pl"
  using plan_outcome [OF assms(1,2), of cal] assms(3-5) by (metis (no_types, lifting))

lemma template_planned:
  assumes "networkx_documented nx" and numbered: "well_numbered (map row_of_spec (pt_tasks tpl))"
    and fresh: "inj_on (w_uuid w) {w_next w..<w_next w + length (pt_tasks tpl)}" and people: "people \<noteq> []"
  shows "\<exists>tasks deps w' r. length tasks = length (pt_tasks tpl) \<and> instantiate_template tpl pid w = (Inr (tasks, deps), w') \<and>
    solve_project (greedy_solver nx cal) i (project_request i people tasks deps today existing overrides) today = Inr r"
proof -
  let ?specs = "pt_tasks tpl" and ?ids = "template_ids w (pt_tasks tpl)"
  let ?tasks = "map (task_of_spec pid ?ids) ?specs"
  let ?deps = "concat (map (\<lambda>s. map (dep_of_spec ?ids s) [0..<length (ts_depends_on_ords s)]) ?specs)"
  let ?req = "project_request i people ?tasks ?deps today existing overrides"
  from numbered have ords: "distinct (map ts_ord ?specs)"
    and below: "\<And>s d. s \<in> set ?specs \<Longrightarrow> d \<in> set (ts_depends_on_ords s) \<Longrightarrow> d < ts_ord s \<and> d \<in> ts_ord ` set ?specs"
    and hours: "\<And>s. s \<in> set ?specs \<Longrightarrow> ts_is_splittable s \<Longrightarrow> 0 < ts_duration_hours s"
    by (auto simp: well_numbered_iff)
  have run: "instantiate_template tpl pid w = (Inr (?tasks, ?deps), w\<lparr>w_next := w_next w + length ?specs\<rparr>)"
    using below by (intro instantiate_template_run ords) blast
  have inj: "inj_on ?ids (ts_ord ` set ?specs)" by (rule template_ids_inj [OF ords fresh])
  have ids: "map t_id ?tasks = map ?ids (map ts_ord ?specs)" by (simp add: task_of_spec_def task_default_def)
  have distinct: "distinct (map t_id (rq_tasks ?req))"
    using ords inj unfolding project_request_def plan_request.simps ids by (simp add: distinct_map comp_inj_on)
  let ?num = "the_inv_into (ts_ord ` set ?specs) ?ids"
  have dep: "d_depends_on_id d \<in> ?ids ` ts_ord ` set ?specs \<and> d_task_id d \<in> ?ids ` ts_ord ` set ?specs \<and>
      ?num (d_depends_on_id d) < ?num (d_task_id d)" if d: "d \<in> set ?deps" for d
  proof -
    from d obtain s j where s: "s \<in> set ?specs" "j < length (ts_depends_on_ords s)" "d = dep_of_spec ?ids s j" by auto
    then have "ts_depends_on_ords s ! j < ts_ord s" "ts_depends_on_ords s ! j \<in> ts_ord ` set ?specs"
      using below by auto
    with s show ?thesis by (auto simp: dep_of_spec_def the_inv_into_f_f [OF inj])
  qed
  have plan_edges: "graph_edges (plan_graph ?req) = (\<lambda>d. (d_depends_on_id d, d_task_id d)) ` set ?deps"
    by (simp add: graph_edges_def edge_calls_plan_graph image_image project_request_def del: set_concat)
  have path_edges: "graph_edges (critical_graph ?req) = (\<lambda>d. (d_depends_on_id d, d_task_id d)) ` set ?deps"
    by (simp add: critical_edges project_request_def del: set_concat)
  have acyclic: "acyclic ((\<lambda>d. (d_depends_on_id d, d_task_id d)) ` set ?deps)"
    by (rule acyclic_image [where p = d_depends_on_id and q = d_task_id and num = ?num]) (drule dep, elim conjE)
  have placeable: "\<not> unplaceable ?req t" if "t \<in> set (rq_tasks ?req)" for t
    using that hours by (auto simp: unplaceable_def project_request_def task_of_spec_def task_default_def not_le)
  have "rq_people ?req \<noteq> []" using people by (simp add: project_request_def)
  moreover have "acyclic (graph_edges (plan_graph ?req))" unfolding plan_edges by (rule acyclic)
  ultimately obtain pl where pl: "plan nx cal ?req = Inr pl"
    using plannable [OF assms(1) distinct _ _ placeable] by blast
  have "t_id ` set ?tasks = ?ids ` ts_ord ` set ?specs"
    using ids by (metis image_image list.set_map)
  then have "\<forall>d \<in> set (rq_dependencies ?req). d_task_id d \<in> t_id ` set (rq_tasks ?req) \<and>
      d_depends_on_id d \<in> t_id ` set (rq_tasks ?req)"
    using dep by (simp add: project_request_def del: set_concat set_map)
  from critical_path_outcome [OF assms(1) this, of today cal] acyclic [folded path_edges] obtain e where
    "critical_path_end nx ?req today cal = Inr e" by blast
  with pl have "\<exists>r. solve_project (greedy_solver nx cal) i ?req today = Inr r"
    by (auto simp: solve_project_def greedy_solver_def presented_earliest_end_def split: option.split)
  moreover have "length ?tasks = length ?specs" by simp
  ultimately show ?thesis using run by blast
qed

subsection \<open>The shipped ones can\<close>

lemmas entry_simps = json_item_def json_get_def jobj_def dict_item_def dict_get_default_def dict_get_def

lemma dep_of_int: "dep_fields (JInt n) = Inr (n, ascii ''FS'', 0)"
  by (simp add: dep_fields_def)

lemma dep_of_lag: "dep_fields (jobj [(''ord'', JInt n), (''lag_days'', JInt k)]) = Inr (n, ascii ''FS'', k)"
  by (simp add: dep_fields_def entry_simps int_of_json.simps)

lemma row_of_jobj:
  "row_of_entry (jobj [(''ord'', JInt n), (''name'', name), (''duration_hours'', JInt h), (''is_splittable'', JBool b),
     (''pair_mode'', mode), (''optional_in_lite'', lite), (''depends_on'', JList ds), (''assignees'', as)]) =
     bind_res (map_res dep_fields ds) (\<lambda>ds. Inr (n, map fst ds, h, b))"
  "row_of_entry (jobj [(''ord'', JInt n), (''name'', name), (''duration_hours'', JInt h), (''is_splittable'', JBool b),
     (''duration_is_window'', win), (''pair_mode'', mode), (''optional_in_lite'', lite), (''depends_on'', JList ds),
     (''assignees'', as)]) = bind_res (map_res dep_fields ds) (\<lambda>ds. Inr (n, map fst ds, h, b))"
  by (simp_all add: row_of_entry_def int_item_def flag_def entries_of_def entry_simps)

lemma shipped_rows:
  "map_res row_of_entry standard_yaml = Inr
     [(1, [], 8, False), (2, [1], 8, True), (3, [2], 8, True), (4, [3], 8, False), (5, [], 8, False), (6, [4], 8, False),
      (7, [6], 8, True), (8, [7], 8, False), (9, [7], 8, True), (10, [7], 16, True), (11, [7], 8, False),
      (12, [11], 16, False), (13, [7], 8, False), (14, [13], 8, False), (15, [14], 8, False), (16, [12], 8, False),
      (17, [16], 8, False), (18, [17], 8, False)]"
  "map_res row_of_entry lite_yaml = Inr
     [(1, [], 8, False), (2, [1], 8, True), (3, [2], 8, True), (4, [3], 8, False), (6, [4], 8, False), (7, [6], 8, True),
      (8, [7], 8, False), (10, [7], 16, True), (13, [7], 8, False), (14, [13], 8, False), (15, [14], 8, False),
      (16, [], 8, False), (17, [16], 8, False), (18, [17], 8, False), (19, [8], 8, False)]"
  by (simp_all add: standard_yaml_def lite_yaml_def row_of_jobj dep_of_int dep_of_lag)


lemma shipped_numbered:
  "map_res row_of_entry standard_yaml = Inr rows \<Longrightarrow> well_numbered rows"
  "map_res row_of_entry lite_yaml = Inr rows \<Longrightarrow> well_numbered rows"
  unfolding shipped_rows sum.inject by (drule sym, hypsubst, code_simp)+

text \<open>An entry means something when its executors do.\<close>

definition meant :: "people_map \<Rightarrow> json \<Rightarrow> bool" where
  "meant people e \<longleftrightarrow> (\<exists>s. seed_spec people e = Inr s)"

lemma meant_all: "list_all (meant people) es \<Longrightarrow> \<exists>specs. map_res (seed_spec people) es = Inr specs"
  by (induction es) (auto simp: meant_def)

lemma meant_jobj:
  "meant people (jobj [(''ord'', JInt n), (''name'', JStr name), (''duration_hours'', JInt h), (''is_splittable'', JBool b),
     (''pair_mode'', JStr mode), (''optional_in_lite'', JBool lite), (''depends_on'', JList ds), (''assignees'', JList as)])
   \<longleftrightarrow> (\<exists>x. map_res dep_fields ds = Inr x) \<and> (\<exists>x. map_res (read_assignee people) (List.enumerate 0 as) = Inr x)"
  "meant people (jobj [(''ord'', JInt n), (''name'', JStr name), (''duration_hours'', JInt h), (''is_splittable'', JBool b),
     (''duration_is_window'', JBool win), (''pair_mode'', JStr mode), (''optional_in_lite'', JBool lite),
     (''depends_on'', JList ds), (''assignees'', JList as)])
   \<longleftrightarrow> (\<exists>x. map_res dep_fields ds = Inr x) \<and> (\<exists>x. map_res (read_assignee people) (List.enumerate 0 as) = Inr x)"
  by (auto simp: meant_def seed_spec_def seed_task_def seed_pair_mode_def read_links_def int_item_def text_item_def
      flag_def entries_of_def entry_simps res_simps)

lemma read_shipped_assignee:
  "read_assignee people (k, jobj [(''name'', JStr name), (''strictness'', JStr strictness), (''priority'', JInt q)]) =
     (case dict_get people name of None \<Rightarrow> Inl ValueError | Some p \<Rightarrow> Inr (pr_id p, strictness, q))"
  by (simp add: read_assignee_def text_item_def int_get_def json_item_def json_get_def jobj_def dict_item_def
      dict_get_default_def dict_get_def [of "_ # _" "ascii _"] split: option.split)


text \<open>
  C22. Every project started from a template the repository ships is planned. Take the entries of
  \<open>tasks_standard.yaml\<close> or \<open>tasks_lite.yaml\<close> as the seed script reads them, in the order of their numbers:
  with someone in the team, whatever the calendar, the overrides, the work already planned, the deadline
  and the number of days, the tasks and dependencies copied from the template have no cycle and no task
  that cannot be placed, and the use case gets a plan from the solver, never an error.
\<close>

theorem shipped_templates_planned:
  assumes "networkx_documented nx" and shipped: "es = standard_yaml \<or> es = lite_yaml"
    and specs: "map_res (seed_spec team) es = Inr specs"
    and fresh: "inj_on (w_uuid w) {w_next w..<w_next w + length es}" and people: "people \<noteq> []"
  shows "\<exists>tasks deps w' r. length tasks = length es \<and>
    instantiate_template \<lparr>pt_code = code, pt_tasks = sort_key ts_ord specs\<rparr> pid w = (Inr (tasks, deps), w') \<and>
    solve_project (greedy_solver nx cal) i (project_request i people tasks deps today existing overrides) today = Inr r"
proof -
  let ?tpl = "\<lparr>pt_code = code, pt_tasks = sort_key ts_ord specs\<rparr>"
  have "map_res row_of_entry es = Inr (map row_of_spec specs)" by (rule spec_rows [OF specs])
  then have "well_numbered (map row_of_spec specs)"
    using shipped shipped_numbered by blast
  then have numbered: "well_numbered (map row_of_spec (pt_tasks ?tpl))" by (simp add: well_numbered_sorted)
  have len: "length specs = length es" using specs by (simp add: map_res_Inr list_all2_lengthD)
  have "inj_on (w_uuid w) {w_next w..<w_next w + length (pt_tasks ?tpl)}" using fresh len by simp
  from template_planned [OF assms(1) numbered this people] len show ?thesis by simp
qed

text \<open>The team the templates name, and a person who plans alone.\<close>

definition team_member :: "uuid \<Rightarrow> person_row" where
  "team_member i = \<lparr>pr_id = i, pr_tg_user_id = None, pr_name = [], pr_role_label = None, pr_capacity_h = 8,
     pr_is_admin = False, pr_is_active = True, pr_is_external = False\<rparr>"

definition shipped_team :: people_map where
  "shipped_team =
    [([1040, 1085, 1076, 1088, 1077, 1081], team_member 1),
     ([1056, 1072, 1081], team_member 2),
     ([1058, 1086, 1085, 1103], team_member 3),
     ([1040, 1081, 1075, 1091, 1083, 1100], team_member 4),
     ([1040, 1083, 1080, 1089, 1072], team_member 5),
     ([1051, 1105, 1096, 1072], team_member 6),
     ([1044, 1080, 1079, 1072, 1081, 1085], team_member 7)]"

definition shipped_world :: world where
  "shipped_world =
     \<lparr>w_db = empty_db, w_uuid = word_of_nat, w_next = 0, w_now = 0, w_calls = []\<rparr>"

definition shipped_intent :: add_project_intent where
  "shipped_intent =
     \<lparr>ap_title = [], ap_template_code = Lite, ap_deadline = Some 739030, ap_brief_return_date = None, ap_notes = None\<rparr>"

lemma shipped_team_names:
  "dict_get shipped_team name = map_of shipped_team name"
  by (simp add: dict_get_def)

lemma shipped_meant: "es = standard_yaml \<or> es = lite_yaml \<Longrightarrow> \<exists>specs. map_res (seed_spec shipped_team) es = Inr specs"
  by (rule meant_all)
    (auto simp: standard_yaml_def lite_yaml_def meant_jobj read_shipped_assignee dep_of_int dep_of_lag shipped_team_names
      shipped_team_def)

lemma lite_length: "length lite_yaml = 15"
  by (simp add: lite_yaml_def)

lemma shipped_uuids: "inj_on (w_uuid shipped_world) {w_next shipped_world..<w_next shipped_world + length lite_yaml}"
  by (rule inj_onI) (auto simp: shipped_world_def lite_yaml_def word_of_nat_eq_iff take_bit_nat_def)

theorem shipped_templates_planned_witness:
  "\<exists>tasks deps r. length tasks = 15 \<and>
    solve_project (greedy_solver reference_networkx (weekend_calendar [])) shipped_intent
      (project_request shipped_intent [\<lparr>p_id = 1, p_name = [], p_capacity_h = 8\<rparr>] tasks deps 739000 [] []) 739000 = Inr r"
proof -
  obtain specs where "map_res (seed_spec shipped_team) lite_yaml = Inr specs" using shipped_meant by blast
  from shipped_templates_planned [OF reference_networkx_documented _ this shipped_uuids,
      where people = "[\<lparr>p_id = 1, p_name = [], p_capacity_h = 8\<rparr>]"]
  show ?thesis unfolding lite_length by blast
qed

end
