(* ===== verification/Calendar_Properties.thy ===== *)
theory Calendar_Properties
  imports Live_Calendar
begin

section \<open>Properties of the live calendar\<close>

text \<open>What the calendar loaded at startup says of a day, and that every search of a working day on it ends.\<close>

lemma load_calendar_cases:
  "load_calendar service today = snapshot_calendar \<or>
    (\<exists>holidays. fetch_holidays service [fst (ymd today), fst (ymd today) + 1] = Inr holidays \<and>
      load_calendar service today = weekend_calendar holidays)"
  by (auto simp: load_calendar_def fetch_snapshot_for_years_def Let_def res_simps split: sum.split)

lemma load_calendar_weekends: "\<exists>holidays. load_calendar service today = weekend_calendar holidays"
  using load_calendar_cases [of service today] by (auto simp: snapshot_calendar_def)

lemma failed_year: "isl (service y) \<or> isl (service z) \<Longrightarrow> isl (fetch_holidays service [y, z])"
  by (cases "service y"; cases "parse_year_offdays y (projr (service y))")
    (auto simp: fetch_holidays_def fetch_year_offdays_def isl_def)

lemma answered_years:
  assumes "service y = Inr s" "service z = Inr t" and "1 \<le> y" "y \<le> 9999" "1 \<le> z" "z \<le> 9999"
  shows "\<exists>holidays. fetch_holidays service [y, z] = Inr holidays"
  using assms parsed_offdays [of y s] parsed_offdays [of z t]
  by (auto simp: fetch_holidays_def fetch_year_offdays_def)

text \<open>
  C38. The calendar the solver plans with: when the service answers for this year and the next, a day is off
  exactly when it is on a weekend or its digit in the answer of its year is \<open>1\<close>, every other digit
  leaving a weekday a working day; when either request fails, the stored holidays of 2026 are used.
\<close>

theorem live_calendar_days:
  assumes "1 \<le> fst (ymd today)" "fst (ymd today) < 9999"
  shows "is_working_day (load_calendar service today) d \<longleftrightarrow> weekday d < 5 \<and>
    (case (service (fst (ymd today)), service (fst (ymd today) + 1)) of
       (Inr this_year, Inr next_year) \<Rightarrow>
         \<not> (marked_off (fst (ymd today)) this_year d \<or> marked_off (fst (ymd today) + 1) next_year d)
     | _ \<Rightarrow> d \<notin> set ru_holidays_2026)"
proof -
  let ?y = "fst (ymd today)"
  note off = weekend_calendar_def weekend_is_working_day_def
  have weekend: "weekday d \<notin> {5, 6} \<longleftrightarrow> weekday d < 5" using weekday_range [of d] by auto
  show ?thesis
  proof (cases "isl (service ?y) \<or> isl (service (?y + 1))")
    case True
    then have "load_calendar service today = snapshot_calendar"
      using failed_year [OF True] load_calendar_cases [of service today] by auto
    with True weekend show ?thesis by (auto simp: snapshot_calendar_def off isl_def split: sum.split)
  next
    case False
    then obtain s t where answers: "service ?y = Inr s" "service (?y + 1) = Inr t" by (auto simp: isl_def) (metis sum.exhaust)
    then obtain holidays where fetched: "fetch_holidays service [?y, ?y + 1] = Inr holidays"
      using answered_years [of service ?y s "?y + 1" t] assms by auto
    then have "load_calendar service today = weekend_calendar holidays"
      by (simp add: load_calendar_def fetch_snapshot_for_years_def Let_def)
    moreover have "d \<in> set holidays \<longleftrightarrow> weekday d < 5 \<and> (marked_off ?y s d \<or> marked_off (?y + 1) t d)"
      using fetched_holidays [OF fetched answers] assms by simp
    ultimately show ?thesis using weekend answers by (auto simp: off)
  qed
qed

text \<open>A service that marks only the first day of each year.\<close>

definition new_year_service :: day_service where
  "new_year_service year = Inr [49]"

theorem live_calendar_days_witness:
  "\<not> is_working_day (load_calendar new_year_service 739775) (year_start 2026)"
proof -
  have year: "fst (ymd 739775) = 2026" by code_simp
  have "strip [49] = [49 :: nat]" by (simp add: strip_by_def is_space_def)
  then have "marked_off 2026 [49] (year_start 2026)" by (simp add: marked_off_def OFF_CODE_def)
  with live_calendar_days [of 739775 new_year_service "year_start 2026"] year show ?thesis
    by (simp add: new_year_service_def)
qed

text \<open>
  C39. Every search for a working day ends, whatever the service answers: the loaded calendar has a finite
  list of holidays, and from any day \<open>next_working_day\<close> visits at most two days of a weekend and seven
  days for each holiday before it stops, at the first working day after the given one.
\<close>

theorem calendar_search_ends:
  "\<exists>holidays. load_calendar service today = weekend_calendar holidays \<and>
    (\<forall>d. \<exists>n \<le> 2 + 7 * length holidays.
      next_working_day (load_calendar service today) d = d + 1 + int n \<and>
      is_working_day (load_calendar service today) (d + 1 + int n) \<and>
      {k. k < n \<and> is_working_day (load_calendar service today) (d + 1 + int k)} = {})"
proof -
  obtain holidays where loaded: "load_calendar service today = weekend_calendar holidays"
    using load_calendar_weekends by blast
  have "\<exists>n \<le> 2 + 7 * length holidays.
      next_working_day (weekend_calendar holidays) d = d + 1 + int n \<and>
      is_working_day (weekend_calendar holidays) (d + 1 + int n) \<and>
      {k. k < n \<and> is_working_day (weekend_calendar holidays) (d + 1 + int k)} = {}" for d
    using scan_ends [of holidays "d + 1"] by (auto simp: weekend_calendar_def weekend_next_working_day_def)
  with loaded show ?thesis by (intro exI [of _ holidays]) simp
qed

end
