(* ===== verification/Tool_Schemas.thy ===== *)
theory Tool_Schemas
  imports Tool_Box
begin

section \<open>The tool schemas\<close>

text \<open>
  \<open>TOOL_SCHEMAS\<close> of \<open>infra/llm/tools.py\<close>: what the language model is told about the tools, one JSON
  object per tool.
\<close>

definition schema_get_team_load :: json where
  "schema_get_team_load =
     jobj [(''name'', JStr (ascii ''get_team_load'')), (''description'', JStr [1047, 1072, 1075,
       1088, 1091, 1079, 1082, 1072, 32, 1082, 1086, 1084, 1072, 1085, 1076, 1099, 58, 32, 1079,
       1072, 1085, 1103, 1090, 1086, 32, 1087, 1088, 1086, 1090, 1080, 1074, 32, 1105, 1084, 1082,
       1086, 1089, 1090, 1080, 32, 1074, 32, 1088, 1072, 1073, 1086, 1095, 1080, 1093, 32, 1076,
       1085, 1103, 1093, 32, 1079, 1072, 32, 1075, 1086, 1088, 1080, 1079, 1086, 1085, 1090, 46, 32,
       1052, 1086, 1078, 1085, 1086, 32, 1089, 1091, 1079, 1080, 1090, 1100, 32, 1076, 1086, 32,
       1086, 1076, 1085, 1086, 1075, 1086, 32, 1095, 1077, 1083, 1086, 1074, 1077, 1082, 1072, 32,
       40, 112, 101, 114, 115, 111, 110, 95, 110, 97, 109, 101, 41, 32, 1080, 1083, 1080, 32, 1079,
       1072, 1076, 1072, 1090, 1100, 32, 1095, 1080, 1089, 1083, 1086, 32, 1076, 1085, 1077, 1081,
       46]), (''input_schema'', jobj [(''type'', JStr (ascii ''object'')), (''properties'', jobj
       [(''person_name'', jobj [(''type'', JStr (ascii ''string'')), (''description'', JStr [1048,
       1084, 1103, 32, 1095, 1077, 1083, 1086, 1074, 1077, 1082, 1072, 32, 40, 1086, 1087, 1094, 46,
       41])]), (''days'', jobj [(''type'', JStr (ascii ''integer'')), (''description'', JStr [1043,
       1086, 1088, 1080, 1079, 1086, 1085, 1090, 32, 1074, 32, 1076, 1085, 1103, 1093, 32, 40, 1087,
       1086, 32, 1091, 1084, 1086, 1083, 1095, 1072, 1085, 1080, 1102, 32, 49, 52, 41])])])])]"

definition schema_find_assignees :: json where
  "schema_find_assignees =
     jobj [(''name'', JStr (ascii ''find_assignees'')), (''description'', JStr [1055, 1086, 1076,
       1086, 1073, 1088, 1072, 1090, 1100, 32, 1080, 1089, 1087, 1086, 1083, 1085, 1080, 1090, 1077,
       1083, 1077, 1081, 32, 1087, 1086, 32, 1090, 1088, 1077, 1073, 1091, 1077, 1084, 1099, 1084,
       32, 1085, 1072, 1074, 1099, 1082, 1072, 1084, 44, 32, 1088, 1072, 1085, 1078, 1080, 1088,
       1091, 1103, 32, 1087, 1086, 32, 1087, 1086, 1082, 1088, 1099, 1090, 1080, 1102, 32, 1085,
       1072, 1074, 1099, 1082, 1086, 1074, 32, 1080, 32, 1090, 1077, 1082, 1091, 1097, 1077, 1081,
       32, 1079, 1072, 1075, 1088, 1091, 1079, 1082, 1077, 46, 32, 1058, 1086, 1083, 1100, 1082,
       1086, 32, 1087, 1086, 1076, 1089, 1082, 1072, 1079, 1082, 1072, 32, 8212, 32, 1085, 1077, 32,
       1085, 1072, 1079, 1085, 1072, 1095, 1072, 1077, 1090, 46, 32, 1045, 1089, 1083, 1080, 32,
       1091, 32, 1079, 1072, 1076, 1072, 1095, 1080, 32, 1077, 1089, 1090, 1100, 32, 1078, 1105,
       1089, 1090, 1082, 1072, 1103, 32, 1087, 1088, 1080, 1074, 1103, 1079, 1082, 1072, 32, 1080,
       1079, 32, 1096, 1072, 1073, 1083, 1086, 1085, 1072, 32, 8212, 32, 1087, 1077, 1088, 1077,
       1076, 1072, 1081, 32, 1080, 1084, 1077, 1085, 1072, 32, 1074, 32, 98, 111, 117, 110, 100, 95,
       97, 115, 115, 105, 103, 110, 101, 101, 115, 58, 32, 1090, 1086, 1075, 1076, 1072, 32, 1074,
       1099, 1073, 1086, 1088, 32, 1080, 1076, 1105, 1090, 32, 1058, 1054, 1051, 1068, 1050, 1054,
       32, 1080, 1079, 32, 1085, 1080, 1093, 44, 32, 1085, 1072, 1074, 1099, 1082, 1080, 32, 1083,
       1080, 1096, 1100, 32, 1091, 1087, 1086, 1088, 1103, 1076, 1086, 1095, 1080, 1074, 1072, 1102,
       1090, 32, 1074, 1085, 1091, 1090, 1088, 1080, 32, 1087, 1088, 1080, 1074, 1103, 1079, 1082,
       1080, 46]), (''input_schema'', jobj [(''type'', JStr (ascii ''object'')), (''properties'',
       jobj [(''required_skills'', jobj [(''type'', JStr (ascii ''array'')), (''items'', jobj
       [(''type'', JStr (ascii ''string''))]), (''description'', JStr [1057, 1087, 1080, 1089, 1086,
       1082, 32, 1090, 1088, 1077, 1073, 1091, 1077, 1084, 1099, 1093, 32, 1085, 1072, 1074, 1099,
       1082, 1086, 1074])]), (''bound_assignees'', jobj [(''type'', JStr (ascii ''array'')),
       (''items'', jobj [(''type'', JStr (ascii ''string''))]), (''description'', JStr [1048, 1084,
       1077, 1085, 1072, 32, 1078, 1105, 1089, 1090, 1082, 1086, 32, 1087, 1088, 1080, 1074, 1103,
       1079, 1072, 1085, 1085, 1099, 1093, 32, 1080, 1089, 1087, 1086, 1083, 1085, 1080, 1090, 1077,
       1083, 1077, 1081, 32, 40, 1080, 1079, 32, 1096, 1072, 1073, 1083, 1086, 1085, 1072, 41, 46,
       32, 1045, 1089, 1083, 1080, 32, 1079, 1072, 1076, 1072, 1085, 1099, 32, 8212, 32, 1082, 1072,
       1085, 1076, 1080, 1076, 1072, 1090, 1099, 32, 1086, 1075, 1088, 1072, 1085, 1080, 1095, 1077,
       1085, 1099, 32, 1090, 1086, 1083, 1100, 1082, 1086, 32, 1080, 1084, 1080, 46])])]),
       (''required'', JList [JStr (ascii ''required_skills'')])])]"

definition schema_list_people :: json where
  "schema_list_people =
     jobj [(''name'', JStr (ascii ''list_people'')), (''description'', JStr [1057, 1087, 1080, 1089,
       1086, 1082, 32, 1082, 1086, 1084, 1072, 1085, 1076, 1099, 58, 32, 1080, 1084, 1077, 1085,
       1072, 44, 32, 1085, 1072, 1074, 1099, 1082, 1080, 32, 1080, 32, 1090, 1077, 1082, 1091, 1097,
       1072, 1103, 32, 1079, 1072, 1075, 1088, 1091, 1079, 1082, 1072, 32, 1074, 32, 1076, 1085,
       1103, 1093, 46]), (''input_schema'', jobj [(''type'', JStr (ascii ''object'')),
       (''properties'', jobj [])])]"

definition schema_list_projects :: json where
  "schema_list_projects =
     jobj [(''name'', JStr (ascii ''list_projects'')), (''description'', JStr [1057, 1087, 1080,
       1089, 1086, 1082, 32, 1087, 1088, 1086, 1077, 1082, 1090, 1086, 1074, 32, 1089, 32, 1080,
       1093, 32, 1089, 1090, 1072, 1090, 1091, 1089, 1072, 1084, 1080, 32, 1080, 32, 1076, 1077,
       1076, 1083, 1072, 1081, 1085, 1072, 1084, 1080, 46]), (''input_schema'', jobj [(''type'',
       JStr (ascii ''object'')), (''properties'', jobj [])])]"

definition schema_capture_task :: json where
  "schema_capture_task =
     jobj [(''name'', JStr (ascii ''capture_task'')), (''description'', JStr [1047, 1072, 1087,
       1080, 1089, 1072, 1090, 1100, 32, 1079, 1072, 1076, 1072, 1095, 1091, 32, 1074, 32, 1041,
       1044, 32, 40, 1085, 1080, 1079, 1082, 1086, 1092, 1088, 1080, 1082, 1094, 1080, 1086, 1085,
       1085, 1099, 1081, 32, 1087, 1091, 1090, 1100, 41, 46, 32, 1052, 1086, 1078, 1085, 1086, 32,
       1091, 1082, 1072, 1079, 1072, 1090, 1100, 32, 1080, 1089, 1087, 1086, 1083, 1085, 1080, 1090,
       1077, 1083, 1077, 1081, 44, 32, 1087, 1088, 1086, 1077, 1082, 1090, 44, 32, 1076, 1077, 1076,
       1083, 1072, 1081, 1085, 44, 32, 1086, 1094, 1077, 1085, 1082, 1091, 32, 1095, 1072, 1089,
       1086, 1074, 32, 1080, 32, 1090, 1088, 1077, 1073, 1091, 1077, 1084, 1099, 1077, 32, 1085,
       1072, 1074, 1099, 1082, 1080, 46, 32, 1055, 1091, 1089, 1090, 1099, 1077, 32, 1087, 1086,
       1083, 1103, 32, 1086, 1089, 1090, 1072, 1102, 1090, 1089, 1103, 32, 1087, 1091, 1089, 1090,
       1099, 1084, 1080, 32, 8212, 32, 1085, 1080, 1095, 1077, 1075, 1086, 32, 1085, 1077, 32, 1087,
       1077, 1088, 1077, 1089, 1087, 1088, 1072, 1096, 1080, 1074, 1072, 1077, 1090, 1089, 1103,
       46]), (''input_schema'', jobj [(''type'', JStr (ascii ''object'')), (''properties'', jobj
       [(''title'', jobj [(''type'', JStr (ascii ''string''))]), (''assignees'', jobj [(''type'',
       JStr (ascii ''array'')), (''items'', jobj [(''type'', JStr (ascii ''string''))])]),
       (''project'', jobj [(''type'', JStr (ascii ''string''))]), (''deadline'', jobj [(''type'',
       JStr (ascii ''string'')), (''description'', JStr (ascii ''YYYY-MM-DD''))]), (''time_start'',
       jobj [(''type'', JStr (ascii ''string'')), (''description'', JStr [72, 72, 58, 77, 77, 32,
       8212, 32, 1074, 1088, 1077, 1084, 1103, 32, 1085, 1072, 1095, 1072, 1083, 1072, 44, 32, 1077,
       1089, 1083, 1080, 32, 1074, 32, 1089, 1086, 1086, 1073, 1097, 1077, 1085, 1080, 1080, 32,
       1091, 1082, 1072, 1079, 1072, 1085, 1086, 32, 1074, 1088, 1077, 1084, 1103, 32, 1076, 1085,
       1103, 32, 40, 171, 1074, 32, 49, 48, 58, 49, 53, 187, 44, 32, 171, 1082, 32, 49, 53, 58, 48,
       48, 187, 41])]), (''est_hours'', jobj [(''type'', JStr (ascii ''integer''))]),
       (''required_skills'', jobj [(''type'', JStr (ascii ''array'')), (''items'', jobj [(''type'',
       JStr (ascii ''string''))])])]), (''required'', JList [JStr (ascii ''title'')])])]"

definition schema_plan_project :: json where
  "schema_plan_project =
     jobj [(''name'', JStr (ascii ''plan_project'')), (''description'', JStr [1057, 1086, 1079,
       1076, 1072, 1090, 1100, 32, 1087, 1088, 1086, 1077, 1082, 1090, 32, 1080, 1079, 32, 1096,
       1072, 1073, 1083, 1086, 1085, 1072, 32, 40, 115, 116, 97, 110, 100, 97, 114, 100, 124, 108,
       105, 116, 101, 41, 32, 1080, 32, 1055, 1056, 1045, 1044, 1051, 1054, 1046, 1048, 1058, 1068,
       32, 1087, 1083, 1072, 1085, 32, 40, 1089, 1090, 1072, 1090, 1091, 1089, 32, 112, 114, 111,
       112, 111, 115, 101, 100, 41, 46, 32, 1052, 1077, 1085, 1077, 1076, 1078, 1077, 1088, 32,
       1087, 1086, 1076, 1090, 1074, 1077, 1088, 1078, 1076, 1072, 1077, 1090, 32, 1082, 1085, 1086,
       1087, 1082, 1086, 1081, 32, 9989, 32, 1055, 1086, 1076, 1090, 1074, 1077, 1088, 1076, 1080,
       1090, 1100, 46, 32, 1041, 1077, 1079, 32, 1076, 1077, 1076, 1083, 1072, 1081, 1085, 1072, 32,
       8212, 32, 1086, 1073, 1088, 1072, 1090, 1085, 1099, 1081, 32, 1088, 1077, 1078, 1080, 1084,
       32, 40, 115, 111, 108, 118, 101, 114, 32, 1089, 1095, 1080, 1090, 1072, 1077, 1090, 32, 1088,
       1072, 1085, 1085, 1102, 1102, 32, 1076, 1072, 1090, 1091, 32, 43, 32, 1073, 1091, 1092, 1077,
       1088, 41, 46]), (''input_schema'', jobj [(''type'', JStr (ascii ''object'')),
       (''properties'', jobj [(''title'', jobj [(''type'', JStr (ascii ''string''))]),
       (''template'', jobj [(''type'', JStr (ascii ''string'')), (''enum'', JList [JStr (ascii
       ''standard''), JStr (ascii ''lite'')])]), (''deadline'', jobj [(''type'', JStr (ascii
       ''string'')), (''description'', JStr [89, 89, 89, 89, 45, 77, 77, 45, 68, 68, 32, 40, 1086,
       1087, 1094, 46, 41])])]), (''required'', JList [JStr (ascii ''title''), JStr (ascii
       ''template'')])])]"

definition schema_set_vacation :: json where
  "schema_set_vacation =
     jobj [(''name'', JStr (ascii ''set_vacation'')), (''description'', JStr [1054, 1092, 1086,
       1088, 1084, 1080, 1090, 1100, 32, 1086, 1090, 1087, 1091, 1089, 1082, 47, 1085, 1077, 1076,
       1086, 1089, 1090, 1091, 1087, 1085, 1086, 1089, 1090, 1100, 32, 1095, 1077, 1083, 1086, 1074,
       1077, 1082, 1072, 32, 1085, 1072, 32, 1076, 1080, 1072, 1087, 1072, 1079, 1086, 1085, 32,
       1076, 1072, 1090, 32, 40, 99, 97, 112, 97, 99, 105, 116, 121, 95, 104, 61, 48, 32, 8212, 32,
       1087, 1086, 1083, 1085, 1099, 1081, 32, 1074, 1099, 1093, 1086, 1076, 1085, 1086, 1081, 41,
       46, 32, 1055, 1086, 1089, 1083, 1077, 32, 8212, 32, 1086, 1073, 1099, 1095, 1085, 1086, 32,
       114, 101, 112, 108, 97, 110, 46]), (''input_schema'', jobj [(''type'', JStr (ascii
       ''object'')), (''properties'', jobj [(''person'', jobj [(''type'', JStr (ascii
       ''string''))]), (''day_from'', jobj [(''type'', JStr (ascii ''string'')), (''description'',
       JStr (ascii ''YYYY-MM-DD''))]), (''day_to'', jobj [(''type'', JStr (ascii ''string'')),
       (''description'', JStr (ascii ''YYYY-MM-DD''))]), (''capacity_h'', jobj [(''type'', JStr
       (ascii ''integer'')), (''description'', JStr [48, 32, 8212, 32, 1087, 1086, 1083, 1085, 1099,
       1081, 32, 1074, 1099, 1093, 1086, 1076, 1085, 1086, 1081])])]), (''required'', JList [JStr
       (ascii ''person''), JStr (ascii ''day_from''), JStr (ascii ''day_to'')])])]"

definition schema_replan :: json where
  "schema_replan =
     jobj [(''name'', JStr (ascii ''replan'')), (''description'', JStr [1055, 1077, 1088, 1077,
       1089, 1095, 1080, 1090, 1072, 1090, 1100, 32, 1079, 1072, 1092, 1080, 1082, 1089, 1080, 1088,
       1086, 1074, 1072, 1085, 1085, 1099, 1077, 32, 1087, 1083, 1072, 1085, 1099, 32, 1089, 32,
       1090, 1077, 1082, 1091, 1097, 1080, 1084, 1080, 32, 1086, 1075, 1088, 1072, 1085, 1080, 1095,
       1077, 1085, 1080, 1103, 1084, 1080, 32, 40, 1086, 1090, 1087, 1091, 1089, 1082, 1072, 32,
       1080, 32, 1090, 46, 1087, 46, 41, 32, 1080, 32, 1087, 1086, 1082, 1072, 1079, 1072, 1090,
       1100, 32, 1087, 1077, 1088, 1077, 1075, 1088, 1091, 1079, 1082, 1080, 46, 32, 1055, 1083,
       1072, 1085, 32, 1085, 1077, 32, 1087, 1077, 1088, 1077, 1079, 1072, 1087, 1080, 1089, 1099,
       1074, 1072, 1077, 1090, 1089, 1103, 46]), (''input_schema'', jobj [(''type'', JStr (ascii
       ''object'')), (''properties'', jobj [])])]"

definition schema_assign_task :: json where
  "schema_assign_task =
     jobj [(''name'', JStr (ascii ''assign_task'')), (''description'', JStr [1053, 1072, 1079, 1085,
       1072, 1095, 1080, 1090, 1100, 47, 1087, 1077, 1088, 1077, 1085, 1072, 1079, 1085, 1072, 1095,
       1080, 1090, 1100, 32, 1089, 1091, 1097, 1077, 1089, 1090, 1074, 1091, 1102, 1097, 1091, 1102,
       32, 1079, 1072, 1076, 1072, 1095, 1091, 32, 1085, 1072, 32, 1095, 1077, 1083, 1086, 1074,
       1077, 1082, 1072, 46]), (''input_schema'', jobj [(''type'', JStr (ascii ''object'')),
       (''properties'', jobj [(''task_ref'', jobj [(''type'', JStr (ascii ''string'')),
       (''description'', JStr [1053, 1072, 1079, 1074, 1072, 1085, 1080, 1077, 32, 1079, 1072, 1076,
       1072, 1095, 1080])]), (''person'', jobj [(''type'', JStr (ascii ''string''))])]),
       (''required'', JList [JStr (ascii ''task_ref''), JStr (ascii ''person'')])])]"

definition schema_mark_task_done :: json where
  "schema_mark_task_done =
     jobj [(''name'', JStr (ascii ''mark_task_done'')), (''description'', JStr [1054, 1090, 1084,
       1077, 1090, 1080, 1090, 1100, 32, 1079, 1072, 1076, 1072, 1095, 1091, 32, 1074, 1099, 1087,
       1086, 1083, 1085, 1077, 1085, 1085, 1086, 1081, 44, 32, 1082, 1086, 1075, 1076, 1072, 32,
       1087, 1080, 1096, 1091, 1090, 32, 171, 1079, 1072, 1076, 1072, 1095, 1072, 32, 1075, 1086,
       1090, 1086, 1074, 1072, 32, 47, 32, 1089, 1076, 1077, 1083, 1072, 1085, 1072, 32, 47, 32,
       1074, 1099, 1087, 1086, 1083, 1085, 1077, 1085, 1072, 32, 47, 32, 1079, 1072, 1082, 1088,
       1099, 1090, 1072, 187, 46, 32, 1057, 1090, 1072, 1074, 1080, 1090, 32, 1089, 1090, 1072,
       1090, 1091, 1089, 32, 100, 111, 110, 101, 32, 8212, 32, 1087, 1088, 1080, 32, 114, 101, 112,
       108, 97, 110, 32, 1079, 1072, 1076, 1072, 1095, 1072, 32, 1073, 1086, 1083, 1100, 1096, 1077,
       32, 1085, 1077, 32, 1087, 1077, 1088, 1077, 1085, 1086, 1089, 1080, 1090, 1089, 1103, 44, 32,
       1072, 32, 1074, 32, 1095, 1077, 1082, 45, 1083, 1080, 1089, 1090, 1077, 32, 1087, 1088, 1086,
       1077, 1082, 1090, 1072, 32, 1074, 32, 78, 111, 116, 105, 111, 110, 32, 1089, 1090, 1072,
       1074, 1080, 1090, 1089, 1103, 32, 1075, 1072, 1083, 1086, 1095, 1082, 1072, 46]),
       (''input_schema'', jobj [(''type'', JStr (ascii ''object'')), (''properties'', jobj
       [(''task_ref'', jobj [(''type'', JStr (ascii ''string'')), (''description'', JStr [1053,
       1072, 1079, 1074, 1072, 1085, 1080, 1077, 32, 1079, 1072, 1076, 1072, 1095, 1080])])]),
       (''required'', JList [JStr (ascii ''task_ref'')])])]"

definition TOOL_SCHEMAS :: "json list" where
  "TOOL_SCHEMAS =
     [schema_get_team_load, schema_find_assignees, schema_list_people, schema_list_projects,
      schema_capture_task, schema_plan_project, schema_set_vacation, schema_replan,
      schema_assign_task, schema_mark_task_done]"

subsection \<open>Schemas and executors agree\<close>

fun schema_name :: "json \<Rightarrow> json res" where
  "schema_name s = json_item ''name'' s"

definition schema_properties :: "json \<Rightarrow> ustr list res" where
  "schema_properties s =
     bind_res (json_item ''input_schema'' s) (\<lambda>i. bind_res (bind_res (json_item ''properties'' i) json_dict) (\<lambda>d.
       Inr (map fst d)))"

definition schema_required :: "json \<Rightarrow> ustr list res" where
  "schema_required s =
     bind_res (json_item ''input_schema'' s) (\<lambda>i. bind_res (bind_res (json_get ''required'' (JList []) i) json_list) (\<lambda>xs.
       map_res json_str xs))"

lemmas schema_defs =
  schema_get_team_load_def schema_find_assignees_def schema_list_people_def
  schema_list_projects_def schema_capture_task_def schema_plan_project_def
  schema_set_vacation_def schema_replan_def schema_assign_task_def schema_mark_task_done_def

text \<open>
  The model is offered exactly the executors, in their order; none of them confirms a plan; and each
  argument a schema requires is one it describes.
\<close>

lemma schemas_name_executors:
  "map_res (\<lambda>s. bind_res (schema_name s) json_str) TOOL_SCHEMAS = Inr (map fst (EXECUTORS env))"
  by (simp add: TOOL_SCHEMAS_def schema_defs jobj_item dict_item_def dict_get_step EXECUTORS_def)

lemma schemas_described:
  "list_all (\<lambda>s. \<exists>ps rs. schema_properties s = Inr ps \<and> schema_required s = Inr rs \<and> set rs \<subseteq> set ps) TOOL_SCHEMAS"
  by (simp add: TOOL_SCHEMAS_def schema_defs schema_properties_def schema_required_def jobj_item jobj_get dict_item_def
      dict_get_step dict_get_default_def) (simp add: jobj_def)

end
