(* ===== verification/Telemetry.thy ===== *)
theory Telemetry
  imports Repo_Tasks Repo_Invariant
begin

section \<open>Correlation ids and the audit helper\<close>

text \<open>
  \<open>infra/logging.py\<close>: the id every update gets and the processor that adds it to each event of the log;
  structlog itself is the library. \<open>infra/db/audit.py\<close>: \<open>write_audit\<close>, which adds a row to the session of
  its caller and leaves checking the constraints to the flush; nothing in the program calls it.
\<close>

text \<open>The context variable \<open>correlation_id\<close> is empty until an update sets it.\<close>

definition new_correlation_id :: "uuid \<Rightarrow> ustr" where
  "new_correlation_id u = take 12 (hex_digits 32 (unat u))"

definition add_correlation :: "ustr \<Rightarrow> (ustr, 'v) dict \<Rightarrow> (ustr \<Rightarrow> 'v) \<Rightarrow> (ustr, 'v) dict" where
  "add_correlation cid event text_value =
     (if cid \<noteq> [] then dict_set (ascii ''correlation_id'') (text_value cid) event else event)"

datatype log_processor = AddLogLevel | TimeStamper | AddCorrelation | JsonRenderer | ConsoleRenderer

definition configure_logging :: "bool \<Rightarrow> ustr \<Rightarrow> log_processor list \<times> ustr" where
  "configure_logging json_logs level =
     ([AddLogLevel, TimeStamper, AddCorrelation, if json_logs then JsonRenderer else ConsoleRenderer], level)"

definition write_audit ::
  "ustr \<Rightarrow> ustr \<Rightarrow> uuid option \<Rightarrow> uuid option \<Rightarrow> json option \<Rightarrow> int \<Rightarrow> db \<Rightarrow> db" where
  "write_audit action entity_type entity_id actor_id payload now d =
     d\<lparr>db_audit := db_audit d @
       [\<lparr>au_created_at = now, au_actor_id = actor_id, au_action = action, au_entity_type = entity_type,
         au_entity_id = entity_id, au_payload = payload\<rparr>]\<rparr>"

lemma correlation_id_length: "length (new_correlation_id u) = 12"
  by (simp add: new_correlation_id_def length_hex_digits)

text \<open>Every event of an update carries its id and keeps its other fields.\<close>

lemma event_correlated:
  "dict_get (add_correlation (new_correlation_id u) event text_value) k =
     (if k = ascii ''correlation_id'' then Some (text_value (new_correlation_id u)) else dict_get event k)"
  using correlation_id_length [of u] by (auto simp: add_correlation_def dict_get_set)

text \<open>The helper keeps the constraints exactly for actors that exist; \<open>add_audit\<close> checks this.\<close>

lemma write_audit_ok: "db_ok d \<Longrightarrow> db_ok (write_audit action ty i actor payload now d) \<longleftrightarrow> opt_ok (has_person d) actor"
  by (auto simp: write_audit_def db_ok_defs opt_ok_def split: option.splits)

end
