(* ===== verification/Spec2Isabelle.thy ===== *)
theory Spec2Isabelle
  imports Solver_Properties Process_Properties Edge_Properties Schema_Properties Seed_Properties Shipped_Templates
    Calendar_Properties Tool_Schemas Telemetry
begin

text \<open>
  \<^bold>\<open>The program.\<close> A Telegram bot plans the work of a team. A manager writes, says or clicks something;
  a language model with tools, or a parser, turns it into use cases; the use cases read and write a
  relational database through one repository; a deterministic solver places the tasks of a project
  on working days; a proposed plan becomes binding when a manager confirms it. A web board shows the
  plans and edits them, tasks and projects are mirrored to Notion, and jobs post the load of the team and
  renew the calendar. Sources are named relative to \<open>src/src/planner/\<close>.

  \<^bold>\<open>How the parts are modelled.\<close> Python text is a list of code points (\<open>ustr\<close>), so Russian messages
  appear as lists of numbers; a date is its proleptic ordinal; a UUID is a 128 bit word; an exception is a
  value of \<open>exn\<close> and a function that may raise returns \<open>'a res\<close>. A use case is a state transformer on a
  \<open>world\<close> (database, supply of fresh UUIDs, clock, log of external calls): it returns its result or
  exception and the world it leaves, so that the writes before an exception are visible; a
  transaction of the source restores the database when it fails. A tool of the agent works on a
  tool box and a world, a handler on a \<open>bot_state\<close> (world, stored conversation, replies, chat memory).
  Every raise, early return and rejected input of the source is a branch of its definition. Loops are
  structural recursion or functions with a measure; the scheduler's searches end at the source's
  own horizon limit and the agent loop is bounded by \<open>MAX_ITERS\<close> = 10 as in the source, so no fuel
  was invented and every definition is total.

  \<^bold>\<open>Shared theories.\<close> \<open>Planner_Prelude\<close> holds text, exceptions, results, dictionaries and the named
  collections; \<open>Py_Text\<close> and \<open>Py_Date\<close> the \<open>str\<close>, \<open>int\<close>, \<open>UUID\<close> and \<open>date\<close> functions the program calls, and
  \<open>Py_Regex\<close> the \<open>re\<close> module: leftmost match, greedy repetition, backtracking.

  \<^bold>\<open>Planning\<close> (\<open>domain/\<close>).
  \<^item> \<open>Work_Calendar\<close>: the port \<open>WorkingCalendar\<close>, \<open>WeekendCalendar\<close>, the stored snapshot, and
    \<open>nth_working_day\<close>. The locale \<open>calendar_port\<close> states the port; \<open>WeekendCalendar\<close> interprets it.
  \<^item> \<open>Domain_Models\<close>, \<open>Domain_Units\<close>, \<open>Domain_Intent\<close>: the dataclasses, units and intents.
  \<^item> \<open>Networkx_Port\<close>: the graph library as a parameter with its documented topological sort as the
    hypothesis \<open>networkx_documented\<close>, and Kahn's algorithm as a function that satisfies it.
  \<^item> \<open>Capacity_Index\<close>, \<open>Greedy_Solver\<close>: \<open>solver/greedy.py\<close>, one definition per function.
    \<open>Greedy_Placement\<close> proves what one search places (locale \<open>fit_condition\<close>, interpreted for single
    tasks and pairs), \<open>Greedy_Choice\<close> which candidate wins, \<open>Greedy_Run\<close> the invariant of the placing loop,
    \<open>Greedy_Correct\<close> what follows for a whole plan.
  \<^item> \<open>Critical_Path\<close>, \<open>Plan_Diff\<close>, \<open>Capability\<close>: \<open>solver/critical_path.py\<close>, \<open>solver/diff.py\<close>,
    \<open>capability.py\<close>.
  \<^item> \<open>Live_Calendar\<close>: the isdayoff.ru adapter and its fallback. \<open>Calendar_Properties\<close>: C38 and C39, which
    days are off, and that every search for a working day ends.
  \<^item> \<open>Solver_Properties\<close>: C1 to C9. Every task is scheduled once, dependencies with their lags hold, the
    exceptions, the end and the flags are exact, placements lie on working days, are the earliest that
    fit and go to the best candidate, the critical path is the longest chain, the calendar implements
    its port.

  \<^bold>\<open>Storage\<close> (\<open>infra/db/\<close>).
  \<^item> \<open>Plan_Payload\<close>: the JSON payload of a plan version, written and read by \<open>app/add_project.py\<close>.
  \<^item> \<open>Db_Store\<close>: the ORM tables as lists of rows with their constraints; \<open>db_ok\<close> says that primary keys
    are unique and references exist. \<open>Repo\<close>, \<open>Repo_Tasks\<close>: \<open>repo.py\<close>, one definition per method.
    \<open>Repo_Invariant\<close>: every method keeps \<open>db_ok\<close>; the life cycle of a plan version.
  \<^item> \<open>Migrations\<close>: the statements of \<open>src/alembic/versions\<close> and what they do to a schema. \<open>Migration_Env\<close>:
    \<open>src/alembic/env.py\<close>, which database it takes and how it runs the remaining revisions.
    \<open>Schema_Properties\<close>: C36, the migrated schema is that of the mapped classes but for three named
    differences, and it is reached from every revision.
  \<^item> \<open>Seed_Data\<close>: \<open>src/seed/load_seed.py\<close> on parsed YAML. \<open>Seed_Correct\<close>, \<open>Seed_Properties\<close>: C37, all or
    nothing, and the templates read back are those of the files. \<open>Shipped_Templates\<close>: the entries of the two
    template files of the repository; C22, a project made from them is always planned.

  \<^bold>\<open>Use cases\<close> (\<open>app/\<close>).
  \<^item> \<open>Confirm_Plan\<close>, \<open>Task_Use_Cases\<close>, \<open>Add_Project\<close>, \<open>Load_Views\<close>: confirming, vacations, capturing, done
    tasks, new projects, suggestions, heat map and board. The locale \<open>solver_port\<close> is what adding a project
    relies on; the greedy solver interprets it. \<open>Charts\<close>: the calls \<open>app/render/\<close> makes on a figure. \<open>Task_Correct\<close> and \<open>Add_Project_Correct\<close> hold their lemmas.
  \<^item> \<open>App_Properties\<close>: C17 to C21 and C23 to C26, on confirming (once, all outcomes), adding a project (what is stored,
    no trace of a failure, the copied template), payloads, ranking, vacations and capturing.

  \<^bold>\<open>Bot\<close> (\<open>bot/\<close>, \<open>infra/llm/\<close>, \<open>infra/history.py\<close>, \<open>infra/voice_arm.py\<close>).
  \<^item> \<open>Chat_Memory\<close>, \<open>Bot_Base\<close>, \<open>Middlewares\<close>: chat history, voice window, replies, the FSM storage (port
    \<open>fsm_port\<close>, contract \<open>fsm_context\<close>, interpreted by the in-memory storage), throttle, actor, errors.
  \<^item> \<open>Plan_Texts\<close>, \<open>Replan\<close>, \<open>Bot_Replies\<close>, \<open>Clarify\<close>: the texts of plans and replies, \<open>/replan\<close>, and the
    dialogue that asks for missing fields.
  \<^item> \<open>Tool_Box\<close>, \<open>Tool_Schemas\<close>, \<open>Agent\<close>: \<open>tools.py\<close> and \<open>agent.py\<close>. \<open>Agent_Safety\<close> is the locale
    \<open>write_invariant\<close>: a property that each writing repository method keeps is kept by every tool and so
    by every run; it is interpreted for \<open>db_ok\<close> and for the committed versions.
  \<^item> \<open>Task_Router\<close>, \<open>Commands\<close>: the message handlers, buttons and commands. \<open>Router_Safety\<close>: their
    lemmas on strangers, confirmations and constraints.
  \<^item> \<open>Basic_Parser\<close>, \<open>Claude_Parser\<close>: the regular-expression parser and the one that asks Claude and falls
    back to it. \<open>Basic_Parser_Correct\<close>, \<open>Message_Safety\<close>: which intents they give and what a message may
    commit.
  \<^item> \<open>Speech\<close>: \<open>infra/stt/faster_whisper.py\<close>, what a voice handler gets from it, and threads that load the
    model at once (\<open>load_step\<close>).
  \<^item> \<open>Dispatcher\<close>: routes, middlewares and handlers as aiogram runs them. \<open>Dispatcher_Safety\<close>: what an update
    keeps, in the locale \<open>update_invariant\<close> that extends \<open>write_invariant\<close>, interpreted like it.
  \<^item> \<open>Bot_Properties\<close>: C12, C15, C16 and C27 to C30. The agent loses no evidence; a typed confirmation
    commits exactly the pending plan; edits retire the old plan; the clarifying dialogue, \<open>/replan\<close>, the
    load views with their charts and the throttle do what they say. \<open>Dispatch_Properties\<close>: C13 and C14. Outsiders change
    nothing; which handler a command reaches.

  \<^bold>\<open>Web board and Notion\<close> (\<open>web/\<close>, \<open>infra/notion/\<close>).
  \<^item> \<open>Jwt_Port\<close>: \<open>create_jwt\<close> and \<open>decode_jwt\<close> of \<open>web/auth.py\<close> over PyJWT, whose documented behaviour is the
    hypothesis \<open>jwt_documented\<close>; \<open>reference_jwt\<close> satisfies it. \<open>Web_Board\<close>: sessions, pages, forms and error responses. \<open>Web_Correct\<close>: pages only read, and the locale
    \<open>web_invariant\<close> for what the forms keep, interpreted for the constraints and the committed versions.
  \<^item> \<open>Notion_Mapping\<close>, \<open>Notion_Sinks\<close>: task properties against the schema of the board, the retries, and
    project cards, with their state between calls. \<open>Notion_Correct\<close>, \<open>Notion_Ladder\<close>: what is posted.
  \<^item> \<open>Edge_Properties\<close>: C31 to C33 and C35, on the parsers, what answers a message or a voice, web writes, and
    pushing to Notion.

  \<^bold>\<open>The process\<close> (\<open>settings.py\<close>, \<open>main.py\<close>, \<open>bot/runner.py\<close>, \<open>infra/scheduler.py\<close>).
  \<^item> \<open>Startup\<close>: settings, the choice of parser, agent and sinks, what the dispatcher and the web application
    are given, the jobs. \<open>Process\<close>: one step per update, web request or due job, and the states
    \<open>reachable\<close> from a launch by any sequence of them. \<open>Web_Sessions\<close>: the sessions a run has issued.
  \<^item> \<open>Process_Properties\<close>: C10, C11, C34 and C40. Only confirmations commit plans and the constraints survive
    every run; a web form that writes presents the session of a login less than twelve hours old; when
    the process starts and how it is wired.
  \<^item> \<open>Telemetry\<close>: correlation ids (\<open>infra/logging.py\<close>) and the audit helper of \<open>infra/db/audit.py\<close>.

  \<^bold>\<open>Parameters.\<close> What the program calls but does not contain is an argument: networkx, the language model
  and pydantic's validation of its answers, the faster-whisper library, the FSM storage, the HTTP client of
  Notion and of the calendar service (a response or an exception for each request), PyJWT
  and the HMAC, aiogram's \<open>Command\<close> filter, pydantic's conversion of integers and times, \<open>repr\<close> of a
  JSON value and the text of an exception, clocks, and the supply of UUIDs. UUIDs are only assumed
  distinct where a property says so.

  \<^bold>\<open>Bounds.\<close> Sums are unbounded as in Python. A coverage percentage is the exact fraction, which is what
  the float shows for fewer than fifty required skills; \<open>math.ceil\<close> of a quotient is the exact ceiling,
  which the float is below \<open>2^53\<close>; the hours of the board are exact fractions. Dates beyond year 9999
  are not modelled as overflow. Upper and lower case cover Latin-1 and Cyrillic.

  \<^bold>\<open>Idealised.\<close> A query without an order returns rows in insertion order, and text is ordered by code
  point. UUID strings are read in their usual forms only. A malformed payload or seed file raises one
  exception whatever Python's would be. Sending never fails, nor does the database connection.
  Concurrency is the interleaving of whole transactions in C17 and of threads in C32; elsewhere a handler, a request and a
  job run to their end before the next, where aiogram and the web server would switch between them.

  \<^bold>\<open>Not modelled.\<close> What matplotlib draws for the calls of \<open>Charts\<close>; most texts of prompts and the HTML
  templates; structlog and the database engine, which hold no logic of the program; the cron triggers, of which only the fields are kept;
  reading environment variables and YAML syntax; the rows a migration rewrites.
\<close>

end
